(* ===== verification/Prelude.thy ===== *)
theory Prelude
  imports Main "HOL-Library.Word"
begin

text \<open>
  What every component shares: the integer types of the Rust code, results that may be an error
  or a panic, the sequencing of fallible effectful calls, and the string functions of Rust's
  standard library the code uses (\<^verbatim>\<open>split\<close>, \<^verbatim>\<open>trim\<close>, \<^verbatim>\<open>starts_with\<close>, \<^verbatim>\<open>str::parse\<close>, \<^verbatim>\<open>to_string\<close>
  of an integer), with the lemmas the component theories rest on.
  Strings are the bytes of the Rust string; white space is ASCII white space.
\<close>

named_theorems outcome_simps \<open>evaluation of results and of the sequencing of calls\<close>

type_synonym u16 = "16 word"
type_synonym u32 = "32 word"
type_synonym u64 = "64 word"
type_synonym usize = "64 word"

section \<open>Durations\<close>

text \<open>\<^verbatim>\<open>std::time::Duration\<close>: whole seconds and nanoseconds.\<close>

datatype duration = Duration (dur_secs: u64) (dur_nanos: u32)

definition from_secs :: "u64 \<Rightarrow> duration" where
  "from_secs s = Duration s 0"

definition from_millis :: "u64 \<Rightarrow> duration" where
  "from_millis ms = Duration (ms div 1000) (ucast (ms mod 1000) * 1000000)"

definition as_secs :: "duration \<Rightarrow> u64" where
  "as_secs d = dur_secs d"

text \<open>The derived order: seconds first.\<close>

instantiation duration :: linorder
begin

definition less_eq_duration :: "duration \<Rightarrow> duration \<Rightarrow> bool" where
  "less_eq_duration d e \<longleftrightarrow>
     dur_secs d < dur_secs e \<or> dur_secs d = dur_secs e \<and> dur_nanos d \<le> dur_nanos e"

definition less_duration :: "duration \<Rightarrow> duration \<Rightarrow> bool" where
  "less_duration d e \<longleftrightarrow> d \<le> e \<and> \<not> e \<le> (d :: duration)"

instance
  by standard (auto simp: less_eq_duration_def less_duration_def intro: duration.expand)

end

lemma from_secs_le_iff [simp]: "from_secs a \<le> from_secs b \<longleftrightarrow> a \<le> b"
  by (auto simp: less_eq_duration_def from_secs_def)

section \<open>Results\<close>

text \<open>
  The value of a Rust call: \<^verbatim>\<open>Ok\<close>, \<^verbatim>\<open>Err\<close>, or a panic (\<^verbatim>\<open>expect\<close>, \<^verbatim>\<open>unwrap\<close>, indexing) with its
  message. A call with effects takes a state and returns its outcome and the new state:
  effects made before an error stay made.
\<close>

datatype ('e, 'a) outcome = Ok 'a | Err 'e | Panic string

text \<open>The \<^verbatim>\<open>?\<close> operator: continue with the value, or return the error at once.\<close>

definition try_then ::
  "('e, 'a) outcome \<times> 's \<Rightarrow> ('a \<Rightarrow> 's \<Rightarrow> ('e, 'b) outcome \<times> 's) \<Rightarrow> ('e, 'b) outcome \<times> 's" where
  "try_then r k =
     (case r of
        (Ok a, s) \<Rightarrow> k a s
      | (Err e, s) \<Rightarrow> (Err e, s)
      | (Panic p, s) \<Rightarrow> (Panic p, s))"

definition map_err :: "('e \<Rightarrow> 'f) \<Rightarrow> ('e, 'a) outcome \<times> 's \<Rightarrow> ('f, 'a) outcome \<times> 's" where
  "map_err f r =
     (case r of
        (Ok a, s) \<Rightarrow> (Ok a, s)
      | (Err e, s) \<Rightarrow> (Err (f e), s)
      | (Panic p, s) \<Rightarrow> (Panic p, s))"

lemma try_then_simps [simp, outcome_simps]:
  "try_then (Ok a, s) k = k a s"
  "try_then (Err e, s) k = (Err e, s)"
  "try_then (Panic p, s) k = (Panic p, s)"
  by (simp_all add: try_then_def)

lemma map_err_simps [simp, outcome_simps]:
  "map_err f (Ok a, s) = (Ok a, s)"
  "map_err f (Err e, s) = (Err (f e), s)"
  "map_err f (Panic p, s) = (Panic p, s)"
  by (simp_all add: map_err_def)

lemma snd_map_err [simp]: "snd (map_err f r) = snd r"
  by (cases r; cases "fst r") auto

lemma map_err_Ok_iff [simp]: "map_err f r = (Ok a, s) \<longleftrightarrow> r = (Ok a, s)"
  by (cases r; cases "fst r") auto

lemma map_err_Panic_iff [simp]: "map_err f r = (Panic p, s) \<longleftrightarrow> r = (Panic p, s)"
  by (cases r; cases "fst r") auto

lemma fst_map_err_Ok_iff [simp]: "fst (map_err f r) = Ok a \<longleftrightarrow> fst r = Ok a"
  by (cases r; cases "fst r") auto

text \<open>A property of the state kept by both halves is kept by their sequence.\<close>

lemma try_then_keeps:
  assumes "P (snd r)" and "\<And>a s. r = (Ok a, s) \<Longrightarrow> P s \<Longrightarrow> P (snd (k a s))"
  shows "P (snd (try_then r k))"
  using assms by (cases r; cases "fst r") auto

lemma try_then_Ok_iff:
  "try_then r k = (Ok b, s') \<longleftrightarrow> (\<exists>a s. r = (Ok a, s) \<and> k a s = (Ok b, s'))"
  by (cases r; cases "fst r") auto

section \<open>Strings\<close>

definition is_space :: "char \<Rightarrow> bool" where
  "is_space c \<longleftrightarrow>
     c = CHR '' '' \<or> c = CHR 0x09 \<or> c = CHR 0x0A \<or> c = CHR 0x0B \<or> c = CHR 0x0C \<or> c = CHR 0x0D"

definition trim_start :: "string \<Rightarrow> string" where
  "trim_start s = dropWhile is_space s"

definition trim :: "string \<Rightarrow> string" where
  "trim s = rev (dropWhile is_space (rev (trim_start s)))"

definition starts_with :: "string \<Rightarrow> string \<Rightarrow> bool" where
  "starts_with s p \<longleftrightarrow> take (length p) s = p"

text \<open>\<^verbatim>\<open>s.split(c)\<close> for a single-character pattern, collected: never empty.\<close>

fun split_on :: "char \<Rightarrow> string \<Rightarrow> string list" where
  "split_on c [] = [[]]"
| "split_on c (x # xs) =
     (if x = c then [] # split_on c xs
      else (case split_on c xs of [] \<Rightarrow> [[x]] | y # ys \<Rightarrow> (x # y) # ys))"

text \<open>\<^verbatim>\<open>parts.join(sep)\<close> for a one-character separator.\<close>

fun join_with :: "char \<Rightarrow> string list \<Rightarrow> string" where
  "join_with c [] = []"
| "join_with c [x] = x"
| "join_with c (x # y # zs) = x @ c # join_with c (y # zs)"

lemma split_on_nonempty [simp]: "split_on c s \<noteq> []"
  by (induction s) (auto split: list.splits)

lemma split_on_append:
  assumes "c \<notin> set a"
  shows "split_on c (a @ c # s) = a # split_on c s"
  using assms by (induction a) auto

lemma split_on_single: "c \<notin> set a \<Longrightarrow> split_on c a = [a]"
  by (induction a) auto

text \<open>Splitting at the first separator is unique when neither left part contains it.\<close>

lemma append_sep_inject:
  assumes "c \<notin> set a" and "c \<notin> set b"
  shows "a @ c # r = b @ c # r' \<longleftrightarrow> a = b \<and> r = r'"
proof
  assume eq: "a @ c # r = b @ c # r'"
  have "takeWhile (\<lambda>x. x \<noteq> c) (a @ c # r) = a" and "takeWhile (\<lambda>x. x \<noteq> c) (b @ c # r') = b"
    using assms by (subst takeWhile_append2; auto)+
  with eq show "a = b \<and> r = r'"
    by simp
qed simp

lemma split_join:
  assumes "\<And>x. x \<in> set xs \<Longrightarrow> c \<notin> set x" and "xs \<noteq> []"
  shows "split_on c (join_with c xs) = xs"
  using assms
  by (induction c xs rule: join_with.induct) (auto simp: split_on_append split_on_single)

lemma join_split: "join_with c (split_on c s) = s"
proof (induction s)
  case (Cons x xs)
  obtain y ys where yys: "split_on c xs = y # ys"
    by (cases "split_on c xs") auto
  with Cons.IH show ?case
    by (cases ys) auto
qed simp

lemma split_on_no_sep: "p \<in> set (split_on c s) \<Longrightarrow> c \<notin> set p"
  by (induction s arbitrary: p) (fastforce split: list.splits if_splits)+

lemma starts_with_append [simp]: "starts_with (p @ s) p"
  by (simp add: starts_with_def)

lemma starts_with_iff: "starts_with s p \<longleftrightarrow> (\<exists>r. s = p @ r)"
  unfolding starts_with_def by (metis append_eq_conv_conj append_take_drop_id)

lemma starts_with_drop: "starts_with s p \<Longrightarrow> p @ drop (length p) s = s"
  by (auto simp: starts_with_iff)

text \<open>Text with no white space at either end, and how trimming treats it.\<close>

definition trimmed :: "string \<Rightarrow> bool" where
  "trimmed s \<longleftrightarrow> s = [] \<or> (\<not> is_space (hd s) \<and> \<not> is_space (last s))"

lemma dropWhile_hd: "s = [] \<or> \<not> P (hd s) \<Longrightarrow> dropWhile P s = s"
  by (cases s) auto

lemma trimmed_trim: "trimmed s \<Longrightarrow> trim s = s"
  by (auto simp: trimmed_def trim_def trim_start_def dropWhile_hd hd_rev)

lemma trim_space: "is_space a \<Longrightarrow> trim (a # s) = trim s"
  by (simp add: trim_def trim_start_def)

section \<open>Decimal numbers\<close>

text \<open>\<^verbatim>\<open>n.to_string()\<close> for an unsigned integer.\<close>

definition digit_char :: "nat \<Rightarrow> char" where
  "digit_char d = char_of (48 + d)"

fun dec_string :: "nat \<Rightarrow> string" where
  "dec_string n = (if n < 10 then [digit_char n] else dec_string (n div 10) @ [digit_char (n mod 10)])"

declare dec_string.simps [simp del]

definition is_digit :: "char \<Rightarrow> bool" where
  "is_digit c \<longleftrightarrow> 48 \<le> (of_char c :: nat) \<and> (of_char c :: nat) \<le> 57"

definition digit_val :: "char \<Rightarrow> nat" where
  "digit_val c = of_char c - 48"

text \<open>
  \<^verbatim>\<open>s.parse::<usize>()\<close>: an optional plus sign, at least one digit, and no overflow at any digit.
\<close>

fun parse_digits :: "nat \<Rightarrow> string \<Rightarrow> nat option" where
  "parse_digits acc [] = Some acc"
| "parse_digits acc (c # cs) =
     (if \<not> is_digit c then None
      else (let acc' = 10 * acc + digit_val c
            in if acc' < 2 ^ 64 then parse_digits acc' cs else None))"

definition parse_usize :: "string \<Rightarrow> usize option" where
  "parse_usize s =
     (let ds = (case s of [] \<Rightarrow> [] | c # cs \<Rightarrow> if c = CHR ''+'' then cs else s)
      in if ds = [] then None else map_option of_nat (parse_digits 0 ds))"

lemma of_char_digit [simp]: "d < 10 \<Longrightarrow> (of_char (digit_char d) :: nat) = 48 + d"
  by (simp add: digit_char_def)

lemma is_digit_digit_char [simp]: "d < 10 \<Longrightarrow> is_digit (digit_char d)"
  by (simp add: is_digit_def)

lemma digit_val_digit_char [simp]: "d < 10 \<Longrightarrow> digit_val (digit_char d) = d"
  by (simp add: digit_val_def)

lemma dec_string_nonempty [simp]: "dec_string n \<noteq> []"
  by (subst dec_string.simps) simp

lemma dec_string_nonempty' [simp]: "[] \<noteq> dec_string n"
  using dec_string_nonempty [of n] by (metis)

lemma dec_string_digits: "c \<in> set (dec_string n) \<Longrightarrow> is_digit c"
proof (induction n rule: dec_string.induct)
  case (1 n)
  then show ?case
    by (cases "n < 10") (auto simp: dec_string.simps [of n])
qed

lemma parse_digits_append:
  "parse_digits acc (xs @ ys) = Option.bind (parse_digits acc xs) (\<lambda>a. parse_digits a ys)"
  by (induction xs arbitrary: acc) (auto simp: Let_def)

lemma parse_digits_dec_string:
  "n < 2 ^ 64 \<Longrightarrow> parse_digits 0 (dec_string n) = Some n"
proof (induction n rule: dec_string.induct)
  case (1 n)
  show ?case
  proof (cases "n < 10")
    case True
    then show ?thesis
      by (subst dec_string.simps) (simp add: Let_def)
  next
    case False
    with 1 have "parse_digits 0 (dec_string (n div 10)) = Some (n div 10)"
      by simp
    with False 1(2) show ?thesis
      by (subst dec_string.simps) (simp add: parse_digits_append Let_def)
  qed
qed

lemma parse_usize_dec_string:
  assumes "n < 2 ^ 64"
  shows "parse_usize (dec_string n) = Some (of_nat n)"
proof -
  obtain c cs where ds: "dec_string n = c # cs"
    by (cases "dec_string n") auto
  then have "is_digit c"
    using dec_string_digits [of c n] by simp
  then have "c \<noteq> CHR ''+''"
    by (auto simp: is_digit_def)
  then show ?thesis
    using parse_digits_dec_string [OF assms] by (simp add: parse_usize_def ds)
qed

lemma dec_string_inject: "dec_string m = dec_string n \<longleftrightarrow> m = n"
proof (induction m arbitrary: n rule: dec_string.induct)
  case (1 m)
  have digit: "digit_char a = digit_char b \<longleftrightarrow> a = b" if "a < 10" "b < 10" for a b
    using that by (metis digit_val_digit_char)
  show ?case
  proof (cases "m < 10")
    case True
    then show ?thesis
      by (cases "n < 10") (auto simp: dec_string.simps [of m] dec_string.simps [of n] digit)
  next
    case False
    show ?thesis
    proof (cases "n < 10")
      case True
      with False show ?thesis
        by (auto simp: dec_string.simps [of m] dec_string.simps [of n])
    next
      case n: False
      have "dec_string m = dec_string n \<longleftrightarrow> m div 10 = n div 10 \<and> m mod 10 = n mod 10"
        using False n 1 by (simp add: dec_string.simps [of m] dec_string.simps [of n] digit)
      also have "\<dots> \<longleftrightarrow> m = n"
        by (metis div_mult_mod_eq)
      finally show ?thesis .
    qed
  qed
qed

section \<open>Hexadecimal numbers\<close>

definition hex_char :: "nat \<Rightarrow> char" where
  "hex_char d = (if d < 10 then char_of (48 + d) else char_of (87 + d))"

text \<open>\<^verbatim>\<open>format!("{:x}", n)\<close>.\<close>

fun hex_digits :: "nat \<Rightarrow> string" where
  "hex_digits n = (if n < 16 then [hex_char n] else hex_digits (n div 16) @ [hex_char (n mod 16)])"

declare hex_digits.simps [simp del]

lemma hex_char_inject: "a < 16 \<Longrightarrow> b < 16 \<Longrightarrow> hex_char a = hex_char b \<longleftrightarrow> a = b"
  by (auto simp: hex_char_def split: if_splits)

lemma hex_char_not_brace: "a < 16 \<Longrightarrow> hex_char a \<noteq> CHR 0x7D"
proof
  assume "a < 16" and "hex_char a = CHR 0x7D"
  then have "(of_char (hex_char a) :: nat) = of_char (CHR 0x7D)"
    by simp
  with \<open>a < 16\<close> show False
    by (auto simp: hex_char_def split: if_splits)
qed

end
