(* ===== verification/Config.thy ===== *)
theory Config
  imports Prelude
begin

text \<open>
  \<^verbatim>\<open>src/config.rs\<close>: the configuration schema. Each struct is a record, each enum a datatype,
  with the source's defaults. A \<^verbatim>\<open>HashMap\<close> that is only looked up is a map; one that is iterated
  is the list of its entries in iteration order. How they are read from YAML is in
  \<^verbatim>\<open>Config_Parse\<close>; the YAML parser and \<^verbatim>\<open>humantime\<close> are parameters.
\<close>

section \<open>Observability and listeners\<close>

record observability_conf =
  prometheus_addr :: "string option"
  otlp_endpoint :: "string option"

definition default_observability :: observability_conf where
  "default_observability = \<lparr>prometheus_addr = None, otlp_endpoint = None\<rparr>"

record tls_settings =
  cert_path :: string
  key_path :: string
  mtls_ca_cert :: "string option"

record listener_conf =
  l_address :: string
  l_tls :: "tls_settings option"

section \<open>Backends and selection\<close>

definition default_weight :: u16 where
  "default_weight = 1"

record backend_conf =
  b_address :: string
  b_weight :: u16

datatype file_format = Json | Yaml

datatype load_balancer_selection = RoundRobin | Random | Consistent

definition default_selection :: load_balancer_selection where
  "default_selection = RoundRobin"

datatype hash_source =
    HS_None
  | HS_ClientIp
  | HS_Uri
  | HS_Header string
  | HS_Cookie string

definition default_hash_source :: hash_source where
  "default_hash_source = HS_None"

section \<open>Connection options\<close>

record cluster_options =
  connect_timeout :: duration
  read_timeout :: duration
  write_timeout :: duration
  idle_timeout :: "duration option"
  co_enable_h2 :: bool
  verify_hostname :: bool
  co_tls :: bool
  co_sni :: "string option"
  connection_pool_size :: usize

definition default_timeout :: "duration option" where
  "default_timeout = Some (from_secs 60)"

definition default_pool_size :: usize where
  "default_pool_size = 4"

definition cluster_options_new ::
  "duration \<Rightarrow> duration \<Rightarrow> duration \<Rightarrow> duration option \<Rightarrow> bool \<Rightarrow> bool \<Rightarrow> bool \<Rightarrow> string option \<Rightarrow>
   usize \<Rightarrow> cluster_options" where
  "cluster_options_new ct rt wt it h2 vh t s n =
     \<lparr>connect_timeout = ct, read_timeout = rt, write_timeout = wt, idle_timeout = it,
      co_enable_h2 = h2, verify_hostname = vh, co_tls = t, co_sni = s, connection_pool_size = n\<rparr>"

definition default_cluster_options :: cluster_options where
  "default_cluster_options =
     cluster_options_new (from_secs 5) (from_secs 60) (from_secs 60) (Some (from_secs 60))
       False True False None default_pool_size"

section \<open>Health checks\<close>

record health_check_common =
  hc_interval :: duration
  hc_timeout :: duration
  hc_consecutive_success :: usize
  hc_consecutive_failure :: usize

definition default_health_interval :: duration where
  "default_health_interval = from_secs 5"

definition default_health_timeout :: duration where
  "default_health_timeout = from_secs 1"

definition default_health_success :: usize where
  "default_health_success = 1"

definition default_health_failure :: usize where
  "default_health_failure = 1"

definition default_status_200 :: u16 where
  "default_status_200 = 200"

datatype health_check_conf =
    HC_Tcp health_check_common
  | HC_Http health_check_common string u16
  | HC_Custom health_check_common string

section \<open>Routes\<close>

datatype path_type = Prefix | Exact | Regex

record header_conf =
  add_req_headers :: "(string \<times> string) list"
  remove_req_headers :: "string list"
  add_resp_headers :: "(string \<times> string) list"
  remove_resp_headers :: "string list"
  preserve_host_header :: bool

definition default_headers :: header_conf where
  "default_headers =
     \<lparr>add_req_headers = [], remove_req_headers = [], add_resp_headers = [],
      remove_resp_headers = [], preserve_host_header = False\<rparr>"

datatype rate_limit_key = RLK_Ip | RLK_Header string

record rate_limit_conf =
  requests_per_sec :: u64
  burst :: u64
  rl_key :: rate_limit_key

record access_control_conf =
  acc_allow :: "string list"
  acc_deny :: "string list"

datatype auth_conf =
    AuthBasic string "string \<rightharpoonup> string"
  | AuthRequest string "string list"

record cache_conf =
  cache_enabled :: bool
  default_ttl :: duration
  lock_timeout :: "duration option"
  stale_while_revalidate :: "duration option"
  enable_purge :: bool

record route_conf =
  r_path :: string
  r_path_type :: path_type
  r_upstream_id :: string
  r_hostnames :: "string list option"
  r_rate_limit :: "rate_limit_conf option"
  r_auth :: "auth_conf option"
  r_headers :: header_conf
  r_access_control :: "access_control_conf option"
  r_query_matches :: "(string \<rightharpoonup> string) option"
  r_strip_query_params :: "string list option"
  r_compression :: bool
  r_body_deny_patterns :: "string list option"
  r_websocket :: bool
  r_proxy_connect :: bool
  r_inflight_limit :: "u32 option"
  r_error_pages :: "(u16 \<rightharpoonup> string) option"
  r_cache :: "cache_conf option"

definition default_route :: route_conf where
  "default_route =
     \<lparr>r_path = [], r_path_type = Prefix, r_upstream_id = [], r_hostnames = None,
      r_rate_limit = None, r_auth = None, r_headers = default_headers, r_access_control = None,
      r_query_matches = None, r_strip_query_params = None, r_compression = False,
      r_body_deny_patterns = None, r_websocket = False, r_proxy_connect = False,
      r_inflight_limit = None, r_error_pages = None, r_cache = None\<rparr>"

section \<open>Upstreams and the server\<close>

definition default_refresh :: duration where
  "default_refresh = from_secs 60"

datatype upstream_source =
    US_Static "backend_conf list"
  | US_Dns string duration
  | US_File string file_format duration
  | US_Uds string

record upstream_conf =
  u_id :: string
  u_source :: upstream_source
  u_selection :: load_balancer_selection
  u_hash_source :: hash_source
  u_options :: cluster_options
  u_health_check :: "health_check_conf option"
  u_backup_backends :: "backend_conf list"

record server_conf =
  listeners :: "listener_conf list"
  daemon :: bool
  pid_file :: "string option"
  srv_user :: "string option"
  srv_group :: "string option"
  worker_threads :: "usize option"
  watch_config :: bool
  client_max_body_size :: "usize option"
  srv_enable_h2 :: bool
  enable_h2c :: bool
  graceful_shutdown_timeout :: "duration option"

definition default_server :: server_conf where
  "default_server =
     \<lparr>listeners = [], daemon = False, pid_file = None, srv_user = None, srv_group = None,
      worker_threads = None, watch_config = False, client_max_body_size = None,
      srv_enable_h2 = False, enable_h2c = False, graceful_shutdown_timeout = None\<rparr>"

record gateway_conf =
  g_server :: server_conf
  g_observability :: "observability_conf option"
  g_upstreams :: "upstream_conf list"
  g_routes :: "route_conf list"

definition default_gateway :: gateway_conf where
  "default_gateway =
     \<lparr>g_server = default_server, g_observability = None, g_upstreams = [], g_routes = []\<rparr>"

text \<open>
  \<^verbatim>\<open>GatewayConf::load_from_yaml\<close>: reading the file and parsing its text may each fail; the error
  is boxed, so its text is kept.
\<close>

definition load_from_yaml ::
  "(string \<Rightarrow> string + string) \<Rightarrow> (string \<Rightarrow> string + gateway_conf) \<Rightarrow> string \<Rightarrow>
   string + gateway_conf" where
  "load_from_yaml read_to_string from_str path =
     (case read_to_string path of
        Inl e \<Rightarrow> Inl e
      | Inr content \<Rightarrow> (case from_str content of Inl e \<Rightarrow> Inl e | Inr conf \<Rightarrow> Inr conf))"

section \<open>The \<^verbatim>\<open>option_humantime\<close> shim\<close>

text \<open>
  Optional durations are written by \<^verbatim>\<open>humantime_serde\<close> or as a null, and read through an untagged
  enum whose variants are tried in order: a null is \<open>Val_None\<close>, anything else must parse as a
  duration. The values a serialiser writes and a deserialiser reads are nulls and other scalars
  (their text).
\<close>

datatype scalar = Null | Scalar string

datatype humantime_val = Val_None | Val_Some duration

definition oh_serialize :: "(duration \<Rightarrow> string) \<Rightarrow> duration option \<Rightarrow> scalar" where
  "oh_serialize ht_format val =
     (case val of Some d \<Rightarrow> Scalar (ht_format d) | None \<Rightarrow> Null)"

definition val_deserialize :: "(string \<Rightarrow> duration option) \<Rightarrow> scalar \<Rightarrow> string + humantime_val" where
  "val_deserialize ht_parse v =
     (case v of
        Null \<Rightarrow> Inr Val_None
      | Scalar s \<Rightarrow>
          (case ht_parse s of
             Some d \<Rightarrow> Inr (Val_Some d)
           | None \<Rightarrow> Inl ''data did not match any variant of untagged enum Val''))"

definition oh_deserialize :: "(string \<Rightarrow> duration option) \<Rightarrow> scalar \<Rightarrow> string + duration option" where
  "oh_deserialize ht_parse v =
     (case val_deserialize ht_parse v of
        Inl e \<Rightarrow> Inl e
      | Inr Val_None \<Rightarrow> Inr None
      | Inr (Val_Some d) \<Rightarrow> Inr (Some d))"

lemma oh_roundtrip:
  assumes "\<And>d. val = Some d \<Longrightarrow> ht_parse (ht_format d) = Some d"
  shows "oh_deserialize ht_parse (oh_serialize ht_format val) = Inr val"
  using assms by (cases val) (auto simp: oh_serialize_def oh_deserialize_def val_deserialize_def)

end
