(* ===== verification/Errors.thy ===== *)
theory Errors
  imports Prelude
begin

text \<open>
  \<^verbatim>\<open>src/error.rs\<close>: the gateway's error types, their rendering, and the conversions between
  them and Pingora's error. Of Pingora's own error type only what the code builds and inspects
  is kept: the error type (the variants the code names, every other one under
  \<open>ET_Other\<close>) and the context text. How Pingora renders its error is a parameter.
  \<^verbatim>\<open>str\<close>'s \<^verbatim>\<open>Debug\<close> rendering is written out for ASCII; bytes of other (printable)
  characters are kept as they are.
\<close>

section \<open>Pingora's error\<close>

datatype error_type =
    ET_ConnectTimedout
  | ET_ConnectRefused
  | ET_ConnectNoRoute
  | ET_BindError
  | ET_ReadTimedout
  | ET_InternalError
  | ET_Custom string
  | ET_Other string

record pingora_error =
  etype :: error_type
  err_context :: "string option"

text \<open>\<^verbatim>\<open>Error::explain(etype, context)\<close> and \<^verbatim>\<open>Error::new(etype)\<close>.\<close>

definition explain :: "error_type \<Rightarrow> string \<Rightarrow> pingora_error" where
  "explain t c = \<lparr>etype = t, err_context = Some c\<rparr>"

definition new_error :: "error_type \<Rightarrow> pingora_error" where
  "new_error t = \<lparr>etype = t, err_context = None\<rparr>"

section \<open>The gateway's errors\<close>

datatype gateway_error =
    UpstreamUnavailable
  | AuthFailure
  | RateLimited
  | SizeLimited string
  | AclError string
  | RouteError string
  | InvalidRequest string
  | InternalError string

datatype pingora_guide_error = Gateway gateway_error | Pingora pingora_error

section \<open>Rendering\<close>

text \<open>\<^verbatim>\<open>fmt::Debug\<close> of a string: quoted, with control characters, quotes and backslashes escaped.\<close>

definition hex_string :: "nat \<Rightarrow> string" where
  "hex_string n = (if n < 16 then [hex_char n] else [hex_char (n div 16), hex_char (n mod 16)])"

definition escape_char :: "char \<Rightarrow> string" where
  "escape_char c =
     (if c = CHR 0x00 then [CHR 0x5C, CHR ''0'']
      else if c = CHR 0x09 then [CHR 0x5C, CHR ''t'']
      else if c = CHR 0x0D then [CHR 0x5C, CHR ''r'']
      else if c = CHR 0x0A then [CHR 0x5C, CHR ''n'']
      else if c = CHR 0x5C then [CHR 0x5C, CHR 0x5C]
      else if c = CHR 0x22 then [CHR 0x5C, CHR 0x22]
      else if (of_char c :: nat) < 32 \<or> (of_char c :: nat) = 127
        then [CHR 0x5C, CHR ''u'', CHR 0x7B] @ hex_string (of_char c) @ [CHR 0x7D]
      else [c])"

definition debug_str :: "string \<Rightarrow> string" where
  "debug_str s = [CHR 0x22] @ concat (map escape_char s) @ [CHR 0x22]"

text \<open>The derived \<^verbatim>\<open>Debug\<close> of \<open>gateway_error\<close>, which its \<^verbatim>\<open>Display\<close> is.\<close>

fun display_gateway_error :: "gateway_error \<Rightarrow> string" where
  "display_gateway_error UpstreamUnavailable = ''UpstreamUnavailable''"
| "display_gateway_error AuthFailure = ''AuthFailure''"
| "display_gateway_error RateLimited = ''RateLimited''"
| "display_gateway_error (SizeLimited s) = ''SizeLimited('' @ debug_str s @ '')''"
| "display_gateway_error (AclError s) = ''AclError('' @ debug_str s @ '')''"
| "display_gateway_error (RouteError s) = ''RouteError('' @ debug_str s @ '')''"
| "display_gateway_error (InvalidRequest s) = ''InvalidRequest('' @ debug_str s @ '')''"
| "display_gateway_error (InternalError s) = ''InternalError('' @ debug_str s @ '')''"

fun display_guide_error :: "(pingora_error \<Rightarrow> string) \<Rightarrow> pingora_guide_error \<Rightarrow> string" where
  "display_guide_error show_pingora (Gateway e) = ''Gateway Error '' @ display_gateway_error e"
| "display_guide_error show_pingora (Pingora e) = ''Pingora Error '' @ show_pingora e"

section \<open>Conversions\<close>

definition from_pingora :: "pingora_error \<Rightarrow> pingora_guide_error" where
  "from_pingora e = Pingora e"

fun into_pingora :: "pingora_guide_error \<Rightarrow> pingora_error" where
  "into_pingora (Pingora e) = e"
| "into_pingora (Gateway e) = explain (ET_Custom ''GatewayError'') (display_gateway_error e)"

section \<open>Rendering is unambiguous\<close>

lemma hex_string_inject:
  assumes "m < 256" and "n < 256"
  shows "hex_string m = hex_string n \<longleftrightarrow> m = n"
proof -
  have small: "m div 16 < 16" "m mod 16 < 16" "n div 16 < 16" "n mod 16 < 16"
    using assms by auto
  have "m = n" if "m div 16 = n div 16" "m mod 16 = n mod 16"
    using that by (metis div_mult_mod_eq)
  then show ?thesis
    using small by (auto simp: hex_string_def hex_char_inject)
qed

lemma hex_string_no_brace: "n < 256 \<Longrightarrow> CHR 0x7D \<notin> set (hex_string n)"
  by (auto simp: hex_string_def dest: sym [THEN hex_char_not_brace [THEN notE, rotated]])

lemma escape_char_inject:
  assumes "escape_char c @ r = escape_char d @ r'"
  shows "c = d \<and> r = r'"
proof -
  have bound: "(of_char x :: nat) < 256" for x
    using nat_of_char_less_256 [of x] by simp
  have hex: "c = d \<and> r = r'"
    if "hex_string (of_char c) @ CHR 0x7D # r = hex_string (of_char d) @ CHR 0x7D # r'"
    using that hex_string_inject [OF bound [of c] bound [of d]]
    by (simp add: append_sep_inject hex_string_no_brace bound)
  show ?thesis
    using assms hex unfolding escape_char_def by (auto split: if_splits)
qed

lemma escape_char_not_quote: "escape_char c @ r \<noteq> CHR 0x22 # r'"
  by (auto simp: escape_char_def)

lemma escaped_inject:
  "concat (map escape_char s) @ CHR 0x22 # r = concat (map escape_char t) @ CHR 0x22 # r'
     \<Longrightarrow> s = t \<and> r = r'"
proof (induction s arbitrary: t)
  case Nil
  then show ?case
    by (cases t) (auto simp: escape_char_not_quote [symmetric])
next
  case (Cons c s)
  show ?case
  proof (cases t)
    case Nil
    with Cons.prems show ?thesis
      by (simp add: escape_char_not_quote)
  next
    case t: (Cons d t')
    from Cons.prems have "escape_char c @ (concat (map escape_char s) @ CHR 0x22 # r) =
        escape_char d @ (concat (map escape_char t') @ CHR 0x22 # r')"
      by (simp add: t)
    then have "c = d \<and> concat (map escape_char s) @ CHR 0x22 # r =
        concat (map escape_char t') @ CHR 0x22 # r'"
      by (rule escape_char_inject)
    with Cons.IH t show ?thesis
      by auto
  qed
qed

lemma debug_str_inject: "debug_str s @ r = debug_str t @ r' \<longleftrightarrow> s = t \<and> r = r'"
  using escaped_inject [of s r t r'] by (auto simp: debug_str_def)

text \<open>No two different gateway errors are rendered the same, whatever their payload.\<close>

lemma display_gateway_error_inject:
  "display_gateway_error e = display_gateway_error f \<longleftrightarrow> e = f"
  using debug_str_inject [where r = "[]" and r' = "[]"] by (cases e; cases f) auto

text \<open>What the conversion to Pingora's error keeps.\<close>

lemma etype_into_pingora [simp]:
  "etype (into_pingora (Gateway e)) = ET_Custom ''GatewayError''"
  by (simp add: explain_def)

lemma into_from_pingora [simp]: "into_pingora (from_pingora e) = e"
  by (simp add: from_pingora_def)

text \<open>
  Converting a gateway error into Pingora's error loses nothing: its variant and payload
  (quotes, backslashes and control characters included) can be read back from the text, which is
  all that is kept of it, so different gateway errors stay different.
\<close>

theorem into_pingora_lossless:
  "into_pingora (Gateway e) = into_pingora (Gateway f) \<longleftrightarrow> e = f"
  by (simp add: explain_def display_gateway_error_inject)

end
