(* ===== verification/Platform.thy ===== *)
theory Platform
  imports Errors
begin

text \<open>
  What the gateway sees of the code it is built on. Addresses (\<^verbatim>\<open>std::net\<close> and Pingora's
  \<^verbatim>\<open>SocketAddr\<close>) are data. The rest of Pingora, the clock, the UUID generator, the metrics
  registry and the file system are not part of the repository: the request being served together
  with the outside world is a value of a type parameter \<open>'w\<close>, and every library call the gateway
  makes is a function on it, collected in the records below. Nothing is assumed about these
  functions here; a theorem that needs the documented behaviour of one of them says so.
  HTTP header maps (\<^verbatim>\<open>RequestHeader\<close>, \<^verbatim>\<open>ResponseHeader\<close>) are a type parameter \<open>'h\<close>.
\<close>

section \<open>Addresses\<close>

datatype ip_addr = V4 u32 | V6 "128 word"

datatype inet_addr = SocketAddr (inet_ip: ip_addr) (inet_port: u16)

datatype sock_addr = Inet inet_addr | Unix string

fun as_inet :: "sock_addr \<Rightarrow> inet_addr option" where
  "as_inet (Inet a) = Some a"
| "as_inet (Unix p) = None"

text \<open>\<^verbatim>\<open>IpAddr::to_string\<close>: dotted decimal, or groups of hexadecimal digits with the longest run of
  zero groups (of two or more) elided.\<close>

definition octets :: "u32 \<Rightarrow> nat list" where
  "octets a = [unat a div 2 ^ 24 mod 256, unat a div 2 ^ 16 mod 256, unat a div 2 ^ 8 mod 256,
               unat a mod 256]"

definition v4_string :: "u32 \<Rightarrow> string" where
  "v4_string a = join_with CHR ''.'' (map dec_string (octets a))"

definition segments :: "128 word \<Rightarrow> nat list" where
  "segments a = map (\<lambda>i. unat a div 2 ^ (112 - 16 * i) mod 2 ^ 16) [0..<8]"

fun zero_span :: "nat \<Rightarrow> nat \<times> nat \<Rightarrow> nat \<times> nat \<Rightarrow> nat list \<Rightarrow> nat \<times> nat" where
  "zero_span i current longest [] = longest"
| "zero_span i current longest (x # xs) =
     (if x = 0
      then (let start = (if snd current = 0 then i else fst current);
                current' = (start, Suc (snd current));
                longest' = (if snd longest < snd current' then current' else longest)
            in zero_span (Suc i) current' longest' xs)
      else zero_span (Suc i) (0, 0) longest xs)"

definition fmt_segments :: "nat list \<Rightarrow> string" where
  "fmt_segments xs = join_with CHR '':'' (map hex_digits xs)"

definition v6_string :: "128 word \<Rightarrow> string" where
  "v6_string a =
     (let segs = segments a; (start, len) = zero_span 0 (0, 0) (0, 0) segs
      in if take 6 segs = [0, 0, 0, 0, 0, 65535]
         then ''::ffff:'' @ v4_string (of_nat (unat a mod 2 ^ 32))
         else if 1 < len
         then fmt_segments (take start segs) @ ''::'' @ fmt_segments (drop (start + len) segs)
         else fmt_segments segs)"

fun ip_to_string :: "ip_addr \<Rightarrow> string" where
  "ip_to_string (V4 a) = v4_string a"
| "ip_to_string (V6 a) = v6_string a"

lemma dec_string_no_dot: "CHR ''.'' \<notin> set (dec_string n)"
  using dec_string_digits [of "CHR ''.''" n] by (auto simp: is_digit_def)

fun of_octets :: "nat list \<Rightarrow> nat" where
  "of_octets [] = 0"
| "of_octets (x # xs) = x * 256 ^ length xs + of_octets xs"

lemma of_octets_octets: "of_octets (octets a) = unat a"
proof -
  define n where "n = unat a"
  have n: "n < 256 * 256 * 256 * 256"
    using unsigned_less [of a, where ?'a = nat] by (simp add: n_def)
  define m1 m2 m3 where "m1 = n div 256" and "m2 = m1 div 256" and "m3 = m2 div 256"
  have e: "n div 2 ^ 8 = m1" "n div 2 ^ 16 = m2" "n div 2 ^ 24 = m3"
    by (simp_all add: m1_def m2_def m3_def flip: div_mult2_eq)
  have "m1 < 256 * 256 * 256"
    unfolding m1_def by (rule less_mult_imp_div_less) (use n in simp)
  then have "m2 < 256 * 256"
    unfolding m2_def by (intro less_mult_imp_div_less) simp
  then have "m3 < 256"
    unfolding m3_def by (intro less_mult_imp_div_less) simp
  then have m3: "m3 mod 256 = m3"
    by simp
  have "n = m1 * 256 + n mod 256" "m1 = m2 * 256 + m1 mod 256" "m2 = m3 * 256 + m2 mod 256"
    by (simp_all add: m1_def m2_def m3_def)
  then show ?thesis
    unfolding octets_def n_def [symmetric] e m3 by simp
qed

lemma octets_inject: "octets a = octets b \<longleftrightarrow> a = b"
  by (metis of_octets_octets word_unat_eq_iff)

lemma v4_string_inject: "v4_string a = v4_string b \<longleftrightarrow> a = b"
proof
  assume eq: "v4_string a = v4_string b"
  have parts: "split_on CHR ''.'' (v4_string x) = map dec_string (octets x)" for x
    unfolding v4_string_def by (rule split_join) (auto simp: dec_string_no_dot octets_def)
  have "map dec_string (octets a) = map dec_string (octets b)"
    using eq parts [of a] parts [of b] by simp
  then have "octets a = octets b"
    by (rule map_injective) (auto simp: inj_def dec_string_inject)
  then show "a = b"
    by (simp add: octets_inject)
qed simp

section \<open>The request and the outside world\<close>

text \<open>
  \<^verbatim>\<open>Session\<close> (the request's header and client address, the response written so far, the calls
  that write it), and the clock, UUID generator and file system.
\<close>

record 'w session_api =
  client_addr :: "'w \<Rightarrow> sock_addr option"
  req_method :: "'w \<Rightarrow> string"
  req_path :: "'w \<Rightarrow> string"
  req_uri_host :: "'w \<Rightarrow> string option"
  req_header :: "'w \<Rightarrow> string \<Rightarrow> string option"
  header_to_str :: "string \<Rightarrow> string option"
  response_status :: "'w \<Rightarrow> string option"
  respond_error :: "u16 \<Rightarrow> 'w \<Rightarrow> (pingora_error, unit) outcome \<times> 'w"
  show_error :: "pingora_error \<Rightarrow> string"
  new_uuid :: "'w \<Rightarrow> string \<times> 'w"
  instant_now :: "'w \<Rightarrow> nat"

text \<open>Header maps: building a response header, inserting (case-insensitively) and removing a field.\<close>

record 'h header_api =
  build_header :: "u16 \<Rightarrow> (pingora_error, 'h) outcome"
  insert_header :: "string \<Rightarrow> string \<Rightarrow> 'h \<Rightarrow> (pingora_error, unit) outcome \<times> 'h"
  remove_header :: "string \<Rightarrow> 'h \<Rightarrow> 'h"

section \<open>Peers\<close>

text \<open>
  \<^verbatim>\<open>HttpPeer\<close>, the fields the code reads or writes. A reference-counted \<^verbatim>\<open>CertKey\<close> is the address
  of the shared object.
\<close>

datatype alpn = H1 | H2 | H2H1

type_synonym cert_ref = nat

record http_peer =
  p_address :: sock_addr
  p_tls :: bool
  p_sni :: string
  p_connection_timeout :: "duration option"
  p_read_timeout :: "duration option"
  p_write_timeout :: "duration option"
  p_idle_timeout :: "duration option"
  p_alpn :: alpn
  p_verify_hostname :: bool
  p_client_cert_key :: "cert_ref option"

record backend =
  be_addr :: sock_addr
  be_weight :: usize

record peer_api =
  peer_new :: "string \<times> u16 \<Rightarrow> bool \<Rightarrow> string \<Rightarrow> (pingora_guide_error, http_peer) outcome"
  peer_new_uds :: "string \<Rightarrow> bool \<Rightarrow> string \<Rightarrow> (pingora_error, http_peer) outcome"
  peer_of_backend :: "backend \<Rightarrow> bool \<Rightarrow> string \<Rightarrow> (pingora_guide_error, http_peer) outcome"

end
