(* ===== verification/Context.thy ===== *)
theory Context
  imports Config Platform
begin

text \<open>
  \<^verbatim>\<open>src/context.rs\<close>: the per-request, type-indexed store the gateway and its middlewares share.
  \<^verbatim>\<open>HashMap<TypeId, Box<dyn Any>>\<close> is a map from type identifiers to dynamically typed values;
  the type parameter of each Rust method is the identifier passed to its model. The types that are
  stored are listed in \<open>type_id\<close>, with one constructor of \<open>any_val\<close> each; \<^verbatim>\<open>Arc<T>\<close> and \<^verbatim>\<open>T\<close> are
  different types with different identifiers. A parsed network (\<^verbatim>\<open>ipnet::IpNet\<close>) is a type
  parameter \<open>'net\<close>.
\<close>

section \<open>What is stored\<close>

text \<open>\<^verbatim>\<open>src/upstreams/router.rs\<close>: a route and its compiled access-control list.\<close>

record 'net compiled_access_control =
  cac_allow :: "'net list"
  cac_deny :: "'net list"

record 'net route_entry =
  re_conf :: route_conf
  re_access_control :: "'net compiled_access_control option"

record request_meta =
  start_time :: nat
  request_id :: string
  matched_route_id :: "string option"
  upstream_id :: "string option"
  peer_addr :: "sock_addr option"
  rm_sni :: "string option"
  connection_attempts :: usize
  connection_reused :: bool

definition default_request_meta :: "nat \<Rightarrow> request_meta" where
  "default_request_meta now =
     \<lparr>start_time = now, request_id = [], matched_route_id = None, upstream_id = None,
      peer_addr = None, rm_sni = None, connection_attempts = 0, connection_reused = False\<rparr>"

record identity_meta =
  im_id :: string
  im_roles :: "string list"
  im_tenant_id :: "string option"

text \<open>A \<^verbatim>\<open>Guard\<close> of \<^verbatim>\<open>pingora_limits\<close> and a \<^verbatim>\<open>CacheKey\<close> and \<^verbatim>\<open>CachePhase\<close> of \<^verbatim>\<open>pingora_cache\<close> are
  values of other crates, known here by a number.\<close>

record connection_guard =
  cg_guard :: nat

record rate_limit_meta =
  rlm_limit :: "64 word"
  rlm_remaining :: "64 word"
  rlm_reset_at :: u64

record cache_meta =
  cm_key :: nat
  cm_status :: nat

datatype security_decision = Allow | Block | Monitor

record security_meta =
  sm_decision :: security_decision
  sm_rule_id :: "string option"
  sm_reason :: string

text \<open>\<^verbatim>\<open>src/middlewares/request_size.rs\<close>: the bytes of the body seen so far.\<close>

record request_size_state =
  bytes_read :: usize

definition default_request_size_state :: request_size_state where
  "default_request_size_state = \<lparr>bytes_read = 0\<rparr>"

datatype type_id =
    T_RequestMeta
  | T_RouteEntry
  | T_ArcRouteConf
  | T_RouteConf
  | T_RequestSizeState
  | T_IdentityMeta
  | T_RateLimitMeta
  | T_SecurityMeta
  | T_ConnectionGuard
  | T_CacheMeta

datatype 'net any_val =
    A_RequestMeta request_meta
  | A_RouteEntry "'net route_entry"
  | A_ArcRouteConf route_conf
  | A_RouteConf route_conf
  | A_RequestSizeState request_size_state
  | A_IdentityMeta identity_meta
  | A_RateLimitMeta rate_limit_meta
  | A_SecurityMeta security_meta
  | A_ConnectionGuard connection_guard
  | A_CacheMeta cache_meta

fun type_of :: "'net any_val \<Rightarrow> type_id" where
  "type_of (A_RequestMeta _) = T_RequestMeta"
| "type_of (A_RouteEntry _) = T_RouteEntry"
| "type_of (A_ArcRouteConf _) = T_ArcRouteConf"
| "type_of (A_RouteConf _) = T_RouteConf"
| "type_of (A_RequestSizeState _) = T_RequestSizeState"
| "type_of (A_IdentityMeta _) = T_IdentityMeta"
| "type_of (A_RateLimitMeta _) = T_RateLimitMeta"
| "type_of (A_SecurityMeta _) = T_SecurityMeta"
| "type_of (A_ConnectionGuard _) = T_ConnectionGuard"
| "type_of (A_CacheMeta _) = T_CacheMeta"

text \<open>\<^verbatim>\<open>Any::downcast\<close>: the value itself when its type is the one asked for.\<close>

definition downcast :: "type_id \<Rightarrow> 'net any_val \<Rightarrow> 'net any_val option" where
  "downcast t v = (if type_of v = t then Some v else None)"

section \<open>The store\<close>

record 'net gateway_context =
  ctx_state :: "type_id \<rightharpoonup> 'net any_val"

definition ctx_new :: "'net gateway_context" where
  "ctx_new = \<lparr>ctx_state = Map.empty\<rparr>"

definition ctx_insert ::
  "'net any_val \<Rightarrow> 'net gateway_context \<Rightarrow> ('e, 'net any_val option) outcome \<times> 'net gateway_context" where
  "ctx_insert val c =
     (let key = type_of val; old_boxed = ctx_state c key;
          c' = c\<lparr>ctx_state := (ctx_state c)(key \<mapsto> val)\<rparr>
      in case old_boxed of
           None \<Rightarrow> (Ok None, c')
         | Some boxed \<Rightarrow>
             (case downcast key boxed of
                Some old \<Rightarrow> (Ok (Some old), c')
              | None \<Rightarrow> (Panic ''GatewayContext: TypeId mismatch'', c')))"

definition ctx_get :: "type_id \<Rightarrow> 'net gateway_context \<Rightarrow> 'net any_val option" where
  "ctx_get key c = Option.bind (ctx_state c key) (downcast key)"

text \<open>
  \<^verbatim>\<open>get_mut\<close> returns a reference into the store: reading through it is \<open>ctx_get_mut\<close>, writing
  through it replaces the value in place.
\<close>

definition ctx_get_mut :: "type_id \<Rightarrow> 'net gateway_context \<Rightarrow> 'net any_val option" where
  "ctx_get_mut key c = Option.bind (ctx_state c key) (downcast key)"

definition ctx_write :: "'net any_val \<Rightarrow> 'net gateway_context \<Rightarrow> 'net gateway_context" where
  "ctx_write v c = c\<lparr>ctx_state := (ctx_state c)(type_of v \<mapsto> v)\<rparr>"

definition ctx_remove ::
  "type_id \<Rightarrow> 'net gateway_context \<Rightarrow> ('e, 'net any_val option) outcome \<times> 'net gateway_context" where
  "ctx_remove key c =
     (let removed = ctx_state c key; c' = c\<lparr>ctx_state := (ctx_state c)(key := None)\<rparr>
      in case removed of
           None \<Rightarrow> (Ok None, c')
         | Some boxed \<Rightarrow>
             (case downcast key boxed of
                Some old \<Rightarrow> (Ok (Some old), c')
              | None \<Rightarrow> (Panic ''GatewayContext: TypeId mismatch'', c')))"

definition ctx_exists :: "type_id \<Rightarrow> 'net gateway_context \<Rightarrow> bool" where
  "ctx_exists key c \<longleftrightarrow> ctx_state c key \<noteq> None"

text \<open>The instances \<^verbatim>\<open>get::<T>()\<close> the gateway uses, at their types.\<close>

definition get_request_meta :: "'net gateway_context \<Rightarrow> request_meta option" where
  "get_request_meta c =
     (case ctx_get T_RequestMeta c of Some (A_RequestMeta m) \<Rightarrow> Some m | _ \<Rightarrow> None)"

definition get_route_entry :: "'net gateway_context \<Rightarrow> 'net route_entry option" where
  "get_route_entry c =
     (case ctx_get T_RouteEntry c of Some (A_RouteEntry r) \<Rightarrow> Some r | _ \<Rightarrow> None)"

definition get_route_conf :: "'net gateway_context \<Rightarrow> route_conf option" where
  "get_route_conf c =
     (case ctx_get T_RouteConf c of Some (A_RouteConf r) \<Rightarrow> Some r | _ \<Rightarrow> None)"

definition get_size_state :: "'net gateway_context \<Rightarrow> request_size_state option" where
  "get_size_state c =
     (case ctx_get_mut T_RequestSizeState c of Some (A_RequestSizeState s) \<Rightarrow> Some s | _ \<Rightarrow> None)"

section \<open>The contract of a type-indexed store\<close>

text \<open>
  What a client of the store relies on: at most one value per type, looking up a type finds the
  value inserted last for it, operations on one type do not disturb another, and the internal
  downcasts never fail.
\<close>

locale typed_store =
  fixes empty :: "'s"
    and insert_val :: "'v \<Rightarrow> 's \<Rightarrow> ('e, 'v option) outcome \<times> 's"
    and lookup_val :: "'t \<Rightarrow> 's \<Rightarrow> 'v option"
    and remove_val :: "'t \<Rightarrow> 's \<Rightarrow> ('e, 'v option) outcome \<times> 's"
    and write_val :: "'v \<Rightarrow> 's \<Rightarrow> 's"
    and exists_val :: "'t \<Rightarrow> 's \<Rightarrow> bool"
    and ty :: "'v \<Rightarrow> 't"
    and invar :: "'s \<Rightarrow> bool"
  assumes invar_empty: "invar empty"
    and lookup_empty: "lookup_val t empty = None"
    and invar_insert: "invar s \<Longrightarrow> invar (snd (insert_val v s))"
    and insert_result: "invar s \<Longrightarrow> fst (insert_val v s) = Ok (lookup_val (ty v) s)"
    and lookup_insert:
      "invar s \<Longrightarrow> lookup_val t (snd (insert_val v s)) = (if t = ty v then Some v else lookup_val t s)"
    and invar_remove: "invar s \<Longrightarrow> invar (snd (remove_val t s))"
    and remove_result: "invar s \<Longrightarrow> fst (remove_val t s) = Ok (lookup_val t s)"
    and lookup_remove:
      "invar s \<Longrightarrow> lookup_val t (snd (remove_val u s)) = (if t = u then None else lookup_val t s)"
    and invar_write: "invar s \<Longrightarrow> invar (write_val v s)"
    and lookup_write: "invar s \<Longrightarrow> lookup_val t (write_val v s) = (if t = ty v then Some v else lookup_val t s)"
    and exists_lookup: "invar s \<Longrightarrow> exists_val t s \<longleftrightarrow> lookup_val t s \<noteq> None"
    and lookup_type: "invar s \<Longrightarrow> lookup_val t s = Some v \<Longrightarrow> ty v = t"
begin

lemma no_panic: "invar s \<Longrightarrow> fst (insert_val v s) \<noteq> Panic p \<and> fst (remove_val t s) \<noteq> Panic p"
  by (simp add: insert_result remove_result)

lemma lookup_insert_same: "invar s \<Longrightarrow> lookup_val (ty v) (snd (insert_val v s)) = Some v"
  by (simp add: lookup_insert)

lemma lookup_insert_other:
  "invar s \<Longrightarrow> t \<noteq> ty v \<Longrightarrow> lookup_val t (snd (insert_val v s)) = lookup_val t s"
  by (simp add: lookup_insert)

lemma remove_insert:
  assumes "invar s"
  shows "fst (remove_val (ty v) (snd (insert_val v s))) = Ok (Some v)"
  by (simp add: remove_result lookup_insert invar_insert assms)

text \<open>A run of operations, seen from outside as a partial function from types to values.\<close>

fun insert_all :: "'v list \<Rightarrow> 's \<Rightarrow> 's" where
  "insert_all [] s = s"
| "insert_all (v # vs) s = insert_all vs (snd (insert_val v s))"

lemma invar_insert_all: "invar s \<Longrightarrow> invar (insert_all vs s)"
  by (induction vs arbitrary: s) (auto simp: invar_insert)

lemma lookup_insert_all:
  "invar s \<Longrightarrow> lookup_val t (insert_all vs s) =
     (case find (\<lambda>v. ty v = t) (rev vs) of Some v \<Rightarrow> Some v | None \<Rightarrow> lookup_val t s)"
proof (induction vs arbitrary: s)
  case (Cons v vs)
  have find_snoc: "find P (xs @ [x]) = (case find P xs of Some y \<Rightarrow> Some y | None \<Rightarrow> if P x then Some x else None)"
    for P :: "'v \<Rightarrow> bool" and xs x
    by (induction xs) auto
  from Cons.IH [OF invar_insert [OF Cons.prems]] Cons.prems show ?case
    by (auto simp: find_snoc lookup_insert split: option.splits)
qed simp

end

section \<open>The store keeps the contract\<close>

text \<open>The representation invariant: every value is stored under its own type.\<close>

definition ctx_wf :: "'net gateway_context \<Rightarrow> bool" where
  "ctx_wf c \<longleftrightarrow> (\<forall>t v. ctx_state c t = Some v \<longrightarrow> type_of v = t)"

lemma ctx_get_wf: "ctx_wf c \<Longrightarrow> ctx_get t c = ctx_state c t"
  by (cases "ctx_state c t") (auto simp: ctx_wf_def ctx_get_def downcast_def)

lemma snd_ctx_insert: "snd (ctx_insert v c) = ctx_write v c"
  by (simp add: ctx_insert_def ctx_write_def Let_def split: option.splits)

lemma ctx_insert_eq:
  "ctx_wf c \<Longrightarrow> ctx_insert v c = (Ok (ctx_get (type_of v) c), ctx_write v c)"
  by (auto simp: ctx_insert_def ctx_write_def ctx_get_def ctx_wf_def downcast_def Let_def
      split: option.splits)

lemma ctx_wf_new: "ctx_wf ctx_new"
  by (simp add: ctx_wf_def ctx_new_def)

lemma ctx_wf_write: "ctx_wf c \<Longrightarrow> ctx_wf (ctx_write v c)"
  by (simp add: ctx_wf_def ctx_write_def)

lemma ctx_state_write [simp]: "ctx_state (ctx_write v c) = (ctx_state c)(type_of v \<mapsto> v)"
  by (simp add: ctx_write_def)

lemma snd_ctx_remove: "snd (ctx_remove t c) = c\<lparr>ctx_state := (ctx_state c)(t := None)\<rparr>"
  by (simp add: ctx_remove_def Let_def split: option.splits)

lemma fst_ctx_remove: "ctx_wf c \<Longrightarrow> fst (ctx_remove t c) = Ok (ctx_state c t)"
  by (auto simp: ctx_remove_def ctx_wf_def downcast_def Let_def split: option.splits)

interpretation gc: typed_store ctx_new ctx_insert ctx_get ctx_remove ctx_write ctx_exists type_of ctx_wf
proof
  show "ctx_wf ctx_new" and "ctx_get t ctx_new = None" for t
    by (simp_all add: ctx_wf_new) (simp add: ctx_get_def ctx_new_def)
next
  fix c :: "'a gateway_context" and t u :: type_id and v :: "'a any_val"
  assume wf: "ctx_wf c"
  then have wf_remove: "ctx_wf (snd (ctx_remove t c))" for t
    by (auto simp: ctx_wf_def snd_ctx_remove)
  show "ctx_wf (snd (ctx_insert v c))" and "ctx_wf (ctx_write v c)"
    using wf by (simp_all add: snd_ctx_insert ctx_wf_write)
  show "fst (ctx_insert v c) = Ok (ctx_get (type_of v) c)"
    using wf by (simp add: ctx_insert_eq)
  show "ctx_get t (snd (ctx_insert v c)) = (if t = type_of v then Some v else ctx_get t c)"
    and "ctx_get t (ctx_write v c) = (if t = type_of v then Some v else ctx_get t c)"
    using wf by (simp_all add: snd_ctx_insert ctx_get_wf ctx_wf_write)
  show "ctx_wf (snd (ctx_remove t c))"
    by (rule wf_remove)
  show "fst (ctx_remove t c) = Ok (ctx_get t c)"
    using wf by (simp add: fst_ctx_remove ctx_get_wf)
  show "ctx_get t (snd (ctx_remove u c)) = (if t = u then None else ctx_get t c)"
    using wf wf_remove [of u] by (simp add: ctx_get_wf snd_ctx_remove)
  show "ctx_exists t c \<longleftrightarrow> ctx_get t c \<noteq> None"
    using wf by (simp add: ctx_exists_def ctx_get_wf)
  show "type_of v = t" if "ctx_get t c = Some v"
    using wf that by (auto simp: ctx_get_wf) (simp add: ctx_wf_def)
qed

text \<open>The typed lookups, over the bare map.\<close>

lemma get_request_meta_state:
  "get_request_meta c = (case ctx_state c T_RequestMeta of Some (A_RequestMeta m) \<Rightarrow> Some m | _ \<Rightarrow> None)"
  by (cases "ctx_state c T_RequestMeta")
     (auto simp: get_request_meta_def ctx_get_def downcast_def split: any_val.splits)

lemma get_route_entry_state:
  "get_route_entry c = (case ctx_state c T_RouteEntry of Some (A_RouteEntry r) \<Rightarrow> Some r | _ \<Rightarrow> None)"
  by (cases "ctx_state c T_RouteEntry")
     (auto simp: get_route_entry_def ctx_get_def downcast_def split: any_val.splits)

lemma get_route_conf_state:
  "get_route_conf c = (case ctx_state c T_RouteConf of Some (A_RouteConf r) \<Rightarrow> Some r | _ \<Rightarrow> None)"
  by (cases "ctx_state c T_RouteConf")
     (auto simp: get_route_conf_def ctx_get_def downcast_def split: any_val.splits)

lemma get_size_state_state:
  "get_size_state c = (case ctx_state c T_RequestSizeState of Some (A_RequestSizeState s) \<Rightarrow> Some s | _ \<Rightarrow> None)"
  by (cases "ctx_state c T_RequestSizeState")
     (auto simp: get_size_state_def ctx_get_mut_def downcast_def split: any_val.splits)

lemmas ctx_lookup_state =
  get_request_meta_state get_route_entry_state get_route_conf_state get_size_state_state

section \<open>What a request context holds\<close>

text \<open>
  The invariant of the context of a request in flight: it is well-formed, it holds the request's
  metadata, and nothing was ever stored in it under the type \<^verbatim>\<open>RouteConf\<close> (the route's
  configuration is stored as an \<^verbatim>\<open>Arc<RouteConf>\<close>).
\<close>

definition ctx_ok :: "'net gateway_context \<Rightarrow> bool" where
  "ctx_ok c \<longleftrightarrow> ctx_wf c \<and> ctx_state c T_RequestMeta \<noteq> None \<and> ctx_state c T_RouteConf = None"

lemma ctx_ok_wf: "ctx_ok c \<Longrightarrow> ctx_wf c"
  by (simp add: ctx_ok_def)

lemma ctx_ok_write: "ctx_ok c \<Longrightarrow> type_of v \<noteq> T_RouteConf \<Longrightarrow> ctx_ok (ctx_write v c)"
  by (auto simp: ctx_ok_def ctx_wf_write)

lemma ctx_ok_insert: "ctx_ok c \<Longrightarrow> type_of v \<noteq> T_RouteConf \<Longrightarrow> ctx_ok (snd (ctx_insert v c))"
  by (simp add: snd_ctx_insert ctx_ok_write)

lemma ctx_ok_meta:
  assumes "ctx_ok c"
  obtains m where "get_request_meta c = Some m" and "ctx_state c T_RequestMeta = Some (A_RequestMeta m)"
proof -
  from assms obtain v where v: "ctx_state c T_RequestMeta = Some v" "type_of v = T_RequestMeta"
    by (auto simp: ctx_ok_def ctx_wf_def)
  then obtain m where "v = A_RequestMeta m"
    by (cases v) auto
  with v that show thesis
    by (simp add: get_request_meta_state)
qed

lemma ctx_ok_no_route_conf: "ctx_ok c \<Longrightarrow> get_route_conf c = None"
  by (simp add: ctx_ok_def get_route_conf_state)

section \<open>Any run of store operations\<close>

datatype 'net ctx_op = Op_insert "'net any_val" | Op_remove type_id | Op_get type_id

fun ctx_step ::
  "'net ctx_op \<Rightarrow> 'net gateway_context \<Rightarrow> (unit, 'net any_val option) outcome \<times> 'net gateway_context" where
  "ctx_step (Op_insert v) c = ctx_insert v c"
| "ctx_step (Op_remove t) c = ctx_remove t c"
| "ctx_step (Op_get t) c = (Ok (ctx_get t c), c)"

fun ctx_run ::
  "'net ctx_op list \<Rightarrow> 'net gateway_context \<Rightarrow>
   (unit, 'net any_val option) outcome list \<times> 'net gateway_context" where
  "ctx_run [] c = ([], c)"
| "ctx_run (x # xs) c =
     (let (r, c') = ctx_step x c; (rs, c'') = ctx_run xs c' in (r # rs, c''))"

text \<open>The abstract store: a partial function from types to values, where nothing can fail.\<close>

fun spec_step ::
  "'net ctx_op \<Rightarrow> (type_id \<rightharpoonup> 'net any_val) \<Rightarrow> 'net any_val option \<times> (type_id \<rightharpoonup> 'net any_val)" where
  "spec_step (Op_insert v) m = (m (type_of v), m(type_of v \<mapsto> v))"
| "spec_step (Op_remove t) m = (m t, m(t := None))"
| "spec_step (Op_get t) m = (m t, m)"

fun spec_run ::
  "'net ctx_op list \<Rightarrow> (type_id \<rightharpoonup> 'net any_val) \<Rightarrow>
   'net any_val option list \<times> (type_id \<rightharpoonup> 'net any_val)" where
  "spec_run [] m = ([], m)"
| "spec_run (x # xs) m =
     (let (r, m') = spec_step x m; (rs, m'') = spec_run xs m' in (r # rs, m''))"

lemma ctx_step_refines:
  assumes wf: "ctx_wf c" and abs: "\<And>t. ctx_get t c = m t"
  shows "fst (ctx_step x c) = Ok (fst (spec_step x m))"
    and "ctx_wf (snd (ctx_step x c))"
    and "ctx_get t (snd (ctx_step x c)) = snd (spec_step x m) t"
  using wf abs
  by (cases x; simp add: gc.insert_result gc.remove_result gc.lookup_insert gc.lookup_remove
      gc.invar_insert gc.invar_remove)+

lemma ctx_run_refines:
  "ctx_wf c \<Longrightarrow> (\<And>t. ctx_get t c = m t) \<Longrightarrow>
     fst (ctx_run xs c) = map Ok (fst (spec_run xs m)) \<and>
     (\<lambda>t. ctx_get t (snd (ctx_run xs c))) = snd (spec_run xs m)"
proof (induction xs arbitrary: c m)
  case (Cons x xs)
  note step = ctx_step_refines [where x = x, OF Cons.prems]
  from Cons.IH [OF step(2) step(3)] step(1) show ?case
    by (simp add: case_prod_unfold Let_def)
qed auto

text \<open>
  C17. The request context refines an abstract map from types to values. Starting from a new
  context, any run of insertions, removals and lookups returns exactly what the abstract map
  returns (the previous value of that type, if any), never reaches the \<^verbatim>\<open>expect\<close> panics on a type
  mismatch, and leaves a context whose lookups agree with the abstract map.
\<close>

theorem context_refines_map:
  "fst (ctx_run ops ctx_new) = map Ok (fst (spec_run ops Map.empty)) \<and>
   (\<lambda>t. ctx_get t (snd (ctx_run ops ctx_new))) = snd (spec_run ops Map.empty)"
  by (rule ctx_run_refines) (simp_all add: gc.invar_empty gc.lookup_empty)

end
