(* ===== verification/Middleware.thy ===== *)
theory Middleware
  imports Context
begin

text \<open>
  \<^verbatim>\<open>src/middleware.rs\<close>: the plugin interface. A \<^verbatim>\<open>Box<dyn Middleware>\<close> is a record of its hooks;
  a hook works on the world and the request context (and, for some, the header or body it may
  change) and returns a decision, an error or a panic. \<open>default_middleware\<close> is the trait's default
  methods. The loops of the gateway over its middlewares are \<open>run_chain\<close> (errors end the loop)
  and \<open>run_swallow\<close> (errors count as \<^verbatim>\<open>Continue\<close>).
\<close>

section \<open>Hooks\<close>

datatype middleware_decision = Continue | Stop

type_synonym ('s, 'a) hook = "'s \<Rightarrow> (pingora_guide_error, 'a) outcome \<times> 's"

type_synonym ('w, 'net) req = "'w \<times> 'net gateway_context"

text \<open>File descriptors are integers; a reference to a connection digest or a cache key is the
  address of the object.\<close>

record ('w, 'net, 'h) middleware =
  mw_name :: string
  handle_early_request :: "(('w, 'net) req, middleware_decision) hook"
  handle_request :: "(('w, 'net) req, middleware_decision) hook"
  handle_upstream_request :: "(('w, 'net) req \<times> 'h, middleware_decision) hook"
  handle_upstream_connected ::
    "bool \<Rightarrow> http_peer \<Rightarrow> int \<Rightarrow> nat option \<Rightarrow> (('w, 'net) req, middleware_decision) hook"
  handle_upstream_response :: "(('w, 'net) req \<times> 'h, middleware_decision) hook"
  handle_error :: "pingora_error \<Rightarrow> (('w, 'net) req, middleware_decision) hook"
  handle_request_body :: "bool \<Rightarrow> (('w, 'net) req \<times> string option, middleware_decision) hook"
  handle_response :: "(('w, 'net) req \<times> 'h, middleware_decision) hook"
  handle_response_body :: "bool \<Rightarrow> (('w, 'net) req \<times> string option, middleware_decision) hook"
  init_cache :: "(('w, 'net) req, middleware_decision) hook"
  cache_key :: "(('w, 'net) req, nat option) hook"
  should_serve_stale :: "pingora_error option \<Rightarrow> ('w, 'net) req \<Rightarrow> bool \<times> ('w, 'net) req"
  handle_logging :: "pingora_error option \<Rightarrow> (('w, 'net) req, middleware_decision) hook"

text \<open>A call on the world alone, or on the context alone, inside a hook.\<close>

definition on_world :: "('w \<Rightarrow> ('e, 'a) outcome \<times> 'w) \<Rightarrow> ('w, 'net) req \<Rightarrow> ('e, 'a) outcome \<times> ('w, 'net) req" where
  "on_world f s = (case f (fst s) of (r, w') \<Rightarrow> (r, (w', snd s)))"

definition on_ctx ::
  "('net gateway_context \<Rightarrow> ('e, 'a) outcome \<times> 'net gateway_context) \<Rightarrow> ('w, 'net) req \<Rightarrow>
   ('e, 'a) outcome \<times> ('w, 'net) req" where
  "on_ctx f s = (case f (snd s) of (r, c') \<Rightarrow> (r, (fst s, c')))"

lemma on_world_simps [simp]:
  "fst (on_world f s) = fst (f (fst s))"
  "fst (snd (on_world f s)) = snd (f (fst s))"
  "snd (snd (on_world f s)) = snd s"
  by (simp_all add: on_world_def split: prod.splits)

lemma on_ctx_simps [simp]:
  "fst (on_ctx f s) = fst (f (snd s))"
  "fst (snd (on_ctx f s)) = fst s"
  "snd (snd (on_ctx f s)) = snd (f (snd s))"
  by (simp_all add: on_ctx_def split: prod.splits)

definition continue_hook :: "('s, middleware_decision) hook" where
  "continue_hook s = (Ok Continue, s)"

definition default_middleware :: "string \<Rightarrow> ('w, 'net, 'h) middleware" where
  "default_middleware name =
     \<lparr>mw_name = name,
      handle_early_request = continue_hook,
      handle_request = continue_hook,
      handle_upstream_request = continue_hook,
      handle_upstream_connected = (\<lambda>reused peer fd digest. continue_hook),
      handle_upstream_response = continue_hook,
      handle_error = (\<lambda>e. continue_hook),
      handle_request_body = (\<lambda>end_of_stream. continue_hook),
      handle_response = continue_hook,
      handle_response_body = (\<lambda>end_of_stream. continue_hook),
      init_cache = continue_hook,
      cache_key = (\<lambda>s. (Ok None, s)),
      should_serve_stale = (\<lambda>error s. (False, s)),
      handle_logging = (\<lambda>e. continue_hook)\<rparr>"

section \<open>The loops over the middlewares\<close>

text \<open>
  \<^verbatim>\<open>for middleware in \<dots> { let result = middleware.hook(\<dots>)?; if result == Stop { \<dots> } }\<close>:
  the \<^verbatim>\<open>?\<close> converts the middleware's error into Pingora's.
\<close>

fun run_chain ::
  "('s, middleware_decision) hook list \<Rightarrow> 's \<Rightarrow> (pingora_error, middleware_decision) outcome \<times> 's" where
  "run_chain [] s = (Ok Continue, s)"
| "run_chain (h # hs) s =
     try_then (map_err into_pingora (h s))
       (\<lambda>result s'. if result = Stop then (Ok Stop, s') else run_chain hs s')"

text \<open>The same loop where the hook's error is replaced: \<^verbatim>\<open>unwrap_or(MiddlewareDecision::Continue)\<close>.\<close>

fun run_swallow ::
  "('s, middleware_decision) hook list \<Rightarrow> 's \<Rightarrow> ('e, middleware_decision) outcome \<times> 's" where
  "run_swallow [] s = (Ok Continue, s)"
| "run_swallow (h # hs) s =
     (case h s of
        (Panic p, s') \<Rightarrow> (Panic p, s')
      | (Err e, s') \<Rightarrow> run_swallow hs s'
      | (Ok Continue, s') \<Rightarrow> run_swallow hs s'
      | (Ok Stop, s') \<Rightarrow> (Ok Stop, s'))"

lemma run_chain_append:
  "run_chain (hs @ hs') s =
     try_then (run_chain hs s)
       (\<lambda>d s'. if d = Stop then (Ok Stop, s') else run_chain hs' s')"
proof (induction hs arbitrary: s)
  case (Cons h hs)
  obtain o1 s1 where "map_err into_pingora (h s) = (o1, s1)"
    by fastforce
  with Cons.IH show ?case
    by (cases o1) auto
qed simp

lemma run_chain_keeps:
  assumes "\<forall>h \<in> set hs. \<forall>s. P s \<longrightarrow> P (snd (h s))" and "P s"
  shows "P (snd (run_chain hs s))"
  using assms
proof (induction hs arbitrary: s)
  case (Cons h hs)
  have IH: "P (snd (run_chain hs s'))" if "P s'" for s'
    using Cons.IH Cons.prems(1) that by simp
  have "P (snd (h s))"
    using Cons.prems by simp
  then have "P (snd (map_err into_pingora (h s)))"
    by simp
  then show ?case
    unfolding run_chain.simps by (rule try_then_keeps) (simp add: IH)
qed simp

text \<open>One round of that loop, by the hook's outcome.\<close>

lemma run_swallow_Cons:
  "h s = (Panic p, s') \<Longrightarrow> run_swallow (h # hs) s = (Panic p, s')"
  "h s = (Err e, s') \<Longrightarrow> run_swallow (h # hs) s = run_swallow hs s'"
  "h s = (Ok Continue, s') \<Longrightarrow> run_swallow (h # hs) s = run_swallow hs s'"
  "h s = (Ok Stop, s') \<Longrightarrow> run_swallow (h # hs) s = (Ok Stop, s')"
  by simp_all

lemma hook_cases:
  obtains (Panic) p s' where "h s = (Panic p, s')"
  | (Err) e s' where "h s = (Err e, s')"
  | (Continue) s' where "h s = (Ok Continue, s')"
  | (Stop) s' where "h s = (Ok Stop, s')"
proof (cases "h s")
  case (Pair r s')
  show thesis
  proof (cases r)
    case (Ok d)
    with Pair that(3,4) show thesis
      by (cases d) simp_all
  qed (use Pair that(1,2) in simp_all)
qed

declare run_swallow.simps(2) [simp del]

lemma run_swallow_keeps:
  assumes "\<forall>h \<in> set hs. \<forall>s. P s \<longrightarrow> P (snd (h s))" and "P s"
  shows "P (snd (run_swallow hs s :: ('e, middleware_decision) outcome \<times> 's))"
  using assms
proof (induction hs arbitrary: s)
  case (Cons h hs)
  have IH: "P (snd (run_swallow hs s' :: ('e, middleware_decision) outcome \<times> 's))" if "P s'" for s'
    using Cons.IH Cons.prems(1) that by simp
  have "P (snd (h s))"
    using Cons.prems by simp
  then show ?case
    by (cases h s rule: hook_cases) (simp_all add: run_swallow_Cons IH)
qed simp

lemma run_swallow_no_Err: "fst (run_swallow hs s) \<noteq> Err u"
proof (induction hs arbitrary: s)
  case (Cons h hs)
  then show ?case
    by (cases h s rule: hook_cases) (auto simp: run_swallow_Cons)
qed simp

text \<open>Hooks that always continue without effect are passed over.\<close>

lemma run_chain_continue:
  "\<forall>h \<in> set hs. h s = (Ok Continue, s) \<Longrightarrow> run_chain hs s = (Ok Continue, s)"
  by (induction hs) auto

text \<open>
  C9. A \<^verbatim>\<open>Stop\<close>, an error or a panic of one middleware halts the pipeline: once the middlewares
  before \<open>h\<close> all continued, the chain's result at \<open>h\<close> is final, and no middleware after it runs
  or has any effect, whatever it is; and \<open>h\<close>'s own decision or converted error is what the gateway
  sees.
\<close>

theorem run_chain_halts:
  assumes "run_chain before s = (Ok Continue, s1)" and "h s1 = (r, s2)" and "r \<noteq> Ok Continue"
  shows "run_chain (before @ h # after) s = run_chain (before @ [h]) s \<and>
         run_chain (before @ [h]) s = map_err into_pingora (r, s2)"
proof (cases r)
  case (Ok d)
  with assms(3) have "d = Stop"
    by (cases d) auto
  with assms Ok show ?thesis
    by (simp add: run_chain_append)
qed (use assms in \<open>simp_all add: run_chain_append\<close>)

definition stop_hook :: "('s, middleware_decision) hook" where
  "stop_hook s = (Ok Stop, s)"

theorem run_chain_halts_witness:
  "run_chain ([continue_hook] @ stop_hook # [\<lambda>n::nat. (Panic ''late'', n + 1)]) 3 = (Ok Stop, 3)"
proof -
  have "run_chain [continue_hook] (3::nat) = (Ok Continue, 3)"
    and "stop_hook (3::nat) = (Ok Stop, 3)"
    by (simp_all add: continue_hook_def stop_hook_def)
  then show ?thesis
    using run_chain_halts [of "[continue_hook]" "3::nat" 3 stop_hook "Ok Stop" 3
        "[\<lambda>n::nat. (Panic ''late'', n + 1)]"]
    by (simp del: run_chain.simps)
qed

section \<open>The contract of a middleware\<close>

text \<open>
  What the gateway relies on: whatever a hook returns, an invariant \<open>I\<close> of the request context
  still holds after it.
\<close>

locale middleware_contract =
  fixes m :: "('w, 'net, 'h) middleware" and I :: "'net gateway_context \<Rightarrow> bool"
  assumes early_keeps: "I c \<Longrightarrow> I (snd (snd (handle_early_request m (w, c))))"
    and request_keeps: "I c \<Longrightarrow> I (snd (snd (handle_request m (w, c))))"
    and upstream_request_keeps: "I c \<Longrightarrow> I (snd (fst (snd (handle_upstream_request m ((w, c), hdr)))))"
    and connected_keeps:
      "I c \<Longrightarrow> I (snd (snd (handle_upstream_connected m reused peer fd digest (w, c))))"
    and upstream_response_keeps: "I c \<Longrightarrow> I (snd (fst (snd (handle_upstream_response m ((w, c), hdr)))))"
    and error_keeps: "I c \<Longrightarrow> I (snd (snd (handle_error m e (w, c))))"
    and request_body_keeps: "I c \<Longrightarrow> I (snd (fst (snd (handle_request_body m eos ((w, c), body)))))"
    and response_keeps: "I c \<Longrightarrow> I (snd (fst (snd (handle_response m ((w, c), hdr)))))"
    and response_body_keeps: "I c \<Longrightarrow> I (snd (fst (snd (handle_response_body m eos ((w, c), body)))))"
    and logging_keeps: "I c \<Longrightarrow> I (snd (snd (handle_logging m eo (w, c))))"
begin

lemma request_hook_keeps: "I (snd s) \<Longrightarrow> I (snd (snd (handle_request m s)))"
  using request_keeps by (cases s) auto

end

text \<open>The default methods keep every invariant.\<close>

lemma middleware_contract_default: "middleware_contract (default_middleware n) I"
  by unfold_locales (simp_all add: default_middleware_def continue_hook_def)

text \<open>A pipeline whose middlewares all keep the contract.\<close>

locale pipeline_contract =
  fixes ms :: "('w, 'net, 'h) middleware list" and I :: "'net gateway_context \<Rightarrow> bool"
  assumes all_keep: "m \<in> set ms \<Longrightarrow> middleware_contract m I"
begin

lemma hook_keeps:
  assumes "m \<in> set ms" and "I (snd s)"
  shows "I (snd (snd (handle_early_request m s)))"
    and "I (snd (snd (handle_request m s)))"
    and "I (snd (snd (handle_upstream_connected m reused peer fd digest s)))"
    and "I (snd (snd (handle_error m e s)))"
    and "I (snd (snd (handle_logging m eo s)))"
  using middleware_contract.early_keeps [OF all_keep] middleware_contract.request_keeps [OF all_keep]
    middleware_contract.connected_keeps [OF all_keep] middleware_contract.error_keeps [OF all_keep]
    middleware_contract.logging_keeps [OF all_keep] assms
  by (cases s; simp)+

lemma hook_keeps_arg:
  assumes "m \<in> set ms" and "I (snd (fst s))"
  shows "I (snd (fst (snd (handle_upstream_request m s))))"
    and "I (snd (fst (snd (handle_upstream_response m s))))"
    and "I (snd (fst (snd (handle_response m s))))"
  using middleware_contract.upstream_request_keeps [OF all_keep]
    middleware_contract.upstream_response_keeps [OF all_keep]
    middleware_contract.response_keeps [OF all_keep] assms
  by (cases s; cases "fst s"; simp)+

lemma hook_keeps_body:
  assumes "m \<in> set ms" and "I (snd (fst s))"
  shows "I (snd (fst (snd (handle_request_body m eos s))))"
    and "I (snd (fst (snd (handle_response_body m eos s))))"
  using middleware_contract.request_body_keeps [OF all_keep]
    middleware_contract.response_body_keeps [OF all_keep] assms
  by (cases s; cases "fst s"; simp)+

text \<open>Whole passes over the pipeline, in either order.\<close>

lemma chain_keeps:
  assumes "I (snd s)" and "\<And>m s. m \<in> set ms \<Longrightarrow> I (snd s) \<Longrightarrow> I (snd (snd (hook m s)))"
    and "set ms' \<subseteq> set ms"
  shows "I (snd (snd (run_chain (map hook ms') s)))"
  by (rule run_chain_keeps [where P = "\<lambda>s. I (snd s)"]) (use assms in auto)

lemma chain_keeps_arg:
  assumes "I (snd (fst s))" and "\<And>m s. m \<in> set ms \<Longrightarrow> I (snd (fst s)) \<Longrightarrow> I (snd (fst (snd (hook m s))))"
    and "set ms' \<subseteq> set ms"
  shows "I (snd (fst (snd (run_chain (map hook ms') s))))"
  by (rule run_chain_keeps [where P = "\<lambda>s. I (snd (fst s))"]) (use assms in auto)

lemma swallow_keeps:
  assumes "I (snd s)" and "\<And>m s. m \<in> set ms \<Longrightarrow> I (snd s) \<Longrightarrow> I (snd (snd (hook m s)))"
    and "set ms' \<subseteq> set ms"
  shows "I (snd (snd (run_swallow (map hook ms') s)))"
  by (rule run_swallow_keeps [where P = "\<lambda>s. I (snd s)"]) (use assms in auto)

end

end
