(* ===== verification/Sample_World.thy ===== *)
theory Sample_World
  imports Platform
begin

text \<open>
  A concrete world for examples: a request given by its address, method, path and headers, the
  status written last, a log of what was written, and counters for UUIDs and the clock. It plays
  no part in the model; the example theorems run the model on it.
\<close>

record sample =
  sw_addr :: "sock_addr option"
  sw_method :: string
  sw_path :: string
  sw_headers :: "(string \<times> string) list"
  sw_status :: "nat option"
  sw_log :: "string list"
  sw_next :: nat

definition sample_request :: "string \<Rightarrow> (string \<times> string) list \<Rightarrow> sample" where
  "sample_request path hs =
     \<lparr>sw_addr = Some (Inet (SocketAddr (V4 167772161) 4000)), sw_method = ''GET'', sw_path = path,
      sw_headers = hs, sw_status = None, sw_log = [], sw_next = 0\<rparr>"

definition sample_api :: "sample session_api" where
  "sample_api =
     \<lparr>client_addr = sw_addr,
      req_method = sw_method,
      req_path = sw_path,
      req_uri_host = (\<lambda>w. None),
      req_header = (\<lambda>w k. map_of (sw_headers w) k),
      header_to_str = Some,
      response_status = (\<lambda>w. map_option dec_string (sw_status w)),
      respond_error = (\<lambda>code w. (Ok (), w\<lparr>sw_status := Some (unat code)\<rparr>)),
      show_error = (\<lambda>e. ''error''),
      new_uuid = (\<lambda>w. (''id-'' @ dec_string (sw_next w), w\<lparr>sw_next := Suc (sw_next w)\<rparr>)),
      instant_now = sw_next\<rparr>"

lemma sample_api_simps [simp]:
  "client_addr sample_api = sw_addr"
  "req_method sample_api = sw_method"
  "req_path sample_api = sw_path"
  "req_uri_host sample_api w = None"
  "req_header sample_api w k = map_of (sw_headers w) k"
  "header_to_str sample_api v = Some v"
  "response_status sample_api w = map_option dec_string (sw_status w)"
  "respond_error sample_api code w = (Ok (), w\<lparr>sw_status := Some (unat code)\<rparr>)"
  "new_uuid sample_api w = (''id-'' @ dec_string (sw_next w), w\<lparr>sw_next := Suc (sw_next w)\<rparr>)"
  "instant_now sample_api = sw_next"
  by (simp_all add: sample_api_def)

text \<open>Header maps as association lists on lower-case names, and plain peers.\<close>

definition sample_headers :: "(string \<times> string) list header_api" where
  "sample_headers =
     \<lparr>build_header = (\<lambda>code. Ok []),
      insert_header = (\<lambda>k v h. (Ok (), (k, v) # filter (\<lambda>x. fst x \<noteq> k) h)),
      remove_header = (\<lambda>k h. filter (\<lambda>x. fst x \<noteq> k) h)\<rparr>"

definition sample_peer :: "sock_addr \<Rightarrow> bool \<Rightarrow> string \<Rightarrow> http_peer" where
  "sample_peer a t s =
     \<lparr>p_address = a, p_tls = t, p_sni = s, p_connection_timeout = None, p_read_timeout = None,
      p_write_timeout = None, p_idle_timeout = None, p_alpn = H1, p_verify_hostname = True,
      p_client_cert_key = None\<rparr>"

definition sample_peers :: peer_api where
  "sample_peers =
     \<lparr>peer_new = (\<lambda>(host, port) t s. Ok (sample_peer (Inet (SocketAddr (V4 1) port)) t s)),
      peer_new_uds = (\<lambda>path t s. Ok (sample_peer (Unix path) t s)),
      peer_of_backend = (\<lambda>b t s. Ok (sample_peer (be_addr b) t s))\<rparr>"

lemma sample_peers_simps [simp]:
  "peer_new_uds sample_peers path t s = Ok (sample_peer (Unix path) t s)"
  "peer_of_backend sample_peers b t s = Ok (sample_peer (be_addr b) t s)"
  by (simp_all add: sample_peers_def)

text \<open>Networks as an address and a number of leading bits.\<close>

datatype sample_net = Net u32 nat

fun sample_contains :: "sample_net \<Rightarrow> ip_addr \<Rightarrow> bool" where
  "sample_contains (Net a n) (V4 b) \<longleftrightarrow> unat a div 2 ^ (32 - n) = unat b div 2 ^ (32 - n)"
| "sample_contains (Net a n) (V6 b) \<longleftrightarrow> False"

text \<open>A few named networks.\<close>

definition sample_nets :: "(string \<times> sample_net) list" where
  "sample_nets =
     [(''10.0.0.0/8'', Net 167772160 8), (''192.168.1.0/24'', Net 3232235776 24),
      (''0.0.0.0/0'', Net 0 0)]"

definition sample_net_from_str :: "string \<Rightarrow> string + sample_net" where
  "sample_net_from_str s =
     (case map_of sample_nets s of Some n \<Rightarrow> Inr n | None \<Rightarrow> Inl ''invalid IP address syntax'')"

end
