(* ===== verification/Ip_Restriction.thy ===== *)
theory Ip_Restriction
  imports Middleware Sample_World
begin

text \<open>
  \<^verbatim>\<open>src/middlewares/ip_restriction.rs\<close>: the access-control lists of a route, checked against the
  client's address. Whether a network contains an address is \<^verbatim>\<open>ipnet\<close>'s \<^verbatim>\<open>IpNet::contains\<close>, a
  parameter.
\<close>

section \<open>The middleware\<close>

text \<open>A loop over the networks of a list that leaves at the first one containing the address.\<close>

fun any_contains :: "('net \<Rightarrow> ip_addr \<Rightarrow> bool) \<Rightarrow> 'net list \<Rightarrow> ip_addr \<Rightarrow> bool" where
  "any_contains contains [] ip = False"
| "any_contains contains (block # blocks) ip =
     (if contains block ip then True else any_contains contains blocks ip)"

definition ip_reject :: "'w session_api \<Rightarrow> (('w, 'net) req, middleware_decision) hook" where
  "ip_reject api s =
     try_then (map_err (\<lambda>e. Gateway (AclError (show_error api e))) (on_world (respond_error api 403) s))
       (\<lambda>_ s. (Ok Stop, s))"

definition ip_handle_request ::
  "('net \<Rightarrow> ip_addr \<Rightarrow> bool) \<Rightarrow> 'w session_api \<Rightarrow> (('w, 'net) req, middleware_decision) hook" where
  "ip_handle_request contains api s =
     (case get_route_entry (snd s) of
        None \<Rightarrow> (Ok Continue, s)
      | Some route \<Rightarrow>
     (case re_access_control route of
        None \<Rightarrow> (Ok Continue, s)
      | Some acl \<Rightarrow>
     (case client_addr api (fst s) of
        None \<Rightarrow> (Ok Continue, s)
      | Some addr \<Rightarrow>
     (case as_inet addr of
        None \<Rightarrow> (Ok Continue, s)
      | Some sock_addr \<Rightarrow>
     (let ip = inet_ip sock_addr
      in if any_contains contains (cac_deny acl) ip then ip_reject api s
         else if any_contains contains (cac_allow acl) ip then (Ok Continue, s)
         else if cac_allow acl \<noteq> [] then ip_reject api s
         else (Ok Continue, s))))))"

definition ip_restriction_middleware ::
  "('net \<Rightarrow> ip_addr \<Rightarrow> bool) \<Rightarrow> 'w session_api \<Rightarrow> ('w, 'net, 'h) middleware" where
  "ip_restriction_middleware contains api =
     (default_middleware ''ip_restriction'')\<lparr>handle_request := ip_handle_request contains api\<rparr>"

section \<open>The policy it enforces\<close>

text \<open>An address passes when no denied network contains it and, if there is an allow list, some
  allowed network does.\<close>

definition acl_permits ::
  "('net \<Rightarrow> ip_addr \<Rightarrow> bool) \<Rightarrow> 'net compiled_access_control \<Rightarrow> ip_addr \<Rightarrow> bool" where
  "acl_permits contains acl ip \<longleftrightarrow>
     (\<forall>n \<in> set (cac_deny acl). \<not> contains n ip) \<and>
     (cac_allow acl = [] \<or> (\<exists>n \<in> set (cac_allow acl). contains n ip))"

text \<open>The address the check is made against, when the client has an internet address.\<close>

definition client_ip :: "'w session_api \<Rightarrow> 'w \<Rightarrow> ip_addr option" where
  "client_ip api w = map_option inet_ip (Option.bind (client_addr api w) as_inet)"

lemma any_contains_iff: "any_contains contains ns ip \<longleftrightarrow> (\<exists>n \<in> set ns. contains n ip)"
  by (induction ns) auto

lemma fst_ip_reject_not_Continue: "fst (ip_reject api s) \<noteq> Ok Continue"
  unfolding ip_reject_def
  by (cases "respond_error api 403 (fst s)"; cases "fst (respond_error api 403 (fst s))")
     (auto simp: on_world_def)

lemma ip_reject_state: "snd (ip_reject api s) = (snd (respond_error api 403 (fst s)), snd s)"
  unfolding ip_reject_def
  by (cases "respond_error api 403 (fst s)"; cases "fst (respond_error api 403 (fst s))")
     (auto simp: on_world_def)

lemma ip_handle_request_eq:
  "ip_handle_request contains api (w, c) =
     (case Option.bind (get_route_entry c) re_access_control of
        None \<Rightarrow> (Ok Continue, (w, c))
      | Some acl \<Rightarrow>
          (case client_ip api w of
             None \<Rightarrow> (Ok Continue, (w, c))
           | Some ip \<Rightarrow> if acl_permits contains acl ip then (Ok Continue, (w, c)) else ip_reject api (w, c)))"
  by (cases "get_route_entry c")
     (auto simp: ip_handle_request_def client_ip_def acl_permits_def any_contains_iff Let_def
       split: option.splits)

text \<open>
  C5. The access-control decision, on every path. A request whose route has no access list, or
  whose client has no internet address, is let through; otherwise it is let through, with nothing
  written and the context unchanged, exactly when no denied network contains the client's address
  and the allow list is empty or contains it. In every other case a 403 is written and the request
  does not continue, so a deny entry wins over any allow entry.
\<close>

theorem ip_decision:
  "(fst (ip_handle_request contains api (w, c)) = Ok Continue \<longleftrightarrow>
      (case (Option.bind (get_route_entry c) re_access_control, client_ip api w) of
         (Some acl, Some ip) \<Rightarrow> acl_permits contains acl ip
       | _ \<Rightarrow> True)) \<and>
   snd (ip_handle_request contains api (w, c)) =
     (if fst (ip_handle_request contains api (w, c)) = Ok Continue then (w, c)
      else (snd (respond_error api 403 w), c))"
  by (simp add: ip_handle_request_eq fst_ip_reject_not_Continue ip_reject_state split: option.splits)

section \<open>The contract\<close>

lemma ip_request_keeps: "P c \<Longrightarrow> P (snd (snd (ip_handle_request contains api (w, c))))"
  by (simp add: ip_handle_request_eq ip_reject_state split: option.splits)

interpretation ipr: middleware_contract "ip_restriction_middleware contains api" ctx_ok
  by unfold_locales
     (simp_all add: ip_restriction_middleware_def default_middleware_def continue_hook_def ip_request_keeps)

end
