(* ===== verification/Router.thy ===== *)
theory Router
  imports Ip_Restriction
begin

text \<open>
  \<^verbatim>\<open>src/upstreams/router.rs\<close>: from the configured routes to a routing table, and from a request's
  path and host to a route. The regular-expression engine (\<^verbatim>\<open>regex\<close>), the radix tree for literal
  and parameterised paths (\<^verbatim>\<open>matchit\<close>) and the CIDR parser (\<^verbatim>\<open>ipnet\<close>) are parameters. Routes are
  known by their index in the configuration.
\<close>

section \<open>The routing table\<close>

record ('re, 'mr) router_api =
  regex_new :: "string \<Rightarrow> string + 're"
  regex_is_match :: "'re \<Rightarrow> string \<Rightarrow> bool"
  matchit_new :: 'mr
  matchit_insert :: "string \<Rightarrow> nat \<Rightarrow> 'mr \<Rightarrow> string + 'mr"
  matchit_at :: "'mr \<Rightarrow> string \<Rightarrow> nat option"

record ('re, 'mr, 'net) router =
  regex_routes :: "('re \<times> nat) list"
  matchit_router :: 'mr
  route_registry :: "nat \<rightharpoonup> 'net route_entry"

text \<open>The loops over the blocks of an access list: the first one that does not parse is the error.\<close>

fun parse_blocks ::
  "(string \<Rightarrow> string + 'net) \<Rightarrow> 'net list \<Rightarrow> string list \<Rightarrow> pingora_guide_error + 'net list" where
  "parse_blocks from_str acc [] = Inr acc"
| "parse_blocks from_str acc (block # blocks) =
     (case from_str block of
        Inr net \<Rightarrow> parse_blocks from_str (acc @ [net]) blocks
      | Inl e \<Rightarrow> Inl (Gateway (AclError e)))"

definition compile_acl ::
  "(string \<Rightarrow> string + 'net) \<Rightarrow> route_conf \<Rightarrow>
   pingora_guide_error + 'net compiled_access_control option" where
  "compile_acl from_str route =
     (case r_access_control route of
        None \<Rightarrow> Inr None
      | Some acl \<Rightarrow>
     (case parse_blocks from_str [] (acc_deny acl) of
        Inl e \<Rightarrow> Inl e
      | Inr deny \<Rightarrow>
     (case parse_blocks from_str [] (acc_allow acl) of
        Inl e \<Rightarrow> Inl e
      | Inr allow \<Rightarrow>
          if allow \<noteq> [] \<or> deny \<noteq> [] then Inr (Some \<lparr>cac_allow = allow, cac_deny = deny\<rparr>)
          else Inr None)))"

definition quoted :: "string \<Rightarrow> string" where
  "quoted s = [CHR 0x27] @ s @ [CHR 0x27]"

definition route_error :: "string \<Rightarrow> pingora_guide_error + 'a" where
  "route_error text = Inl (Gateway (RouteError text))"

definition add_path ::
  "('re, 'mr) router_api \<Rightarrow> nat \<Rightarrow> route_conf \<Rightarrow> ('re, 'mr, 'net) router \<Rightarrow>
   pingora_guide_error + ('re, 'mr, 'net) router" where
  "add_path api idx route rt =
     (case r_path_type route of
        Regex \<Rightarrow>
          (case regex_new api (r_path route) of
             Inr re \<Rightarrow> Inr (rt\<lparr>regex_routes := regex_routes rt @ [(re, idx)]\<rparr>)
           | Inl e \<Rightarrow> route_error (''Invalid Regex in configuration '' @ quoted (r_path route) @ '': '' @ e))
      | _ \<Rightarrow>
          if \<not> starts_with (r_path route) ''/''
          then route_error (''Warning: Prefix route '' @ quoted (r_path route) @ '' does not start with '' @ quoted ''/'')
          else (case matchit_insert api (r_path route) idx (matchit_router rt) of
                  Inr mr \<Rightarrow> Inr (rt\<lparr>matchit_router := mr\<rparr>)
                | Inl e \<Rightarrow> route_error (''Failed to insert route '' @ quoted (r_path route) @ '': '' @ e)))"

definition add_route ::
  "('re, 'mr) router_api \<Rightarrow> (string \<Rightarrow> string + 'net) \<Rightarrow> nat \<Rightarrow> route_conf \<Rightarrow> ('re, 'mr, 'net) router \<Rightarrow>
   pingora_guide_error + ('re, 'mr, 'net) router" where
  "add_route api from_str idx route rt =
     (case add_path api idx route rt of
        Inl e \<Rightarrow> Inl e
      | Inr rt' \<Rightarrow>
     (case compile_acl from_str route of
        Inl e \<Rightarrow> Inl e
      | Inr acl_option \<Rightarrow>
          Inr (rt'\<lparr>route_registry :=
            (route_registry rt')(idx \<mapsto> \<lparr>re_conf = route, re_access_control = acl_option\<rparr>)\<rparr>)))"

fun add_routes ::
  "('re, 'mr) router_api \<Rightarrow> (string \<Rightarrow> string + 'net) \<Rightarrow> nat \<Rightarrow> route_conf list \<Rightarrow>
   ('re, 'mr, 'net) router \<Rightarrow> pingora_guide_error + ('re, 'mr, 'net) router" where
  "add_routes api from_str idx [] rt = Inr rt"
| "add_routes api from_str idx (route # routes) rt =
     (case add_route api from_str idx route rt of
        Inl e \<Rightarrow> Inl e
      | Inr rt' \<Rightarrow> add_routes api from_str (Suc idx) routes rt')"

definition router_new ::
  "('re, 'mr) router_api \<Rightarrow> (string \<Rightarrow> string + 'net) \<Rightarrow> gateway_conf \<Rightarrow>
   pingora_guide_error + ('re, 'mr, 'net) router" where
  "router_new api from_str conf =
     add_routes api from_str 0 (g_routes conf)
       \<lparr>regex_routes = [], matchit_router = matchit_new api, route_registry = Map.empty\<rparr>"

section \<open>Matching a request\<close>

definition validate_host :: "route_conf \<Rightarrow> string option \<Rightarrow> bool" where
  "validate_host route host =
     (case r_hostnames route of
        Some allowed_hosts \<Rightarrow>
          (case host of
             Some h \<Rightarrow> list_ex (\<lambda>allowed. allowed = h) allowed_hosts
           | None \<Rightarrow> False)
      | None \<Rightarrow> True)"

text \<open>Indexing the registry panics on a missing key.\<close>

definition no_entry :: "('e, 'a) outcome" where
  "no_entry = Panic ''no entry found for key''"

fun match_regexes ::
  "('re, 'mr) router_api \<Rightarrow> (nat \<rightharpoonup> 'net route_entry) \<Rightarrow> string \<Rightarrow> string option \<Rightarrow> ('re \<times> nat) list \<Rightarrow>
   ('e, 'net route_entry option) outcome" where
  "match_regexes api reg path host [] = Ok None"
| "match_regexes api reg path host ((re, i) # rest) =
     (if regex_is_match api re path
      then (case reg i of
              None \<Rightarrow> no_entry
            | Some route \<Rightarrow>
                if validate_host (re_conf route) host then Ok (Some route)
                else match_regexes api reg path host rest)
      else match_regexes api reg path host rest)"

definition match_request ::
  "('re, 'mr) router_api \<Rightarrow> ('re, 'mr, 'net) router \<Rightarrow> string \<Rightarrow> string option \<Rightarrow>
   ('e, 'net route_entry option) outcome" where
  "match_request api self path host =
     (case matchit_at api (matchit_router self) path of
        None \<Rightarrow> match_regexes api (route_registry self) path host (regex_routes self)
      | Some i \<Rightarrow>
          (case route_registry self i of
             None \<Rightarrow> no_entry
           | Some route \<Rightarrow>
               if r_path_type (re_conf route) = Exact \<and> path \<noteq> r_path (re_conf route) then Ok None
               else if validate_host (re_conf route) host then Ok (Some route)
               else match_regexes api (route_registry self) path host (regex_routes self)))"

section \<open>Access lists\<close>

lemma parse_blocks_iff:
  "parse_blocks from_str acc bs = Inr ns \<longleftrightarrow> (\<exists>ms. ns = acc @ ms \<and> map from_str bs = map Inr ms)"
proof (induction bs arbitrary: acc)
  case (Cons b bs)
  show ?case
  proof (cases "from_str b")
    case (Inr n)
    with Cons.IH show ?thesis
      by (auto simp: Cons_eq_map_conv)
  qed auto
qed auto

text \<open>What a compiled list holds: the configured blocks, parsed, in order; none when both lists
  are empty or the route has none.\<close>

definition acl_compiled ::
  "(string \<Rightarrow> string + 'net) \<Rightarrow> route_conf \<Rightarrow> 'net compiled_access_control option \<Rightarrow> bool" where
  "acl_compiled from_str route acl \<longleftrightarrow>
     (case r_access_control route of
        None \<Rightarrow> acl = None
      | Some conf \<Rightarrow>
          (case acl of
             None \<Rightarrow> acc_deny conf = [] \<and> acc_allow conf = []
           | Some a \<Rightarrow> map from_str (acc_deny conf) = map Inr (cac_deny a) \<and>
                       map from_str (acc_allow conf) = map Inr (cac_allow a)))"

lemma compile_acl_Inr: "compile_acl from_str route = Inr acl \<Longrightarrow> acl_compiled from_str route acl"
  by (auto simp: compile_acl_def acl_compiled_def split: option.splits sum.splits if_splits
      simp: parse_blocks_iff)

section \<open>What a successfully built table contains\<close>

text \<open>\<^verbatim>\<open>matchit\<close>, as documented: an empty tree matches nothing, and a lookup only yields values that
  were inserted.\<close>

definition matchit_law :: "('re, 'mr) router_api \<Rightarrow> bool" where
  "matchit_law api \<longleftrightarrow>
     (\<forall>p. matchit_at api (matchit_new api) p = None) \<and>
     (\<forall>mr mr' q i p v. matchit_insert api q i mr = Inr mr' \<longrightarrow> matchit_at api mr' p = Some v \<longrightarrow>
        v = i \<or> (\<exists>p'. matchit_at api mr p' = Some v))"

text \<open>The regular-expression routes of a configuration, in order, with the indices starting at \<open>k\<close>.\<close>

fun regex_table :: "('re, 'mr) router_api \<Rightarrow> nat \<Rightarrow> route_conf list \<Rightarrow> ('re \<times> nat) list" where
  "regex_table api k [] = []"
| "regex_table api k (r # rs) =
     (case (r_path_type r, regex_new api (r_path r)) of
        (Regex, Inr re) \<Rightarrow> (re, k) # regex_table api (Suc k) rs
      | _ \<Rightarrow> regex_table api (Suc k) rs)"

text \<open>A route the constructor accepts.\<close>

definition route_valid ::
  "('re, 'mr) router_api \<Rightarrow> (string \<Rightarrow> string + 'net) \<Rightarrow> route_conf \<Rightarrow> bool" where
  "route_valid api from_str r \<longleftrightarrow>
     (if r_path_type r = Regex then (\<exists>re. regex_new api (r_path r) = Inr re)
      else starts_with (r_path r) ''/'') \<and>
     (\<forall>acl. r_access_control r = Some acl \<longrightarrow>
        (\<forall>b \<in> set (acc_deny acl) \<union> set (acc_allow acl). \<exists>n. from_str b = Inr n))"

definition entry_of :: "(string \<Rightarrow> string + 'net) \<Rightarrow> route_conf \<Rightarrow> 'net route_entry \<Rightarrow> bool" where
  "entry_of from_str r e \<longleftrightarrow> re_conf e = r \<and> acl_compiled from_str r (re_access_control e)"

lemma acl_blocks_parse:
  assumes "map from_str bs = map Inr ms" and "b \<in> set bs"
  shows "\<exists>n. from_str b = Inr n"
proof -
  from assms(2) have "from_str b \<in> set (map from_str bs)"
    by simp
  with assms(1) show ?thesis
    by auto
qed

lemma compile_acl_valid:
  assumes "acl_compiled from_str route a" and "r_access_control route = Some acl"
    and "b \<in> set (acc_deny acl) \<union> set (acc_allow acl)"
  shows "\<exists>n. from_str b = Inr n"
  using assms by (cases a) (auto simp: acl_compiled_def dest: acl_blocks_parse)

lemma add_route_Inr:
  assumes "add_route api from_str k r rt = Inr rt'"
  shows "route_valid api from_str r"
    and "\<exists>e. entry_of from_str r e \<and> route_registry rt' = (route_registry rt)(k \<mapsto> e)"
    and "regex_routes rt' = regex_routes rt @ regex_table api k [r]"
    and "matchit_router rt' = matchit_router rt \<or>
         r_path_type r \<noteq> Regex \<and>
         matchit_insert api (r_path r) k (matchit_router rt) = Inr (matchit_router rt')"
proof -
  from assms obtain rt1 acl where path: "add_path api k r rt = Inr rt1"
    and acl: "compile_acl from_str r = Inr acl"
    and rt': "rt' = rt1\<lparr>route_registry := (route_registry rt1)(k \<mapsto> \<lparr>re_conf = r, re_access_control = acl\<rparr>)\<rparr>"
    by (auto simp: add_route_def split: sum.splits)
  from acl have compiled: "acl_compiled from_str r acl"
    by (rule compile_acl_Inr)
  show "route_valid api from_str r"
    using path compile_acl_valid [OF compiled]
    by (auto simp: route_valid_def add_path_def route_error_def split: path_type.splits sum.splits if_splits)
  have "route_registry rt1 = route_registry rt"
    using path by (auto simp: add_path_def route_error_def split: path_type.splits sum.splits if_splits)
  with compiled show "\<exists>e. entry_of from_str r e \<and> route_registry rt' = (route_registry rt)(k \<mapsto> e)"
    by (intro exI [of _ "\<lparr>re_conf = r, re_access_control = acl\<rparr>"]) (simp add: rt' entry_of_def)
  show "regex_routes rt' = regex_routes rt @ regex_table api k [r]"
    using path by (auto simp: rt' add_path_def route_error_def split: path_type.splits sum.splits if_splits)
  show "matchit_router rt' = matchit_router rt \<or>
      r_path_type r \<noteq> Regex \<and>
      matchit_insert api (r_path r) k (matchit_router rt) = Inr (matchit_router rt')"
    using path by (auto simp: rt' add_path_def route_error_def split: path_type.splits sum.splits if_splits)
qed

lemma add_routes_Cons_Inr:
  assumes "add_routes api from_str k (r # rs) rt = Inr rt'"
  obtains rt1 where "add_route api from_str k r rt = Inr rt1"
    and "add_routes api from_str (Suc k) rs rt1 = Inr rt'"
  using assms by (auto split: sum.splits)

lemma regex_table_Cons: "regex_table api k (r # rs) = regex_table api k [r] @ regex_table api (Suc k) rs"
  by (auto split: path_type.splits sum.splits)

lemma add_routes_regexes:
  "add_routes api from_str k rs rt = Inr rt' \<Longrightarrow> regex_routes rt' = regex_routes rt @ regex_table api k rs"
proof (induction rs arbitrary: k rt)
  case (Cons r rs)
  from Cons.prems obtain rt1 where "add_route api from_str k r rt = Inr rt1"
    and "add_routes api from_str (Suc k) rs rt1 = Inr rt'"
    by (rule add_routes_Cons_Inr)
  with Cons.IH add_route_Inr(3) show ?case
    by (metis append.assoc regex_table_Cons)
qed simp

lemma add_routes_valid:
  "add_routes api from_str k rs rt = Inr rt' \<Longrightarrow> r \<in> set rs \<Longrightarrow> route_valid api from_str r"
proof (induction rs arbitrary: k rt)
  case (Cons q rs)
  from Cons.prems(1) obtain rt1 where "add_route api from_str k q rt = Inr rt1"
    and "add_routes api from_str (Suc k) rs rt1 = Inr rt'"
    by (rule add_routes_Cons_Inr)
  with Cons.IH Cons.prems(2) add_route_Inr(1) show ?case
    by auto
qed simp

lemma add_routes_registry_below:
  "add_routes api from_str k rs rt = Inr rt' \<Longrightarrow> i < k \<Longrightarrow> route_registry rt' i = route_registry rt i"
proof (induction rs arbitrary: k rt)
  case (Cons r rs)
  from Cons.prems(1) obtain rt1 where r: "add_route api from_str k r rt = Inr rt1"
    and rs: "add_routes api from_str (Suc k) rs rt1 = Inr rt'"
    by (rule add_routes_Cons_Inr)
  from Cons.IH [OF rs] Cons.prems(2) have "route_registry rt' i = route_registry rt1 i"
    by simp
  with add_route_Inr(2) [OF r] Cons.prems(2) show ?case
    by auto
qed simp

lemma add_routes_registry:
  "add_routes api from_str k rs rt = Inr rt' \<Longrightarrow> i < length rs \<Longrightarrow>
     \<exists>e. route_registry rt' (k + i) = Some e \<and> entry_of from_str (rs ! i) e"
proof (induction rs arbitrary: k rt i)
  case (Cons r rs)
  from Cons.prems(1) obtain rt1 where r: "add_route api from_str k r rt = Inr rt1"
    and rs: "add_routes api from_str (Suc k) rs rt1 = Inr rt'"
    by (rule add_routes_Cons_Inr)
  show ?case
  proof (cases i)
    case 0
    with add_route_Inr(2) [OF r] add_routes_registry_below [OF rs, of k] show ?thesis
      by auto
  next
    case (Suc j)
    with Cons.IH [OF rs, of j] Cons.prems(2) show ?thesis
      by simp
  qed
qed simp

lemma add_routes_matchit:
  assumes "matchit_law api"
  shows "add_routes api from_str k rs rt = Inr rt' \<Longrightarrow> matchit_at api (matchit_router rt') p = Some v \<Longrightarrow>
     (\<exists>p'. matchit_at api (matchit_router rt) p' = Some v) \<or>
     (k \<le> v \<and> v < k + length rs \<and> r_path_type (rs ! (v - k)) \<noteq> Regex)"
proof (induction rs arbitrary: k rt)
  case (Cons r rs)
  from Cons.prems(1) obtain rt1 where r: "add_route api from_str k r rt = Inr rt1"
    and rs: "add_routes api from_str (Suc k) rs rt1 = Inr rt'"
    by (rule add_routes_Cons_Inr)
  from Cons.IH [OF rs Cons.prems(2)] show ?case
  proof
    assume "Suc k \<le> v \<and> v < Suc k + length rs \<and> r_path_type (rs ! (v - Suc k)) \<noteq> Regex"
    then show ?thesis
      by (auto simp: nth_Cons' Suc_diff_le)
  next
    assume "\<exists>p'. matchit_at api (matchit_router rt1) p' = Some v"
    with add_route_Inr(4) [OF r] assms
    have "(\<exists>p'. matchit_at api (matchit_router rt) p' = Some v) \<or> v = k \<and> r_path_type r \<noteq> Regex"
      unfolding matchit_law_def by metis
    then show ?thesis
      by auto
  qed
qed auto

section \<open>Matching over a built table\<close>

text \<open>
  The intended meaning of a match, over the configuration alone: the literal route the path tree
  finds, unless it is an exact route for another path (then none); if its host does not fit, or
  the tree finds nothing, the first regular-expression route of the configuration whose pattern and
  host both fit.
\<close>

definition regex_fits ::
  "('re, 'mr) router_api \<Rightarrow> string \<Rightarrow> string option \<Rightarrow> route_conf \<Rightarrow> bool" where
  "regex_fits api path host r \<longleftrightarrow>
     r_path_type r = Regex \<and>
     (case regex_new api (r_path r) of Inr re \<Rightarrow> regex_is_match api re path | Inl e \<Rightarrow> False) \<and>
     validate_host r host"

definition spec_match ::
  "('re, 'mr) router_api \<Rightarrow> route_conf list \<Rightarrow> nat option \<Rightarrow> string \<Rightarrow> string option \<Rightarrow> route_conf option" where
  "spec_match api routes literal path host =
     (let regex = find (regex_fits api path host) routes
      in case literal of
           None \<Rightarrow> regex
         | Some i \<Rightarrow>
             (let r = routes ! i
              in if r_path_type r = Exact \<and> path \<noteq> r_path r then None
                 else if validate_host r host then Some r else regex))"

lemma match_regexes_step:
  assumes "reg k = Some e" and "re_conf e = r"
  shows "match_regexes api reg path host (regex_table api k (r # rs)) =
    (if regex_fits api path host r then Ok (Some e)
     else match_regexes api reg path host (regex_table api (Suc k) rs))"
  using assms by (auto simp: regex_fits_def split: path_type.splits sum.splits)

declare regex_table.simps(2) [simp del]

lemma match_regexes_spec:
  fixes reg :: "nat \<rightharpoonup> 'net route_entry"
  assumes "\<And>i. i < length rs \<Longrightarrow> \<exists>e. reg (k + i) = Some e \<and> entry_of from_str (rs ! i) e"
  shows "case find (regex_fits api path host) rs of
      None \<Rightarrow> match_regexes api reg path host (regex_table api k rs) =
        (Ok None :: ('e, 'net route_entry option) outcome)
    | Some r \<Rightarrow> \<exists>e. entry_of from_str r e \<and>
        match_regexes api reg path host (regex_table api k rs) =
        (Ok (Some e) :: ('e, 'net route_entry option) outcome)"
  using assms
proof (induction rs arbitrary: k)
  case (Cons r rs)
  from Cons.prems [of 0] obtain e where e: "reg k = Some e" "entry_of from_str r e"
    by auto
  have IH: "case find (regex_fits api path host) rs of
      None \<Rightarrow> match_regexes api reg path host (regex_table api (Suc k) rs) =
        (Ok None :: ('e, 'net route_entry option) outcome)
    | Some r \<Rightarrow> \<exists>e. entry_of from_str r e \<and>
        match_regexes api reg path host (regex_table api (Suc k) rs) =
        (Ok (Some e) :: ('e, 'net route_entry option) outcome)"
    by (rule Cons.IH) (use Cons.prems [of "Suc i" for i] in auto)
  have "re_conf e = r"
    using e(2) by (simp add: entry_of_def)
  from match_regexes_step [of reg k e r api path host rs, OF e(1) this] IH e(2) show ?case
    by (cases "regex_fits api path host r") (auto split: option.splits)
qed simp

lemma router_new_table:
  assumes "router_new api from_str conf = Inr rt"
  shows "regex_routes rt = regex_table api 0 (g_routes conf)"
    and "i < length (g_routes conf) \<Longrightarrow>
      \<exists>e. route_registry rt i = Some e \<and> entry_of from_str (g_routes conf ! i) e"
    and "r \<in> set (g_routes conf) \<Longrightarrow> route_valid api from_str r"
    and "matchit_law api \<Longrightarrow> matchit_at api (matchit_router rt) p = Some v \<Longrightarrow>
      v < length (g_routes conf) \<and> r_path_type (g_routes conf ! v) \<noteq> Regex"
proof -
  note rs = assms [unfolded router_new_def]
  show "regex_routes rt = regex_table api 0 (g_routes conf)"
    using add_routes_regexes [OF rs] by simp
  show "\<exists>e. route_registry rt i = Some e \<and> entry_of from_str (g_routes conf ! i) e"
    if "i < length (g_routes conf)"
    using add_routes_registry [OF rs that] by simp
  show "route_valid api from_str r" if "r \<in> set (g_routes conf)"
    using add_routes_valid [OF rs that] .
  show "v < length (g_routes conf) \<and> r_path_type (g_routes conf ! v) \<noteq> Regex"
    if law: "matchit_law api" and at: "matchit_at api (matchit_router rt) p = Some v"
    using add_routes_matchit [OF law rs at] law by (simp add: matchit_law_def)
qed

text \<open>Every answer of a built router, against the specification.\<close>

lemma match_request_spec:
  fixes rt :: "('re, 'mr, 'net) router"
  assumes new: "router_new api from_str conf = Inr rt" and law: "matchit_law api"
  shows "case spec_match api (g_routes conf) (matchit_at api (matchit_router rt) path) path host of
      None \<Rightarrow> match_request api rt path host = (Ok None :: ('e, 'net route_entry option) outcome)
    | Some r \<Rightarrow> \<exists>e. entry_of from_str r e \<and> match_request api rt path host = (Ok (Some e) :: ('e, 'net route_entry option) outcome)"
proof -
  note table = router_new_table [OF new]
  have regexes: "case find (regex_fits api path host) (g_routes conf) of
      None \<Rightarrow> match_regexes api (route_registry rt) path host (regex_routes rt) =
        (Ok None :: ('e, 'net route_entry option) outcome)
    | Some r \<Rightarrow> \<exists>e. entry_of from_str r e \<and>
        match_regexes api (route_registry rt) path host (regex_routes rt) =
        (Ok (Some e) :: ('e, 'net route_entry option) outcome)"
    unfolding table(1) by (rule match_regexes_spec) (use table(2) in simp)
  show ?thesis
  proof (cases "matchit_at api (matchit_router rt) path")
    case None
    with regexes show ?thesis
      by (simp add: match_request_def spec_match_def split: option.splits)
  next
    case (Some i)
    with table(4) [OF law] have "i < length (g_routes conf)"
      by simp
    from table(2) [OF this] obtain e where "route_registry rt i = Some e"
      and "entry_of from_str (g_routes conf ! i) e"
      by auto
    with Some regexes show ?thesis
      by (auto simp: match_request_def spec_match_def Let_def entry_of_def split: option.splits)
  qed
qed

text \<open>A route that is served is a configured one.\<close>

lemma match_request_configured:
  assumes "router_new api from_str conf = Inr rt" and "matchit_law api"
    and "match_request api rt path host = (Ok (Some e) :: ('e, 'net route_entry option) outcome)"
  shows "re_conf e \<in> set (g_routes conf)"
proof -
  have find: "find P xs = Some x \<Longrightarrow> x \<in> set xs" for P :: "route_conf \<Rightarrow> bool" and xs x
    by (auto simp: find_Some_iff)
  from match_request_spec [OF assms(1,2), of path host, where 'e = 'e] assms(3)
  have "spec_match api (g_routes conf) (matchit_at api (matchit_router rt) path) path host = Some (re_conf e)"
    by (auto simp: entry_of_def split: option.splits)
  moreover have "g_routes conf ! i \<in> set (g_routes conf)"
    if "matchit_at api (matchit_router rt) path = Some i" for i
    using router_new_table(4) [OF assms(1,2) that] by simp
  ultimately show ?thesis
    by (auto simp: spec_match_def Let_def split: option.splits if_splits dest: find)
qed

lemma validate_host_iff:
  "validate_host r host \<longleftrightarrow>
     (case r_hostnames r of None \<Rightarrow> True | Some hs \<Rightarrow> \<exists>h \<in> set hs. host = Some h)"
  by (auto simp: validate_host_def list_ex_iff split: option.splits)

lemma match_regexes_host:
  "match_regexes api reg path host rs = Ok (Some e) \<Longrightarrow> validate_host (re_conf e) host"
  by (induction rs) (auto simp: no_entry_def split: if_splits option.splits)

section \<open>Literal paths\<close>

text \<open>
  A path pattern without braces has no parameters. \<^verbatim>\<open>matchit\<close>, as documented: such a pattern matches
  exactly itself, before any pattern with parameters, and takes no other path from the patterns already
  there.
\<close>

definition literal_path :: "string \<Rightarrow> bool" where
  "literal_path q \<longleftrightarrow> CHR 0x7B \<notin> set q \<and> CHR 0x7D \<notin> set q"

definition literal_law :: "('re, 'mr) router_api \<Rightarrow> bool" where
  "literal_law api \<longleftrightarrow>
     (\<forall>mr mr' q i p. literal_path q \<longrightarrow> matchit_insert api q i mr = Inr mr' \<longrightarrow>
        matchit_at api mr' p = (if p = q then Some i else matchit_at api mr p))"

text \<open>The last literal route with the given path, the indices starting at \<open>k\<close>.\<close>

fun literal_index :: "nat \<Rightarrow> route_conf list \<Rightarrow> string \<Rightarrow> nat option \<Rightarrow> nat option" where
  "literal_index k [] p found = found"
| "literal_index k (r # rs) p found =
     literal_index (Suc k) rs p (if r_path_type r \<noteq> Regex \<and> p = r_path r then Some k else found)"

lemma add_route_literal:
  assumes "literal_law api" and "r_path_type r \<noteq> Regex \<Longrightarrow> literal_path (r_path r)"
    and "add_route api from_str k r rt = Inr rt'"
  shows "matchit_at api (matchit_router rt') p =
    (if r_path_type r \<noteq> Regex \<and> p = r_path r then Some k else matchit_at api (matchit_router rt) p)"
proof (cases "r_path_type r = Regex")
  case True
  with add_route_Inr(4) [OF assms(3)] show ?thesis
    by auto
next
  case False
  with assms(3) have "matchit_insert api (r_path r) k (matchit_router rt) = Inr (matchit_router rt')"
    by (auto simp: add_route_def add_path_def route_error_def
        split: path_type.splits sum.splits if_splits)
  with False assms(1,2) show ?thesis
    unfolding literal_law_def by auto
qed

lemma add_routes_literal:
  assumes "literal_law api"
  shows "\<forall>r \<in> set rs. r_path_type r \<noteq> Regex \<longrightarrow> literal_path (r_path r) \<Longrightarrow>
    add_routes api from_str k rs rt = Inr rt' \<Longrightarrow>
    matchit_at api (matchit_router rt') p = literal_index k rs p (matchit_at api (matchit_router rt) p)"
proof (induction rs arbitrary: k rt)
  case (Cons r rs)
  from Cons.prems(2) obtain rt1 where r: "add_route api from_str k r rt = Inr rt1"
    and rs: "add_routes api from_str (Suc k) rs rt1 = Inr rt'"
    by (rule add_routes_Cons_Inr)
  from Cons.IH [OF _ rs] Cons.prems(1) add_route_literal [OF assms _ r, of p] show ?case
    by simp
qed simp

lemma router_new_literal:
  assumes "literal_law api" and "matchit_law api" and "router_new api from_str conf = Inr rt"
    and "\<forall>r \<in> set (g_routes conf). r_path_type r \<noteq> Regex \<longrightarrow> literal_path (r_path r)"
  shows "matchit_at api (matchit_router rt) p = literal_index 0 (g_routes conf) p None"
  using add_routes_literal [OF assms(1,4) assms(3) [unfolded router_new_def], of p] assms(2)
  by (simp add: matchit_law_def)

section \<open>The test configuration of the source\<close>

text \<open>\<^verbatim>\<open>make_test_router\<close> of the unit tests, over a small path tree and pattern engine: a pattern
  matches the paths that start with its text between the caret and the first backslash; a path
  ending in a catch-all matches by prefix, any other exactly.\<close>

definition test_routes :: "route_conf list" where
  "test_routes =
     [default_route\<lparr>r_path := ''^/api/v'' @ [CHR 0x5C] @ ''d+'', r_path_type := Regex,
        r_upstream_id := ''api-cluster'', r_hostnames := None\<rparr>,
      default_route\<lparr>r_path := ''^/admin'', r_path_type := Regex,
        r_upstream_id := ''admin-cluster'', r_hostnames := Some [''admin.local'']\<rparr>,
      default_route\<lparr>r_path := ''/static/{*path}'', r_path_type := Prefix,
        r_upstream_id := ''static-cluster'', r_hostnames := None\<rparr>,
      default_route\<lparr>r_path := ''/login'', r_path_type := Exact,
        r_upstream_id := ''auth-cluster'', r_hostnames := None\<rparr>]"

definition test_conf :: gateway_conf where
  "test_conf = default_gateway\<lparr>g_routes := test_routes\<rparr>"

fun sample_path_fits :: "string \<Rightarrow> string \<Rightarrow> bool" where
  "sample_path_fits [] p \<longleftrightarrow> p = []"
| "sample_path_fits (c # cs) p \<longleftrightarrow>
     (if c = CHR 0x7B then p \<noteq> [] else (case p of [] \<Rightarrow> False | d # ds \<Rightarrow> c = d \<and> sample_path_fits cs ds))"

definition sample_router_api :: "(string, (string \<times> nat) list) router_api" where
  "sample_router_api =
     \<lparr>regex_new = (\<lambda>s. if starts_with s ''^'' then Inr (takeWhile (\<lambda>c. c \<noteq> CHR 0x5C) (tl s)) else Inl ''unsupported''),
      regex_is_match = (\<lambda>re p. starts_with p re),
      matchit_new = [],
      matchit_insert = (\<lambda>q i mr. if q \<in> fst ` set mr then Inl ''conflict'' else Inr (mr @ [(q, i)])),
      matchit_at = (\<lambda>mr p. map_option snd (find (\<lambda>x. sample_path_fits (fst x) p) mr))\<rparr>"

lemma sample_matchit_law: "matchit_law sample_router_api"
proof -
  have split: "find P (xs @ [x]) = (case find P xs of Some y \<Rightarrow> Some y | None \<Rightarrow> if P x then Some x else None)"
    for P :: "string \<times> nat \<Rightarrow> bool" and xs x
    by (induction xs) auto
  show ?thesis
    unfolding matchit_law_def
    by (auto simp: sample_router_api_def split split: option.splits if_splits)
qed

text \<open>
  C3. Routing is correct over the configuration. Once a router was built, matching a request never
  reaches the registry's panic and returns the route the specification picks: the literal route
  found by the path tree (none at all if that is an exact route for another path), else the first
  regular-expression route in configuration order whose pattern and host fit, else none; and the
  entry returned carries exactly the parsed access lists of its route.
\<close>

theorem match_request_correct:
  assumes "router_new api from_str conf = Inr rt" and "matchit_law api"
  shows "\<exists>m. match_request api rt path host = Ok m \<and>
    map_option re_conf m =
      spec_match api (g_routes conf) (matchit_at api (matchit_router rt) path) path host \<and>
    (case m of None \<Rightarrow> True | Some e \<Rightarrow> acl_compiled from_str (re_conf e) (re_access_control e))"
  using match_request_spec [OF assms, of path host] by (auto simp: entry_of_def split: option.splits)

definition test_router :: "(string, (string \<times> nat) list, sample_net) router" where
  "test_router = projr (router_new sample_router_api sample_net_from_str test_conf)"

lemmas sample_router_eval =
  router_new_def test_conf_def default_gateway_def test_routes_def default_route_def add_route_def
  add_path_def compile_acl_def sample_router_api_def starts_with_def

lemma test_router_built:
  "router_new sample_router_api sample_net_from_str test_conf = Inr test_router"
  unfolding test_router_def by (simp add: sample_router_eval)

theorem match_request_correct_witness:
  "\<exists>m. match_request sample_router_api test_router ''/admin/settings'' (Some ''admin.local'') = Ok m \<and>
    map_option re_conf m =
      spec_match sample_router_api (g_routes test_conf)
        (matchit_at sample_router_api (matchit_router test_router) ''/admin/settings'')
        ''/admin/settings'' (Some ''admin.local'') \<and>
    (case m of None \<Rightarrow> True | Some e \<Rightarrow> acl_compiled sample_net_from_str (re_conf e) (re_access_control e))"
  by (rule match_request_correct [OF test_router_built sample_matchit_law])

text \<open>
  C4. Host-restricted routes are never served for another host. Whatever routing table is used, a
  route returned for a request either has no host list or lists the request's host; a request
  without a host never gets a route that has a host list.
\<close>

theorem host_enforced:
  assumes "match_request api rt path host = Ok (Some e)"
  shows "case r_hostnames (re_conf e) of None \<Rightarrow> True | Some hs \<Rightarrow> \<exists>h \<in> set hs. host = Some h"
proof -
  have "validate_host (re_conf e) host"
    using assms match_regexes_host
    by (fastforce simp: match_request_def no_entry_def split: option.splits if_splits)
  then show ?thesis
    by (simp add: validate_host_iff)
qed

theorem host_enforced_witness:
  "\<exists>e. match_request sample_router_api test_router ''/admin/x'' (Some ''admin.local'') =
      (Ok (Some e) :: (unit, sample_net route_entry option) outcome) \<and>
    r_upstream_id (re_conf e) = ''admin-cluster'' \<and>
    (case r_hostnames (re_conf e) of None \<Rightarrow> True | Some hs \<Rightarrow> \<exists>h \<in> set hs. Some ''admin.local'' = Some h)"
proof -
  obtain e where e: "match_request sample_router_api test_router ''/admin/x'' (Some ''admin.local'') =
      (Ok (Some e) :: (unit, sample_net route_entry option) outcome)"
    and "r_upstream_id (re_conf e) = ''admin-cluster''"
    by (simp add: test_router_def sample_router_eval match_request_def validate_host_def)
  with host_enforced [OF e] show ?thesis
    by blast
qed

text \<open>
  C31. The constructor validates the whole configuration: when a router is built, every
  regular-expression route's pattern compiled, every other route's path starts with a slash, and
  every block of every route's access lists parsed. So one bad route anywhere fails the whole
  construction.
\<close>

theorem router_new_validates:
  assumes "router_new api from_str conf = Inr rt" and "r \<in> set (g_routes conf)"
  shows "route_valid api from_str r"
  by (rule router_new_table(3) [OF assms])

theorem router_new_validates_witness:
  "route_valid sample_router_api sample_net_from_str (test_routes ! 3)"
  by (rule router_new_validates [OF test_router_built]) (simp add: test_conf_def test_routes_def)

end
