(* ===== verification/Upstream.thy ===== *)
theory Upstream
  imports Middleware Sample_World
begin

text \<open>
  \<^verbatim>\<open>src/upstream.rs\<close> and the part the two upstream kinds share: a \<^verbatim>\<open>Box<dyn Upstream>\<close> is the
  function that selects a peer; before connecting, the peer's options are set from the cluster
  options in the same way by both kinds, and the chosen address and SNI are noted in the request's
  metadata.
\<close>

section \<open>The interface\<close>

type_synonym ('w, 'net) upstream = "(('w, 'net) req, http_peer) hook"

section \<open>What both implementations do\<close>

definition apply_options :: "cluster_options \<Rightarrow> cert_ref option \<Rightarrow> http_peer \<Rightarrow> http_peer" where
  "apply_options options client_cert peer =
     (let peer = peer\<lparr>p_connection_timeout := Some (connect_timeout options),
                      p_read_timeout := Some (read_timeout options),
                      p_write_timeout := Some (write_timeout options),
                      p_idle_timeout := idle_timeout options,
                      p_alpn := (if co_enable_h2 options then H2H1 else H1),
                      p_verify_hostname := verify_hostname options\<rparr>
      in case client_cert of
           Some cert \<Rightarrow> peer\<lparr>p_client_cert_key := Some cert\<rparr>
         | None \<Rightarrow> peer)"

text \<open>\<^verbatim>\<open>if let Some(meta) = ctx.get_mut::<RequestMeta>() { \<dots> }\<close>.\<close>

definition note_peer :: "sock_addr \<Rightarrow> string \<Rightarrow> ('w, 'net) req \<Rightarrow> ('w, 'net) req" where
  "note_peer addr sni s =
     (case get_request_meta (snd s) of
        Some meta \<Rightarrow>
          (fst s, ctx_write (A_RequestMeta (meta\<lparr>peer_addr := Some addr, rm_sni := Some sni\<rparr>)) (snd s))
      | None \<Rightarrow> s)"

lemma fst_note_peer [simp]: "fst (note_peer a n s) = fst s"
  by (simp add: note_peer_def split: option.splits)

lemma note_peer_ok: "ctx_ok (snd s) \<Longrightarrow> ctx_ok (snd (note_peer a n s))"
  by (simp add: note_peer_def ctx_ok_write split: option.splits)

lemma note_peer_meta:
  "ctx_ok (snd s) \<Longrightarrow> \<exists>m. get_request_meta (snd (note_peer a n s)) = Some m \<and>
     peer_addr m = Some a \<and> rm_sni m = Some n"
  by (erule ctx_ok_meta) (simp add: note_peer_def get_request_meta_state)

text \<open>A peer set up by \<open>apply_options\<close> for a cluster.\<close>

definition peer_configured :: "cluster_options \<Rightarrow> cert_ref option \<Rightarrow> http_peer \<Rightarrow> bool" where
  "peer_configured options client_cert peer \<longleftrightarrow>
     p_connection_timeout peer = Some (connect_timeout options) \<and>
     p_read_timeout peer = Some (read_timeout options) \<and>
     p_write_timeout peer = Some (write_timeout options) \<and>
     p_idle_timeout peer = idle_timeout options \<and>
     p_alpn peer = (if co_enable_h2 options then H2H1 else H1) \<and>
     p_verify_hostname peer = verify_hostname options \<and>
     (case client_cert of None \<Rightarrow> True | Some c \<Rightarrow> p_client_cert_key peer = Some c)"

lemma peer_configured_apply: "peer_configured options cert (apply_options options cert peer)"
  by (simp add: peer_configured_def apply_options_def Let_def split: option.splits)

lemma apply_options_target [simp]:
  "p_address (apply_options options cert peer) = p_address peer"
  "p_tls (apply_options options cert peer) = p_tls peer"
  "p_sni (apply_options options cert peer) = p_sni peer"
  by (simp_all add: apply_options_def Let_def split: option.splits)

section \<open>The contract of an upstream\<close>

text \<open>
  Whatever the outcome, the context stays good; when a peer is returned, it is configured from the
  upstream's options and the request's metadata names it.
\<close>

locale upstream_contract =
  fixes select :: "('w, 'net) upstream" and options :: cluster_options and sni :: string
    and cert :: "cert_ref option"
  assumes select_keeps: "ctx_ok (snd s) \<Longrightarrow> ctx_ok (snd (snd (select s)))"
    and select_configured: "select s = (Ok peer, s') \<Longrightarrow> peer_configured options cert peer"
    and select_noted: "ctx_ok (snd s) \<Longrightarrow> select s = (Ok peer, s') \<Longrightarrow>
      \<exists>m a. get_request_meta (snd s') = Some m \<and> peer_addr m = Some a \<and> rm_sni m = Some sni"
begin

lemma select_sni:
  assumes "ctx_ok (snd s)" and "select s = (Ok peer, s')"
  shows "Option.bind (get_request_meta (snd s')) rm_sni = Some sni"
  using select_noted [OF assms] by auto

lemma select_timeouts:
  "select s = (Ok peer, s') \<Longrightarrow> p_connection_timeout peer \<noteq> None \<and> p_read_timeout peer \<noteq> None"
  using select_configured by (fastforce simp: peer_configured_def)

end

end
