(* ===== verification/Gateway.thy ===== *)
theory Gateway
  imports Router Upstream
begin

text \<open>
  \<^verbatim>\<open>src/gateway.rs\<close>: the callbacks Pingora's proxy makes for a request. The \<^verbatim>\<open>self\<close> argument is a
  record of the struct's fields; the upstream map gives for each id the function that selects its
  peers. A callback works on the world and the context, and on the header or body it may change.
\<close>

section \<open>The gateway\<close>

record ('w, 'net, 'h, 're, 'mr) gateway =
  gw_conf :: gateway_conf
  gw_router :: "('re, 'mr, 'net) router"
  gw_upstreams :: "string \<rightharpoonup> ('w, 'net) upstream"
  gw_middlewares :: "('w, 'net, 'h) middleware list"

text \<open>Reading a file and writing a response, for the custom error pages.\<close>

record ('w, 'h) page_api =
  read_file :: "string \<Rightarrow> 'w \<Rightarrow> (string + string) \<times> 'w"
  write_response_header :: "'h \<Rightarrow> bool \<Rightarrow> 'w \<Rightarrow> (pingora_error, unit) outcome \<times> 'w"
  write_response_body :: "string option \<Rightarrow> bool \<Rightarrow> 'w \<Rightarrow> (pingora_error, unit) outcome \<times> 'w"

definition new_ctx :: "'w session_api \<Rightarrow> 'w \<Rightarrow> 'net gateway_context" where
  "new_ctx api w =
     (let (r :: (pingora_error, 'net any_val option) outcome, c) =
        ctx_insert (A_RequestMeta (default_request_meta (instant_now api w))) ctx_new
      in c)"

section \<open>Choosing the peer\<close>

definition respond_upstream_error ::
  "'w session_api \<Rightarrow> string \<Rightarrow> ('w, 'net) req \<Rightarrow> (pingora_error, 'a) outcome \<times> ('w, 'net) req" where
  "respond_upstream_error api text s =
     try_then (on_world (respond_error api 500) s)
       (\<lambda>_ s. (Err (explain (ET_Custom ''UpstreamError'') text), s))"

definition upstream_peer ::
  "'w session_api \<Rightarrow> ('w, 'net, 'h, 're, 'mr) gateway \<Rightarrow> ('w, 'net) req \<Rightarrow>
   (pingora_error, http_peer) outcome \<times> ('w, 'net) req" where
  "upstream_peer api self s =
     (case get_request_meta (snd s) of
        None \<Rightarrow> (Panic ''RequestMeta should exist'', s)
      | Some req_meta \<Rightarrow>
     (case upstream_id req_meta of
        None \<Rightarrow> respond_upstream_error api ''Upstream id not set'' s
      | Some i \<Rightarrow>
     (case gw_upstreams self i of
        None \<Rightarrow> respond_upstream_error api ''Upstream config not found'' s
      | Some select_peer \<Rightarrow> map_err into_pingora (select_peer s))))"

section \<open>The request\<close>

definition request_host :: "'w session_api \<Rightarrow> 'w \<Rightarrow> string option" where
  "request_host api w =
     (case Option.bind (req_header api w ''Host'') (header_to_str api) of
        Some host \<Rightarrow> Some host
      | None \<Rightarrow> req_uri_host api w)"

definition request_filter ::
  "'w session_api \<Rightarrow> ('re, 'mr) router_api \<Rightarrow> ('w, 'net, 'h, 're, 'mr) gateway \<Rightarrow> ('w, 'net) req \<Rightarrow>
   (pingora_error, bool) outcome \<times> ('w, 'net) req" where
  "request_filter api rapi self s =
     (let (i, w) = new_uuid api (fst s); c = snd s
      in case get_request_meta c of
           None \<Rightarrow> (Panic ''Context should already be created'', (w, c))
         | Some req_meta \<Rightarrow>
     (let req_meta = req_meta\<lparr>request_id := i\<rparr>;
          c = ctx_write (A_RequestMeta req_meta) c
      in try_then (match_request rapi (gw_router self) (req_path api w) (request_host api w), (w, c))
           (\<lambda>route_match s.
              case route_match of
                None \<Rightarrow> try_then (on_world (respond_error api 404) s) (\<lambda>_ s. (Ok True, s))
              | Some route \<Rightarrow>
                  (let req_meta = req_meta\<lparr>matched_route_id := Some (r_path (re_conf route)),
                                           upstream_id := Some (r_upstream_id (re_conf route))\<rparr>;
                       s = (fst s, ctx_write (A_RequestMeta req_meta) (snd s))
                   in try_then (on_ctx (ctx_insert (A_RouteEntry route)) s)
                        (\<lambda>_ s.
                           try_then (on_ctx (ctx_insert (A_ArcRouteConf (re_conf route))) s)
                             (\<lambda>_ s.
                                try_then (run_chain (map handle_request (gw_middlewares self)) s)
                                  (\<lambda>result s. (Ok (result = Stop), s))))))))"

definition early_request_filter ::
  "('w, 'net, 'h, 're, 'mr) gateway \<Rightarrow> ('w, 'net) req \<Rightarrow> (pingora_error, unit) outcome \<times> ('w, 'net) req" where
  "early_request_filter self s =
     try_then (run_chain (map handle_early_request (gw_middlewares self)) s) (\<lambda>_ s. (Ok (), s))"

text \<open>A pass over the middlewares in which a \<^verbatim>\<open>Stop\<close> is an error.\<close>

definition chain_or_reject ::
  "string \<Rightarrow> ('s, middleware_decision) hook list \<Rightarrow> 's \<Rightarrow> (pingora_error, unit) outcome \<times> 's" where
  "chain_or_reject text hooks s =
     try_then (run_chain hooks s)
       (\<lambda>result s.
          if result = Stop then (Err (explain (ET_Custom ''MiddlewareRejected'') text), s)
          else (Ok (), s))"

definition request_body_filter ::
  "('w, 'net, 'h, 're, 'mr) gateway \<Rightarrow> bool \<Rightarrow> ('w, 'net) req \<times> string option \<Rightarrow>
   (pingora_error, unit) outcome \<times> ('w, 'net) req \<times> string option" where
  "request_body_filter self end_of_stream =
     chain_or_reject ''Body Rejected''
       (map (\<lambda>m. handle_request_body m end_of_stream) (gw_middlewares self))"

section \<open>Headers\<close>

text \<open>The loops over the configured headers; \<^verbatim>\<open>insert_header\<close> may fail.\<close>

fun insert_headers ::
  "'h header_api \<Rightarrow> (string \<times> string) list \<Rightarrow> 'h \<Rightarrow> (pingora_error, unit) outcome \<times> 'h" where
  "insert_headers hapi [] h = (Ok (), h)"
| "insert_headers hapi ((header_key, header_value) # rest) h =
     try_then (insert_header hapi header_key header_value h) (\<lambda>_ h. insert_headers hapi rest h)"

fun remove_headers :: "'h header_api \<Rightarrow> string list \<Rightarrow> 'h \<Rightarrow> 'h" where
  "remove_headers hapi [] h = h"
| "remove_headers hapi (header_key # rest) h = remove_headers hapi rest (remove_header hapi header_key h)"

definition on_header ::
  "('h \<Rightarrow> ('e, 'a) outcome \<times> 'h) \<Rightarrow> ('w, 'net) req \<times> 'h \<Rightarrow> ('e, 'a) outcome \<times> ('w, 'net) req \<times> 'h" where
  "on_header f sh = (case f (snd sh) of (r, h) \<Rightarrow> (r, (fst sh, h)))"

definition request_headers ::
  "'h header_api \<Rightarrow> route_conf \<Rightarrow> request_meta \<Rightarrow> 'h \<Rightarrow> (pingora_error, unit) outcome \<times> 'h" where
  "request_headers hapi route req_meta h =
     try_then (insert_headers hapi (add_req_headers (r_headers route)) h)
       (\<lambda>_ h.
          let h = remove_headers hapi (remove_req_headers (r_headers route)) h
          in if \<not> preserve_host_header (r_headers route)
             then (case rm_sni req_meta of
                     Some sni \<Rightarrow> insert_header hapi ''Host'' sni h
                   | None \<Rightarrow> (Ok (), h))
             else (Ok (), h))"

definition upstream_request_filter ::
  "'h header_api \<Rightarrow> ('w, 'net, 'h, 're, 'mr) gateway \<Rightarrow> ('w, 'net) req \<times> 'h \<Rightarrow>
   (pingora_error, unit) outcome \<times> ('w, 'net) req \<times> 'h" where
  "upstream_request_filter hapi self sh =
     try_then
       (chain_or_reject ''Upstream Request Rejected'' (map handle_upstream_request (gw_middlewares self)) sh)
       (\<lambda>_ sh.
          case get_route_conf (snd (fst sh)) of
            None \<Rightarrow> (Panic ''RouteConf should exist'', sh)
          | Some route \<Rightarrow>
              (case get_request_meta (snd (fst sh)) of
                 None \<Rightarrow> (Panic ''RequestMeta should exist'', sh)
               | Some req_meta \<Rightarrow> on_header (request_headers hapi route req_meta) sh))"

definition upstream_response_filter ::
  "'h header_api \<Rightarrow> ('w, 'net, 'h, 're, 'mr) gateway \<Rightarrow> ('w, 'net) req \<times> 'h \<Rightarrow>
   (pingora_error, unit) outcome \<times> ('w, 'net) req \<times> 'h" where
  "upstream_response_filter hapi self sh =
     try_then
       (chain_or_reject ''Upstream Response Filter Aborted''
          (map handle_upstream_response (rev (gw_middlewares self))) sh)
       (\<lambda>_ sh.
          case get_route_conf (snd (fst sh)) of
            None \<Rightarrow> (Panic ''RouteConf should exist'', sh)
          | Some route \<Rightarrow>
              on_header (\<lambda>h. (Ok (), remove_headers hapi (remove_resp_headers (r_headers route)) h)) sh)"

definition response_filter ::
  "'h header_api \<Rightarrow> ('w, 'net, 'h, 're, 'mr) gateway \<Rightarrow> ('w, 'net) req \<times> 'h \<Rightarrow>
   (pingora_error, unit) outcome \<times> ('w, 'net) req \<times> 'h" where
  "response_filter hapi self sh =
     try_then
       (chain_or_reject ''Response Filter Aborted'' (map handle_response (rev (gw_middlewares self))) sh)
       (\<lambda>_ sh.
          case get_route_conf (snd (fst sh)) of
            None \<Rightarrow> (Panic ''RouteConf should exist'', sh)
          | Some route \<Rightarrow> on_header (insert_headers hapi (add_resp_headers (r_headers route))) sh)"

definition response_body_filter ::
  "('w, 'net, 'h, 're, 'mr) gateway \<Rightarrow> bool \<Rightarrow> ('w, 'net) req \<times> string option \<Rightarrow>
   (pingora_error, duration option) outcome \<times> ('w, 'net) req \<times> string option" where
  "response_body_filter self end_of_stream sb =
     try_then
       (chain_or_reject ''Response Body Rejected''
          (map (\<lambda>m. handle_response_body m end_of_stream) (rev (gw_middlewares self))) sb)
       (\<lambda>_ sb. (Ok None, sb))"

definition connected_to_upstream ::
  "('w, 'net, 'h, 're, 'mr) gateway \<Rightarrow> bool \<Rightarrow> http_peer \<Rightarrow> int \<Rightarrow> nat option \<Rightarrow> ('w, 'net) req \<Rightarrow>
   (pingora_error, unit) outcome \<times> ('w, 'net) req" where
  "connected_to_upstream self reused peer fd digest =
     chain_or_reject ''Upstream Connection Aborted''
       (map (\<lambda>m. handle_upstream_connected m reused peer fd digest) (gw_middlewares self))"

section \<open>Logging and failures\<close>

definition logging ::
  "('w, 'net, 'h, 're, 'mr) gateway \<Rightarrow> pingora_error option \<Rightarrow> ('w, 'net) req \<Rightarrow>
   (pingora_error, unit) outcome \<times> ('w, 'net) req" where
  "logging self e s =
     try_then (run_swallow (map (\<lambda>m. handle_logging m e) (rev (gw_middlewares self))) s) (\<lambda>_ s. (Ok (), s))"

record fail_response =
  error_code :: u16
  can_reuse_downstream :: bool

definition failure_code :: "error_type \<Rightarrow> u16" where
  "failure_code t =
     (case t of
        ET_ConnectRefused \<Rightarrow> 502
      | ET_ConnectNoRoute \<Rightarrow> 502
      | ET_BindError \<Rightarrow> 502
      | ET_ReadTimedout \<Rightarrow> 504
      | ET_ConnectTimedout \<Rightarrow> 504
      | _ \<Rightarrow> 500)"

text \<open>\<^verbatim>\<open>unwrap()\<close>.\<close>

definition unwrap_err :: "'w session_api \<Rightarrow> (pingora_error, 'a) outcome \<times> 's \<Rightarrow> (pingora_error, 'a) outcome \<times> 's" where
  "unwrap_err api r =
     (case r of
        (Ok a, s) \<Rightarrow> (Ok a, s)
      | (Err e, s) \<Rightarrow> (Panic (show_error api e), s)
      | (Panic p, s) \<Rightarrow> (Panic p, s))"

text \<open>Whether the error page was served; the write of the body may fail unnoticed.\<close>

definition serve_page ::
  "'w session_api \<Rightarrow> 'h header_api \<Rightarrow> ('w, 'h) page_api \<Rightarrow> u16 \<Rightarrow> string \<Rightarrow> 'w \<Rightarrow>
   (pingora_error, bool) outcome \<times> 'w" where
  "serve_page api hapi pgapi code path w =
     (case read_file pgapi path w of
        (Inl e, w) \<Rightarrow> (Ok False, w)
      | (Inr content, w) \<Rightarrow>
          (case try_then (unwrap_err api (build_header hapi code, ()))
                  (\<lambda>header _.
                     case try_then (unwrap_err api (insert_header hapi ''Content-Type'' ''text/html'' header))
                       (\<lambda>_ header. unwrap_err api
                          (insert_header hapi ''Content-Length'' (dec_string (length content)) header)) of
                       (Ok _, header) \<Rightarrow> (Ok header, ())
                     | (Err e, header) \<Rightarrow> (Err e, ())
                     | (Panic p, header) \<Rightarrow> (Panic p, ())) of
             (Err e, _) \<Rightarrow> (Err e, w)
           | (Panic p, _) \<Rightarrow> (Panic p, w)
           | (Ok header, _) \<Rightarrow>
               (case write_response_header pgapi header False w of
                  (Ok _, w) \<Rightarrow>
                    (case write_response_body pgapi (Some content) True w of
                       (Panic p, w) \<Rightarrow> (Panic p, w)
                     | (_, w) \<Rightarrow> (Ok True, w))
                | (Err e, w) \<Rightarrow> (Ok False, w)
                | (Panic p, w) \<Rightarrow> (Panic p, w))))"

definition error_page :: "u16 \<Rightarrow> 'net gateway_context \<Rightarrow> string option" where
  "error_page code c =
     Option.bind (get_route_conf c) (\<lambda>route. Option.bind (r_error_pages route) (\<lambda>pages. pages code))"

definition fail_to_proxy ::
  "'w session_api \<Rightarrow> 'h header_api \<Rightarrow> ('w, 'h) page_api \<Rightarrow> ('w, 'net, 'h, 're, 'mr) gateway \<Rightarrow>
   pingora_error \<Rightarrow> ('w, 'net) req \<Rightarrow> (pingora_error, fail_response) outcome \<times> ('w, 'net) req" where
  "fail_to_proxy api hapi pgapi self e s =
     try_then (run_swallow (map (\<lambda>m. handle_error m e) (rev (gw_middlewares self))) s)
       (\<lambda>result s.
          if result = Stop then (Ok \<lparr>error_code = 0, can_reuse_downstream = False\<rparr>, s)
          else
            (let code = failure_code (etype e)
             in try_then
                  (case error_page code (snd s) of
                     None \<Rightarrow> (Ok False, s)
                   | Some path \<Rightarrow> on_world (serve_page api hapi pgapi code path) s)
                  (\<lambda>error_page_served s.
                     let reply = (Ok \<lparr>error_code = code, can_reuse_downstream = False\<rparr>)
                     in if error_page_served then (reply, s)
                        else (case on_world (respond_error api code) s of
                                (Panic p, s) \<Rightarrow> (Panic p, s)
                              | (_, s) \<Rightarrow> (reply, s)))))"

section \<open>The request filter, by its routing outcome\<close>

lemma ctx_write_write: "type_of v = type_of v' \<Longrightarrow> ctx_write v (ctx_write v' c) = ctx_write v c"
  by (simp add: ctx_write_def)

lemma get_meta_write [simp]: "get_request_meta (ctx_write (A_RequestMeta m) c) = Some m"
  by (simp add: get_request_meta_state)

lemma get_lookups_write [simp]:
  "type_of v \<noteq> T_RequestMeta \<Longrightarrow> get_request_meta (ctx_write v c) = get_request_meta c"
  "type_of v \<noteq> T_RouteEntry \<Longrightarrow> get_route_entry (ctx_write v c) = get_route_entry c"
  "type_of v \<noteq> T_RouteConf \<Longrightarrow> get_route_conf (ctx_write v c) = get_route_conf c"
  "type_of v \<noteq> T_RequestSizeState \<Longrightarrow> get_size_state (ctx_write v c) = get_size_state c"
  "get_route_entry (ctx_write (A_RouteEntry r) c) = Some r"
  by (simp_all add: ctx_lookup_state)

text \<open>The context a routed request's middlewares see.\<close>

definition routed_meta :: "string \<Rightarrow> 'net route_entry \<Rightarrow> request_meta \<Rightarrow> request_meta" where
  "routed_meta i route m =
     m\<lparr>request_id := i, matched_route_id := Some (r_path (re_conf route)),
       upstream_id := Some (r_upstream_id (re_conf route))\<rparr>"

definition routed_ctx ::
  "string \<Rightarrow> 'net route_entry \<Rightarrow> request_meta \<Rightarrow> 'net gateway_context \<Rightarrow> 'net gateway_context" where
  "routed_ctx i route m c =
     ctx_write (A_ArcRouteConf (re_conf route))
       (ctx_write (A_RouteEntry route) (ctx_write (A_RequestMeta (routed_meta i route m)) c))"

lemma routed_ctx_lookups [simp]:
  "get_request_meta (routed_ctx i route m c) = Some (routed_meta i route m)"
  "get_route_entry (routed_ctx i route m c) = Some route"
  "get_route_conf (routed_ctx i route m c) = get_route_conf c"
  by (simp_all add: routed_ctx_def)

lemma routed_ctx_ok: "ctx_ok c \<Longrightarrow> ctx_ok (routed_ctx i route m c)"
  by (simp add: routed_ctx_def ctx_ok_write)

text \<open>What the router is asked for a request in the world \<open>w\<close>.\<close>

definition route_lookup ::
  "'w session_api \<Rightarrow> ('re, 'mr) router_api \<Rightarrow> ('w, 'net, 'h, 're, 'mr) gateway \<Rightarrow> 'w \<Rightarrow>
   (pingora_error, 'net route_entry option) outcome" where
  "route_lookup api rapi self w = match_request rapi (gw_router self) (req_path api w) (request_host api w)"

lemma request_filter_eq:
  assumes "ctx_wf c" and "get_request_meta c = Some m" and "new_uuid api w = (i, w1)"
  shows "request_filter api rapi self (w, c) =
    (case route_lookup api rapi self w1 of
       Panic p \<Rightarrow> (Panic p, (w1, ctx_write (A_RequestMeta (m\<lparr>request_id := i\<rparr>)) c))
     | Err e \<Rightarrow> (Err e, (w1, ctx_write (A_RequestMeta (m\<lparr>request_id := i\<rparr>)) c))
     | Ok None \<Rightarrow>
         try_then (on_world (respond_error api 404) (w1, ctx_write (A_RequestMeta (m\<lparr>request_id := i\<rparr>)) c))
           (\<lambda>_ s. (Ok True, s))
     | Ok (Some route) \<Rightarrow>
         try_then (run_chain (map handle_request (gw_middlewares self)) (w1, routed_ctx i route m c))
           (\<lambda>result s. (Ok (result = Stop), s)))"
  using assms
  by (auto simp: request_filter_def route_lookup_def on_ctx_def ctx_insert_eq ctx_wf_write ctx_write_write
      routed_ctx_def routed_meta_def split: outcome.splits option.splits)

lemma match_regexes_no_Err: "match_regexes api reg path host rs \<noteq> Err e"
  by (induction rs) (auto simp: no_entry_def split: option.splits if_splits)

lemma match_request_no_Err: "match_request api rt path host \<noteq> Err e"
  by (auto simp: match_request_def no_entry_def match_regexes_no_Err split: option.splits)

text \<open>
  A request no route matches is answered at the gateway. It gets a fresh request id and a 404;
  when that is written the filter ends the request (it returns \<open>True\<close>). No middleware runs, no
  upstream is chosen, and the rest of the context is as before.
\<close>

theorem unmatched_request:
  assumes "ctx_ok c" and "new_uuid api w = (i, w1)" and "route_lookup api rapi self w1 = Ok None"
    and "respond_error api 404 w1 = (Ok (), w2)"
  shows "\<exists>c'. request_filter api rapi self (w, c) = (Ok True, (w2, c')) \<and>
    (\<forall>t. t \<noteq> T_RequestMeta \<longrightarrow> ctx_get t c' = ctx_get t c) \<and>
    map_option request_id (get_request_meta c') = Some i \<and>
    Option.bind (get_request_meta c') upstream_id = Option.bind (get_request_meta c) upstream_id"
proof -
  from assms(1) obtain m where m: "get_request_meta c = Some m"
    by (rule ctx_ok_meta)
  from request_filter_eq [OF ctx_ok_wf [OF assms(1)] m assms(2), of rapi self] assms(3,4)
  have "request_filter api rapi self (w, c) =
      (Ok True, (w2, ctx_write (A_RequestMeta (m\<lparr>request_id := i\<rparr>)) c))"
    by (simp add: on_world_def)
  with m gc.lookup_write [OF ctx_ok_wf [OF assms(1)]] show ?thesis
    by simp
qed

definition empty_gateway :: "(sample, sample_net, (string \<times> string) list, string, (string \<times> nat) list) gateway" where
  "empty_gateway =
     \<lparr>gw_conf = test_conf, gw_router = test_router, gw_upstreams = Map.empty, gw_middlewares = []\<rparr>"

lemma new_ctx_eq: "new_ctx api w = ctx_write (A_RequestMeta (default_request_meta (instant_now api w))) ctx_new"
  by (simp add: new_ctx_def ctx_insert_eq ctx_wf_new)

lemma new_ctx_ok: "ctx_ok (new_ctx api w)"
  by (simp add: new_ctx_eq ctx_ok_def ctx_wf_write ctx_wf_new) (simp add: ctx_new_def)

definition nowhere :: sample where
  "nowhere = sample_request ''/nowhere'' []"

lemma nowhere_calls:
  "new_uuid sample_api nowhere = (''id-0'', nowhere\<lparr>sw_next := 1\<rparr>)"
  "route_lookup sample_api sample_router_api empty_gateway (nowhere\<lparr>sw_next := 1\<rparr>) = Ok None"
  "respond_error sample_api 404 (nowhere\<lparr>sw_next := 1\<rparr>) = (Ok (), nowhere\<lparr>sw_next := 1, sw_status := Some 404\<rparr>)"
proof -
  show "new_uuid sample_api nowhere = (''id-0'', nowhere\<lparr>sw_next := 1\<rparr>)"
    by (simp add: nowhere_def sample_request_def) code_simp
  show "route_lookup sample_api sample_router_api empty_gateway (nowhere\<lparr>sw_next := 1\<rparr>) = Ok None"
    by (simp add: route_lookup_def empty_gateway_def test_router_def sample_router_eval match_request_def
        nowhere_def sample_request_def request_host_def)
qed simp

theorem unmatched_request_witness:
  "\<exists>c'. request_filter sample_api sample_router_api empty_gateway (nowhere, new_ctx sample_api nowhere) =
      (Ok True, (nowhere\<lparr>sw_next := 1, sw_status := Some 404\<rparr>, c'))"
proof -
  from unmatched_request [OF new_ctx_ok [of sample_api nowhere] nowhere_calls] show ?thesis
    by (elim exE conjE) (rule exI)
qed

end
