(* ===== verification/Lifecycle.thy ===== *)
theory Lifecycle
  imports Gateway
begin

text \<open>
  The life of a request. Pingora owns the order in which it calls the gateway; it creates the
  context with \<open>new_ctx\<close> and then makes callbacks, between which the world changes. The states a
  request can be in are those reached by any callbacks in any order, which includes every order
  Pingora documents; what is proved of them holds at every callback of every request.
\<close>

section \<open>Callbacks\<close>

record ('w, 'h, 're, 'mr) platform =
  pf_session :: "'w session_api"
  pf_routing :: "('re, 'mr) router_api"
  pf_headers :: "'h header_api"
  pf_pages :: "('w, 'h) page_api"

datatype 'h callback =
    CB_EarlyRequest
  | CB_Request
  | CB_RequestBody bool "string option"
  | CB_UpstreamPeer
  | CB_Connected bool http_peer int "nat option"
  | CB_UpstreamRequest 'h
  | CB_UpstreamResponse 'h
  | CB_Response 'h
  | CB_ResponseBody bool "string option"
  | CB_Fail pingora_error
  | CB_Logging "pingora_error option"

text \<open>The outcome of a callback without its value, and the request without the header or body.\<close>

definition discard :: "('e, 'a) outcome \<times> 's \<Rightarrow> ('e, unit) outcome \<times> 's" where
  "discard r = try_then r (\<lambda>_ s. (Ok (), s))"

definition drop_arg :: "('e, 'a) outcome \<times> 's \<times> 'b \<Rightarrow> ('e, unit) outcome \<times> 's" where
  "drop_arg r = (case discard r of (x, (s, b)) \<Rightarrow> (x, s))"

fun run_callback ::
  "('w, 'h, 're, 'mr) platform \<Rightarrow> ('w, 'net, 'h, 're, 'mr) gateway \<Rightarrow> 'h callback \<Rightarrow> ('w, 'net) req \<Rightarrow>
   (pingora_error, unit) outcome \<times> ('w, 'net) req" where
  "run_callback pf self CB_EarlyRequest s = early_request_filter self s"
| "run_callback pf self CB_Request s = discard (request_filter (pf_session pf) (pf_routing pf) self s)"
| "run_callback pf self (CB_RequestBody eos body) s = drop_arg (request_body_filter self eos (s, body))"
| "run_callback pf self CB_UpstreamPeer s = discard (upstream_peer (pf_session pf) self s)"
| "run_callback pf self (CB_Connected reused peer fd digest) s =
     connected_to_upstream self reused peer fd digest s"
| "run_callback pf self (CB_UpstreamRequest h) s =
     drop_arg (upstream_request_filter (pf_headers pf) self (s, h))"
| "run_callback pf self (CB_UpstreamResponse h) s =
     drop_arg (upstream_response_filter (pf_headers pf) self (s, h))"
| "run_callback pf self (CB_Response h) s = drop_arg (response_filter (pf_headers pf) self (s, h))"
| "run_callback pf self (CB_ResponseBody eos body) s = drop_arg (response_body_filter self eos (s, body))"
| "run_callback pf self (CB_Fail e) s =
     discard (fail_to_proxy (pf_session pf) (pf_headers pf) (pf_pages pf) self e s)"
| "run_callback pf self (CB_Logging e) s = logging self e s"

inductive reachable ::
  "('w, 'h, 're, 'mr) platform \<Rightarrow> ('w, 'net, 'h, 're, 'mr) gateway \<Rightarrow> ('w, 'net) req \<Rightarrow> bool"
  for pf self where
  start: "reachable pf self (w, new_ctx (pf_session pf) w)"
| call: "reachable pf self s \<Longrightarrow> reachable pf self (snd (run_callback pf self cb s))"
| world: "reachable pf self (w, c) \<Longrightarrow> reachable pf self (w', c)"

lemma snd_discard [simp]: "snd (discard r) = snd r"
  unfolding discard_def by (cases r; cases "fst r") auto

lemma snd_drop_arg [simp]: "snd (drop_arg r) = fst (snd r)"
proof -
  obtain x s b where "discard r = (x, (s, b))"
    by (metis surj_pair)
  then show ?thesis
    unfolding drop_arg_def using snd_discard [of r] by (metis fst_conv snd_conv case_prod_conv)
qed

lemma fst_discard_Panic [simp]: "fst (discard r) = Panic p \<longleftrightarrow> fst r = Panic p"
  unfolding discard_def by (cases r; cases "fst r") auto

lemma fst_drop_arg: "fst (drop_arg r) = fst (discard r)"
  by (simp add: drop_arg_def split: prod.splits)

lemma snd_chain_or_reject [simp]: "snd (chain_or_reject text hs s) = snd (run_chain hs s)"
  unfolding chain_or_reject_def by (cases "run_chain hs s"; cases "fst (run_chain hs s)") auto

lemma fst_snd_on_header [simp]: "fst (snd (on_header f sh)) = fst sh"
  by (simp add: on_header_def split: prod.splits)

section \<open>The contract of a gateway\<close>

text \<open>Its middlewares and its upstreams keep the request context good.\<close>

locale gateway_contract =
  pipeline_contract "gw_middlewares self" ctx_ok
  for self :: "('w, 'net, 'h, 're, 'mr) gateway" +
  assumes upstream_keeps:
    "gw_upstreams self i = Some u \<Longrightarrow> ctx_ok (snd s) \<Longrightarrow> ctx_ok (snd (snd (u s)))"
begin

lemma early_ok: "ctx_ok (snd s) \<Longrightarrow> ctx_ok (snd (snd (early_request_filter self s)))"
  unfolding early_request_filter_def
  by (rule try_then_keeps [where P = "\<lambda>s. ctx_ok (snd s)"])
     (auto intro: chain_keeps hook_keeps(1))

lemma request_ok:
  assumes "ctx_ok (snd s)"
  shows "ctx_ok (snd (snd (request_filter api rapi self s)))"
proof -
  obtain w c where s: "s = (w, c)"
    by (cases s)
  with assms have c: "ctx_ok c"
    by simp
  then obtain m where m: "get_request_meta c = Some m"
    by (rule ctx_ok_meta)
  obtain i w1 where u: "new_uuid api w = (i, w1)"
    by fastforce
  let ?c1 = "ctx_write (A_RequestMeta (m\<lparr>request_id := i\<rparr>)) c"
  have c1: "ctx_ok ?c1"
    using c by (simp add: ctx_ok_write)
  have "ctx_ok (snd (snd (run_chain (map handle_request (gw_middlewares self)) (w1, routed_ctx i route m c))))"
    for route
    by (rule chain_keeps) (simp_all add: routed_ctx_ok c hook_keeps(2))
  then have "ctx_ok (snd (snd (try_then
      (run_chain (map handle_request (gw_middlewares self)) (w1, routed_ctx i route m c))
      (\<lambda>result s. (Ok (result = Stop), s)))))" for route
    by (rule try_then_keeps [where P = "\<lambda>s. ctx_ok (snd s)"]) simp
  moreover have "ctx_ok (snd (snd (try_then (on_world (respond_error api 404) (w1, ?c1)) (\<lambda>_ s. (Ok True, s)))))"
    by (rule try_then_keeps [where P = "\<lambda>s. ctx_ok (snd s)"]) (simp_all add: c1)
  ultimately show ?thesis
    using c1 unfolding s request_filter_eq [OF ctx_ok_wf [OF c] m u]
    by (simp split: outcome.split option.split)
qed

lemma respond_upstream_error_ctx: "snd (snd (respond_upstream_error api text s)) = snd s"
  unfolding respond_upstream_error_def
  by (rule try_then_keeps [where P = "\<lambda>s'. snd s' = snd s"]) (simp_all add: on_world_def split_def)

lemma peer_ok: "ctx_ok (snd s) \<Longrightarrow> ctx_ok (snd (snd (upstream_peer api self s)))"
  using upstream_keeps
  by (auto simp: upstream_peer_def respond_upstream_error_ctx split: option.splits)

lemma body_ok: "ctx_ok (snd s) \<Longrightarrow> ctx_ok (snd (fst (snd (request_body_filter self eos (s, body)))))"
  unfolding request_body_filter_def snd_chain_or_reject
  by (rule chain_keeps_arg) (simp_all add: hook_keeps_body)

lemma connected_ok:
  "ctx_ok (snd s) \<Longrightarrow> ctx_ok (snd (snd (connected_to_upstream self reused peer fd digest s)))"
  unfolding connected_to_upstream_def snd_chain_or_reject
  by (rule chain_keeps) (simp_all add: hook_keeps)

lemma chain_arg_ok:
  fixes s :: "('w, 'net) req"
  assumes "ctx_ok (snd s)" and "set ms \<subseteq> set (gw_middlewares self)"
    and "\<And>m s. m \<in> set (gw_middlewares self) \<Longrightarrow> ctx_ok (snd (fst s)) \<Longrightarrow> ctx_ok (snd (fst (snd (hook m s))))"
  shows "ctx_ok (snd (fst (snd (chain_or_reject text (map hook ms) (s, h)))))"
  unfolding snd_chain_or_reject by (rule chain_keeps_arg) (simp_all add: assms)

lemma arg_pass_ok:
  fixes s :: "('w, 'net) req"
  assumes "ctx_ok (snd s)" and "set ms \<subseteq> set (gw_middlewares self)"
    and "\<And>m s. m \<in> set (gw_middlewares self) \<Longrightarrow> ctx_ok (snd (fst s)) \<Longrightarrow> ctx_ok (snd (fst (snd (hook m s))))"
    and "\<And>u sh. ctx_ok (snd (fst sh)) \<Longrightarrow> ctx_ok (snd (fst (snd (k u sh))))"
  shows "ctx_ok (snd (fst (snd (try_then (chain_or_reject text (map hook ms) (s, h)) k))))"
  by (rule try_then_keeps [where P = "\<lambda>sh. ctx_ok (snd (fst sh))"], rule chain_arg_ok) (use assms in auto)

lemma headers_ok:
  fixes s :: "('w, 'net) req"
  assumes "ctx_ok (snd s)"
  shows "ctx_ok (snd (fst (snd (upstream_request_filter hapi self (s, h)))))"
    and "ctx_ok (snd (fst (snd (upstream_response_filter hapi self (s, h)))))"
    and "ctx_ok (snd (fst (snd (response_filter hapi self (s, h)))))"
  unfolding upstream_request_filter_def upstream_response_filter_def response_filter_def
  by (rule arg_pass_ok; simp add: assms hook_keeps_arg split: option.split)+

lemma response_body_ok:
  fixes s :: "('w, 'net) req"
  shows "ctx_ok (snd s) \<Longrightarrow> ctx_ok (snd (fst (snd (response_body_filter self eos (s, body)))))"
  unfolding response_body_filter_def
  by (rule arg_pass_ok) (simp_all add: hook_keeps_body)

lemma logging_ok: "ctx_ok (snd s) \<Longrightarrow> ctx_ok (snd (snd (logging self e s)))"
  unfolding logging_def
  by (rule try_then_keeps [where P = "\<lambda>s. ctx_ok (snd s)"]) (auto intro: swallow_keeps hook_keeps(5))

lemma fail_ok:
  assumes "ctx_ok (snd s)"
  shows "ctx_ok (snd (snd (fail_to_proxy api hapi pgapi self e s)))"
  unfolding fail_to_proxy_def Let_def
  by (rule try_then_keeps [where P = "\<lambda>s. ctx_ok (snd s)"],
      rule swallow_keeps [where hook = "\<lambda>m. handle_error m e"],
      simp_all add: assms hook_keeps,
      rule impI, rule try_then_keeps [where P = "\<lambda>s. ctx_ok (snd s)"])
     (auto split: option.splits outcome.splits prod.splits dest!: arg_cong [where f = snd])

lemma callback_ok: "ctx_ok (snd s) \<Longrightarrow> ctx_ok (snd (snd (run_callback pf self cb s)))"
  by (cases cb) (simp_all add: early_ok request_ok body_ok peer_ok connected_ok headers_ok
      response_body_ok fail_ok logging_ok)

theorem reachable_ok: "reachable pf self s \<Longrightarrow> ctx_ok (snd s)"
  by (induction rule: reachable.induct) (simp_all add: new_ctx_ok callback_ok)

end

end
