(* ===== verification/Static_Upstream.thy ===== *)
theory Static_Upstream
  imports Upstream
begin

text \<open>
  \<^verbatim>\<open>src/upstreams/static_upstream.rs\<close>: an upstream with one fixed address, by host and port or by
  the path of a Unix socket.
\<close>

record static_upstream =
  su_addr :: "string \<times> u16"
  su_tls :: bool
  su_sni :: string
  su_client_cert :: "cert_ref option"
  su_options :: cluster_options
  su_is_uds :: bool

definition static_new ::
  "string \<times> u16 \<Rightarrow> bool \<Rightarrow> string \<Rightarrow> cert_ref option \<Rightarrow> cluster_options option \<Rightarrow> static_upstream" where
  "static_new addr tls sni client_cert options =
     \<lparr>su_addr = addr, su_tls = tls, su_sni = sni, su_client_cert = client_cert,
      su_options = (case options of Some opts \<Rightarrow> opts | None \<Rightarrow> default_cluster_options),
      su_is_uds = False\<rparr>"

definition static_new_uds :: "string \<Rightarrow> cluster_options \<Rightarrow> static_upstream" where
  "static_new_uds path options =
     \<lparr>su_addr = (path, 0), su_tls = False, su_sni = [], su_client_cert = None,
      su_options = options, su_is_uds = True\<rparr>"

definition static_peer :: "peer_api \<Rightarrow> static_upstream \<Rightarrow> (pingora_guide_error, http_peer) outcome" where
  "static_peer papi self =
     (if su_is_uds self
      then (case peer_new_uds papi (fst (su_addr self)) (su_tls self) (su_sni self) of
              Ok peer \<Rightarrow> Ok peer
            | Err e \<Rightarrow> Err (from_pingora e)
            | Panic p \<Rightarrow> Panic p)
      else peer_new papi (su_addr self) (su_tls self) (su_sni self))"

definition static_select_peer :: "peer_api \<Rightarrow> static_upstream \<Rightarrow> ('w, 'net) upstream" where
  "static_select_peer papi self s =
     try_then (static_peer papi self, s)
       (\<lambda>peer s.
          let s = note_peer (p_address peer) (su_sni self) s
          in (Ok (apply_options (su_options self) (su_client_cert self) peer), s))"

lemma static_select_peer_eq:
  "static_select_peer papi self s =
     (case static_peer papi self of
        Ok peer \<Rightarrow> (Ok (apply_options (su_options self) (su_client_cert self) peer),
                    note_peer (p_address peer) (su_sni self) s)
      | Err e \<Rightarrow> (Err e, s)
      | Panic p \<Rightarrow> (Panic p, s))"
  by (simp add: static_select_peer_def split: outcome.splits)

interpretation su: upstream_contract "static_select_peer papi self" "su_options self" "su_sni self"
  "su_client_cert self"
proof
  fix s s' :: "'a \<times> 'b gateway_context" and peer
  show "ctx_ok (snd (snd (static_select_peer papi self s)))" if "ctx_ok (snd s)"
    using that by (simp add: static_select_peer_eq note_peer_ok split: outcome.splits)
  show "peer_configured (su_options self) (su_client_cert self) peer"
    if "static_select_peer papi self s = (Ok peer, s')"
    using that by (auto simp: static_select_peer_eq peer_configured_apply split: outcome.splits)
  show "\<exists>m a. get_request_meta (snd s') = Some m \<and> peer_addr m = Some a \<and> rm_sni m = Some (su_sni self)"
    if "ctx_ok (snd s)" and "static_select_peer papi self s = (Ok peer, s')"
    using that note_peer_meta [of s] by (auto simp: static_select_peer_eq split: outcome.splits) metis
qed

end
