(* ===== verification/Load_Balancer.thy ===== *)
theory Load_Balancer
  imports Upstream
begin

text \<open>
  \<^verbatim>\<open>src/upstreams/load_balancer.rs\<close>: a cluster behind Pingora's load balancer. The gateway computes
  the hash key of a request from the configured source and asks the balancer for a backend. The
  balancer's selection works on shared internal state, part of the world: it is the parameter
  \<open>lb_select\<close>.
\<close>

section \<open>The cluster\<close>

record 'w load_balancer_cluster =
  lb_select :: "string \<Rightarrow> usize \<Rightarrow> 'w \<Rightarrow> backend option \<times> 'w"
  lbc_tls :: bool
  lbc_sni :: string
  lbc_client_cert :: "cert_ref option"
  lbc_options :: cluster_options
  lbc_hash_source :: hash_source

definition cluster_new ::
  "(string \<Rightarrow> usize \<Rightarrow> 'w \<Rightarrow> backend option \<times> 'w) \<Rightarrow> bool \<Rightarrow> string \<Rightarrow> cert_ref option \<Rightarrow>
   cluster_options option \<Rightarrow> hash_source option \<Rightarrow> 'w load_balancer_cluster" where
  "cluster_new lb tls sni client_cert options hash_source =
     \<lparr>lb_select = lb, lbc_tls = tls, lbc_sni = sni, lbc_client_cert = client_cert,
      lbc_options = (case options of Some opts \<Rightarrow> opts | None \<Rightarrow> default_cluster_options),
      lbc_hash_source =
        (case hash_source of
           Some h \<Rightarrow> (case h of HS_Cookie name \<Rightarrow> HS_Cookie (name @ ''='') | _ \<Rightarrow> h)
         | None \<Rightarrow> HS_None)\<rparr>"

section \<open>The hash key\<close>

text \<open>The loop over the parts of the \<^verbatim>\<open>Cookie\<close> header, which breaks at the first one that starts with
  the key.\<close>

fun find_cookie :: "string \<Rightarrow> string list \<Rightarrow> string" where
  "find_cookie cookie_key [] = []"
| "find_cookie cookie_key (part # parts) =
     (let part = trim part
      in if starts_with part cookie_key then drop (length cookie_key) part
         else find_cookie cookie_key parts)"

definition hash_key :: "'w session_api \<Rightarrow> hash_source \<Rightarrow> 'w \<Rightarrow> string \<times> 'w" where
  "hash_key api source w =
     (case source of
        HS_None \<Rightarrow> ([], w)
      | HS_ClientIp \<Rightarrow>
          (case client_addr api w of
             Some ip \<Rightarrow>
               (case as_inet ip of
                  Some socket_ip \<Rightarrow> (ip_to_string (inet_ip socket_ip), w)
                | None \<Rightarrow> new_uuid api w)
           | None \<Rightarrow> ([], w))
      | HS_Cookie cookie_key \<Rightarrow>
          (case req_header api w ''Cookie'' of
             Some header_val \<Rightarrow>
               (case header_to_str api header_val of
                  Some cookie_str \<Rightarrow> (find_cookie cookie_key (split_on CHR '';'' cookie_str), w)
                | None \<Rightarrow> ([], w))
           | None \<Rightarrow> ([], w))
      | HS_Uri \<Rightarrow> (req_path api w, w)
      | HS_Header header_key \<Rightarrow>
          (case req_header api w header_key of
             Some header_val \<Rightarrow>
               (case header_to_str api header_val of
                  Some header_str \<Rightarrow> (header_str, w)
                | None \<Rightarrow> ([], w))
           | None \<Rightarrow> ([], w)))"

section \<open>Selecting a peer\<close>

definition lb_select_peer ::
  "peer_api \<Rightarrow> 'w session_api \<Rightarrow> 'w load_balancer_cluster \<Rightarrow> ('w, 'net) upstream" where
  "lb_select_peer papi api self s =
     (let (key, w) = hash_key api (lbc_hash_source self) (fst s);
          (choice, w) = lb_select self key 256 w;
          s = (w, snd s)
      in case choice of
           None \<Rightarrow> (Err (Gateway UpstreamUnavailable), s)
         | Some upstream \<Rightarrow>
             (let s = note_peer (be_addr upstream) (lbc_sni self) s
              in try_then (peer_of_backend papi upstream (lbc_tls self) (lbc_sni self), s)
                   (\<lambda>peer s. (Ok (apply_options (lbc_options self) (lbc_client_cert self) peer), s))))"

section \<open>Cookies\<close>

text \<open>A cookie header as browsers write it: \<^verbatim>\<open>name=value\<close> pairs separated by a semicolon and a space.\<close>

definition cookie_pair :: "string \<times> string \<Rightarrow> string" where
  "cookie_pair nv = fst nv @ ''='' @ snd nv"

fun cookie_header :: "(string \<times> string) list \<Rightarrow> string" where
  "cookie_header [] = []"
| "cookie_header [nv] = cookie_pair nv"
| "cookie_header (nv # nvs) = cookie_pair nv @ ''; '' @ cookie_header nvs"

text \<open>Cookie names and values as HTTP allows them.\<close>

definition cookie_ok :: "string \<times> string \<Rightarrow> bool" where
  "cookie_ok nv \<longleftrightarrow>
     fst nv \<noteq> [] \<and> CHR ''='' \<notin> set (fst nv) \<and> CHR '';'' \<notin> set (fst nv) \<and> CHR '';'' \<notin> set (snd nv) \<and>
     list_all (\<lambda>c. \<not> is_space c) (fst nv) \<and> list_all (\<lambda>c. \<not> is_space c) (snd nv)"

lemma cookie_pair_trim:
  assumes "cookie_ok nv"
  shows "trim (cookie_pair nv) = cookie_pair nv"
proof -
  have "\<forall>c \<in> set (cookie_pair nv). \<not> is_space c"
    using assms by (auto simp: cookie_ok_def cookie_pair_def list_all_iff is_space_def)
  moreover have "cookie_pair nv \<noteq> []"
    by (simp add: cookie_pair_def)
  ultimately have "trimmed (cookie_pair nv)"
    by (simp add: trimmed_def)
  then show ?thesis
    by (rule trimmed_trim)
qed

lemma cookie_pair_no_sep: "cookie_ok nv \<Longrightarrow> CHR '';'' \<notin> set (cookie_pair nv)"
  by (auto simp: cookie_ok_def cookie_pair_def)

lemma cookie_pair_starts_with:
  assumes "cookie_ok nv" and "CHR ''='' \<notin> set name"
  shows "starts_with (cookie_pair nv) (name @ ''='') \<longleftrightarrow> fst nv = name"
proof
  assume "starts_with (cookie_pair nv) (name @ ''='')"
  then obtain r where "fst nv @ CHR ''='' # snd nv = name @ CHR ''='' # r"
    by (auto simp: starts_with_iff cookie_pair_def)
  with assms show "fst nv = name"
    by (simp add: append_sep_inject cookie_ok_def)
qed (auto simp: starts_with_iff cookie_pair_def)

text \<open>One part of the header, with or without the space that follows a semicolon.\<close>

lemma find_cookie_part:
  assumes "cookie_ok nv" and "CHR ''='' \<notin> set name" and "part = cookie_pair nv \<or> part = CHR '' '' # cookie_pair nv"
  shows "find_cookie (name @ ''='') (part # parts) =
    (if fst nv = name then snd nv else find_cookie (name @ ''='') parts)"
proof -
  have "trim part = cookie_pair nv"
    using assms(3) cookie_pair_trim [OF assms(1)] trim_space [of "CHR '' ''" "cookie_pair nv"]
    by (auto simp: is_space_def)
  then show ?thesis
    using cookie_pair_starts_with [OF assms(1,2)] by (auto simp: cookie_pair_def)
qed

lemma split_cookie_header:
  assumes "list_all cookie_ok (nv # nvs)"
  shows "split_on CHR '';'' (pre @ cookie_header (nv # nvs)) =
    (if CHR '';'' \<in> set pre then split_on CHR '';'' (pre @ cookie_header (nv # nvs))
     else (pre @ cookie_pair nv) # map (\<lambda>x. CHR '' '' # cookie_pair x) nvs)"
  using assms
proof (induction nvs arbitrary: nv pre)
  case Nil
  then show ?case
    by (auto simp: split_on_single cookie_pair_no_sep)
next
  case (Cons x xs)
  have "split_on CHR '';'' ('' '' @ cookie_header (x # xs)) =
      ('' '' @ cookie_pair x) # map (\<lambda>x. CHR '' '' # cookie_pair x) xs"
    using Cons.IH [of x "'' ''"] Cons.prems by simp
  then show ?case
    using Cons.prems split_on_append [of "CHR '';''" "pre @ cookie_pair nv" "'' '' @ cookie_header (x # xs)"]
    by (auto simp: cookie_pair_no_sep)
qed

lemma find_cookie_parts:
  assumes "list_all cookie_ok nvs" and "CHR ''='' \<notin> set name"
  shows "find_cookie (name @ ''='') (map (\<lambda>x. CHR '' '' # cookie_pair x) nvs) =
    (case map_of nvs name of Some v \<Rightarrow> v | None \<Rightarrow> [])"
  using assms(1)
proof (induction nvs)
  case (Cons nv nvs)
  with find_cookie_part [of nv name "CHR '' '' # cookie_pair nv"] assms(2) show ?case
    by (cases nv) (auto simp del: find_cookie.simps(2))
qed simp

lemma find_cookie_header:
  assumes "list_all cookie_ok nvs" and "CHR ''='' \<notin> set name"
  shows "find_cookie (name @ ''='') (split_on CHR '';'' (cookie_header nvs)) =
    (case map_of nvs name of Some v \<Rightarrow> v | None \<Rightarrow> [])"
proof (cases nvs)
  case Nil
  then show ?thesis
    by (simp add: trim_def trim_start_def starts_with_def)
next
  case (Cons nv nvs')
  with assms split_cookie_header [of nv nvs' "[]"] find_cookie_part [of nv name "cookie_pair nv"]
    find_cookie_parts [of nvs' name] show ?thesis
    by (cases nv) (auto simp del: find_cookie.simps(2))
qed

text \<open>
  C7. Cookie affinity. For a cluster configured to hash on the cookie \<open>name\<close>, the hash key of a
  request carrying any well-formed list of cookies is exactly the value of the first cookie of that
  name, and the empty key when there is none: a cookie whose name merely begins or ends with
  \<open>name\<close>, or whose value contains it, is never taken for it.
\<close>

theorem cookie_affinity:
  assumes "list_all cookie_ok cookies" and "CHR ''='' \<notin> set name"
    and "req_header api w ''Cookie'' = Some v" and "header_to_str api v = Some (cookie_header cookies)"
  shows "hash_key api (lbc_hash_source (cluster_new lb tls sni cert opts (Some (HS_Cookie name)))) w =
    ((case map_of cookies name of Some value \<Rightarrow> value | None \<Rightarrow> []), w)"
  using find_cookie_header [OF assms(1,2)] assms(3,4) by (simp add: hash_key_def cluster_new_def)

theorem cookie_affinity_witness:
  "hash_key sample_api
     (lbc_hash_source (cluster_new (\<lambda>k n w. (None, w)) False [] None None (Some (HS_Cookie ''sid''))))
     (sample_request ''/'' [(''Cookie'', ''xsid=a; sid=b=c; sid=d'')]) =
   (''b=c'', sample_request ''/'' [(''Cookie'', ''xsid=a; sid=b=c; sid=d'')])"
  using cookie_affinity [of "[(''xsid'', ''a''), (''sid'', ''b=c''), (''sid'', ''d'')]" "''sid''" sample_api
      "sample_request ''/'' [(''Cookie'', ''xsid=a; sid=b=c; sid=d'')]" "''xsid=a; sid=b=c; sid=d''"
      "\<lambda>k n w. (None, w)" False "[]" None None]
  by (simp add: cookie_ok_def cookie_pair_def is_space_def sample_request_def)

text \<open>
  Client affinity. When requests are hashed on the client's address, two IPv4 clients get the
  same hash key only if they have the same address; the port plays no part.
\<close>

theorem client_ip_affinity:
  assumes "client_addr api w = Some (Inet (SocketAddr (V4 a) p))"
    and "client_addr api w' = Some (Inet (SocketAddr (V4 b) q))"
  shows "fst (hash_key api HS_ClientIp w) = fst (hash_key api HS_ClientIp w') \<longleftrightarrow> a = b"
  using assms by (simp add: hash_key_def v4_string_inject)

theorem client_ip_affinity_witness:
  "fst (hash_key sample_api HS_ClientIp (sample_request ''/a'' [])) \<noteq>
   fst (hash_key sample_api HS_ClientIp
     ((sample_request ''/b'' [])\<lparr>sw_addr := Some (Inet (SocketAddr (V4 1) 80))\<rparr>))"
  using client_ip_affinity [of sample_api "sample_request ''/a'' []" 167772161 4000
      "(sample_request ''/b'' [])\<lparr>sw_addr := Some (Inet (SocketAddr (V4 1) 80))\<rparr>" 1 80]
  by (simp add: sample_request_def)

section \<open>Selection\<close>

lemma lb_select_peer_eq:
  "lb_select_peer papi api self (w, c) =
     (let (key, w1) = hash_key api (lbc_hash_source self) w; (choice, w2) = lb_select self key 256 w1
      in case choice of
           None \<Rightarrow> (Err (Gateway UpstreamUnavailable), (w2, c))
         | Some b \<Rightarrow>
             (let s = note_peer (be_addr b) (lbc_sni self) (w2, c)
              in case peer_of_backend papi b (lbc_tls self) (lbc_sni self) of
                   Ok peer \<Rightarrow> (Ok (apply_options (lbc_options self) (lbc_client_cert self) peer), s)
                 | Err e \<Rightarrow> (Err e, s)
                 | Panic p \<Rightarrow> (Panic p, s)))"
  by (auto simp: lb_select_peer_def Let_def split: prod.splits option.splits outcome.splits)

lemma lb_select_peer_Ok:
  assumes "lb_select_peer papi api self (w, c) = (Ok peer, s')"
  obtains key w1 b w2 peer0 where "hash_key api (lbc_hash_source self) w = (key, w1)"
    and "lb_select self key 256 w1 = (Some b, w2)"
    and "peer_of_backend papi b (lbc_tls self) (lbc_sni self) = Ok peer0"
    and "peer = apply_options (lbc_options self) (lbc_client_cert self) peer0"
    and "s' = note_peer (be_addr b) (lbc_sni self) (w2, c)"
  using assms by (auto simp: lb_select_peer_eq Let_def split: prod.splits option.splits outcome.splits)

interpretation lb: upstream_contract "lb_select_peer papi api self" "lbc_options self" "lbc_sni self"
  "lbc_client_cert self"
proof
  fix s s' :: "'a \<times> 'b gateway_context" and peer
  obtain w c where s: "s = (w, c)"
    by (cases s)
  show "ctx_ok (snd (snd (lb_select_peer papi api self s)))" if "ctx_ok (snd s)"
    using that by (auto simp: s lb_select_peer_eq Let_def note_peer_ok
        split: prod.splits option.splits outcome.splits)
  show "peer_configured (lbc_options self) (lbc_client_cert self) peer"
    if "lb_select_peer papi api self s = (Ok peer, s')"
    using that unfolding s by (auto elim!: lb_select_peer_Ok simp: peer_configured_apply)
  show "\<exists>m a. get_request_meta (snd s') = Some m \<and> peer_addr m = Some a \<and> rm_sni m = Some (lbc_sni self)"
    if "ctx_ok (snd s)" and "lb_select_peer papi api self s = (Ok peer, s')"
  proof -
    from that(2) obtain b :: backend and w2 where "s' = note_peer (be_addr b) (lbc_sni self) (w2, c)"
      unfolding s by (rule lb_select_peer_Ok)
    then show ?thesis
      using note_peer_meta [of "(w2, c)" "be_addr b" "lbc_sni self"] that(1) by (auto simp: s)
  qed
qed

text \<open>
  C32. Peer selection by a cluster, on every path. The balancer is asked once, with the request's
  hash key and 256 iterations. With no backend the outcome is the gateway error
  \<open>UpstreamUnavailable\<close> and the context is untouched. When a peer is returned it was built from the
  chosen backend with the cluster's TLS setting and SNI, all its timeouts, protocol, verification
  and certificate settings are the cluster's, and the request's metadata now names the backend's
  address and the SNI.
\<close>

theorem lb_selection:
  assumes "ctx_ok c" and "hash_key api (lbc_hash_source self) w = (key, w1)"
    and "lb_select self key 256 w1 = (choice, w2)"
  shows "case choice of
      None \<Rightarrow> lb_select_peer papi api self (w, c) = (Err (Gateway UpstreamUnavailable), (w2, c))
    | Some b \<Rightarrow>
        (case peer_of_backend papi b (lbc_tls self) (lbc_sni self) of
           Ok peer0 \<Rightarrow>
             \<exists>peer c' m. lb_select_peer papi api self (w, c) = (Ok peer, (w2, c')) \<and>
               peer_configured (lbc_options self) (lbc_client_cert self) peer \<and>
               p_address peer = p_address peer0 \<and> p_sni peer = p_sni peer0 \<and>
               get_request_meta c' = Some m \<and> peer_addr m = Some (be_addr b) \<and>
               rm_sni m = Some (lbc_sni self)
         | r \<Rightarrow> \<forall>peer. fst (lb_select_peer papi api self (w, c)) \<noteq> Ok peer)"
proof (cases choice)
  case None
  with assms show ?thesis
    by (simp add: lb_select_peer_eq)
next
  case (Some b)
  obtain m where "get_request_meta (snd (note_peer (be_addr b) (lbc_sni self) (w2, c))) = Some m"
    and "peer_addr m = Some (be_addr b)" and "rm_sni m = Some (lbc_sni self)"
    using note_peer_meta [of "(w2, c)"] assms(1) by auto
  moreover have "note_peer (be_addr b) (lbc_sni self) (w2, c) =
      (w2, snd (note_peer (be_addr b) (lbc_sni self) (w2, c)))"
    by (simp add: prod_eq_iff)
  ultimately show ?thesis
    using assms(2,3) Some
    by (auto simp: lb_select_peer_eq peer_configured_apply split: outcome.splits)
qed

definition sample_cluster :: "sample load_balancer_cluster" where
  "sample_cluster =
     cluster_new (\<lambda>key n w. (Some \<lparr>be_addr = Inet (SocketAddr (V4 7) 80), be_weight = 1\<rparr>, w)) True ''api''
       None None (Some HS_Uri)"

lemma ctx_ok_meta_ctx: "ctx_ok (ctx_write (A_RequestMeta m) ctx_new)"
  by (simp add: ctx_ok_def ctx_wf_write ctx_wf_new) (simp add: ctx_new_def)

theorem lb_selection_witness:
  "\<exists>peer c' m. lb_select_peer sample_peers sample_api sample_cluster
      (sample_request ''/a'' [], ctx_write (A_RequestMeta (default_request_meta 0)) ctx_new) =
      (Ok peer, (sample_request ''/a'' [], c')) \<and>
    peer_configured default_cluster_options None peer \<and>
    p_address peer = Inet (SocketAddr (V4 7) 80) \<and> p_sni peer = ''api'' \<and>
    get_request_meta c' = Some m \<and> peer_addr m = Some (Inet (SocketAddr (V4 7) 80)) \<and>
    rm_sni m = Some ''api''"
  using lb_selection [of "ctx_write (A_RequestMeta (default_request_meta 0)) ctx_new" sample_api
      sample_cluster "sample_request ''/a'' []" "''/a''" "sample_request ''/a'' []"
      "Some \<lparr>be_addr = Inet (SocketAddr (V4 7) 80), be_weight = 1\<rparr>" "sample_request ''/a'' []" sample_peers]
  by (simp add: ctx_ok_meta_ctx sample_cluster_def cluster_new_def hash_key_def sample_request_def
      sample_peer_def)

end
