(* ===== verification/Factory.thy ===== *)
theory Factory
  imports Static_Upstream Load_Balancer
begin

text \<open>
  \<^verbatim>\<open>src/upstreams/factory.rs\<close>: from the configuration of an upstream to the object that selects its
  peers and the background services that keep it up to date; and the service-discovery and
  health-check plug-ins it installs. Pingora's \<^verbatim>\<open>LoadBalancer<S>\<close> is the record of what the code
  configures on it, with the selection algorithm \<^verbatim>\<open>S\<close> as a field; how a configured balancer selects
  (\<open>run_lb\<close>) is a parameter, as are name resolution, the file system, the parsers of backend files
  and running a shell command.
\<close>

section \<open>What the factory configures\<close>

datatype algorithm = Alg_RoundRobin | Alg_Ketama | Alg_Random

datatype discovery =
    StaticDiscovery "backend set"
  | DnsDiscovery string
  | FileDiscovery string file_format

record command_health_check =
  chc_command :: string
  chc_timeout :: duration
  chc_args :: "string list"
  failure_threshold :: usize
  success_threshold :: usize

record probe_settings =
  pr_connection_timeout :: "duration option"
  pr_consecutive_success :: usize
  pr_consecutive_failure :: usize

text \<open>An HTTP probe has a host, a TLS flag and, when the configured path parses, a request URI.\<close>

datatype health_check =
    TcpProbe probe_settings
  | HttpProbe string bool probe_settings "string option"
  | CommandProbe command_health_check

record load_balancer =
  lb_algorithm :: algorithm
  lb_discovery :: discovery
  lb_update_frequency :: "duration option"
  lb_health_check :: "health_check option"
  lb_health_check_frequency :: "duration option"
  lb_parallel_health_check :: bool

definition from_backends :: "algorithm \<Rightarrow> discovery \<Rightarrow> load_balancer" where
  "from_backends alg d =
     \<lparr>lb_algorithm = alg, lb_discovery = d, lb_update_frequency = None, lb_health_check = None,
      lb_health_check_frequency = None, lb_parallel_health_check = False\<rparr>"

record background =
  bg_name :: string
  bg_task :: load_balancer

datatype 'w built_upstream =
    BuiltStatic static_upstream
  | BuiltCluster "'w load_balancer_cluster"

fun as_upstream ::
  "peer_api \<Rightarrow> 'w session_api \<Rightarrow> 'w built_upstream \<Rightarrow> ('w, 'net) upstream" where
  "as_upstream papi api (BuiltStatic u) = static_select_peer papi u"
| "as_upstream papi api (BuiltCluster u) = lb_select_peer papi api u"

section \<open>Discovery\<close>

definition backend_of :: "usize \<Rightarrow> inet_addr \<Rightarrow> backend" where
  "backend_of weight addr = \<lparr>be_addr = Inet addr, be_weight = weight\<rparr>"

text \<open>Inserting the resolved addresses of one entry into the set of backends.\<close>

fun insert_addrs :: "usize \<Rightarrow> inet_addr list \<Rightarrow> backend set \<Rightarrow> backend set" where
  "insert_addrs weight [] upstreams = upstreams"
| "insert_addrs weight (addr # addrs) upstreams =
     insert_addrs weight addrs (insert (backend_of weight addr) upstreams)"

fun resolve_backends ::
  "(string \<Rightarrow> string + inet_addr list) \<Rightarrow> backend_conf list \<Rightarrow> backend set \<Rightarrow>
   pingora_error + backend set" where
  "resolve_backends resolve [] upstreams = Inr upstreams"
| "resolve_backends resolve (b_conf # b_confs) upstreams =
     (case resolve (b_address b_conf) of
        Inl e \<Rightarrow> Inl (explain ET_InternalError e)
      | Inr addrs \<Rightarrow>
          resolve_backends resolve b_confs (insert_addrs (ucast (b_weight b_conf)) addrs upstreams))"

definition dns_discover ::
  "(string \<Rightarrow> 'w \<Rightarrow> (string + inet_addr list) \<times> 'w) \<Rightarrow> string \<Rightarrow> 'w \<Rightarrow>
   (pingora_error + backend set \<times> (u64 \<rightharpoonup> bool)) \<times> 'w" where
  "dns_discover lookup_host hostname w =
     (case lookup_host hostname w of
        (Inl e, w) \<Rightarrow> (Inl (new_error (ET_Custom ''DNSResolutionFailed'')), w)
      | (Inr addrs, w) \<Rightarrow> (Inr (insert_addrs 1 addrs {}, Map.empty), w))"

definition file_discover ::
  "(string \<Rightarrow> 'w \<Rightarrow> (string + string) \<times> 'w) \<Rightarrow> (file_format \<Rightarrow> string \<Rightarrow> string + backend_conf list) \<Rightarrow>
   (string \<Rightarrow> string + inet_addr list) \<Rightarrow> string \<Rightarrow> file_format \<Rightarrow> 'w \<Rightarrow>
   (pingora_error + backend set \<times> (u64 \<rightharpoonup> bool)) \<times> 'w" where
  "file_discover read_to_string parse resolve path format w =
     (case read_to_string path w of
        (Inl e, w) \<Rightarrow> (Inl (explain ET_InternalError e), w)
      | (Inr content, w) \<Rightarrow>
          (case parse format content of
             Inl e \<Rightarrow> (Inl (explain ET_InternalError e), w)
           | Inr backend_confs \<Rightarrow>
               (case resolve_backends resolve backend_confs {} of
                  Inl e \<Rightarrow> (Inl e, w)
                | Inr upstreams \<Rightarrow> (Inr (upstreams, Map.empty), w))))"

section \<open>The command health check\<close>

datatype command_result = CmdOutput bool | CmdError string | CmdTimeout

definition command_check_new ::
  "string \<Rightarrow> duration \<Rightarrow> string list \<Rightarrow> usize \<Rightarrow> usize \<Rightarrow> command_health_check" where
  "command_check_new command timeout args failure success =
     \<lparr>chc_command = command, chc_timeout = timeout, chc_args = args,
      failure_threshold = failure, success_threshold = success\<rparr>"

definition command_check ::
  "(string \<Rightarrow> string \<Rightarrow> duration \<Rightarrow> 'w \<Rightarrow> command_result \<times> 'w) \<Rightarrow> (sock_addr \<Rightarrow> string) \<Rightarrow>
   command_health_check \<Rightarrow> backend \<Rightarrow> 'w \<Rightarrow> (pingora_error, unit) outcome \<times> 'w" where
  "command_check run_sh show_addr self target w =
     (case run_sh (chc_command self) (show_addr (be_addr target)) (chc_timeout self) w of
        (CmdOutput success, w) \<Rightarrow>
          (if success then (Ok (), w)
           else (Err (explain (ET_Custom ''HealthCheckFailed'') ''Non-zero exit code''), w))
      | (CmdError e, w) \<Rightarrow> (Err (explain (ET_Custom ''CommandFailed'') e), w)
      | (CmdTimeout, w) \<Rightarrow> (Err (explain ET_ReadTimedout ''Health check timed out''), w))"

definition health_threshold :: "command_health_check \<Rightarrow> bool \<Rightarrow> usize" where
  "health_threshold self success = (if success then success_threshold self else failure_threshold self)"

section \<open>Building an upstream\<close>

definition probe_of :: "health_check_common \<Rightarrow> probe_settings" where
  "probe_of common =
     \<lparr>pr_connection_timeout = Some (hc_timeout common),
      pr_consecutive_success = hc_consecutive_success common,
      pr_consecutive_failure = hc_consecutive_failure common\<rparr>"

definition finalize_lb ::
  "(string \<Rightarrow> string option) \<Rightarrow> load_balancer \<Rightarrow> upstream_conf \<Rightarrow> load_balancer \<times> background list" where
  "finalize_lb parse_uri lb conf =
     (let lb =
        (case u_health_check conf of
           None \<Rightarrow> lb
         | Some (HC_Tcp common) \<Rightarrow>
             lb\<lparr>lb_health_check := Some (TcpProbe (probe_of common)),
                lb_health_check_frequency := Some (hc_interval common)\<rparr>
         | Some (HC_Http common path expected_status) \<Rightarrow>
             (let host = (case u_source conf of US_Dns hostname refresh \<Rightarrow> hostname | _ \<Rightarrow> ''localhost'')
              in lb\<lparr>lb_health_check :=
                      Some (HttpProbe host (co_tls (u_options conf)) (probe_of common) (parse_uri path)),
                    lb_health_check_frequency := Some (hc_interval common)\<rparr>)
         | Some (HC_Custom common command) \<Rightarrow>
             lb\<lparr>lb_health_check :=
                  Some (CommandProbe (command_check_new command (hc_timeout common) []
                    (hc_consecutive_failure common) (hc_consecutive_success common))),
                lb_health_check_frequency := Some (hc_interval common)\<rparr>);
          lb = lb\<lparr>lb_parallel_health_check := True\<rparr>
      in (lb, [\<lparr>bg_name = ''lb-'' @ u_id conf, bg_task = lb\<rparr>]))"

definition lb_for_source ::
  "(string \<Rightarrow> string + inet_addr list) \<Rightarrow> algorithm \<Rightarrow> upstream_conf \<Rightarrow> pingora_error + load_balancer" where
  "lb_for_source resolve alg conf =
     (case u_source conf of
        US_Static backends \<Rightarrow>
          (case resolve_backends resolve backends {} of
             Inl e \<Rightarrow> Inl e
           | Inr upstreams \<Rightarrow> Inr (from_backends alg (StaticDiscovery upstreams)))
      | US_Dns hostname refresh_interval \<Rightarrow>
          Inr ((from_backends alg (DnsDiscovery hostname))\<lparr>lb_update_frequency := Some refresh_interval\<rparr>)
      | US_File path format refresh_interval \<Rightarrow>
          Inr ((from_backends alg (FileDiscovery path format))\<lparr>lb_update_frequency := Some refresh_interval\<rparr>)
      | US_Uds path \<Rightarrow>
          Inl (explain (ET_Custom ''InvalidConfiguration'')
            ''Unix Domain Sockets cannot be used with Load Balancer Selection algorithms.''))"

type_synonym 'w run_lb = "load_balancer \<Rightarrow> string \<Rightarrow> usize \<Rightarrow> 'w \<Rightarrow> backend option \<times> 'w"

definition make_lb_instance ::
  "(string \<Rightarrow> string + inet_addr list) \<Rightarrow> (string \<Rightarrow> string option) \<Rightarrow> 'w run_lb \<Rightarrow> algorithm \<Rightarrow>
   upstream_conf \<Rightarrow> pingora_error + 'w built_upstream \<times> background list" where
  "make_lb_instance resolve parse_uri run_lb alg conf =
     (case lb_for_source resolve alg conf of
        Inl e \<Rightarrow> Inl e
      | Inr lb \<Rightarrow>
          (let (shared_lb, services) = finalize_lb parse_uri lb conf;
               cluster = cluster_new (run_lb shared_lb) (co_tls (u_options conf))
                 (case co_sni (u_options conf) of Some sni \<Rightarrow> sni | None \<Rightarrow> [])
                 None (Some (u_options conf)) (Some (u_hash_source conf))
           in Inr (BuiltCluster cluster, services)))"

definition make_upstream ::
  "(string \<Rightarrow> string + inet_addr list) \<Rightarrow> (string \<Rightarrow> string option) \<Rightarrow> 'w run_lb \<Rightarrow>
   upstream_conf \<Rightarrow> pingora_error + 'w built_upstream \<times> background list" where
  "make_upstream resolve parse_uri run_lb conf =
     (case u_source conf of
        US_Uds path \<Rightarrow> Inr (BuiltStatic (static_new_uds path (u_options conf)), [])
      | _ \<Rightarrow>
          (case u_selection conf of
             RoundRobin \<Rightarrow> make_lb_instance resolve parse_uri run_lb Alg_RoundRobin conf
           | Consistent \<Rightarrow> make_lb_instance resolve parse_uri run_lb Alg_Ketama conf
           | Random \<Rightarrow> make_lb_instance resolve parse_uri run_lb Alg_Random conf))"

section \<open>Resolving backends\<close>

lemma insert_addrs_eq: "insert_addrs weight addrs upstreams = upstreams \<union> backend_of weight ` set addrs"
  by (induction addrs arbitrary: upstreams) auto

text \<open>The backends a list of entries stands for, when its addresses resolve.\<close>

definition backends_of ::
  "(string \<Rightarrow> string + inet_addr list) \<Rightarrow> backend_conf list \<Rightarrow> backend set" where
  "backends_of resolve confs =
     {b. \<exists>conf addrs addr. conf \<in> set confs \<and> resolve (b_address conf) = Inr addrs \<and>
        addr \<in> set addrs \<and> b = backend_of (ucast (b_weight conf)) addr}"

definition resolvable :: "(string \<Rightarrow> string + inet_addr list) \<Rightarrow> backend_conf \<Rightarrow> bool" where
  "resolvable resolve conf \<longleftrightarrow> (\<exists>addrs. resolve (b_address conf) = Inr addrs)"

lemma backends_of_Cons:
  "backends_of resolve (conf # confs) =
     (case resolve (b_address conf) of
        Inr addrs \<Rightarrow> backend_of (ucast (b_weight conf)) ` set addrs
      | Inl e \<Rightarrow> {}) \<union> backends_of resolve confs"
  by (auto simp: backends_of_def split: sum.splits)

lemma resolve_backends_result:
  "resolve_backends resolve confs S =
     (case find (\<lambda>c. \<not> resolvable resolve c) confs of
        None \<Rightarrow> Inr (S \<union> backends_of resolve confs)
      | Some c \<Rightarrow> Inl (explain ET_InternalError (projl (resolve (b_address c)))))"
proof (induction confs arbitrary: S)
  case Nil
  show ?case
    by (simp add: backends_of_def)
next
  case (Cons conf confs)
  show ?case
  proof (cases "resolve (b_address conf)")
    case (Inl e)
    then show ?thesis
      by (simp add: resolvable_def)
  next
    case (Inr addrs)
    then have "backends_of resolve (conf # confs) =
        backend_of (ucast (b_weight conf)) ` set addrs \<union> backends_of resolve confs"
      by (simp add: backends_of_Cons)
    with Inr Cons.IH show ?thesis
      by (simp add: resolvable_def insert_addrs_eq Un_assoc split: option.split)
  qed
qed

lemma resolve_backends_Inr_iff:
  "resolve_backends resolve confs {} = Inr S \<longleftrightarrow>
     (\<forall>c \<in> set confs. resolvable resolve c) \<and> S = backends_of resolve confs"
  by (auto simp: resolve_backends_result find_None_iff find_Some_iff split: option.splits)

text \<open>
  Static backends and backend files are resolved completely or not at all. Resolution yields
  exactly the set of all the addresses every entry resolves to, each with its entry's weight
  (duplicates once), when every entry resolves; otherwise the error is an internal error carrying
  the resolver's message for the first entry, in configuration order, that does not resolve.
\<close>

theorem resolve_backends_complete:
  "resolve_backends resolve confs {} =
     (case find (\<lambda>c. \<not> resolvable resolve c) confs of
        None \<Rightarrow> Inr (backends_of resolve confs)
      | Some c \<Rightarrow> Inl (explain ET_InternalError (projl (resolve (b_address c)))))"
  by (simp add: resolve_backends_result split: option.split)

section \<open>What is built\<close>

definition algorithm_of :: "load_balancer_selection \<Rightarrow> algorithm" where
  "algorithm_of sel = (case sel of RoundRobin \<Rightarrow> Alg_RoundRobin | Consistent \<Rightarrow> Alg_Ketama | Random \<Rightarrow> Alg_Random)"

lemma make_upstream_eq:
  "make_upstream resolve parse_uri run_lb conf =
     (case u_source conf of
        US_Uds path \<Rightarrow> Inr (BuiltStatic (static_new_uds path (u_options conf)), [])
      | _ \<Rightarrow> make_lb_instance resolve parse_uri run_lb (algorithm_of (u_selection conf)) conf)"
  by (simp add: make_upstream_def algorithm_of_def split: upstream_source.split load_balancer_selection.split)

text \<open>
  The probe the factory sets up for a configuration. Of an HTTP check it takes the host, the TLS
  setting, the thresholds and the path; the expected status of the configuration is in none of them.
\<close>

definition probe_for :: "(string \<Rightarrow> string option) \<Rightarrow> upstream_conf \<Rightarrow> health_check option" where
  "probe_for parse_uri conf =
     map_option
       (\<lambda>hc. case hc of
          HC_Tcp common \<Rightarrow> TcpProbe (probe_of common)
        | HC_Http common path expected \<Rightarrow>
            HttpProbe (case u_source conf of US_Dns hostname refresh \<Rightarrow> hostname | _ \<Rightarrow> ''localhost'')
              (co_tls (u_options conf)) (probe_of common) (parse_uri path)
        | HC_Custom common command \<Rightarrow>
            CommandProbe (command_check_new command (hc_timeout common) []
              (hc_consecutive_failure common) (hc_consecutive_success common)))
       (u_health_check conf)"

fun common_of :: "health_check_conf \<Rightarrow> health_check_common" where
  "common_of (HC_Tcp common) = common"
| "common_of (HC_Http common path expected) = common"
| "common_of (HC_Custom common command) = common"

lemma finalize_lb_result:
  assumes "finalize_lb parse_uri lb conf = (lb', services)"
    and "lb_health_check lb = None" and "lb_health_check_frequency lb = None"
  shows "services = [\<lparr>bg_name = ''lb-'' @ u_id conf, bg_task = lb'\<rparr>]"
    and "lb' = lb\<lparr>lb_health_check := probe_for parse_uri conf,
      lb_health_check_frequency := map_option (\<lambda>hc. hc_interval (common_of hc)) (u_health_check conf),
      lb_parallel_health_check := True\<rparr>"
  using assms by (auto simp: finalize_lb_def probe_for_def Let_def split: option.splits health_check_conf.splits)

text \<open>The settings the factory never looks at.\<close>

lemma make_upstream_unused_backups:
  "make_upstream resolve parse_uri run_lb (conf\<lparr>u_backup_backends := backups\<rparr>) =
     make_upstream resolve parse_uri run_lb conf"
  by (simp add: make_upstream_def make_lb_instance_def lb_for_source_def finalize_lb_def Let_def
      cong: option.case_cong health_check_conf.case_cong upstream_source.case_cong load_balancer_selection.case_cong
        sum.case_cong)

lemma make_upstream_unused_status:
  assumes "u_health_check conf = Some (HC_Http common path expected)"
  shows "make_upstream resolve parse_uri run_lb
      (conf\<lparr>u_health_check := Some (HC_Http common path other)\<rparr>) =
    make_upstream resolve parse_uri run_lb conf"
  using assms by (simp add: make_upstream_def make_lb_instance_def lb_for_source_def finalize_lb_def Let_def
      cong: option.case_cong health_check_conf.case_cong upstream_source.case_cong load_balancer_selection.case_cong
        sum.case_cong)

text \<open>How often a source is refreshed, and what it discovers.\<close>

fun source_discovery ::
  "(string \<Rightarrow> string + inet_addr list) \<Rightarrow> upstream_source \<Rightarrow> (discovery \<times> duration option) option" where
  "source_discovery resolve (US_Static bs) = Some (StaticDiscovery (backends_of resolve bs), None)"
| "source_discovery resolve (US_Dns host refresh) = Some (DnsDiscovery host, Some refresh)"
| "source_discovery resolve (US_File path format refresh) = Some (FileDiscovery path format, Some refresh)"
| "source_discovery resolve (US_Uds path) = None"

text \<open>
  C33. What a balanced upstream is built from, and what it is not. When building a non-socket upstream
  succeeds, it comes with exactly one background service, named after the upstream's id, whose task
  is the very balancer the cluster selects from; that balancer has the configured algorithm,
  discovery source and refresh interval, and a health check exactly if one is configured, run in
  parallel at the configured frequency, of the configured kind and with its timeout, thresholds and
  path or command; the cluster carries the configured options, TLS setting, SNI (empty when absent)
  and hash source. But two settings of the schema have no effect at all: whatever the expected status
  of an HTTP check and whatever the backup backends, the very same upstream and service are built.
\<close>

theorem cluster_built_from:
  assumes "make_upstream resolve parse_uri run_lb conf = Inr (u, services)"
    and "source_discovery resolve (u_source conf) = Some (d, refresh)"
  shows "(\<exists>lb. services = [\<lparr>bg_name = ''lb-'' @ u_id conf, bg_task = lb\<rparr>] \<and>
      lb_algorithm lb = algorithm_of (u_selection conf) \<and> lb_discovery lb = d \<and>
      lb_update_frequency lb = refresh \<and> lb_health_check lb = probe_for parse_uri conf \<and>
      lb_health_check_frequency lb = map_option (\<lambda>hc. hc_interval (common_of hc)) (u_health_check conf) \<and>
      lb_parallel_health_check lb \<and>
      u = BuiltCluster (cluster_new (run_lb lb) (co_tls (u_options conf))
        (case co_sni (u_options conf) of Some sni \<Rightarrow> sni | None \<Rightarrow> []) None
        (Some (u_options conf)) (Some (u_hash_source conf)))) \<and>
    (\<forall>common path expected other. u_health_check conf = Some (HC_Http common path expected) \<longrightarrow>
      make_upstream resolve parse_uri run_lb
        (conf\<lparr>u_health_check := Some (HC_Http common path other)\<rparr>) =
      Inr (u, services)) \<and>
    (\<forall>backups. make_upstream resolve parse_uri run_lb (conf\<lparr>u_backup_backends := backups\<rparr>) = Inr (u, services))"
proof -
  from assms have made: "make_lb_instance resolve parse_uri run_lb (algorithm_of (u_selection conf)) conf =
      Inr (u, services)"
    by (cases "u_source conf") (simp_all add: make_upstream_eq)
  then obtain lb lb' where lb: "lb_for_source resolve (algorithm_of (u_selection conf)) conf = Inr lb"
    and final: "finalize_lb parse_uri lb conf = (lb', services)"
    and u: "u = BuiltCluster (cluster_new (run_lb lb') (co_tls (u_options conf))
      (case co_sni (u_options conf) of Some sni \<Rightarrow> sni | None \<Rightarrow> []) None
      (Some (u_options conf)) (Some (u_hash_source conf)))"
    by (auto simp: make_lb_instance_def split: sum.splits prod.splits)
  from lb assms(2) have "lb = (from_backends (algorithm_of (u_selection conf)) d)\<lparr>lb_update_frequency := refresh\<rparr>"
    by (auto simp: lb_for_source_def from_backends_def resolve_backends_Inr_iff
        split: upstream_source.splits sum.splits)
  note built = finalize_lb_result [OF final] this u
  then have "\<exists>lb. services = [\<lparr>bg_name = ''lb-'' @ u_id conf, bg_task = lb\<rparr>] \<and>
      lb_algorithm lb = algorithm_of (u_selection conf) \<and> lb_discovery lb = d \<and>
      lb_update_frequency lb = refresh \<and> lb_health_check lb = probe_for parse_uri conf \<and>
      lb_health_check_frequency lb = map_option (\<lambda>hc. hc_interval (common_of hc)) (u_health_check conf) \<and>
      lb_parallel_health_check lb \<and>
      u = BuiltCluster (cluster_new (run_lb lb) (co_tls (u_options conf))
        (case co_sni (u_options conf) of Some sni \<Rightarrow> sni | None \<Rightarrow> []) None
        (Some (u_options conf)) (Some (u_hash_source conf)))"
    by (intro exI [of _ lb']) (simp add: from_backends_def)
  then show ?thesis
    by (simp add: make_upstream_unused_status make_upstream_unused_backups assms(1))
qed

definition sample_upstream :: upstream_conf where
  "sample_upstream =
     \<lparr>u_id = ''api'', u_source = US_Static [\<lparr>b_address = ''a:80'', b_weight = 3\<rparr>],
      u_selection = Consistent, u_hash_source = HS_ClientIp, u_options = default_cluster_options,
      u_health_check = Some (HC_Http \<lparr>hc_interval = default_health_interval, hc_timeout = default_health_timeout,
        hc_consecutive_success = 1, hc_consecutive_failure = 2\<rparr> ''/health'' 204),
      u_backup_backends = []\<rparr>"

definition sample_resolve :: "string \<Rightarrow> string + inet_addr list" where
  "sample_resolve s = (if s = ''a:80'' then Inr [SocketAddr (V4 9) 80] else Inl ''failed to lookup address'')"

definition sample_run :: "sample run_lb" where
  "sample_run lb key n w = (None, w)"

lemma sample_upstream_built:
  "make_upstream sample_resolve Some sample_run sample_upstream =
     Inr (projr (make_upstream sample_resolve Some sample_run sample_upstream))"
  by (simp add: make_upstream_def make_lb_instance_def lb_for_source_def finalize_lb_def
      sample_upstream_def sample_resolve_def Let_def)

theorem cluster_built_from_witness:
  "\<exists>u lb common. make_upstream sample_resolve Some sample_run sample_upstream =
      Inr (u, [\<lparr>bg_name = ''lb-api'', bg_task = lb\<rparr>]) \<and>
    lb_algorithm lb = Alg_Ketama \<and> lb_update_frequency lb = None \<and>
    u_health_check sample_upstream = Some (HC_Http common ''/health'' 204) \<and>
    make_upstream sample_resolve Some sample_run
      (sample_upstream\<lparr>u_health_check := Some (HC_Http common ''/health'' 500)\<rparr>) =
      Inr (u, [\<lparr>bg_name = ''lb-api'', bg_task = lb\<rparr>])"
proof -
  obtain u services where made: "make_upstream sample_resolve Some sample_run sample_upstream = Inr (u, services)"
    using sample_upstream_built by (metis surj_pair)
  obtain common where check: "u_health_check sample_upstream = Some (HC_Http common ''/health'' 204)"
    by (simp add: sample_upstream_def)
  have source: "source_discovery sample_resolve (u_source sample_upstream) =
      Some (StaticDiscovery (backends_of sample_resolve [\<lparr>b_address = ''a:80'', b_weight = 3\<rparr>]), None)"
    by (simp add: sample_upstream_def)
  note built = cluster_built_from [OF made source]
  then obtain lb where lb: "services = [\<lparr>bg_name = ''lb-'' @ u_id sample_upstream, bg_task = lb\<rparr>]"
    "lb_algorithm lb = algorithm_of (u_selection sample_upstream)" "lb_update_frequency lb = None"
    by blast
  from built check have other: "make_upstream sample_resolve Some sample_run
      (sample_upstream\<lparr>u_health_check := Some (HC_Http common ''/health'' 500)\<rparr>) = Inr (u, services)"
    by blast
  have ids: "u_id sample_upstream = ''api''" "algorithm_of (u_selection sample_upstream) = Alg_Ketama"
    by (simp_all add: sample_upstream_def algorithm_of_def)
  from made check other lb show ?thesis
    by (simp add: ids)
qed

text \<open>
  C34. How building an upstream can fail, completely: only for a static source, with an internal
  error carrying the resolver's message for its first unresolvable backend. In particular a Unix
  socket is always built, as a static upstream without a background service, whatever selection
  algorithm is configured with it, and the \<open>InvalidConfiguration\<close> error for sockets behind a
  balancer never occurs.
\<close>

theorem make_upstream_failures:
  "(case make_upstream resolve parse_uri run_lb conf of
      Inl e \<Rightarrow> \<exists>bs c m. u_source conf = US_Static bs \<and> find (\<lambda>c. \<not> resolvable resolve c) bs = Some c \<and>
        resolve (b_address c) = Inl m \<and> e = explain ET_InternalError m
    | Inr (u, services) \<Rightarrow>
        (case u_source conf of
           US_Uds path \<Rightarrow> u = BuiltStatic (static_new_uds path (u_options conf)) \<and> services = []
         | US_Static bs \<Rightarrow> find (\<lambda>c. \<not> resolvable resolve c) bs = None
         | _ \<Rightarrow> True))"
proof (cases "u_source conf")
  case (US_Static bs)
  show ?thesis
  proof (cases "find (\<lambda>c. \<not> resolvable resolve c) bs")
    case None
    then show ?thesis
      by (simp add: US_Static make_upstream_eq make_lb_instance_def lb_for_source_def
          resolve_backends_result split: prod.split)
  next
    case (Some c)
    then have "\<not> resolvable resolve c"
      by (auto simp: find_Some_iff)
    then obtain m where "resolve (b_address c) = Inl m"
      by (cases "resolve (b_address c)") (auto simp: resolvable_def)
    with Some show ?thesis
      by (simp add: US_Static make_upstream_eq make_lb_instance_def lb_for_source_def
          resolve_backends_result)
  qed
qed (simp_all add: make_upstream_eq make_lb_instance_def lb_for_source_def split: prod.split)

end
