(* ===== verification/Metrics.thy ===== *)
theory Metrics
  imports Middleware Sample_World
begin

text \<open>
  \<^verbatim>\<open>src/middlewares/metrics.rs\<close>: one counter and one histogram, recorded when a request is logged.
  The Prometheus registry is part of the outside world: registering a metric and recording a value
  are parameters; a registered metric is known by a number. Durations are in clock ticks.
\<close>

record 'w metrics_api =
  register_counter :: "string \<Rightarrow> string \<Rightarrow> string list \<Rightarrow> 'w \<Rightarrow> (string, nat) outcome \<times> 'w"
  register_histogram :: "string \<Rightarrow> string \<Rightarrow> string list \<Rightarrow> 'w \<Rightarrow> (string, nat) outcome \<times> 'w"
  inc_counter :: "nat \<Rightarrow> string list \<Rightarrow> 'w \<Rightarrow> 'w"
  observe_value :: "nat \<Rightarrow> string list \<Rightarrow> nat \<Rightarrow> 'w \<Rightarrow> 'w"

record metrics_middleware =
  req_metric :: nat
  latency_metric :: nat

definition metric_labels :: "string list" where
  "metric_labels = [''method'', ''path'', ''status'', ''upstream'']"

text \<open>\<^verbatim>\<open>unwrap()\<close> of a registration.\<close>

definition unwrap_reg :: "(string, nat) outcome \<times> 'w \<Rightarrow> (unit, nat) outcome \<times> 'w" where
  "unwrap_reg r =
     (case r of
        (Ok n, w) \<Rightarrow> (Ok n, w)
      | (Err e, w) \<Rightarrow> (Panic e, w)
      | (Panic p, w) \<Rightarrow> (Panic p, w))"

definition metrics_new :: "'w metrics_api \<Rightarrow> 'w \<Rightarrow> (unit, metrics_middleware) outcome \<times> 'w" where
  "metrics_new mapi w =
     try_then
       (unwrap_reg (register_counter mapi ''http_requests_total'' ''Total number of HTTP requests''
          metric_labels w))
       (\<lambda>counter w.
          try_then
            (unwrap_reg (register_histogram mapi ''http_request_duration_seconds''
               ''The HTTP request latency in seconds.'' metric_labels w))
            (\<lambda>histogram w. (Ok \<lparr>req_metric = counter, latency_metric = histogram\<rparr>, w)))"

definition metrics_handle_logging ::
  "'w metrics_api \<Rightarrow> 'w session_api \<Rightarrow> metrics_middleware \<Rightarrow> pingora_error option \<Rightarrow>
   (('w, 'net) req, middleware_decision) hook" where
  "metrics_handle_logging mapi api self e s =
     (case get_request_meta (snd s) of
        Some meta \<Rightarrow>
          (let w = fst s;
               meth = req_method api w;
               path = (case matched_route_id meta of Some route_id \<Rightarrow> route_id | None \<Rightarrow> ''unknown'');
               up = (case upstream_id meta of Some i \<Rightarrow> i | None \<Rightarrow> ''unknown'');
               status = (case response_status api w of Some st \<Rightarrow> st | None \<Rightarrow> ''0'');
               labels = [meth, path, status, up];
               w1 = inc_counter mapi (req_metric self) labels w;
               w2 = observe_value mapi (latency_metric self) labels (instant_now api w1 - start_time meta) w1
           in (Ok Continue, (w2, snd s)))
      | None \<Rightarrow> (Ok Continue, s))"

definition metrics_hooks ::
  "'w metrics_api \<Rightarrow> 'w session_api \<Rightarrow> metrics_middleware \<Rightarrow> ('w, 'net, 'h) middleware" where
  "metrics_hooks mapi api self =
     (default_middleware ''metrics'')\<lparr>handle_logging := metrics_handle_logging mapi api self\<rparr>"

section \<open>Recording\<close>

lemma metrics_logging_continues:
  "fst (metrics_handle_logging mapi api self e s) = Ok Continue"
  "snd (snd (metrics_handle_logging mapi api self e s)) = snd s"
  by (simp_all add: metrics_handle_logging_def Let_def split: option.splits)

interpretation mt: middleware_contract "metrics_hooks mapi api self" ctx_ok
  by unfold_locales
     (simp_all add: metrics_hooks_def default_middleware_def continue_hook_def metrics_logging_continues)

end
