(* ===== verification/Request_Size.thy ===== *)
theory Request_Size
  imports Middleware Sample_World
begin

text \<open>
  \<^verbatim>\<open>src/middlewares/request_size.rs\<close>: the limit on request bodies. The declared length is checked
  when the request arrives, the bytes actually received as the body streams through. The running
  count is a \<^verbatim>\<open>usize\<close> and wraps around on overflow, as in a release build.
\<close>

section \<open>The middleware\<close>

record request_size_middleware =
  max_bytes :: usize

definition request_size_new :: "server_conf \<Rightarrow> request_size_middleware" where
  "request_size_new conf =
     \<lparr>max_bytes = (case client_max_body_size conf of Some max_body_size \<Rightarrow> max_body_size
                   | None \<Rightarrow> 1024 * 1024 * 10)\<rparr>"

definition rs_reject :: "'w session_api \<Rightarrow> (('w, 'net) req, middleware_decision) hook" where
  "rs_reject api s =
     try_then (map_err (\<lambda>e. Gateway (SizeLimited (show_error api e))) (on_world (respond_error api 413) s))
       (\<lambda>_ s. (Ok Stop, s))"

definition rs_handle_request ::
  "'w session_api \<Rightarrow> request_size_middleware \<Rightarrow> (('w, 'net) req, middleware_decision) hook" where
  "rs_handle_request api self s =
     try_then (on_ctx (ctx_insert (A_RequestSizeState default_request_size_state)) s)
       (\<lambda>_ s.
          case req_header api (fst s) ''content-length'' of
            None \<Rightarrow> (Ok Continue, s)
          | Some value \<Rightarrow>
              (case header_to_str api value of
                 None \<Rightarrow> (Ok Continue, s)
               | Some len_str \<Rightarrow>
                   (case parse_usize len_str of
                      None \<Rightarrow> (Ok Continue, s)
                    | Some len \<Rightarrow>
                        if max_bytes self < len then rs_reject api s else (Ok Continue, s))))"

definition rs_handle_request_body ::
  "'w session_api \<Rightarrow> request_size_middleware \<Rightarrow> bool \<Rightarrow>
   (('w, 'net) req \<times> string option, middleware_decision) hook" where
  "rs_handle_request_body api self end_of_stream sb =
     (let ((w, c), body) = sb
      in case get_size_state c of
           None \<Rightarrow> (Panic ''Request size state should exist'', sb)
         | Some req_size_state \<Rightarrow>
             (case body of
                None \<Rightarrow> (Ok Continue, sb)
              | Some b \<Rightarrow>
                  (let n = bytes_read req_size_state + of_nat (length b);
                       c' = ctx_write (A_RequestSizeState (req_size_state\<lparr>bytes_read := n\<rparr>)) c
                   in if max_bytes self \<le> n
                      then (case rs_reject api (w, c') of (r, s') \<Rightarrow> (r, (s', body)))
                      else (Ok Continue, ((w, c'), body)))))"

definition request_size_hooks ::
  "'w session_api \<Rightarrow> request_size_middleware \<Rightarrow> ('w, 'net, 'h) middleware" where
  "request_size_hooks api self =
     (default_middleware ''request_size'')
       \<lparr>handle_request := rs_handle_request api self,
        handle_request_body := rs_handle_request_body api self\<rparr>"

section \<open>Rejection\<close>

lemma fst_rs_reject_not_Continue: "fst (rs_reject api s) \<noteq> Ok Continue"
  unfolding rs_reject_def
  by (cases "respond_error api 413 (fst s)"; cases "fst (respond_error api 413 (fst s))")
     (auto simp: on_world_def)

lemma rs_reject_state: "snd (rs_reject api s) = (snd (respond_error api 413 (fst s)), snd s)"
  unfolding rs_reject_def
  by (cases "respond_error api 413 (fst s)"; cases "fst (respond_error api 413 (fst s))")
     (auto simp: on_world_def)

lemma rs_reject_Ok:
  "fst (respond_error api 413 (fst s)) = Ok () \<Longrightarrow> fst (rs_reject api s) = Ok Stop"
  unfolding rs_reject_def
  by (cases "respond_error api 413 (fst s)") (auto simp: on_world_def)

section \<open>The declared length\<close>

text \<open>The length the request declares, when it is one that can be read.\<close>

definition declared_length :: "'w session_api \<Rightarrow> 'w \<Rightarrow> usize option" where
  "declared_length api w =
     Option.bind (req_header api w ''content-length'')
       (\<lambda>v. Option.bind (header_to_str api v) parse_usize)"

lemma rs_handle_request_eq:
  assumes "ctx_wf c"
  shows "rs_handle_request api self (w, c) =
    (let s = (w, ctx_write (A_RequestSizeState default_request_size_state) c)
     in case declared_length api w of
          Some len \<Rightarrow> if max_bytes self < len then rs_reject api s else (Ok Continue, s)
        | None \<Rightarrow> (Ok Continue, s))"
  using assms
  by (auto simp: rs_handle_request_def on_ctx_def ctx_insert_eq declared_length_def
      split: option.splits)

section \<open>The streamed length\<close>

text \<open>The body hook, run over the chunks of a body until it does not continue.\<close>

fun feed_body ::
  "'w session_api \<Rightarrow> request_size_middleware \<Rightarrow> string list \<Rightarrow> (('w, 'net) req, middleware_decision) hook" where
  "feed_body api self [] s = (Ok Continue, s)"
| "feed_body api self (b # bs) s =
     (case rs_handle_request_body api self False (s, Some b) of
        (r, (s', _)) \<Rightarrow> if r = Ok Continue then feed_body api self bs s' else (r, s'))"

abbreviation size_ctx :: "usize \<Rightarrow> 'net gateway_context \<Rightarrow> 'net gateway_context" where
  "size_ctx n c \<equiv> ctx_write (A_RequestSizeState \<lparr>bytes_read = n\<rparr>) c"

lemma get_size_state_size_ctx [simp]: "get_size_state (size_ctx n c) = Some \<lparr>bytes_read = n\<rparr>"
  by (simp add: get_size_state_state)

lemma size_ctx_size_ctx [simp]: "size_ctx m (size_ctx n c) = size_ctx m c"
  by (simp add: ctx_write_def)

lemma body_hook_eq:
  "rs_handle_request_body api self eos ((w, size_ctx k c), Some b) =
     (let n = k + of_nat (length b)
      in if max_bytes self \<le> n
         then (case rs_reject api (w, size_ctx n c) of (r, s') \<Rightarrow> (r, (s', Some b)))
         else (Ok Continue, ((w, size_ctx n c), Some b)))"
  by (simp add: rs_handle_request_body_def Let_def)

lemma feed_body_Cons:
  "feed_body api self (b # bs) (w, size_ctx k c) =
     (let n = k + of_nat (length b)
      in if max_bytes self \<le> n then rs_reject api (w, size_ctx n c)
         else feed_body api self bs (w, size_ctx n c))"
proof (cases "max_bytes self \<le> k + of_nat (length b)")
  case True
  then show ?thesis
    using fst_rs_reject_not_Continue [of api "(w, size_ctx (k + of_nat (length b)) c)"]
    by (cases "rs_reject api (w, size_ctx (k + of_nat (length b)) c)") (simp add: body_hook_eq)
qed (simp add: body_hook_eq)

declare feed_body.simps(2) [simp del]

lemma unat_add_small:
  "unat (k :: usize) + l < 2 ^ 64 \<Longrightarrow> unat (k + of_nat l) = unat k + l"
  by (simp add: unat_word_ariths unat_of_nat)

lemma feed_body_result:
  assumes "unat k + length (concat bs) < 2 ^ 64"
  shows "if bs = [] \<or> unat k + length (concat bs) < unat (max_bytes self)
     then feed_body api self bs (w, size_ctx k c) =
       (Ok Continue, (w, size_ctx (k + of_nat (length (concat bs))) c))
     else \<exists>n. feed_body api self bs (w, size_ctx k c) = rs_reject api (w, size_ctx n c)"
  using assms
proof (induction bs arbitrary: k)
  case (Cons b bs)
  define n where "n = k + of_nat (length b)"
  have n: "unat n = unat k + length b"
    using Cons.prems(1) by (simp add: n_def unat_add_small)
  have sum: "k + of_nat (length (concat (b # bs))) = n + of_nat (length (concat bs))"
    and total: "unat k + length (concat (b # bs)) = unat n + length (concat bs)"
    using n by (simp_all add: n_def)
  show ?case
  proof (cases "max_bytes self \<le> n")
    case True
    then have "unat (max_bytes self) \<le> unat n"
      by (simp add: word_le_nat_alt)
    moreover have "feed_body api self (b # bs) (w, size_ctx k c) = rs_reject api (w, size_ctx n c)"
      using True by (simp add: feed_body_Cons n_def)
    ultimately show ?thesis
      unfolding sum total by auto
  next
    case False
    then have "unat n < unat (max_bytes self)"
      by (simp add: word_le_nat_alt)
    moreover have "unat n + length (concat bs) < 2 ^ 64"
      using Cons.prems(1) by (simp only: total)
    moreover have "feed_body api self (b # bs) (w, size_ctx k c) = feed_body api self bs (w, size_ctx n c)"
      using False by (simp add: feed_body_Cons n_def)
    ultimately show ?thesis
      using Cons.IH [of n] unfolding sum total by (cases "bs = []") simp_all
  qed
qed simp

text \<open>
  C35. The streaming limit. After the request hook has let a request through (so the count starts
  at zero), a body sent in any chunks is passed on in full exactly when it has no chunk at all or
  its total length is below the limit; then nothing is written to the client and the count is the
  length of the body. Otherwise some chunk is answered with the 413 rejection, whatever the
  chunking, and the outcome is that of the rejection. (The total must fit a \<^verbatim>\<open>usize\<close>.)
\<close>

theorem body_limit:
  assumes "length (concat chunks) < 2 ^ 64"
  shows "if chunks = [] \<or> length (concat chunks) < unat (max_bytes self)
     then feed_body api self chunks (w, size_ctx 0 c) =
       (Ok Continue, (w, size_ctx (of_nat (length (concat chunks))) c))
     else \<exists>n. feed_body api self chunks (w, size_ctx 0 c) = rs_reject api (w, size_ctx n c)"
  using feed_body_result [of 0 chunks self api w c] assms by simp

theorem body_limit_witness:
  "feed_body sample_api \<lparr>max_bytes = 10\<rparr> [''abc'', ''defg''] (sample_request ''/up'' [], size_ctx 0 ctx_new)
     = (Ok Continue, (sample_request ''/up'' [], size_ctx 7 ctx_new))"
  using body_limit [of "[''abc'', ''defg'']" "\<lparr>max_bytes = 10\<rparr>" sample_api "sample_request ''/up'' []" ctx_new]
  by simp

text \<open>
  C36. The two checks disagree at the limit. A request declaring exactly \<open>max_bytes\<close> passes the
  header check, but its body, sent in any non-empty sequence of chunks, is rejected by the
  streaming check, although the message logged there says the body is larger than the limit.
\<close>

theorem limit_boundary_mismatch:
  assumes "ctx_wf c" and "declared_length api w = Some (max_bytes self)"
    and "chunks \<noteq> []" and "length (concat chunks) = unat (max_bytes self)"
  shows "fst (rs_handle_request api self (w, c)) = Ok Continue \<and>
    (\<exists>n. feed_body api self chunks (snd (rs_handle_request api self (w, c))) =
      rs_reject api (w, size_ctx n c))"
proof -
  have req: "rs_handle_request api self (w, c) = (Ok Continue, (w, size_ctx 0 c))"
    using assms(1,2) by (simp add: rs_handle_request_eq default_request_size_state_def)
  have "length (concat chunks) < 2 ^ 64"
    using assms(4) unsigned_less [of "max_bytes self", where ?'a = nat] by simp
  from feed_body_result [of 0 chunks self api w c] this assms(3,4) show ?thesis
    by (simp add: req)
qed

theorem limit_boundary_mismatch_witness:
  "let w = sample_request ''/up'' [(''content-length'', ''5'')]; c = (ctx_new :: sample_net gateway_context) in
   fst (rs_handle_request sample_api \<lparr>max_bytes = 5\<rparr> (w, c)) = Ok Continue \<and>
   (\<exists>n. feed_body sample_api \<lparr>max_bytes = 5\<rparr> [''abc'', ''de'']
      (snd (rs_handle_request sample_api \<lparr>max_bytes = 5\<rparr> (w, c))) =
      rs_reject sample_api (w, size_ctx n c))"
  unfolding Let_def
  by (rule limit_boundary_mismatch)
     (simp_all add: ctx_wf_new declared_length_def sample_request_def parse_usize_def is_digit_def digit_val_def)

section \<open>The contract\<close>

lemma rs_request_keeps: "ctx_ok c \<Longrightarrow> ctx_ok (snd (snd (rs_handle_request api self (w, c))))"
  by (auto simp: rs_handle_request_eq ctx_ok_wf Let_def rs_reject_state ctx_ok_write split: option.splits)

lemma rs_body_keeps:
  "ctx_ok c \<Longrightarrow> ctx_ok (snd (fst (snd (rs_handle_request_body api self eos ((w, c), body)))))"
  by (auto simp: rs_handle_request_body_def Let_def rs_reject_state ctx_ok_write
      split: option.splits prod.splits dest: arg_cong [of _ _ snd])

interpretation rs: middleware_contract "request_size_hooks api self" ctx_ok
  by unfold_locales
     (simp_all add: request_size_hooks_def default_middleware_def continue_hook_def
       rs_request_keeps rs_body_keeps)

end
