(* ===== verification/Bootstrap.thy ===== *)
theory Bootstrap
  imports Lifecycle Factory Metrics Request_Size
begin

text \<open>
  \<^verbatim>\<open>src/main.rs\<close>: from the command line and the configuration file to a server ready to run, with
  the gateway, its middleware pipeline, its upstreams, listeners and background services. A server
  is the record of what \<^verbatim>\<open>main\<close> sets on it up to the call of \<^verbatim>\<open>run_forever\<close>. Pingora's constructors
  that may fail, and the number of processors, are parameters.
\<close>

section \<open>The server\<close>

record args =
  arg_config :: string
  arg_daemon :: bool

datatype listener = TcpListener string | TlsListener string string string

datatype ('w, 'net, 'h, 're, 'mr) service =
    ProxyService "('w, 'net, 'h, 're, 'mr) gateway" "listener list"
  | DynamicService background
  | PrometheusService string

text \<open>\<open>sv_exclusive\<close>: whether \<^verbatim>\<open>Arc::get_mut\<close> on the server's configuration succeeds.\<close>

record ('w, 'net, 'h, 're, 'mr) server =
  sv_exclusive :: bool
  sv_daemon :: bool
  sv_pid_file :: string
  sv_threads :: usize
  sv_grace_period :: "u64 option"
  sv_services :: "('w, 'net, 'h, 're, 'mr) service list"

datatype boot_error =
    ConfigFailed string
  | ServerFailed pingora_error
  | UpstreamFailed pingora_error
  | RouterFailed pingora_guide_error
  | ListenerFailed pingora_error

record ('w, 'net, 'h, 're, 'mr) boot_api =
  bt_session :: "'w session_api"
  bt_peers :: peer_api
  bt_metrics :: "'w metrics_api"
  bt_routing :: "('re, 'mr) router_api"
  bt_net_from_str :: "string \<Rightarrow> string + 'net"
  bt_net_contains :: "'net \<Rightarrow> ip_addr \<Rightarrow> bool"
  bt_read :: "string \<Rightarrow> string + string"
  bt_parse :: "string \<Rightarrow> string + gateway_conf"
  bt_resolve :: "string \<Rightarrow> string + inet_addr list"
  bt_parse_uri :: "string \<Rightarrow> string option"
  bt_run_lb :: "'w run_lb"
  bt_server_new :: "bool \<Rightarrow> 'w \<Rightarrow> (pingora_error, ('w, 'net, 'h, 're, 'mr) server) outcome \<times> 'w"
  bt_num_cpus :: usize
  bt_bootstrap :: "'w \<Rightarrow> 'w"
  bt_add_tls :: "string \<Rightarrow> string \<Rightarrow> string \<Rightarrow> 'w \<Rightarrow> (pingora_error, unit) outcome \<times> 'w"

text \<open>
  \<^verbatim>\<open>DynamicService\<close>, which lets the server own a boxed service: every operation goes to the service inside.
\<close>

record ('fds, 'watch, 'w) service_trait =
  start_service :: "'fds option \<Rightarrow> 'watch \<Rightarrow> usize \<Rightarrow> 'w \<Rightarrow> 'w"
  service_name :: string
  service_threads :: "usize option"

definition dynamic_service :: "('fds, 'watch, 'w) service_trait \<Rightarrow> ('fds, 'watch, 'w) service_trait" where
  "dynamic_service inner =
     \<lparr>start_service = (\<lambda>fds shutdown listeners_per_fd. start_service inner fds shutdown listeners_per_fd),
      service_name = service_name inner,
      service_threads = service_threads inner\<rparr>"

lemma dynamic_service_transparent [simp]: "dynamic_service inner = inner"
  by (simp add: dynamic_service_def)

definition tune_server ::
  "usize \<Rightarrow> server_conf \<Rightarrow> ('w, 'net, 'h, 're, 'mr) server \<Rightarrow> ('w, 'net, 'h, 're, 'mr) server" where
  "tune_server cpus conf sv =
     (if sv_exclusive sv
      then (let sv = (case pid_file conf of Some f \<Rightarrow> sv\<lparr>sv_pid_file := f\<rparr> | None \<Rightarrow> sv)
            in sv\<lparr>sv_threads := (case worker_threads conf of Some n \<Rightarrow> n | None \<Rightarrow> cpus),
                  sv_grace_period :=
                    Some (case map_option as_secs (graceful_shutdown_timeout conf) of Some n \<Rightarrow> n | None \<Rightarrow> 30)\<rparr>)
      else sv)"

text \<open>The loop over the configured upstreams.\<close>

fun add_upstreams ::
  "(upstream_conf \<Rightarrow> pingora_error + 'w built_upstream \<times> background list) \<Rightarrow> upstream_conf list \<Rightarrow>
   (string \<rightharpoonup> 'w built_upstream) \<Rightarrow> background list \<Rightarrow>
   pingora_error + (string \<rightharpoonup> 'w built_upstream) \<times> background list" where
  "add_upstreams build [] m services = Inr (m, services)"
| "add_upstreams build (u_conf # u_confs) m services =
     (case build u_conf of
        Inl e \<Rightarrow> Inl e
      | Inr (u, new) \<Rightarrow> add_upstreams build u_confs (m(u_id u_conf \<mapsto> u)) (services @ new))"

definition make_pipeline ::
  "'w metrics_api \<Rightarrow> 'w session_api \<Rightarrow> ('net \<Rightarrow> ip_addr \<Rightarrow> bool) \<Rightarrow> metrics_middleware \<Rightarrow> server_conf \<Rightarrow>
   ('w, 'net, 'h) middleware list" where
  "make_pipeline mapi api contains metrics conf =
     [metrics_hooks mapi api metrics,
      ip_restriction_middleware contains api,
      request_size_hooks api (request_size_new conf)]"

definition make_gateway ::
  "('w, 'net, 'h, 're, 'mr) boot_api \<Rightarrow> gateway_conf \<Rightarrow> ('re, 'mr, 'net) router \<Rightarrow>
   (string \<rightharpoonup> 'w built_upstream) \<Rightarrow> metrics_middleware \<Rightarrow> ('w, 'net, 'h, 're, 'mr) gateway" where
  "make_gateway b conf rt upstream_map metrics =
     \<lparr>gw_conf = conf, gw_router = rt,
      gw_upstreams = (\<lambda>i. map_option (as_upstream (bt_peers b) (bt_session b)) (upstream_map i)),
      gw_middlewares =
        make_pipeline (bt_metrics b) (bt_session b) (bt_net_contains b) metrics (g_server conf)\<rparr>"

fun add_listeners ::
  "(string \<Rightarrow> string \<Rightarrow> string \<Rightarrow> 'w \<Rightarrow> (pingora_error, unit) outcome \<times> 'w) \<Rightarrow> listener_conf list \<Rightarrow>
   listener list \<Rightarrow> 'w \<Rightarrow> (pingora_error, listener list) outcome \<times> 'w" where
  "add_listeners add_tls [] ls w = (Ok ls, w)"
| "add_listeners add_tls (l # rest) ls w =
     (case l_tls l of
        Some tls \<Rightarrow>
          try_then (add_tls (l_address l) (cert_path tls) (key_path tls) w)
            (\<lambda>_ w. add_listeners add_tls rest (ls @ [TlsListener (l_address l) (cert_path tls) (key_path tls)]) w)
      | None \<Rightarrow> add_listeners add_tls rest (ls @ [TcpListener (l_address l)]) w)"

definition prometheus_services :: "gateway_conf \<Rightarrow> ('w, 'net, 'h, 're, 'mr) service list" where
  "prometheus_services conf =
     (case g_observability conf of
        Some obs \<Rightarrow> (case prometheus_addr obs of Some addr \<Rightarrow> [PrometheusService addr] | None \<Rightarrow> [])
      | None \<Rightarrow> [])"

text \<open>Results that are already there, as the outcome of a step.\<close>

definition lift_result :: "('e \<Rightarrow> boot_error) \<Rightarrow> 'e + 'a \<Rightarrow> 'w \<Rightarrow> (boot_error, 'a) outcome \<times> 'w" where
  "lift_result f r w = (case r of Inl e \<Rightarrow> (Err (f e), w) | Inr a \<Rightarrow> (Ok a, w))"

text \<open>\<^verbatim>\<open>MetricsMiddleware::new()\<close> does not fail but may panic.\<close>

definition no_error :: "(unit, 'a) outcome \<times> 'w \<Rightarrow> (boot_error, 'a) outcome \<times> 'w" where
  "no_error r = map_err (\<lambda>_. ConfigFailed []) r"

definition main_program ::
  "('w, 'net, 'h, 're, 'mr) boot_api \<Rightarrow> args \<Rightarrow> 'w \<Rightarrow>
   (boot_error, ('w, 'net, 'h, 're, 'mr) server) outcome \<times> 'w" where
  "main_program b a w =
     try_then (lift_result ConfigFailed (load_from_yaml (bt_read b) (bt_parse b) (arg_config a)) w) (\<lambda>conf w.
     try_then (map_err ServerFailed (bt_server_new b (arg_daemon a \<or> daemon (g_server conf)) w)) (\<lambda>my_server w.
     let my_server = tune_server (bt_num_cpus b) (g_server conf) my_server;
         w = bt_bootstrap b w
     in try_then
          (lift_result UpstreamFailed
             (add_upstreams (make_upstream (bt_resolve b) (bt_parse_uri b) (bt_run_lb b)) (g_upstreams conf)
                Map.empty []) w) (\<lambda>(upstream_map, background_services) w.
     try_then (lift_result RouterFailed (router_new (bt_routing b) (bt_net_from_str b) conf) w) (\<lambda>rt w.
     try_then (no_error (metrics_new (bt_metrics b) w)) (\<lambda>metrics w.
     let gateway = make_gateway b conf rt upstream_map metrics
     in try_then
          (map_err ListenerFailed (add_listeners (bt_add_tls b) (listeners (g_server conf)) [] w)) (\<lambda>ls w.
     (Ok (my_server\<lparr>sv_services := sv_services my_server @ [ProxyService gateway ls] @
            map DynamicService background_services @ prometheus_services conf\<rparr>), w)))))))"

section \<open>The gateway keeps its contract\<close>

lemma middlewares_make_gateway [simp]:
  "gw_middlewares (make_gateway b conf rt m metrics) =
     make_pipeline (bt_metrics b) (bt_session b) (bt_net_contains b) metrics (g_server conf)"
  "gw_router (make_gateway b conf rt m metrics) = rt"
  by (simp_all add: make_gateway_def)

interpretation pipe: pipeline_contract "make_pipeline mapi api contains metrics conf" ctx_ok
  by (rule pipeline_contract.intro) (auto simp: make_pipeline_def mt.middleware_contract_axioms
      ipr.middleware_contract_axioms rs.middleware_contract_axioms)

lemma as_upstream_keeps: "ctx_ok (snd s) \<Longrightarrow> ctx_ok (snd (snd (as_upstream papi api u s)))"
  by (cases u) (simp_all add: su.select_keeps lb.select_keeps)

text \<open>
  What \<^verbatim>\<open>HttpPeer::new\<close> documents and the clusters rely on: a peer for a backend has its address.
\<close>

definition peer_law :: "peer_api \<Rightarrow> bool" where
  "peer_law papi \<longleftrightarrow> (\<forall>b tls sni p. peer_of_backend papi b tls sni = Ok p \<longrightarrow> p_address p = be_addr b)"

text \<open>
  Where an upstream leads a request of the world \<open>w\<close>: a static one to its own peer's address, a cluster
  to the address of the backend its balancer selects for the request's key. And how it sets its peers up.
\<close>

fun built_target :: "peer_api \<Rightarrow> 'w session_api \<Rightarrow> 'w built_upstream \<Rightarrow> 'w \<Rightarrow> sock_addr option" where
  "built_target papi api (BuiltStatic x) w = (case static_peer papi x of Ok p \<Rightarrow> Some (p_address p) | _ \<Rightarrow> None)"
| "built_target papi api (BuiltCluster x) w =
     (let (key, w1) = hash_key api (lbc_hash_source x) w in map_option be_addr (fst (lb_select x key 256 w1)))"

fun built_sni :: "'w built_upstream \<Rightarrow> string" where
  "built_sni (BuiltStatic x) = su_sni x"
| "built_sni (BuiltCluster x) = lbc_sni x"

fun built_configured :: "'w built_upstream \<Rightarrow> http_peer \<Rightarrow> bool" where
  "built_configured (BuiltStatic x) = peer_configured (su_options x) (su_client_cert x)"
| "built_configured (BuiltCluster x) = peer_configured (lbc_options x) (lbc_client_cert x)"

lemma snd_note_peer:
  "get_request_meta (snd s) = Some m \<Longrightarrow>
     snd (note_peer a n s) = ctx_write (A_RequestMeta (m\<lparr>peer_addr := Some a, rm_sni := Some n\<rparr>)) (snd s)"
  by (simp add: note_peer_def)

lemma as_upstream_target:
  assumes "peer_law papi" and "get_request_meta c = Some m" and "as_upstream papi api u (w, c) = (Ok peer, s')"
  shows "built_target papi api u w = Some (p_address peer)"
    and "built_configured u peer"
    and "snd s' =
      ctx_write (A_RequestMeta (m\<lparr>peer_addr := Some (p_address peer), rm_sni := Some (built_sni u)\<rparr>)) c"
proof -
  have "built_target papi api u w = Some (p_address peer) \<and> built_configured u peer \<and>
    snd s' = ctx_write (A_RequestMeta (m\<lparr>peer_addr := Some (p_address peer), rm_sni := Some (built_sni u)\<rparr>)) c"
  proof (cases u)
    case (BuiltStatic x)
    with assms(3) have sel: "static_select_peer papi x (w, c) = (Ok peer, s')"
      by simp
    with su.select_configured [OF sel] assms(2) show ?thesis
      by (auto simp: BuiltStatic static_select_peer_eq snd_note_peer split: outcome.splits)
  next
    case (BuiltCluster x)
    with assms(3) have sel: "lb_select_peer papi api x (w, c) = (Ok peer, s')"
      by simp
    then obtain key w1 b w2 peer0 where "hash_key api (lbc_hash_source x) w = (key, w1)"
      and "lb_select x key 256 w1 = (Some b, w2)"
      and "peer_of_backend papi b (lbc_tls x) (lbc_sni x) = Ok peer0"
      and "peer = apply_options (lbc_options x) (lbc_client_cert x) peer0"
      and "s' = note_peer (be_addr b) (lbc_sni x) (w2, c)"
      by (rule lb_select_peer_Ok)
    with lb.select_configured [OF sel] assms(1,2) show ?thesis
      by (auto simp: BuiltCluster peer_law_def snd_note_peer)
  qed
  then show "built_target papi api u w = Some (p_address peer)" and "built_configured u peer"
    and "snd s' = ctx_write (A_RequestMeta (m\<lparr>peer_addr := Some (p_address peer), rm_sni := Some (built_sni u)\<rparr>)) c"
    by simp_all
qed

interpretation boot: gateway_contract "make_gateway b conf rt m metrics"
proof (rule gateway_contract.intro)
  show "pipeline_contract (gw_middlewares (make_gateway b conf rt m metrics)) ctx_ok"
    by (simp add: pipe.pipeline_contract_axioms)
  show "gateway_contract_axioms (make_gateway b conf rt m metrics)"
    by (rule gateway_contract_axioms.intro) (auto simp: make_gateway_def as_upstream_keeps)
qed

section \<open>What a successful start has built\<close>

definition listener_of :: "listener_conf \<Rightarrow> listener" where
  "listener_of l =
     (case l_tls l of
        Some tls \<Rightarrow> TlsListener (l_address l) (cert_path tls) (key_path tls)
      | None \<Rightarrow> TcpListener (l_address l))"

lemma lift_result_Ok_iff: "lift_result f r w = (Ok a, w') \<longleftrightarrow> r = Inr a \<and> w' = w"
  by (auto simp: lift_result_def split: sum.splits)

lemma add_listeners_Ok:
  "add_listeners add_tls confs ls w = (Ok ls', w') \<Longrightarrow> ls' = ls @ map listener_of confs"
proof (induction confs arbitrary: ls w)
  case (Cons l confs)
  then show ?case
    by (cases "l_tls l") (fastforce simp: listener_of_def try_then_Ok_iff)+
qed simp

lemma add_upstreams_Inr:
  "add_upstreams build confs m services = Inr (m', services') \<Longrightarrow>
     \<exists>built. map build confs = map Inr built \<and> services' = services @ concat (map snd built) \<and>
       m' = m ++ map_of (rev (zip (map u_id confs) (map fst built)))"
proof (induction confs arbitrary: m services)
  case (Cons c confs)
  from Cons.prems obtain u new where c: "build c = Inr (u, new)"
    and rest: "add_upstreams build confs (m(u_id c \<mapsto> u)) (services @ new) = Inr (m', services')"
    by (auto split: sum.splits)
  from Cons.IH [OF rest] obtain built where "map build confs = map Inr built"
    and "services' = (services @ new) @ concat (map snd built)"
    and "m' = m(u_id c \<mapsto> u) ++ map_of (rev (zip (map u_id confs) (map fst built)))"
    by blast
  with c show ?case
    by (intro exI [of _ "(u, new) # built"]) (simp add: map_add_def fun_eq_iff split: option.split)
qed simp

lemma add_upstreams_total:
  assumes "\<And>c. c \<in> set confs \<Longrightarrow> \<exists>u services. build c = Inr (u, services)"
  shows "\<exists>m' services'. add_upstreams build confs m services = Inr (m', services')"
  using assms by (induction confs arbitrary: m services) (fastforce split: sum.split)+

text \<open>Every route names a configured upstream.\<close>

definition routes_closed :: "gateway_conf \<Rightarrow> bool" where
  "routes_closed conf \<longleftrightarrow>
     list_all (\<lambda>r. list_ex (\<lambda>u. u_id u = r_upstream_id r) (g_upstreams conf)) (g_routes conf)"

lemma add_upstreams_found:
  assumes "add_upstreams build confs Map.empty [] = Inr (m, services)" and "c \<in> set confs"
  obtains c' u new where "c' \<in> set confs" and "u_id c' = u_id c" and "build c' = Inr (u, new)"
    and "m (u_id c) = Some u"
proof -
  from add_upstreams_Inr [OF assms(1)] obtain built where built: "map build confs = map Inr built"
    and m: "m = map_of (rev (zip (map u_id confs) (map fst built)))"
    by auto
  from built have len: "length confs = length built"
    by (metis length_map)
  obtain j where "j < length confs" "confs ! j = c"
    using assms(2) by (auto simp: in_set_conv_nth)
  with len have "(u_id c, fst (built ! j)) \<in> set (rev (zip (map u_id confs) (map fst built)))"
    by (auto simp: set_zip intro!: exI [of _ j])
  from weak_map_of_SomeI [OF this] obtain u where u: "m (u_id c) = Some u"
    unfolding m by blast
  then have "(u_id c, u) \<in> set (zip (map u_id confs) (map fst built))"
    unfolding m by (auto dest: map_of_SomeD)
  then obtain k where k: "k < length confs" "u_id (confs ! k) = u_id c" "u = fst (built ! k)"
    using len by (auto simp: set_zip)
  from k(1) len have "build (confs ! k) = Inr (built ! k)"
    using arg_cong [OF built, of "\<lambda>xs. xs ! k"] by simp
  with k u show thesis
    by (intro that [of "confs ! k" u "snd (built ! k)"]) auto
qed

end
