(* ===== verification/Sample_Boot.thy ===== *)
theory Sample_Boot
  imports Bootstrap
begin

text \<open>
  A concrete platform and a gateway booted from the test configuration, with one upstream behind a
  Unix socket, for the examples; it plays no part in the model.
\<close>

definition sample_metrics :: "sample metrics_api" where
  "sample_metrics =
     \<lparr>register_counter = (\<lambda>name help labels w. (Ok 0, w)),
      register_histogram = (\<lambda>name help labels w. (Ok 1, w)),
      inc_counter = (\<lambda>n labels w. w\<lparr>sw_log := join_with CHR '' '' (''count'' # labels) # sw_log w\<rparr>),
      observe_value = (\<lambda>n labels v w. w\<lparr>sw_log := join_with CHR '' '' (''time'' # labels) # sw_log w\<rparr>)\<rparr>"

type_synonym sample_gateway = "(sample, sample_net, (string \<times> string) list, string, (string \<times> nat) list) gateway"

definition sample_boot ::
  "(sample, sample_net, (string \<times> string) list, string, (string \<times> nat) list) boot_api" where
  "sample_boot =
     \<lparr>bt_session = sample_api, bt_peers = sample_peers, bt_metrics = sample_metrics,
      bt_routing = sample_router_api, bt_net_from_str = sample_net_from_str,
      bt_net_contains = sample_contains, bt_read = Inr, bt_parse = (\<lambda>s. Inr test_conf),
      bt_resolve = sample_resolve, bt_parse_uri = Some, bt_run_lb = sample_run,
      bt_server_new = (\<lambda>d w. (Ok \<lparr>sv_exclusive = True, sv_daemon = d, sv_pid_file = ''/tmp/pingora.pid'',
        sv_threads = 1, sv_grace_period = None, sv_services = []\<rparr>, w)),
      bt_num_cpus = 4, bt_bootstrap = (\<lambda>w. w), bt_add_tls = (\<lambda>a c k w. (Ok (), w))\<rparr>"

lemma sample_boot_simps [simp]:
  "bt_session sample_boot = sample_api"
  "bt_peers sample_boot = sample_peers"
  "bt_metrics sample_boot = sample_metrics"
  "bt_routing sample_boot = sample_router_api"
  "bt_net_contains sample_boot = sample_contains"
  by (simp_all add: sample_boot_def)

definition sample_upstreams :: "string \<rightharpoonup> sample built_upstream" where
  "sample_upstreams = [''auth-cluster'' \<mapsto> BuiltStatic (static_new_uds ''/run/auth'' default_cluster_options)]"

abbreviation sample_meters :: metrics_middleware where
  "sample_meters \<equiv> \<lparr>req_metric = 0, latency_metric = 1\<rparr>"

abbreviation sample_gateway :: sample_gateway where
  "sample_gateway \<equiv> make_gateway sample_boot test_conf test_router sample_upstreams sample_meters"

definition sample_platform :: "(sample, (string \<times> string) list, string, (string \<times> nat) list) platform" where
  "sample_platform =
     \<lparr>pf_session = sample_api, pf_routing = sample_router_api, pf_headers = sample_headers,
      pf_pages = \<lparr>read_file = (\<lambda>p w. (Inl ''not found'', w)), write_response_header = (\<lambda>h e w. (Ok (), w)),
        write_response_body = (\<lambda>b e w. (Ok (), w))\<rparr>\<rparr>"

lemma sample_platform_simps [simp]:
  "pf_session sample_platform = sample_api"
  "pf_routing sample_platform = sample_router_api"
  "pf_headers sample_platform = sample_headers"
  by (simp_all add: sample_platform_def)

text \<open>A request for \<^verbatim>\<open>/login\<close> announcing a body of five bytes, and the route it takes.\<close>

definition login :: sample where
  "login = sample_request ''/login'' [(''content-length'', ''5'')]"

definition login_route :: "sample_net route_entry" where
  "login_route = \<lparr>re_conf = test_routes ! 3, re_access_control = None\<rparr>"

lemma login_calls:
  "new_uuid sample_api login = (''id-0'', login\<lparr>sw_next := 1\<rparr>)"
  "route_lookup sample_api sample_router_api sample_gateway (login\<lparr>sw_next := 1\<rparr>) = Ok (Some login_route)"
proof -
  show "new_uuid sample_api login = (''id-0'', login\<lparr>sw_next := 1\<rparr>)"
    by (simp add: login_def sample_request_def) code_simp
  show "route_lookup sample_api sample_router_api sample_gateway (login\<lparr>sw_next := 1\<rparr>) = Ok (Some login_route)"
    by (simp add: route_lookup_def test_router_def sample_router_eval match_request_def validate_host_def
        login_def login_route_def sample_request_def request_host_def)
qed

lemma login_start: "reachable sample_platform sample_gateway (login, new_ctx sample_api login)"
  using reachable.start [of sample_platform sample_gateway login] by simp

end
