(* ===== verification/Admission.thy ===== *)
theory Admission
  imports Sample_Boot
begin

text \<open>
  What the pipeline of the program does in each pass, and what its request filter does with a
  request once the router has answered: which status refuses it, or with which context it goes on.
\<close>

section \<open>The pipeline of the program\<close>

lemmas pipeline_hooks =
  make_pipeline_def metrics_hooks_def ip_restriction_middleware_def request_size_hooks_def
  default_middleware_def continue_hook_def

lemma pipeline_request:
  "run_chain (map handle_request (make_pipeline mapi api contains metrics conf)) s =
     run_chain [ip_handle_request contains api, rs_handle_request api (request_size_new conf)] s"
  by (simp add: pipeline_hooks)

lemma pipeline_body:
  "run_chain (map (\<lambda>m. handle_request_body m eos) (make_pipeline mapi api contains metrics conf)) s =
     run_chain [rs_handle_request_body api (request_size_new conf) eos] s"
  by (simp add: pipeline_hooks)

lemma pipeline_logging:
  "run_swallow (map (\<lambda>m. handle_logging m e) (rev (make_pipeline mapi api contains metrics conf))) s =
     run_swallow [metrics_handle_logging mapi api metrics e] s"
  by (simp add: pipeline_hooks run_swallow.simps(2))

text \<open>In every other pass no middleware does anything.\<close>

lemma pipeline_idle:
  "run_chain (map handle_early_request (make_pipeline mapi api contains metrics conf)) s = (Ok Continue, s)"
  "run_chain (map handle_upstream_request (make_pipeline mapi api contains metrics conf)) sh = (Ok Continue, sh)"
  "run_chain (map handle_upstream_response (rev (make_pipeline mapi api contains metrics conf))) sh = (Ok Continue, sh)"
  "run_chain (map handle_response (rev (make_pipeline mapi api contains metrics conf))) sh = (Ok Continue, sh)"
  "run_chain (map (\<lambda>m. handle_response_body m eos) (rev (make_pipeline mapi api contains metrics conf))) sb =
     (Ok Continue, sb)"
  "run_chain (map (\<lambda>m. handle_upstream_connected m reused peer fd digest)
     (make_pipeline mapi api contains metrics conf)) s = (Ok Continue, s)"
  "run_swallow (map (\<lambda>m. handle_error m err) (rev (make_pipeline mapi api contains metrics conf))) s =
     (Ok Continue, s)"
  by (simp_all add: pipeline_hooks run_swallow.simps(2))

section \<open>Admission of requests\<close>

text \<open>The status a request is refused with, if it is, given the route the router found.\<close>

definition acl_ok :: "('net \<Rightarrow> ip_addr \<Rightarrow> bool) \<Rightarrow> 'w session_api \<Rightarrow> 'net route_entry \<Rightarrow> 'w \<Rightarrow> bool" where
  "acl_ok contains api route w \<longleftrightarrow>
     (case (re_access_control route, client_ip api w) of
        (Some acl, Some ip) \<Rightarrow> acl_permits contains acl ip
      | _ \<Rightarrow> True)"

definition length_ok :: "'w session_api \<Rightarrow> server_conf \<Rightarrow> 'w \<Rightarrow> bool" where
  "length_ok api conf w \<longleftrightarrow>
     (case declared_length api w of
        Some len \<Rightarrow> len \<le> max_bytes (request_size_new conf)
      | None \<Rightarrow> True)"

definition refusal ::
  "('w, 'net, 'h, 're, 'mr) boot_api \<Rightarrow> gateway_conf \<Rightarrow> 'net route_entry option \<Rightarrow> 'w \<Rightarrow> u16 option" where
  "refusal b conf lookup w =
     (case lookup of
        None \<Rightarrow> Some 404
      | Some route \<Rightarrow>
          if \<not> acl_ok (bt_net_contains b) (bt_session b) route w then Some 403
          else if \<not> length_ok (bt_session b) (g_server conf) w then Some 413
          else None)"

lemma ip_hook_on_route:
  assumes "get_route_entry c = Some route"
  shows "ip_handle_request contains api (w, c) =
    (if acl_ok contains api route w then (Ok Continue, (w, c)) else ip_reject api (w, c))"
  using assms by (simp add: ip_handle_request_eq acl_ok_def split: option.split)

lemma size_hook:
  assumes "ctx_wf c"
  shows "rs_handle_request api (request_size_new conf) (w, c) =
    (if length_ok api conf w then (Ok Continue, (w, size_ctx 0 c))
     else rs_reject api (w, size_ctx 0 c))"
  using assms
  by (auto simp: rs_handle_request_eq length_ok_def default_request_size_state_def Let_def split: option.splits)


text \<open>What becomes of a hook that does not continue, in the request filter.\<close>

lemma filter_stopped:
  assumes "fst r \<noteq> Ok Continue"
    and f_def: "f = try_then (try_then (map_err into_pingora r)
      (\<lambda>result s'. if result = Stop then (Ok Stop, s') else k s')) (\<lambda>result s. (Ok (result = Stop), s))"
  shows "fst f \<noteq> Ok False" and "snd f = snd r" and "fst r = Ok Stop \<Longrightarrow> fst f = Ok True"
    and "\<And>p. fst f = Panic p \<longleftrightarrow> fst r = Panic p"
proof -
  obtain x s where r: "r = (x, s)"
    by (cases r)
  have x: "x = Ok Stop" if "x = Ok d" for d
    using that assms(1) by (cases d) (simp_all add: r)
  show "fst f \<noteq> Ok False" and "snd f = snd r" and "fst r = Ok Stop \<Longrightarrow> fst f = Ok True"
    and "\<And>p. fst f = Panic p \<longleftrightarrow> fst r = Panic p"
    using x by (cases x; simp add: f_def r)+
qed

lemma ip_reject_Ok: "fst (respond_error api 403 (fst s)) = Ok () \<Longrightarrow> fst (ip_reject api s) = Ok Stop"
  unfolding ip_reject_def
  by (cases "respond_error api 403 (fst s)") (auto simp: on_world_def)

text \<open>The context an admitted request goes on with.\<close>

definition admitted_ctx ::
  "string \<Rightarrow> 'net route_entry \<Rightarrow> request_meta \<Rightarrow> 'net gateway_context \<Rightarrow> 'net gateway_context" where
  "admitted_ctx i route m c = size_ctx 0 (routed_ctx i route m c)"

lemma routed_filter:
  assumes "ctx_ok c"
    and f_def: "f = try_then (run_chain (map handle_request (make_pipeline mapi api contains metrics conf))
      (w1, routed_ctx i route m c)) (\<lambda>result s. (Ok (result = Stop), s))"
  shows "acl_ok contains api route w1 \<Longrightarrow> length_ok api conf w1 \<Longrightarrow>
      f = (Ok False, (w1, admitted_ctx i route m c))"
    and "\<not> acl_ok contains api route w1 \<Longrightarrow>
      fst f \<noteq> Ok False \<and> fst (snd f) = snd (respond_error api 403 w1) \<and>
      (fst (respond_error api 403 w1) = Ok () \<longrightarrow> fst f = Ok True)"
    and "acl_ok contains api route w1 \<Longrightarrow> \<not> length_ok api conf w1 \<Longrightarrow>
      fst f \<noteq> Ok False \<and> fst (snd f) = snd (respond_error api 413 w1) \<and>
      (fst (respond_error api 413 w1) = Ok () \<longrightarrow> fst f = Ok True)"
proof -
  have wf: "ctx_wf (routed_ctx i route m c)"
    using assms(1) by (intro ctx_ok_wf routed_ctx_ok)
  note ip = ip_hook_on_route [OF routed_ctx_lookups(2), of contains api w1]
  note size = size_hook [OF wf, of api conf w1]
  show "f = (Ok False, (w1, admitted_ctx i route m c))"
    if "acl_ok contains api route w1" and "length_ok api conf w1"
    using that by (simp add: f_def pipeline_request ip size admitted_ctx_def)
  show "fst f \<noteq> Ok False \<and> fst (snd f) = snd (respond_error api 403 w1) \<and>
      (fst (respond_error api 403 w1) = Ok () \<longrightarrow> fst f = Ok True)"
    if "\<not> acl_ok contains api route w1"
  proof -
    have f: "f = try_then (try_then (map_err into_pingora (ip_reject api (w1, routed_ctx i route m c)))
        (\<lambda>result s'. if result = Stop then (Ok Stop, s')
           else run_chain [rs_handle_request api (request_size_new conf)] s')) (\<lambda>result s. (Ok (result = Stop), s))"
      using that by (simp add: f_def pipeline_request ip)
    show ?thesis
      using filter_stopped(1-3) [OF fst_ip_reject_not_Continue f]
      by (simp add: ip_reject_state ip_reject_Ok)
  qed
  show "fst f \<noteq> Ok False \<and> fst (snd f) = snd (respond_error api 413 w1) \<and>
      (fst (respond_error api 413 w1) = Ok () \<longrightarrow> fst f = Ok True)"
    if "acl_ok contains api route w1" and "\<not> length_ok api conf w1"
  proof -
    have f: "f = try_then (try_then (map_err into_pingora (rs_reject api (w1, size_ctx 0 (routed_ctx i route m c))))
        (\<lambda>result s'. if result = Stop then (Ok Stop, s') else run_chain [] s'))
        (\<lambda>result s. (Ok (result = Stop), s))"
      using that by (simp add: f_def pipeline_request ip size)
    show ?thesis
      using filter_stopped(1-3) [OF fst_rs_reject_not_Continue f]
      by (simp add: rs_reject_state rs_reject_Ok)
  qed
qed

lemma request_filter_on_found:
  assumes "ctx_ok c" and "new_uuid (bt_session b) w = (i, w1)"
    and "route_lookup (bt_session b) rapi (make_gateway b conf rt um metrics) w1 = Ok found"
    and f_def: "f = request_filter (bt_session b) rapi (make_gateway b conf rt um metrics) (w, c)"
  shows admission_passes: "refusal b conf found w1 = None \<Longrightarrow>
      \<exists>route m. found = Some route \<and> get_request_meta c = Some m \<and>
        f = (Ok False, (w1, admitted_ctx i route m c))"
    and admission_refuses: "refusal b conf found w1 = Some code \<Longrightarrow>
      fst f \<noteq> Ok False \<and> fst (snd f) = snd (respond_error (bt_session b) code w1) \<and>
      (fst (respond_error (bt_session b) code w1) = Ok () \<longrightarrow> fst f = Ok True)"
proof -
  from assms(1) obtain m where m: "get_request_meta c = Some m"
    by (rule ctx_ok_meta)
  note filter = f_def [unfolded request_filter_eq [OF ctx_ok_wf [OF assms(1)] m assms(2)]
      assms(3) outcome.case middlewares_make_gateway]
  show "\<exists>route m. found = Some route \<and> get_request_meta c = Some m \<and>
      f = (Ok False, (w1, admitted_ctx i route m c))" if "refusal b conf found w1 = None"
  proof (cases found)
    case (Some route)
    note step = filter [unfolded Some option.case]
    from that routed_filter [OF assms(1) step] m Some show ?thesis
      by (auto simp: refusal_def split: if_splits)
  qed (use that in \<open>simp add: refusal_def\<close>)
  show "fst f \<noteq> Ok False \<and> fst (snd f) = snd (respond_error (bt_session b) code w1) \<and>
      (fst (respond_error (bt_session b) code w1) = Ok () \<longrightarrow> fst f = Ok True)"
    if refused: "refusal b conf found w1 = Some code"
  proof (cases found)
    case None
    with refused show ?thesis
      by (auto simp: filter refusal_def on_world_def try_then_def split: prod.split outcome.split)
  next
    case (Some route)
    note step = filter [unfolded Some option.case]
    from refused routed_filter [OF assms(1) step] Some show ?thesis
      by (auto simp: refusal_def split: if_splits)
  qed
qed

section \<open>After admission\<close>

lemma admitted_ctx_lookups [simp]:
  "get_request_meta (admitted_ctx i route m c) = Some (routed_meta i route m)"
  "get_route_entry (admitted_ctx i route m c) = Some route"
  by (simp_all add: admitted_ctx_def)

lemma admitted_ctx_ok: "ctx_ok c \<Longrightarrow> ctx_ok (admitted_ctx i route m c)"
  by (simp add: admitted_ctx_def ctx_ok_write routed_ctx_ok)

lemma admitted_peer:
  assumes "um (r_upstream_id (re_conf route)) = Some u"
  shows "upstream_peer api (make_gateway b conf rt um metrics) (w, admitted_ctx i route m c) =
    map_err into_pingora (as_upstream (bt_peers b) (bt_session b) u (w, admitted_ctx i route m c))"
  using assms by (simp add: upstream_peer_def routed_meta_def make_gateway_def)

end
