(* ===== verification/Shipped_Config.thy ===== *)
theory Shipped_Config
  imports Admission
begin

text \<open>
  The configuration the repository ships, \<^verbatim>\<open>src/gateway_full.yaml\<close>, as the value the schema of
  \<^verbatim>\<open>config.rs\<close> gives it (a field the file leaves out has its default), and what the gateway started
  from it does with a request.
\<close>

section \<open>The value of \<^verbatim>\<open>gateway_full.yaml\<close>\<close>

definition full_listeners :: "listener_conf list" where
  "full_listeners =
     [\<lparr>l_address = ''0.0.0.0:8080'', l_tls = None\<rparr>,
      \<lparr>l_address = ''0.0.0.0:8443'',
       l_tls = Some \<lparr>cert_path = ''/etc/gateway/certs/server.crt'',
         key_path = ''/etc/gateway/certs/server.key'', mtls_ca_cert = None\<rparr>\<rparr>,
      \<lparr>l_address = ''0.0.0.0:9443'',
       l_tls = Some \<lparr>cert_path = ''/etc/gateway/certs/mtls_server.crt'',
         key_path = ''/etc/gateway/certs/mtls_server.key'',
         mtls_ca_cert = Some ''/etc/gateway/certs/ca.pem''\<rparr>\<rparr>]"

definition full_server :: server_conf where
  "full_server =
     \<lparr>listeners = full_listeners, daemon = True, pid_file = Some ''/var/run/pingora.pid'',
      srv_user = Some ''www-data'', srv_group = Some ''www-data'', worker_threads = Some 8,
      watch_config = True, client_max_body_size = Some 10485760, srv_enable_h2 = True,
      enable_h2c = False, graceful_shutdown_timeout = Some (from_secs 30)\<rparr>"

definition full_observability :: observability_conf where
  "full_observability =
     \<lparr>prometheus_addr = Some ''0.0.0.0:9090'', otlp_endpoint = Some ''http://jaeger:14268''\<rparr>"

definition legacy_cluster :: upstream_conf where
  "legacy_cluster =
     \<lparr>u_id = ''legacy-cluster'',
      u_source = US_Static [\<lparr>b_address = ''10.0.0.1:80'', b_weight = 10\<rparr>, \<lparr>b_address = ''10.0.0.2:80'', b_weight = 1\<rparr>],
      u_selection = RoundRobin, u_hash_source = default_hash_source,
      u_options = default_cluster_options
        \<lparr>connect_timeout := from_millis 500, read_timeout := from_secs 2, connection_pool_size := 128,
         co_tls := False\<rparr>,
      u_health_check = Some (HC_Tcp \<lparr>hc_interval = from_secs 5, hc_timeout = from_secs 1,
        hc_consecutive_success = 1, hc_consecutive_failure = 3\<rparr>),
      u_backup_backends = [\<lparr>b_address = ''10.0.0.99:80'', b_weight = 1\<rparr>]\<rparr>"

definition api_service :: upstream_conf where
  "api_service =
     \<lparr>u_id = ''api-service'', u_source = US_Dns ''api.internal.svc'' (from_secs 30),
      u_selection = Consistent, u_hash_source = HS_Cookie ''session_id'',
      u_options = default_cluster_options
        \<lparr>co_tls := True, co_sni := Some ''api.internal.svc'', co_enable_h2 := True,
         connect_timeout := from_millis 500, read_timeout := from_secs 5, connection_pool_size := 256\<rparr>,
      u_health_check = Some (HC_Http \<lparr>hc_interval = from_secs 10, hc_timeout = from_secs 2,
        hc_consecutive_success = 2, hc_consecutive_failure = 2\<rparr> ''/health'' 200),
      u_backup_backends = []\<rparr>"

definition inventory_service :: upstream_conf where
  "inventory_service =
     \<lparr>u_id = ''inventory-service'',
      u_source = US_File ''/etc/gateway/upstreams/inventory.json'' Json (from_secs 15),
      u_selection = Consistent, u_hash_source = HS_ClientIp, u_options = default_cluster_options,
      u_health_check = Some (HC_Custom \<lparr>hc_interval = from_secs 30, hc_timeout = from_secs 5,
        hc_consecutive_success = 1, hc_consecutive_failure = 1\<rparr> ''/usr/local/bin/check_inventory.sh''),
      u_backup_backends = []\<rparr>"

definition local_logger :: upstream_conf where
  "local_logger =
     \<lparr>u_id = ''local-logger'', u_source = US_Uds ''/tmp/logger.sock'', u_selection = RoundRobin,
      u_hash_source = default_hash_source, u_options = default_cluster_options,
      u_health_check = None, u_backup_backends = []\<rparr>"

definition secure_api_route :: route_conf where
  "secure_api_route = default_route
     \<lparr>r_path := ''^/api/v[0-9]+/secure'', r_path_type := Regex, r_upstream_id := ''api-service'',
      r_access_control := Some \<lparr>acc_allow = [''10.0.0.0/8'', ''192.168.1.0/24''], acc_deny = [''0.0.0.0/0'']\<rparr>,
      r_body_deny_patterns := Some [''(?i)union select'', ''(?i)<script>''],
      r_inflight_limit := Some 100,
      r_auth := Some (AuthRequest ''http://auth-service.internal/verify'' [''X-User-ID'', ''X-Role''])\<rparr>"

definition public_route :: route_conf where
  "public_route = default_route
     \<lparr>r_path := ''/'', r_path_type := Prefix, r_upstream_id := ''legacy-cluster'',
      r_hostnames := Some [''www.example.com'', ''example.com''], r_compression := True,
      r_headers :=
        \<lparr>add_req_headers = [(''X-Gateway'', ''Pingora-Rust'')], remove_req_headers = [''X-Internal-Debug''],
         add_resp_headers = [(''Strict-Transport-Security'', ''max-age=31536000'')],
         remove_resp_headers = [''Server''], preserve_host_header = True\<rparr>,
      r_rate_limit := Some \<lparr>requests_per_sec = 50, burst = 10, rl_key = RLK_Ip\<rparr>,
      r_error_pages := Some [404 \<mapsto> ''/var/www/errors/404.html'', 500 \<mapsto> ''/var/www/errors/500.html'']\<rparr>"

definition static_route :: route_conf where
  "static_route = default_route
     \<lparr>r_path := ''/static'', r_path_type := Prefix, r_upstream_id := ''legacy-cluster'',
      r_cache := Some \<lparr>cache_enabled = True, default_ttl = from_secs 3600,
        lock_timeout = Some (from_millis 500), stale_while_revalidate = Some (from_secs 60),
        enable_purge = True\<rparr>\<rparr>"

definition chat_route :: route_conf where
  "chat_route = default_route
     \<lparr>r_path := ''/ws/chat'', r_path_type := Exact, r_upstream_id := ''local-logger'',
      r_websocket := True, r_proxy_connect := False, r_query_matches := Some [''version'' \<mapsto> ''2''],
      r_strip_query_params := Some [''api_key'', ''debug_token'']\<rparr>"

definition admin_route :: route_conf where
  "admin_route = default_route
     \<lparr>r_path := ''/admin'', r_path_type := Exact, r_upstream_id := ''api-service'',
      r_auth := Some (AuthBasic ''Admin Area''
        [''admin'' \<mapsto> ''secret_password_123'', ''monitor'' \<mapsto> ''monitor_password_456''])\<rparr>"

definition full_routes :: "route_conf list" where
  "full_routes = [secure_api_route, public_route, static_route, chat_route, admin_route]"

definition full_conf :: gateway_conf where
  "full_conf =
     \<lparr>g_server = full_server, g_observability = Some full_observability,
      g_upstreams = [legacy_cluster, api_service, inventory_service, local_logger],
      g_routes = full_routes\<rparr>"

lemmas full_conf_defs =
  full_conf_def full_server_def full_listeners_def full_observability_def full_routes_def
  legacy_cluster_def api_service_def inventory_service_def local_logger_def secure_api_route_def
  public_route_def static_route_def chat_route_def admin_route_def default_route_def
  default_cluster_options_def cluster_options_new_def default_hash_source_def

text \<open>A health check is over before the next one starts.\<close>

definition checks_fit :: "upstream_conf \<Rightarrow> bool" where
  "checks_fit u \<longleftrightarrow>
     (case u_health_check u of
        None \<Rightarrow> True
      | Some hc \<Rightarrow> hc_timeout (common_of hc) \<le> hc_interval (common_of hc))"

lemma full_checks_fit: "list_all checks_fit (g_upstreams full_conf)"
  by (simp add: checks_fit_def full_conf_defs)

section \<open>Where its requests go\<close>

text \<open>
  The routes of the shipped configuration as a table over the request: the four literal paths, each
  taken alone, and the pattern of the secured interface for the rest.
\<close>

definition shipped_route :: "(string \<Rightarrow> bool) \<Rightarrow> string \<Rightarrow> string option \<Rightarrow> route_conf option" where
  "shipped_route secure path host =
     (if path = ''/'' \<and> (host = Some ''www.example.com'' \<or> host = Some ''example.com'') then Some public_route
      else if path = ''/static'' then Some static_route
      else if path = ''/ws/chat'' then Some chat_route
      else if path = ''/admin'' then Some admin_route
      else if secure path then Some secure_api_route
      else None)"

definition secure_path :: "('re, 'mr) router_api \<Rightarrow> string \<Rightarrow> bool" where
  "secure_path api path =
     (case regex_new api ''^/api/v[0-9]+/secure'' of Inr re \<Rightarrow> regex_is_match api re path | Inl e \<Rightarrow> False)"

lemma full_routes_literal: "\<forall>r \<in> set (g_routes full_conf). r_path_type r \<noteq> Regex \<longrightarrow> literal_path (r_path r)"
  by (simp add: full_conf_defs literal_path_def)

lemma full_literals:
  "literal_index 0 (g_routes full_conf) path None =
     (if path = ''/admin'' then Some 4 else if path = ''/ws/chat'' then Some 3
      else if path = ''/static'' then Some 2 else if path = ''/'' then Some 1 else None)"
  by (simp add: full_conf_defs)

lemma full_regex:
  "find (regex_fits api path host) (g_routes full_conf) =
     (if secure_path api path then Some secure_api_route else None)"
  by (simp add: full_conf_def full_routes_def regex_fits_def secure_path_def validate_host_def
      secure_api_route_def public_route_def static_route_def chat_route_def admin_route_def default_route_def)

lemma full_spec:
  "spec_match api (g_routes full_conf) (literal_index 0 (g_routes full_conf) path None) path host =
     (if path = ''/admin'' then Some admin_route else if path = ''/ws/chat'' then Some chat_route
      else if path = ''/static'' then Some static_route
      else if path = ''/'' \<and> validate_host public_route host then Some public_route
      else if secure_path api path then Some secure_api_route else None)"
proof -
  have nth: "g_routes full_conf ! Suc 0 = public_route" "g_routes full_conf ! 2 = static_route"
    "g_routes full_conf ! 3 = chat_route" "g_routes full_conf ! 4 = admin_route"
    by (simp_all add: full_conf_def full_routes_def)
  have kinds: "r_path_type public_route = Prefix" "r_path_type static_route = Prefix"
    "r_path_type chat_route = Exact" "r_path_type admin_route = Exact"
    "r_path chat_route = ''/ws/chat''" "r_path admin_route = ''/admin''"
    "\<And>host. validate_host static_route host" "\<And>host. validate_host chat_route host"
    "\<And>host. validate_host admin_route host"
    by (simp_all add: public_route_def static_route_def chat_route_def admin_route_def default_route_def
        validate_host_def)
  show ?thesis
    unfolding full_literals spec_match_def full_regex Let_def by (simp add: nth kinds)
qed

lemma shipped_match:
  assumes "router_new api from_str full_conf = Inr rt" and "matchit_law api" and "literal_law api"
  obtains m where "match_request api rt path host = (Ok m :: ('e, 'net route_entry option) outcome)"
    and "map_option re_conf m = shipped_route (secure_path api) path host"
    and "\<And>e. m = Some e \<Longrightarrow> acl_compiled from_str (re_conf e) (re_access_control e)"
proof -
  have host: "validate_host public_route host \<longleftrightarrow> host = Some ''www.example.com'' \<or> host = Some ''example.com''"
    by (auto simp: validate_host_iff public_route_def default_route_def)
  have "spec_match api (g_routes full_conf) (matchit_at api (matchit_router rt) path) path host =
      shipped_route (secure_path api) path host"
    unfolding router_new_literal [OF assms(3,2,1) full_routes_literal] full_spec host shipped_route_def
    by auto
  with match_request_spec [OF assms(1,2), of path host, where 'e = 'e]
  have "case shipped_route (secure_path api) path host of
      None \<Rightarrow> match_request api rt path host = (Ok None :: ('e, 'net route_entry option) outcome)
    | Some r \<Rightarrow> \<exists>e. entry_of from_str r e \<and>
        match_request api rt path host = (Ok (Some e) :: ('e, 'net route_entry option) outcome)"
    by simp
  then show thesis
    using that by (cases "shipped_route (secure_path api) path host") (auto simp: entry_of_def)
qed

section \<open>Who is let in\<close>

text \<open>
  What \<^verbatim>\<open>ipnet\<close> documents and the shipped lists use: the block \<^verbatim>\<open>0.0.0.0/0\<close> contains every IPv4
  address, and an IPv4 block, written without colons, contains no IPv6 address.
\<close>

definition cidr_law :: "(string \<Rightarrow> string + 'net) \<Rightarrow> ('net \<Rightarrow> ip_addr \<Rightarrow> bool) \<Rightarrow> bool" where
  "cidr_law from_str contains \<longleftrightarrow>
     (\<forall>n a. from_str ''0.0.0.0/0'' = Inr n \<longrightarrow> contains n (V4 a)) \<and>
     (\<forall>s n a. from_str s = Inr n \<longrightarrow> CHR '':'' \<notin> set s \<longrightarrow> \<not> contains n (V6 a))"

lemma secure_acl_refuses:
  assumes "cidr_law from_str contains" and "acl_compiled from_str secure_api_route (Some acl)"
  shows "\<not> acl_permits contains acl ip"
proof (cases ip)
  case (V4 a)
  from assms(2) obtain n where "cac_deny acl = [n]" and "from_str ''0.0.0.0/0'' = Inr n"
    by (auto simp: acl_compiled_def secure_api_route_def default_route_def Cons_eq_map_conv)
  with assms(1) V4 show ?thesis
    by (simp add: cidr_law_def acl_permits_def)
next
  case (V6 a)
  from assms(2) obtain n n' where allow: "cac_allow acl = [n, n']"
    and n: "from_str ''10.0.0.0/8'' = Inr n" and n': "from_str ''192.168.1.0/24'' = Inr n'"
    by (auto simp: acl_compiled_def secure_api_route_def default_route_def Cons_eq_map_conv)
  from assms(1) n have "\<not> contains n (V6 a)"
    unfolding cidr_law_def by fastforce
  moreover from assms(1) n' have "\<not> contains n' (V6 a)"
    unfolding cidr_law_def by fastforce
  ultimately show ?thesis
    by (simp add: acl_permits_def allow V6)
qed

text \<open>The status a request to the shipped gateway is refused with, if it is.\<close>

definition shipped_status :: "'w session_api \<Rightarrow> ('re, 'mr) router_api \<Rightarrow> 'w \<Rightarrow> u16 option" where
  "shipped_status api rapi w =
     (case shipped_route (secure_path rapi) (req_path api w) (request_host api w) of
        None \<Rightarrow> Some 404
      | Some r \<Rightarrow>
          if r_path_type r = Regex \<and> client_ip api w \<noteq> None then Some 403
          else if (case declared_length api w of Some n \<Rightarrow> 10485760 < n | None \<Rightarrow> False) then Some 413
          else None)"

lemma shipped_acl:
  assumes "cidr_law from_str contains" and "acl_compiled from_str (re_conf e) (re_access_control e)"
    and "shipped_route secure path host = Some (re_conf e)"
  shows "acl_ok contains api e w \<longleftrightarrow> \<not> (r_path_type (re_conf e) = Regex \<and> client_ip api w \<noteq> None)"
proof (cases "re_conf e = secure_api_route")
  case True
  with assms(2) obtain acl where "re_access_control e = Some acl"
    and compiled: "acl_compiled from_str secure_api_route (Some acl)"
    by (cases "re_access_control e") (auto simp: acl_compiled_def secure_api_route_def default_route_def)
  with secure_acl_refuses [OF assms(1) compiled] True show ?thesis
    by (auto simp: acl_ok_def secure_api_route_def split: option.split)
next
  case False
  with assms(3) have "re_conf e \<in> {public_route, static_route, chat_route, admin_route}"
    by (auto simp: shipped_route_def split: if_splits)
  then have "r_access_control (re_conf e) = None" and "r_path_type (re_conf e) \<noteq> Regex"
    by (auto simp: public_route_def static_route_def chat_route_def admin_route_def default_route_def)
  with assms(2) show ?thesis
    by (simp add: acl_compiled_def acl_ok_def)
qed

text \<open>
  C11. The shipped gateway, request by request. Over any path tree, pattern engine and network parser that
  behave as documented, a request to the gateway started from \<^verbatim>\<open>gateway_full.yaml\<close> goes on exactly when
  its path is \<^verbatim>\<open>/static\<close>, \<^verbatim>\<open>/ws/chat\<close> or \<^verbatim>\<open>/admin\<close>, or is \<^verbatim>\<open>/\<close> with one of the two hosts, or
  fits the pattern of the secured interface and comes from no internet address, and its declared length is
  at most ten mebibytes. Nothing else of the request counts, so the administration needs no password; the
  prefix routes take no path below them; and no client with an internet address reaches the secured
  interface, not even from the networks it allows. Every other request is answered with exactly the
  status of the table.
\<close>

theorem shipped_admission:
  assumes "router_new (bt_routing b) (bt_net_from_str b) full_conf = Inr rt"
    and "matchit_law (bt_routing b)" and "literal_law (bt_routing b)"
    and "cidr_law (bt_net_from_str b) (bt_net_contains b)"
    and "ctx_ok c" and "new_uuid (bt_session b) w = (i, w1)"
    and f: "f = request_filter (bt_session b) (bt_routing b) (make_gateway b full_conf rt um metrics) (w, c)"
  shows "case shipped_status (bt_session b) (bt_routing b) w1 of
      None \<Rightarrow> fst f = Ok False \<and> fst (snd f) = w1
    | Some code \<Rightarrow> fst f \<noteq> Ok False \<and> fst (snd f) = snd (respond_error (bt_session b) code w1)"
proof -
  obtain m where m: "route_lookup (bt_session b) (bt_routing b) (make_gateway b full_conf rt um metrics) w1 = Ok m"
    and conf: "map_option re_conf m = shipped_route (secure_path (bt_routing b))
      (req_path (bt_session b) w1) (request_host (bt_session b) w1)"
    and acl: "\<And>e. m = Some e \<Longrightarrow> acl_compiled (bt_net_from_str b) (re_conf e) (re_access_control e)"
    by (rule shipped_match [OF assms(1-3)]) (auto simp: route_lookup_def)
  have limit: "length_ok (bt_session b) (g_server full_conf) w1 \<longleftrightarrow>
      \<not> (case declared_length (bt_session b) w1 of Some n \<Rightarrow> 10485760 < n | None \<Rightarrow> False)"
    by (auto simp: length_ok_def request_size_new_def full_conf_def full_server_def not_less split: option.split)
  have "refusal b full_conf m w1 = shipped_status (bt_session b) (bt_routing b) w1"
  proof (cases m)
    case None
    with conf show ?thesis
      by (simp add: refusal_def shipped_status_def)
  next
    case (Some e)
    note route = conf [unfolded Some option.map, symmetric]
    from shipped_acl [OF assms(4) acl [OF Some] route, of "bt_session b" w1] show ?thesis
      by (simp add: Some refusal_def shipped_status_def route limit)
  qed
  with request_filter_on_found [OF assms(5,6) m f] show ?thesis
    by (cases "shipped_status (bt_session b) (bt_routing b) w1") auto
qed

text \<open>
  A path tree for literal paths only, and an engine for the one pattern of the configuration: after
  \<^verbatim>\<open>/api/v\<close> some digits, then \<^verbatim>\<open>/secure\<close>.
\<close>

definition literal_router_api :: "(string, (string \<times> nat) list) router_api" where
  "literal_router_api =
     \<lparr>regex_new = Inr,
      regex_is_match = (\<lambda>re p. starts_with p ''/api/v'' \<and>
        (let rest = drop 6 p
         in takeWhile is_digit rest \<noteq> [] \<and> starts_with (dropWhile is_digit rest) ''/secure'')),
      matchit_new = [],
      matchit_insert = (\<lambda>q i mr. if q \<in> fst ` set mr then Inl ''conflict'' else Inr ((q, i) # mr)),
      matchit_at = map_of\<rparr>"

lemma literal_router_laws: "matchit_law literal_router_api" "literal_law literal_router_api"
  by (auto simp: matchit_law_def literal_law_def literal_router_api_def split: if_splits)

lemma sample_cidr_law: "cidr_law sample_net_from_str sample_contains"
proof -
  have "\<not> sample_contains n (V6 a)" for n a
    by (cases n) simp
  moreover have "sample_contains (Net 0 0) (V4 a)" for a
    using unsigned_less [of a, where ?'a = nat] by simp
  ultimately show ?thesis
    by (auto simp: cidr_law_def sample_net_from_str_def sample_nets_def)
qed

definition shipped_router :: "(string, (string \<times> nat) list, sample_net) router" where
  "shipped_router = projr (router_new literal_router_api sample_net_from_str full_conf)"

lemma shipped_router_built: "router_new literal_router_api sample_net_from_str full_conf = Inr shipped_router"
proof -
  have nets: "sample_net_from_str ''10.0.0.0/8'' = Inr (Net 167772160 8)"
    "sample_net_from_str ''192.168.1.0/24'' = Inr (Net 3232235776 24)"
    "sample_net_from_str ''0.0.0.0/0'' = Inr (Net 0 0)"
    by (simp_all add: sample_net_from_str_def sample_nets_def)
  show ?thesis
    unfolding shipped_router_def
    by (simp add: router_new_def full_conf_defs add_route_def add_path_def compile_acl_def
        literal_router_api_def starts_with_def nets)
qed

definition shipped_boot ::
  "(sample, sample_net, (string \<times> string) list, string, (string \<times> nat) list) boot_api" where
  "shipped_boot = sample_boot\<lparr>bt_routing := literal_router_api, bt_net_from_str := sample_net_from_str\<rparr>"

definition shipped_filter :: "sample \<Rightarrow> (pingora_error, bool) outcome \<times> (sample, sample_net) req" where
  "shipped_filter w =
     request_filter (bt_session shipped_boot) (bt_routing shipped_boot)
       (make_gateway shipped_boot full_conf shipped_router Map.empty sample_meters) (w, new_ctx sample_api w)"

theorem shipped_admission_witness:
  "fst (shipped_filter (sample_request ''/admin'' [])) = Ok False \<and>
   sw_status (fst (snd (shipped_filter (sample_request ''/api/v2/secure'' [])))) = Some 403 \<and>
   sw_status (fst (snd (shipped_filter (sample_request ''/static/site.css'' [])))) = Some 404"
proof -
  have route: "router_new (bt_routing shipped_boot) (bt_net_from_str shipped_boot) full_conf = Inr shipped_router"
    by (simp add: shipped_boot_def shipped_router_built)
  have laws: "matchit_law (bt_routing shipped_boot)" "literal_law (bt_routing shipped_boot)"
    "cidr_law (bt_net_from_str shipped_boot) (bt_net_contains shipped_boot)"
    by (simp_all add: shipped_boot_def literal_router_laws sample_cidr_law)
  have uuid: "new_uuid (bt_session shipped_boot) w = (''id-'' @ dec_string (sw_next w), w\<lparr>sw_next := Suc (sw_next w)\<rparr>)" for w
    by (simp add: shipped_boot_def)
  note filter = shipped_admission [OF route laws new_ctx_ok uuid shipped_filter_def]
  have secure: "secure_path literal_router_api ''/api/v2/secure''" "\<not> secure_path literal_router_api ''/static/site.css''"
    by (simp_all add: secure_path_def literal_router_api_def starts_with_def is_digit_def)
  note facts = shipped_boot_def shipped_status_def shipped_route_def request_host_def sample_request_def
    declared_length_def client_ip_def admin_route_def secure_api_route_def default_route_def
  have "shipped_status (bt_session shipped_boot) (bt_routing shipped_boot)
      ((sample_request ''/admin'' [])\<lparr>sw_next := Suc 0\<rparr>) = None"
    by (simp add: facts)
  moreover have "shipped_status (bt_session shipped_boot) (bt_routing shipped_boot)
      ((sample_request ''/api/v2/secure'' [])\<lparr>sw_next := Suc 0\<rparr>) = Some 403"
    by (simp add: facts secure)
  moreover have "shipped_status (bt_session shipped_boot) (bt_routing shipped_boot)
      ((sample_request ''/static/site.css'' [])\<lparr>sw_next := Suc 0\<rparr>) = Some 404"
    by (simp add: facts secure)
  ultimately show ?thesis
    using filter [of "sample_request ''/admin'' []"] filter [of "sample_request ''/api/v2/secure'' []"]
      filter [of "sample_request ''/static/site.css'' []"]
    by (simp add: shipped_boot_def sample_request_def)
qed

end
