(* ===== verification/Config_Parse.thy ===== *)
theory Config_Parse
  imports Config "HOL-Library.Monad_Syntax"
begin

text \<open>
  How the structs and enums of \<^verbatim>\<open>src/config.rs\<close> are read from a YAML document: what their \<^verbatim>\<open>serde\<close>
  attributes ask for (\<^verbatim>\<open>default\<close>, \<^verbatim>\<open>with\<close>, \<^verbatim>\<open>tag\<close>, \<^verbatim>\<open>rename_all\<close>, \<^verbatim>\<open>flatten\<close>), field by field. A
  document is the tree \<^verbatim>\<open>serde_yaml\<close> parses it to. Where a node is not of the kind a type asks for,
  what the format makes of it (a number read as a string, say) is a parameter, once for nodes read from
  the document and once for nodes that a tagged or flattened type buffers before it reads them. Errors
  are \<open>None\<close>: their text is \<^verbatim>\<open>serde\<close>'s.
\<close>

section \<open>Documents\<close>

datatype yaml =
    YNull
  | YBool bool
  | YNum int
  | YFloat string
  | YStr string
  | YSeq "yaml list"
  | YMap "(yaml \<times> yaml) list"
  | YTagged string yaml

text \<open>What a format makes of a node of another kind than the one asked for.\<close>

record reader =
  other_text :: "yaml \<Rightarrow> string option"
  other_name :: "string list \<Rightarrow> yaml \<Rightarrow> string option"
  other_items :: "yaml \<Rightarrow> yaml list option"
  other_entries :: "string list \<Rightarrow> yaml \<Rightarrow> (yaml \<times> yaml) list option"
  other_variant :: "string list \<Rightarrow> yaml \<Rightarrow> (string \<times> yaml option) option"

record yaml_api =
  direct :: reader
  buffered :: reader
  duration_of :: "string \<Rightarrow> duration option"
  iteration :: "(string \<rightharpoonup> string) \<Rightarrow> (string \<times> string) list"
  yaml_parse :: "string \<Rightarrow> yaml option"
  yaml_error :: "string \<Rightarrow> string"

definition as_text :: "reader \<Rightarrow> yaml \<Rightarrow> string option" where
  "as_text rd n = (case n of YStr s \<Rightarrow> Some s | _ \<Rightarrow> other_text rd n)"

definition as_name :: "reader \<Rightarrow> string list \<Rightarrow> yaml \<Rightarrow> string option" where
  "as_name rd names n = (case n of YStr s \<Rightarrow> Some s | _ \<Rightarrow> other_name rd names n)"

definition as_items :: "reader \<Rightarrow> yaml \<Rightarrow> yaml list option" where
  "as_items rd n = (case n of YSeq ns \<Rightarrow> Some ns | _ \<Rightarrow> other_items rd n)"

definition as_entries :: "reader \<Rightarrow> string list \<Rightarrow> yaml \<Rightarrow> (yaml \<times> yaml) list option" where
  "as_entries rd names n = (case n of YMap es \<Rightarrow> Some es | _ \<Rightarrow> other_entries rd names n)"

text \<open>An externally tagged variant: its name alone, or a tag and what it holds.\<close>

definition as_variant :: "reader \<Rightarrow> string list \<Rightarrow> yaml \<Rightarrow> (string \<times> yaml option) option" where
  "as_variant rd names n =
     (case n of
        YStr s \<Rightarrow> Some (s, None)
      | YTagged t v \<Rightarrow> Some (t, Some v)
      | _ \<Rightarrow> other_variant rd names n)"

lemma as_simps [simp]:
  "as_text rd (YStr s) = Some s"
  "as_name rd names (YStr s) = Some s"
  "as_items rd (YSeq ns) = Some ns"
  "as_entries rd names (YMap es) = Some es"
  "as_variant rd names (YStr s) = Some (s, None)"
  "as_variant rd names (YTagged t v) = Some (t, Some v)"
  by (simp_all add: as_text_def as_name_def as_items_def as_entries_def as_variant_def)

section \<open>The kinds of fields\<close>

fun read_all :: "('a \<Rightarrow> 'b option) \<Rightarrow> 'a list \<Rightarrow> 'b list option" where
  "read_all f [] = Some []"
| "read_all f (x # xs) = do { y \<leftarrow> f x; ys \<leftarrow> read_all f xs; Some (y # ys) }"

definition de_bool :: "yaml \<Rightarrow> bool option" where
  "de_bool n = (case n of YBool b \<Rightarrow> Some b | _ \<Rightarrow> None)"

text \<open>An unsigned integer must fit its type.\<close>

definition de_uint :: "yaml \<Rightarrow> 'a::len word option" where
  "de_uint n =
     (case n of
        YNum i \<Rightarrow> if 0 \<le> i \<and> i < 2 ^ LENGTH('a) then Some (word_of_int i) else None
      | _ \<Rightarrow> None)"

definition de_option :: "(yaml \<Rightarrow> 'a option) \<Rightarrow> yaml \<Rightarrow> 'a option option" where
  "de_option de n = (case n of YNull \<Rightarrow> Some None | _ \<Rightarrow> map_option Some (de n))"

definition de_vec :: "reader \<Rightarrow> (yaml \<Rightarrow> 'a option) \<Rightarrow> yaml \<Rightarrow> 'a list option" where
  "de_vec rd de n = do { ns \<leftarrow> as_items rd n; read_all de ns }"

text \<open>A \<^verbatim>\<open>HashMap\<close>: the last of two entries with one key counts.\<close>

definition de_map ::
  "reader \<Rightarrow> (yaml \<Rightarrow> 'k option) \<Rightarrow> (yaml \<Rightarrow> 'v option) \<Rightarrow> yaml \<Rightarrow> ('k \<rightharpoonup> 'v) option" where
  "de_map rd key val n = do {
     es \<leftarrow> as_entries rd [] n;
     kvs \<leftarrow> read_all (\<lambda>(k, v). do { k' \<leftarrow> key k; v' \<leftarrow> val v; Some (k', v') }) es;
     Some (map_of (rev kvs)) }"

text \<open>
  The entries of a struct under the names of its fields. A field given twice is an error; an entry
  under any other name is passed over.
\<close>

definition own_fields :: "string list \<Rightarrow> (string \<times> yaml) list \<Rightarrow> (string \<times> yaml) list option" where
  "own_fields names fs =
     (let ks = filter (\<lambda>(k, v). k \<in> set names) fs
      in if distinct (map fst ks) then Some ks else None)"

definition named :: "reader \<Rightarrow> string list \<Rightarrow> yaml \<times> yaml \<Rightarrow> (string \<times> yaml) option" where
  "named rd names e = map_option (\<lambda>k. (k, snd e)) (as_name rd names (fst e))"

definition struct_fields :: "reader \<Rightarrow> string list \<Rightarrow> yaml \<Rightarrow> (string \<times> yaml) list option" where
  "struct_fields rd names n = do {
     es \<leftarrow> as_entries rd names n;
     fs \<leftarrow> read_all (named rd names) es;
     own_fields names fs }"

text \<open>
  A struct with a flattened field keeps the entries that are not its own, and the flattened struct
  takes its fields from those.
\<close>

definition is_own :: "reader \<Rightarrow> string list \<Rightarrow> yaml \<times> yaml \<Rightarrow> bool" where
  "is_own rd names e = (case as_name rd names (fst e) of Some k \<Rightarrow> k \<in> set names | None \<Rightarrow> False)"

definition flat_fields ::
  "reader \<Rightarrow> string list \<Rightarrow> yaml \<Rightarrow> ((string \<times> yaml) list \<times> (yaml \<times> yaml) list) option" where
  "flat_fields rd names n = do {
     es \<leftarrow> as_entries rd [] n;
     fs \<leftarrow> read_all (named rd names) (filter (is_own rd names) es);
     ks \<leftarrow> own_fields names fs;
     Some (ks, filter (\<lambda>e. \<not> is_own rd names e) es) }"

definition rest_fields :: "string list \<Rightarrow> (yaml \<times> yaml) list \<Rightarrow> (string \<times> yaml) list option" where
  "rest_fields names rest =
     own_fields names (concat (map (\<lambda>(k, v). case k of YStr s \<Rightarrow> [(s, v)] | _ \<Rightarrow> []) rest))"

text \<open>An internally tagged enum: the variant the tag names, and the other entries.\<close>

definition is_tag :: "reader \<Rightarrow> string \<Rightarrow> yaml \<times> yaml \<Rightarrow> bool" where
  "is_tag rd tag e \<longleftrightarrow> as_name rd [tag] (fst e) = Some tag"

definition tagged_fields ::
  "reader \<Rightarrow> string \<Rightarrow> string list \<Rightarrow> yaml \<Rightarrow> (string \<times> yaml) option" where
  "tagged_fields rd tag variants n = do {
     es \<leftarrow> as_entries rd [tag] n;
     case filter (is_tag rd tag) es of
       [e] \<Rightarrow> do {
         variant \<leftarrow> as_name rd variants (snd e);
         Some (variant, YMap (filter (\<lambda>e. \<not> is_tag rd tag e) es)) }
     | _ \<Rightarrow> None }"

text \<open>
  A field without a default must be given; \<^verbatim>\<open>default\<close> takes its value when it is not. An \<^verbatim>\<open>Option\<close>
  that is not given is \<^verbatim>\<open>None\<close>, unless it is read by a module of its own (\<^verbatim>\<open>with\<close>).
\<close>

definition required :: "(string \<times> yaml) list \<Rightarrow> string \<Rightarrow> (yaml \<Rightarrow> 'a option) \<Rightarrow> 'a option" where
  "required fs k de = do { v \<leftarrow> map_of fs k; de v }"

definition with_default ::
  "'a \<Rightarrow> (string \<times> yaml) list \<Rightarrow> string \<Rightarrow> (yaml \<Rightarrow> 'a option) \<Rightarrow> 'a option" where
  "with_default d fs k de = (case map_of fs k of None \<Rightarrow> Some d | Some v \<Rightarrow> de v)"

definition optional ::
  "(string \<times> yaml) list \<Rightarrow> string \<Rightarrow> (yaml \<Rightarrow> 'a option) \<Rightarrow> 'a option option" where
  "optional fs k de = with_default None fs k (de_option de)"

text \<open>\<^verbatim>\<open>humantime_serde\<close>, and the \<^verbatim>\<open>option_humantime\<close> shim, whose untagged enum buffers its node.\<close>

definition de_duration :: "yaml_api \<Rightarrow> reader \<Rightarrow> yaml \<Rightarrow> duration option" where
  "de_duration y rd n = do { s \<leftarrow> as_text rd n; duration_of y s }"

definition de_option_humantime :: "yaml_api \<Rightarrow> yaml \<Rightarrow> duration option option" where
  "de_option_humantime y n = do {
     v \<leftarrow> (case n of YNull \<Rightarrow> Some Null | _ \<Rightarrow> map_option Scalar (as_text (buffered y) n));
     case oh_deserialize (duration_of y) v of Inl e \<Rightarrow> None | Inr d \<Rightarrow> Some d }"

lemma de_simps [simp]:
  "de_bool (YBool b) = Some b"
  "de_option de YNull = Some None"
  "de_option de (YStr s) = map_option Some (de (YStr s))"
  "de_option de (YNum i) = map_option Some (de (YNum i))"
  "de_option de (YSeq ns) = map_option Some (de (YSeq ns))"
  "de_option de (YMap es) = map_option Some (de (YMap es))"
  "de_vec rd de (YSeq ns) = read_all de ns"
  "de_duration y rd (YStr s) = duration_of y s"
  "de_option_humantime y YNull = Some None"
  "de_option_humantime y (YStr s) = map_option Some (duration_of y s)"
  by (simp_all add: de_bool_def de_option_def de_vec_def de_duration_def de_option_humantime_def
      oh_deserialize_def val_deserialize_def split: option.split)

lemma de_uint_num [simp]:
  "de_uint (YNum i) = (if 0 \<le> i \<and> i < 2 ^ LENGTH('a::len) then Some (word_of_int i :: 'a word) else None)"
  by (simp add: de_uint_def)

lemma de_uint_uint: "de_uint (YNum (uint w)) = Some (w :: 'a::len word)"
  by (simp add: uint_lt2p [unfolded])

section \<open>The types of the schema\<close>

definition de_observability :: "reader \<Rightarrow> yaml \<Rightarrow> observability_conf option" where
  "de_observability rd n = do {
     fs \<leftarrow> struct_fields rd [''prometheus_addr'', ''otlp_endpoint''] n;
     prometheus \<leftarrow> optional fs ''prometheus_addr'' (as_text rd);
     otlp \<leftarrow> optional fs ''otlp_endpoint'' (as_text rd);
     Some \<lparr>prometheus_addr = prometheus, otlp_endpoint = otlp\<rparr> }"

definition de_tls_settings :: "reader \<Rightarrow> yaml \<Rightarrow> tls_settings option" where
  "de_tls_settings rd n = do {
     fs \<leftarrow> struct_fields rd [''cert_path'', ''key_path'', ''mtls_ca_cert''] n;
     cert \<leftarrow> required fs ''cert_path'' (as_text rd);
     key \<leftarrow> required fs ''key_path'' (as_text rd);
     ca \<leftarrow> optional fs ''mtls_ca_cert'' (as_text rd);
     Some \<lparr>cert_path = cert, key_path = key, mtls_ca_cert = ca\<rparr> }"

definition de_listener :: "reader \<Rightarrow> yaml \<Rightarrow> listener_conf option" where
  "de_listener rd n = do {
     fs \<leftarrow> struct_fields rd [''address'', ''tls''] n;
     address \<leftarrow> required fs ''address'' (as_text rd);
     tls \<leftarrow> optional fs ''tls'' (de_tls_settings rd);
     Some \<lparr>l_address = address, l_tls = tls\<rparr> }"

definition de_backend :: "reader \<Rightarrow> yaml \<Rightarrow> backend_conf option" where
  "de_backend rd n = do {
     fs \<leftarrow> struct_fields rd [''address'', ''weight''] n;
     address \<leftarrow> required fs ''address'' (as_text rd);
     weight \<leftarrow> with_default default_weight fs ''weight'' de_uint;
     Some \<lparr>b_address = address, b_weight = weight\<rparr> }"

text \<open>The enums whose variants hold nothing: a variant's name in snake case.\<close>

definition de_unit_variant :: "reader \<Rightarrow> (string \<times> 'a) list \<Rightarrow> yaml \<Rightarrow> 'a option" where
  "de_unit_variant rd variants n = do {
     (t, payload) \<leftarrow> as_variant rd (map fst variants) n;
     if payload = None \<or> payload = Some YNull then map_of variants t else None }"

definition file_format_names :: "(string \<times> file_format) list" where
  "file_format_names = [(''json'', Json), (''yaml'', Yaml)]"

definition selection_names :: "(string \<times> load_balancer_selection) list" where
  "selection_names = [(''round_robin'', RoundRobin), (''random'', Random), (''consistent'', Consistent)]"

definition path_type_names :: "(string \<times> path_type) list" where
  "path_type_names = [(''prefix'', Prefix), (''exact'', Exact), (''regex'', Regex)]"

text \<open>\<^verbatim>\<open>HashSource\<close>: the tag \<^verbatim>\<open>type\<close> beside the fields of the variant.\<close>

definition de_name_field :: "reader \<Rightarrow> yaml \<Rightarrow> string option" where
  "de_name_field rd n = do { fs \<leftarrow> struct_fields rd [''name''] n; required fs ''name'' (as_text rd) }"

definition de_hash_source :: "yaml_api \<Rightarrow> reader \<Rightarrow> yaml \<Rightarrow> hash_source option" where
  "de_hash_source y rd n = do {
     (variant, rest) \<leftarrow> tagged_fields rd ''type'' [''none'', ''client_ip'', ''uri'', ''header'', ''cookie''] n;
     if variant = ''none'' then Some HS_None
     else if variant = ''client_ip'' then Some HS_ClientIp
     else if variant = ''uri'' then Some HS_Uri
     else if variant = ''header'' then map_option HS_Header (de_name_field (buffered y) rest)
     else if variant = ''cookie'' then map_option HS_Cookie (de_name_field (buffered y) rest)
     else None }"

text \<open>
  \<^verbatim>\<open>ClusterOptions\<close>: a field that is not given comes from \<^verbatim>\<open>ClusterOptions::default()\<close>, except the
  two with a default of their own.
\<close>

definition de_cluster_options :: "yaml_api \<Rightarrow> reader \<Rightarrow> yaml \<Rightarrow> cluster_options option" where
  "de_cluster_options y rd n = do {
     fs \<leftarrow> struct_fields rd [''connect_timeout'', ''read_timeout'', ''write_timeout'', ''idle_timeout'',
       ''enable_h2'', ''verify_hostname'', ''tls'', ''sni'', ''connection_pool_size''] n;
     ct \<leftarrow> with_default (connect_timeout default_cluster_options) fs ''connect_timeout'' (de_duration y rd);
     rt \<leftarrow> with_default (read_timeout default_cluster_options) fs ''read_timeout'' (de_duration y rd);
     wt \<leftarrow> with_default (write_timeout default_cluster_options) fs ''write_timeout'' (de_duration y rd);
     it \<leftarrow> with_default default_timeout fs ''idle_timeout'' (de_option_humantime y);
     h2 \<leftarrow> with_default (co_enable_h2 default_cluster_options) fs ''enable_h2'' de_bool;
     vh \<leftarrow> with_default (verify_hostname default_cluster_options) fs ''verify_hostname'' de_bool;
     tls \<leftarrow> with_default (co_tls default_cluster_options) fs ''tls'' de_bool;
     sni \<leftarrow> with_default (co_sni default_cluster_options) fs ''sni'' (de_option (as_text rd));
     pool \<leftarrow> with_default default_pool_size fs ''connection_pool_size'' de_uint;
     Some (cluster_options_new ct rt wt it h2 vh tls sni pool) }"

text \<open>\<^verbatim>\<open>HealthCheckCommon\<close>, whose fields are read from a map of their own or from the rest of one.\<close>

definition common_names :: "string list" where
  "common_names = [''interval'', ''timeout'', ''consecutive_success'', ''consecutive_failure'']"

definition de_common :: "yaml_api \<Rightarrow> reader \<Rightarrow> (string \<times> yaml) list \<Rightarrow> health_check_common option" where
  "de_common y rd fs = do {
     interval \<leftarrow> with_default default_health_interval fs ''interval'' (de_duration y rd);
     timeout \<leftarrow> with_default default_health_timeout fs ''timeout'' (de_duration y rd);
     success \<leftarrow> with_default default_health_success fs ''consecutive_success'' de_uint;
     failure \<leftarrow> with_default default_health_failure fs ''consecutive_failure'' de_uint;
     Some \<lparr>hc_interval = interval, hc_timeout = timeout, hc_consecutive_success = success,
           hc_consecutive_failure = failure\<rparr> }"

definition de_http_check :: "yaml_api \<Rightarrow> reader \<Rightarrow> yaml \<Rightarrow> health_check_conf option" where
  "de_http_check y rd n = do {
     (fs, rest) \<leftarrow> flat_fields rd [''path'', ''expected_status''] n;
     path \<leftarrow> required fs ''path'' (as_text rd);
     status \<leftarrow> with_default default_status_200 fs ''expected_status'' de_uint;
     cs \<leftarrow> rest_fields common_names rest;
     common \<leftarrow> de_common y (buffered y) cs;
     Some (HC_Http common path status) }"

definition de_custom_check :: "yaml_api \<Rightarrow> reader \<Rightarrow> yaml \<Rightarrow> health_check_conf option" where
  "de_custom_check y rd n = do {
     (fs, rest) \<leftarrow> flat_fields rd [''command''] n;
     command \<leftarrow> required fs ''command'' (as_text rd);
     cs \<leftarrow> rest_fields common_names rest;
     common \<leftarrow> de_common y (buffered y) cs;
     Some (HC_Custom common command) }"

definition de_health_check :: "yaml_api \<Rightarrow> reader \<Rightarrow> yaml \<Rightarrow> health_check_conf option" where
  "de_health_check y rd n = do {
     (variant, rest) \<leftarrow> tagged_fields rd ''protocol'' [''tcp'', ''http'', ''custom''] n;
     if variant = ''tcp'' then do {
       fs \<leftarrow> struct_fields (buffered y) common_names rest;
       map_option HC_Tcp (de_common y (buffered y) fs) }
     else if variant = ''http'' then de_http_check y (buffered y) rest
     else if variant = ''custom'' then de_custom_check y (buffered y) rest
     else None }"

definition de_upstream_source :: "yaml_api \<Rightarrow> reader \<Rightarrow> yaml \<Rightarrow> upstream_source option" where
  "de_upstream_source y rd n = do {
     (variant, rest) \<leftarrow> tagged_fields rd ''type'' [''static'', ''dns'', ''file'', ''uds''] n;
     let b = buffered y;
     if variant = ''static'' then do {
       fs \<leftarrow> struct_fields b [''backends''] rest;
       map_option US_Static (required fs ''backends'' (de_vec b (de_backend b))) }
     else if variant = ''dns'' then do {
       fs \<leftarrow> struct_fields b [''hostname'', ''refresh_interval''] rest;
       hostname \<leftarrow> required fs ''hostname'' (as_text b);
       refresh \<leftarrow> with_default default_refresh fs ''refresh_interval'' (de_duration y b);
       Some (US_Dns hostname refresh) }
     else if variant = ''file'' then do {
       fs \<leftarrow> struct_fields b [''path'', ''format'', ''refresh_interval''] rest;
       path \<leftarrow> required fs ''path'' (as_text b);
       format \<leftarrow> required fs ''format'' (de_unit_variant b file_format_names);
       refresh \<leftarrow> with_default default_refresh fs ''refresh_interval'' (de_duration y b);
       Some (US_File path format refresh) }
     else if variant = ''uds'' then do {
       fs \<leftarrow> struct_fields b [''path''] rest;
       map_option US_Uds (required fs ''path'' (as_text b)) }
     else None }"

text \<open>\<^verbatim>\<open>UpstreamConf\<close>: the source is read from the entries that are not the struct's own.\<close>

definition de_upstream :: "yaml_api \<Rightarrow> yaml \<Rightarrow> upstream_conf option" where
  "de_upstream y n = do {
     let d = direct y;
     (fs, rest) \<leftarrow> flat_fields d
       [''id'', ''selection'', ''hash_source'', ''options'', ''health_check'', ''backup_backends''] n;
     i \<leftarrow> required fs ''id'' (as_text d);
     selection \<leftarrow> with_default default_selection fs ''selection'' (de_unit_variant d selection_names);
     hash \<leftarrow> with_default default_hash_source fs ''hash_source'' (de_hash_source y d);
     options \<leftarrow> with_default default_cluster_options fs ''options'' (de_cluster_options y d);
     check \<leftarrow> with_default None fs ''health_check'' (de_option (de_health_check y d));
     backups \<leftarrow> with_default [] fs ''backup_backends'' (de_vec d (de_backend d));
     source \<leftarrow> de_upstream_source y (buffered y) (YMap rest);
     Some \<lparr>u_id = i, u_source = source, u_selection = selection, u_hash_source = hash,
           u_options = options, u_health_check = check, u_backup_backends = backups\<rparr> }"

definition de_rate_limit_key :: "reader \<Rightarrow> yaml \<Rightarrow> rate_limit_key option" where
  "de_rate_limit_key rd n = do {
     (t, payload) \<leftarrow> as_variant rd [''ip'', ''header''] n;
     if t = ''ip'' \<and> (payload = None \<or> payload = Some YNull) then Some RLK_Ip
     else if t = ''header'' then map_option RLK_Header (do { v \<leftarrow> payload; as_text rd v })
     else None }"

definition de_rate_limit :: "reader \<Rightarrow> yaml \<Rightarrow> rate_limit_conf option" where
  "de_rate_limit rd n = do {
     fs \<leftarrow> struct_fields rd [''requests_per_sec'', ''burst'', ''key''] n;
     rate \<leftarrow> required fs ''requests_per_sec'' de_uint;
     b \<leftarrow> required fs ''burst'' de_uint;
     key \<leftarrow> with_default RLK_Ip fs ''key'' (de_rate_limit_key rd);
     Some \<lparr>requests_per_sec = rate, burst = b, rl_key = key\<rparr> }"

definition de_access_control :: "reader \<Rightarrow> yaml \<Rightarrow> access_control_conf option" where
  "de_access_control rd n = do {
     fs \<leftarrow> struct_fields rd [''allow'', ''deny''] n;
     allow \<leftarrow> with_default [] fs ''allow'' (de_vec rd (as_text rd));
     deny \<leftarrow> with_default [] fs ''deny'' (de_vec rd (as_text rd));
     Some \<lparr>acc_allow = allow, acc_deny = deny\<rparr> }"

definition de_auth :: "yaml_api \<Rightarrow> reader \<Rightarrow> yaml \<Rightarrow> auth_conf option" where
  "de_auth y rd n = do {
     (variant, rest) \<leftarrow> tagged_fields rd ''type'' [''basic'', ''request''] n;
     let b = buffered y;
     if variant = ''basic'' then do {
       fs \<leftarrow> struct_fields b [''realm'', ''users''] rest;
       realm \<leftarrow> required fs ''realm'' (as_text b);
       users \<leftarrow> required fs ''users'' (de_map b (as_text b) (as_text b));
       Some (AuthBasic realm users) }
     else if variant = ''request'' then do {
       fs \<leftarrow> struct_fields b [''auth_uri'', ''headers_to_copy''] rest;
       uri \<leftarrow> required fs ''auth_uri'' (as_text b);
       headers \<leftarrow> required fs ''headers_to_copy'' (de_vec b (as_text b));
       Some (AuthRequest uri headers) }
     else None }"

text \<open>
  \<^verbatim>\<open>CacheConf\<close>: its optional durations are read by \<^verbatim>\<open>option_humantime\<close> and have no default.
\<close>

definition de_cache :: "yaml_api \<Rightarrow> reader \<Rightarrow> yaml \<Rightarrow> cache_conf option" where
  "de_cache y rd n = do {
     fs \<leftarrow> struct_fields rd [''enabled'', ''default_ttl'', ''lock_timeout'',
       ''stale_while_revalidate'', ''enable_purge''] n;
     enabled \<leftarrow> with_default False fs ''enabled'' de_bool;
     ttl \<leftarrow> required fs ''default_ttl'' (de_duration y rd);
     lock \<leftarrow> required fs ''lock_timeout'' (de_option_humantime y);
     stale \<leftarrow> required fs ''stale_while_revalidate'' (de_option_humantime y);
     purge \<leftarrow> with_default False fs ''enable_purge'' de_bool;
     Some \<lparr>cache_enabled = enabled, default_ttl = ttl, lock_timeout = lock,
           stale_while_revalidate = stale, enable_purge = purge\<rparr> }"

text \<open>A map of headers is iterated in an order of its own.\<close>

definition de_header_map :: "yaml_api \<Rightarrow> reader \<Rightarrow> yaml \<Rightarrow> (string \<times> string) list option" where
  "de_header_map y rd n = map_option (iteration y) (de_map rd (as_text rd) (as_text rd) n)"

definition de_headers :: "yaml_api \<Rightarrow> reader \<Rightarrow> yaml \<Rightarrow> header_conf option" where
  "de_headers y rd n = do {
     fs \<leftarrow> struct_fields rd [''add_req_headers'', ''remove_req_headers'', ''add_resp_headers'',
       ''remove_resp_headers'', ''preserve_host_header''] n;
     areq \<leftarrow> with_default [] fs ''add_req_headers'' (de_header_map y rd);
     rreq \<leftarrow> with_default [] fs ''remove_req_headers'' (de_vec rd (as_text rd));
     aresp \<leftarrow> with_default [] fs ''add_resp_headers'' (de_header_map y rd);
     rresp \<leftarrow> with_default [] fs ''remove_resp_headers'' (de_vec rd (as_text rd));
     preserve \<leftarrow> with_default False fs ''preserve_host_header'' de_bool;
     Some \<lparr>add_req_headers = areq, remove_req_headers = rreq, add_resp_headers = aresp,
           remove_resp_headers = rresp, preserve_host_header = preserve\<rparr> }"

definition route_names :: "string list" where
  "route_names = [''path'', ''path_type'', ''upstream_id'', ''hostnames'', ''rate_limit'', ''auth'',
     ''headers'', ''access_control'', ''query_matches'', ''strip_query_params'', ''compression'',
     ''body_deny_patterns'', ''websocket'', ''proxy_connect'', ''inflight_limit'', ''error_pages'', ''cache'']"

definition de_route :: "yaml_api \<Rightarrow> yaml \<Rightarrow> route_conf option" where
  "de_route y n = do {
     let d = direct y;
     let texts = de_vec d (as_text d);
     fs \<leftarrow> struct_fields d route_names n;
     path \<leftarrow> required fs ''path'' (as_text d);
     path_type \<leftarrow> with_default Prefix fs ''path_type'' (de_unit_variant d path_type_names);
     upstream \<leftarrow> required fs ''upstream_id'' (as_text d);
     hosts \<leftarrow> optional fs ''hostnames'' texts;
     rate \<leftarrow> optional fs ''rate_limit'' (de_rate_limit d);
     auth \<leftarrow> optional fs ''auth'' (de_auth y d);
     headers \<leftarrow> with_default default_headers fs ''headers'' (de_headers y d);
     acl \<leftarrow> optional fs ''access_control'' (de_access_control d);
     query \<leftarrow> optional fs ''query_matches'' (de_map d (as_text d) (as_text d));
     strip \<leftarrow> optional fs ''strip_query_params'' texts;
     compress \<leftarrow> with_default False fs ''compression'' de_bool;
     patterns \<leftarrow> optional fs ''body_deny_patterns'' texts;
     ws \<leftarrow> with_default False fs ''websocket'' de_bool;
     connect \<leftarrow> with_default False fs ''proxy_connect'' de_bool;
     inflight \<leftarrow> optional fs ''inflight_limit'' de_uint;
     pages \<leftarrow> optional fs ''error_pages'' (de_map d de_uint (as_text d));
     cache \<leftarrow> optional fs ''cache'' (de_cache y d);
     Some \<lparr>r_path = path, r_path_type = path_type, r_upstream_id = upstream, r_hostnames = hosts,
           r_rate_limit = rate, r_auth = auth, r_headers = headers, r_access_control = acl,
           r_query_matches = query, r_strip_query_params = strip, r_compression = compress,
           r_body_deny_patterns = patterns, r_websocket = ws, r_proxy_connect = connect,
           r_inflight_limit = inflight, r_error_pages = pages, r_cache = cache\<rparr> }"

definition de_server :: "yaml_api \<Rightarrow> yaml \<Rightarrow> server_conf option" where
  "de_server y n = do {
     let d = direct y;
     fs \<leftarrow> struct_fields d [''listeners'', ''daemon'', ''pid_file'', ''user'', ''group'', ''worker_threads'',
       ''watch_config'', ''client_max_body_size'', ''enable_h2'', ''enable_h2c'', ''graceful_shutdown_timeout''] n;
     ls \<leftarrow> with_default [] fs ''listeners'' (de_vec d (de_listener d));
     demon \<leftarrow> with_default False fs ''daemon'' de_bool;
     pid \<leftarrow> optional fs ''pid_file'' (as_text d);
     usr \<leftarrow> optional fs ''user'' (as_text d);
     grp \<leftarrow> optional fs ''group'' (as_text d);
     threads \<leftarrow> optional fs ''worker_threads'' de_uint;
     watch \<leftarrow> with_default False fs ''watch_config'' de_bool;
     size \<leftarrow> optional fs ''client_max_body_size'' de_uint;
     h2 \<leftarrow> with_default False fs ''enable_h2'' de_bool;
     h2c \<leftarrow> with_default False fs ''enable_h2c'' de_bool;
     grace \<leftarrow> with_default None fs ''graceful_shutdown_timeout'' (de_option_humantime y);
     Some \<lparr>listeners = ls, daemon = demon, pid_file = pid, srv_user = usr, srv_group = grp,
           worker_threads = threads, watch_config = watch, client_max_body_size = size,
           srv_enable_h2 = h2, enable_h2c = h2c, graceful_shutdown_timeout = grace\<rparr> }"

definition de_gateway :: "yaml_api \<Rightarrow> yaml \<Rightarrow> gateway_conf option" where
  "de_gateway y n = do {
     let d = direct y;
     fs \<leftarrow> struct_fields d [''server'', ''observability'', ''upstreams'', ''routes''] n;
     server \<leftarrow> required fs ''server'' (de_server y);
     obs \<leftarrow> optional fs ''observability'' (de_observability d);
     ups \<leftarrow> required fs ''upstreams'' (de_vec d (de_upstream y));
     routes \<leftarrow> required fs ''routes'' (de_vec d (de_route y));
     Some \<lparr>g_server = server, g_observability = obs, g_upstreams = ups, g_routes = routes\<rparr> }"

text \<open>\<^verbatim>\<open>serde_yaml::from_str\<close> at a type: the text is parsed, then the tree is read.\<close>

definition yaml_from_str :: "yaml_api \<Rightarrow> (yaml \<Rightarrow> 'a option) \<Rightarrow> string \<Rightarrow> string + 'a" where
  "yaml_from_str y de text =
     (case do { n \<leftarrow> yaml_parse y text; de n } of Some a \<Rightarrow> Inr a | None \<Rightarrow> Inl (yaml_error y text))"

end
