(* ===== verification/Config_Roundtrip.thy ===== *)
theory Config_Roundtrip
  imports Config_Parse
begin

text \<open>
  The other direction of the schema of \<^verbatim>\<open>src/config.rs\<close>: what the derived \<^verbatim>\<open>Serialize\<close> writes, and that
  reading it gives back the value. What the attributes put into one map (a flattened source, a tag
  beside the fields of its variant, a flattened health check) is told apart again.
\<close>

section \<open>Maps under names\<close>

definition entries :: "(string \<times> yaml) list \<Rightarrow> (yaml \<times> yaml) list" where
  "entries kvs = map (\<lambda>(k, v). (YStr k, v)) kvs"

definition mapping :: "(string \<times> yaml) list \<Rightarrow> yaml" where
  "mapping kvs = YMap (entries kvs)"

named_theorems yaml_simps \<open>reading a map written under names\<close>

lemma named_entries: "read_all (named rd names) (entries kvs) = Some kvs"
  by (induction kvs) (auto simp: entries_def named_def)

lemma struct_fields_mapping [yaml_simps]: "struct_fields rd names (mapping kvs) = own_fields names kvs"
  by (simp add: struct_fields_def mapping_def named_entries)

lemma filter_entries:
  "filter (\<lambda>e. P (fst e)) (entries kvs) = entries (filter (\<lambda>e. P (YStr (fst e))) kvs)"
  by (induction kvs) (auto simp: entries_def)

lemma is_own_name: "is_own rd names = (\<lambda>e. case as_name rd names (fst e) of Some k \<Rightarrow> k \<in> set names | None \<Rightarrow> False)"
  by (simp add: fun_eq_iff is_own_def)

lemma flat_fields_mapping [yaml_simps]:
  "flat_fields rd names (mapping kvs) = do {
     ks \<leftarrow> own_fields names (filter (\<lambda>(k, v). k \<in> set names) kvs);
     Some (ks, entries (filter (\<lambda>(k, v). k \<notin> set names) kvs)) }"
proof -
  have own: "filter (is_own rd names) (entries kvs) = entries (filter (\<lambda>(k, v). k \<in> set names) kvs)"
    unfolding is_own_name by (subst filter_entries) (simp add: case_prod_unfold)
  have rest: "filter (\<lambda>e. \<not> is_own rd names e) (entries kvs) = entries (filter (\<lambda>(k, v). k \<notin> set names) kvs)"
    unfolding is_own_name by (subst filter_entries) (simp add: case_prod_unfold)
  show ?thesis
    by (simp add: flat_fields_def mapping_def own rest named_entries)
qed

lemma tagged_fields_mapping [yaml_simps]:
  "tagged_fields rd tag variants (mapping kvs) =
     (case filter (\<lambda>(k, v). k = tag) kvs of
        [e] \<Rightarrow> do {
          variant \<leftarrow> as_name rd variants (snd e);
          Some (variant, mapping (filter (\<lambda>(k, v). k \<noteq> tag) kvs)) }
      | _ \<Rightarrow> None)"
proof -
  have tag: "filter (is_tag rd tag) (entries kvs) = entries (filter (\<lambda>(k, v). k = tag) kvs)"
    unfolding is_tag_def by (subst filter_entries) (simp add: case_prod_unfold)
  have rest: "filter (\<lambda>e. \<not> is_tag rd tag e) (entries kvs) = entries (filter (\<lambda>(k, v). k \<noteq> tag) kvs)"
    unfolding is_tag_def by (subst filter_entries) (simp add: case_prod_unfold)
  show ?thesis
    unfolding tagged_fields_def mapping_def as_simps Option.bind.simps tag rest
    by (cases "filter (\<lambda>(k, v). k = tag) kvs"; cases "tl (filter (\<lambda>(k, v). k = tag) kvs)")
      (auto simp: entries_def)
qed

lemma rest_fields_entries [yaml_simps]: "rest_fields names (entries kvs) = own_fields names kvs"
proof -
  have "concat (map (\<lambda>(k, v). case k of YStr s \<Rightarrow> [(s, v)] | _ \<Rightarrow> []) (entries kvs)) = kvs"
    by (induction kvs) (auto simp: entries_def)
  then show ?thesis
    by (simp add: rest_fields_def)
qed

lemma YMap_entries [yaml_simps]: "YMap (entries kvs) = mapping kvs"
  by (simp add: mapping_def)

lemma read_all_map: "(\<And>x. x \<in> set xs \<Longrightarrow> f (g x) = Some x) \<Longrightarrow> read_all f (map g xs) = Some xs"
  by (induction xs) auto

lemma field_simps_yaml [yaml_simps]:
  "required ((k, v) # fs) k de = de v"
  "k \<noteq> k' \<Longrightarrow> required ((k, v) # fs) k' de = required fs k' de"
  "with_default d ((k, v) # fs) k de = de v"
  "k \<noteq> k' \<Longrightarrow> with_default d ((k, v) # fs) k' de = with_default d fs k' de"
  "optional ((k, v) # fs) k de = de_option de v"
  "k \<noteq> k' \<Longrightarrow> optional ((k, v) # fs) k' de = optional fs k' de"
  "required [] k de = None"
  "with_default d [] k de = Some d"
  "optional [] k de = Some None"
  by (simp_all add: required_def with_default_def optional_def)

section \<open>Writing\<close>

definition ser_word :: "'a::len word \<Rightarrow> yaml" where
  "ser_word w = YNum (uint w)"

definition ser_option :: "('a \<Rightarrow> yaml) \<Rightarrow> 'a option \<Rightarrow> yaml" where
  "ser_option ser v = (case v of None \<Rightarrow> YNull | Some a \<Rightarrow> ser a)"

definition ser_option_humantime :: "(duration \<Rightarrow> string) \<Rightarrow> duration option \<Rightarrow> yaml" where
  "ser_option_humantime fmt v = (case oh_serialize fmt v of Null \<Rightarrow> YNull | Scalar s \<Rightarrow> YStr s)"

definition ser_backend :: "backend_conf \<Rightarrow> yaml" where
  "ser_backend b = mapping [(''address'', YStr (b_address b)), (''weight'', ser_word (b_weight b))]"

definition ser_unit_variant :: "(string \<times> 'a) list \<Rightarrow> 'a \<Rightarrow> yaml" where
  "ser_unit_variant variants a =
     (case find (\<lambda>(name, b). b = a) variants of Some (name, b) \<Rightarrow> YStr name | None \<Rightarrow> YNull)"

definition ser_hash_source :: "hash_source \<Rightarrow> yaml" where
  "ser_hash_source h =
     (case h of
        HS_None \<Rightarrow> mapping [(''type'', YStr ''none'')]
      | HS_ClientIp \<Rightarrow> mapping [(''type'', YStr ''client_ip'')]
      | HS_Uri \<Rightarrow> mapping [(''type'', YStr ''uri'')]
      | HS_Header name \<Rightarrow> mapping [(''type'', YStr ''header''), (''name'', YStr name)]
      | HS_Cookie name \<Rightarrow> mapping [(''type'', YStr ''cookie''), (''name'', YStr name)])"

definition ser_cluster_options :: "(duration \<Rightarrow> string) \<Rightarrow> cluster_options \<Rightarrow> yaml" where
  "ser_cluster_options fmt co = mapping
     [(''connect_timeout'', YStr (fmt (connect_timeout co))),
      (''read_timeout'', YStr (fmt (read_timeout co))),
      (''write_timeout'', YStr (fmt (write_timeout co))),
      (''idle_timeout'', ser_option_humantime fmt (idle_timeout co)),
      (''enable_h2'', YBool (co_enable_h2 co)),
      (''verify_hostname'', YBool (verify_hostname co)),
      (''tls'', YBool (co_tls co)),
      (''sni'', ser_option YStr (co_sni co)),
      (''connection_pool_size'', ser_word (connection_pool_size co))]"

definition ser_common :: "(duration \<Rightarrow> string) \<Rightarrow> health_check_common \<Rightarrow> (string \<times> yaml) list" where
  "ser_common fmt c =
     [(''interval'', YStr (fmt (hc_interval c))), (''timeout'', YStr (fmt (hc_timeout c))),
      (''consecutive_success'', ser_word (hc_consecutive_success c)),
      (''consecutive_failure'', ser_word (hc_consecutive_failure c))]"

definition ser_health_check :: "(duration \<Rightarrow> string) \<Rightarrow> health_check_conf \<Rightarrow> yaml" where
  "ser_health_check fmt hc =
     (case hc of
        HC_Tcp c \<Rightarrow> mapping ((''protocol'', YStr ''tcp'') # ser_common fmt c)
      | HC_Http c path status \<Rightarrow> mapping ((''protocol'', YStr ''http'') # ser_common fmt c @
          [(''path'', YStr path), (''expected_status'', ser_word status)])
      | HC_Custom c command \<Rightarrow> mapping ((''protocol'', YStr ''custom'') # ser_common fmt c @
          [(''command'', YStr command)]))"

definition ser_source :: "(duration \<Rightarrow> string) \<Rightarrow> upstream_source \<Rightarrow> (string \<times> yaml) list" where
  "ser_source fmt src =
     (case src of
        US_Static bs \<Rightarrow> [(''type'', YStr ''static''), (''backends'', YSeq (map ser_backend bs))]
      | US_Dns hostname d \<Rightarrow>
          [(''type'', YStr ''dns''), (''hostname'', YStr hostname), (''refresh_interval'', YStr (fmt d))]
      | US_File path format d \<Rightarrow>
          [(''type'', YStr ''file''), (''path'', YStr path),
           (''format'', ser_unit_variant file_format_names format), (''refresh_interval'', YStr (fmt d))]
      | US_Uds path \<Rightarrow> [(''type'', YStr ''uds''), (''path'', YStr path)])"

definition ser_upstream :: "(duration \<Rightarrow> string) \<Rightarrow> upstream_conf \<Rightarrow> yaml" where
  "ser_upstream fmt u = mapping
     ((''id'', YStr (u_id u)) # ser_source fmt (u_source u) @
      [(''selection'', ser_unit_variant selection_names (u_selection u)),
       (''hash_source'', ser_hash_source (u_hash_source u)),
       (''options'', ser_cluster_options fmt (u_options u)),
       (''health_check'', ser_option (ser_health_check fmt) (u_health_check u)),
       (''backup_backends'', YSeq (map ser_backend (u_backup_backends u)))])"

section \<open>Reading it back\<close>

lemma de_ser_word [simp]: "de_uint (ser_word w) = Some w"
  by (simp only: ser_word_def de_uint_uint)

lemma de_ser_backend [simp]: "de_backend rd (ser_backend b) = Some b"
  by (cases b) (simp add: de_backend_def ser_backend_def yaml_simps own_fields_def)

lemma de_ser_backends [simp]: "de_vec rd (de_backend rd) (YSeq (map ser_backend bs)) = Some bs"
  by (simp add: read_all_map)

lemma de_ser_file_format [simp]:
  "de_unit_variant rd file_format_names (ser_unit_variant file_format_names f) = Some f"
  by (cases f) (simp_all add: de_unit_variant_def ser_unit_variant_def file_format_names_def)

lemma de_ser_selection [simp]:
  "de_unit_variant rd selection_names (ser_unit_variant selection_names s) = Some s"
  by (cases s) (simp_all add: de_unit_variant_def ser_unit_variant_def selection_names_def)

lemma de_ser_hash_source [simp]: "de_hash_source y rd (ser_hash_source h) = Some h"
  by (cases h) (simp_all add: de_hash_source_def ser_hash_source_def de_name_field_def yaml_simps own_fields_def)

text \<open>The durations of an upstream: those \<^verbatim>\<open>humantime\<close> must read as it writes them.\<close>

definition common_durations :: "health_check_common \<Rightarrow> duration set" where
  "common_durations c = {hc_interval c, hc_timeout c}"

definition options_durations :: "cluster_options \<Rightarrow> duration set" where
  "options_durations co =
     {connect_timeout co, read_timeout co, write_timeout co} \<union> set_option (idle_timeout co)"

definition check_durations :: "health_check_conf \<Rightarrow> duration set" where
  "check_durations hc =
     (case hc of HC_Tcp c \<Rightarrow> common_durations c | HC_Http c p s \<Rightarrow> common_durations c
      | HC_Custom c cmd \<Rightarrow> common_durations c)"

definition source_durations :: "upstream_source \<Rightarrow> duration set" where
  "source_durations src = (case src of US_Dns h d \<Rightarrow> {d} | US_File p f d \<Rightarrow> {d} | _ \<Rightarrow> {})"

definition upstream_durations :: "upstream_conf \<Rightarrow> duration set" where
  "upstream_durations u = source_durations (u_source u) \<union> options_durations (u_options u) \<union>
     \<Union> (check_durations ` set_option (u_health_check u))"

definition humantime_reads :: "yaml_api \<Rightarrow> (duration \<Rightarrow> string) \<Rightarrow> duration set \<Rightarrow> bool" where
  "humantime_reads y fmt ds \<longleftrightarrow> (\<forall>d \<in> ds. duration_of y (fmt d) = Some d)"

lemma de_ser_option_humantime:
  "humantime_reads y fmt (set_option v) \<Longrightarrow> de_option_humantime y (ser_option_humantime fmt v) = Some v"
  by (cases v) (simp_all add: ser_option_humantime_def oh_serialize_def humantime_reads_def)

lemma de_ser_sni: "de_option (as_text rd) (ser_option YStr v) = Some v"
  by (cases v) (simp_all add: ser_option_def)

lemma de_ser_cluster_options:
  assumes "humantime_reads y fmt (options_durations co)"
  shows "de_cluster_options y rd (ser_cluster_options fmt co) = Some co"
proof -
  have d: "duration_of y (fmt (connect_timeout co)) = Some (connect_timeout co)"
    "duration_of y (fmt (read_timeout co)) = Some (read_timeout co)"
    "duration_of y (fmt (write_timeout co)) = Some (write_timeout co)"
    and i: "humantime_reads y fmt (set_option (idle_timeout co))"
    using assms by (auto simp: humantime_reads_def options_durations_def)
  show ?thesis
    by (simp add: de_cluster_options_def ser_cluster_options_def yaml_simps own_fields_def d de_ser_option_humantime [OF i]
        de_ser_sni cluster_options_new_def)
qed

lemma de_common_app:
  assumes "humantime_reads y fmt (common_durations c)"
  shows "de_common y rd (ser_common fmt c) = Some c"
  using assms
  by (simp add: de_common_def ser_common_def yaml_simps humantime_reads_def common_durations_def)

lemma de_ser_health_check:
  assumes "humantime_reads y fmt (check_durations hc)"
  shows "de_health_check y rd (ser_health_check fmt hc) = Some hc"
proof -
  have known_common: "own_fields common_names (ser_common fmt c) = Some (ser_common fmt c)" for c
    by (simp add: own_fields_def common_names_def ser_common_def)
  have filters: "filter (\<lambda>(k, v). k \<noteq> ''protocol'') (ser_common fmt c) = ser_common fmt c"
    "filter (\<lambda>(k, v). k = ''protocol'') (ser_common fmt c) = []"
    "filter (\<lambda>(k, v). k \<noteq> ''path'' \<and> k \<noteq> ''expected_status'') (ser_common fmt c) = ser_common fmt c"
    "filter (\<lambda>(k, v). k = ''path'' \<or> k = ''expected_status'') (ser_common fmt c) = []"
    "filter (\<lambda>(k, v). k \<noteq> ''command'') (ser_common fmt c) = ser_common fmt c"
    "filter (\<lambda>(k, v). k = ''command'') (ser_common fmt c) = []" for c
    by (simp_all add: ser_common_def)
  show ?thesis
    using assms
    by (cases hc)
      (simp_all add: de_health_check_def ser_health_check_def de_http_check_def de_custom_check_def yaml_simps
        filters known_common own_fields_def [of "[''path'', ''expected_status'']"] own_fields_def [of "[''command'']"]
        check_durations_def de_common_app)
qed

text \<open>
  C14. Every upstream the schema can hold, whatever its source, selection, hash key, options, health check
  and backups, is read back unchanged from what it is written as, as long as \<^verbatim>\<open>humantime\<close> reads the
  durations it wrote: the flattened source and the upstream's own fields share one map, and the tags
  \<^verbatim>\<open>type\<close> and \<^verbatim>\<open>protocol\<close> share theirs with the fields of the variants, without being mixed up.
\<close>

theorem upstream_roundtrip:
  assumes "humantime_reads y fmt (upstream_durations u)"
  shows "de_upstream y (ser_upstream fmt u) = Some u"
proof -
  have check: "de_option (de_health_check y rd) (ser_option (ser_health_check fmt) (u_health_check u)) =
      Some (u_health_check u)" for rd
  proof (cases "u_health_check u")
    case (Some hc)
    then have "humantime_reads y fmt (check_durations hc)"
      using assms by (auto simp: humantime_reads_def upstream_durations_def)
    from de_ser_health_check [OF this] Some show ?thesis
      by (cases hc) (simp_all add: ser_option_def ser_health_check_def mapping_def)
  qed (simp add: ser_option_def)
  have options: "de_cluster_options y rd (ser_cluster_options fmt (u_options u)) = Some (u_options u)" for rd
    using assms by (intro de_ser_cluster_options) (auto simp: humantime_reads_def upstream_durations_def)
  have durations: "duration_of y (fmt d) = Some d" if "d \<in> source_durations (u_source u)" for d
    using assms that by (auto simp: humantime_reads_def upstream_durations_def)
  have source: "de_upstream_source y rd (mapping (ser_source fmt (u_source u))) = Some (u_source u)" for rd
    using durations
    by (cases "u_source u")
      (simp_all add: de_upstream_source_def ser_source_def yaml_simps own_fields_def source_durations_def Let_def
        del: de_simps(7))
  let ?own = "[''id'', ''selection'', ''hash_source'', ''options'', ''health_check'', ''backup_backends'']"
  have "filter (\<lambda>(k, v). k \<notin> set ?own) (ser_source fmt src) = ser_source fmt src"
    "filter (\<lambda>(k, v). k \<in> set ?own) (ser_source fmt src) = []" for src
    by (cases src; simp add: ser_source_def)+
  then show ?thesis
    by (simp add: de_upstream_def ser_upstream_def yaml_simps own_fields_def [of ?own] check options source Let_def
        del: de_simps(7))
qed

section \<open>A format for the examples\<close>

text \<open>
  A format that coerces nothing, and the durations of the shipped configuration with their texts.
\<close>

definition strict_reader :: reader where
  "strict_reader =
     \<lparr>other_text = (\<lambda>n. None), other_name = (\<lambda>names n. None), other_items = (\<lambda>n. None),
      other_entries = (\<lambda>names n. None), other_variant = (\<lambda>names n. None)\<rparr>"

definition duration_texts :: "(string \<times> duration) list" where
  "duration_texts =
     [(''1s'', from_secs 1), (''2s'', from_secs 2), (''5s'', from_secs 5), (''10s'', from_secs 10),
      (''15s'', from_secs 15), (''30s'', from_secs 30), (''60s'', from_secs 60), (''1m 30s'', from_secs 90),
      (''1h'', from_secs 3600), (''500ms'', from_millis 500)]"

definition text_of_duration :: "duration \<Rightarrow> string" where
  "text_of_duration d = (case find (\<lambda>(s, e). e = d) duration_texts of Some (s, e) \<Rightarrow> s | None \<Rightarrow> [])"

definition sample_yaml :: yaml_api where
  "sample_yaml =
     \<lparr>direct = strict_reader, buffered = strict_reader, duration_of = map_of duration_texts,
      iteration = (\<lambda>m. List.map_filter (\<lambda>k. map_option (Pair k) (m k))
        [''X-Gateway'', ''Strict-Transport-Security'']),
      yaml_parse = (\<lambda>text. None), yaml_error = (\<lambda>text. text)\<rparr>"

definition configured_upstream :: upstream_conf where
  "configured_upstream =
     \<lparr>u_id = ''api'', u_source = US_Dns ''api.internal'' (from_secs 30), u_selection = Consistent,
      u_hash_source = HS_Header ''X-User'', u_options = default_cluster_options,
      u_health_check = Some (HC_Http \<lparr>hc_interval = from_secs 5, hc_timeout = from_secs 1,
        hc_consecutive_success = 1, hc_consecutive_failure = 2\<rparr> ''/health'' 204),
      u_backup_backends = [\<lparr>b_address = ''10.0.0.9:80'', b_weight = 3\<rparr>]\<rparr>"

theorem upstream_roundtrip_witness:
  "de_upstream sample_yaml (ser_upstream text_of_duration configured_upstream) = Some configured_upstream"
proof (rule upstream_roundtrip)
  show "humantime_reads sample_yaml text_of_duration (upstream_durations configured_upstream)"
    by (simp add: humantime_reads_def upstream_durations_def configured_upstream_def source_durations_def
        options_durations_def check_durations_def common_durations_def default_cluster_options_def
        cluster_options_new_def sample_yaml_def duration_texts_def text_of_duration_def from_secs_def
        from_millis_def)
qed

section \<open>What may be left out\<close>

text \<open>An empty map of options is the default, although two fields have a default of their own.\<close>

lemma no_options: "de_cluster_options y rd (mapping []) = Some default_cluster_options"
  by (simp add: de_cluster_options_def yaml_simps own_fields_def default_cluster_options_def
      cluster_options_new_def default_timeout_def default_pool_size_def)

lemma minimal_route:
  "de_route y (mapping [(''path'', YStr p), (''upstream_id'', YStr u)]) =
     Some (default_route\<lparr>r_path := p, r_upstream_id := u\<rparr>)"
  by (simp add: de_route_def yaml_simps own_fields_def route_names_def default_route_def Let_def)

lemma required_given:
  assumes "own_fields names kvs = Some fs" and "required fs k de = Some a"
  shows "k \<in> fst ` set kvs"
proof -
  from assms(2) obtain v where "(k, v) \<in> set fs"
    by (auto simp: required_def bind_eq_Some_conv dest: map_of_SomeD)
  with assms(1) show ?thesis
    by (force simp: own_fields_def Let_def split: if_splits)
qed

text \<open>
  C20. The lock and stale durations of a cache are \<^verbatim>\<open>Option\<close>s, yet may not be left out: they are read by
  \<^verbatim>\<open>option_humantime\<close> and have no default, so a cache that leaves out either is refused, and a null is
  what a cache without them must write.
\<close>

theorem cache_durations_required:
  "({''lock_timeout'', ''stale_while_revalidate''} \<subseteq> fst ` set kvs \<or> de_cache y rd (mapping kvs) = None) \<and>
   de_cache y rd (mapping [(''default_ttl'', YStr ttl), (''lock_timeout'', YNull),
      (''stale_while_revalidate'', YNull)]) =
     map_option (\<lambda>d. \<lparr>cache_enabled = False, default_ttl = d, lock_timeout = None,
       stale_while_revalidate = None, enable_purge = False\<rparr>) (duration_of y ttl)"
proof (intro conjI)
  have "{''lock_timeout'', ''stale_while_revalidate''} \<subseteq> fst ` set kvs" if "de_cache y rd (mapping kvs) = Some c" for c
    using that by (auto simp: de_cache_def yaml_simps bind_eq_Some_conv dest: required_given)
  then show "{''lock_timeout'', ''stale_while_revalidate''} \<subseteq> fst ` set kvs \<or> de_cache y rd (mapping kvs) = None"
    by (cases "de_cache y rd (mapping kvs)") auto
qed (cases "duration_of y ttl"; simp add: de_cache_def yaml_simps own_fields_def)

text \<open>
  C15. An entry of a route under a name that is no field of \<^verbatim>\<open>RouteConf\<close> changes nothing, wherever it
  stands and whatever it holds. So a route whose access rules or authentication are given under a
  misspelt name is loaded without them, and no error is reported.
\<close>

theorem misspelt_rules_ignored:
  assumes "k \<notin> set route_names"
  shows "de_route y (YMap (before @ (YStr k, v) # after)) = de_route y (YMap (before @ after))"
proof -
  have all: "read_all f (xs @ ys) = do { as \<leftarrow> read_all f xs; bs \<leftarrow> read_all f ys; Some (as @ bs) }"
    for xs ys and f :: "yaml \<times> yaml \<Rightarrow> (string \<times> yaml) option"
    by (induction xs) (auto split: Option.bind_splits)
  have "struct_fields rd route_names (YMap (before @ (YStr k, v) # after)) =
      struct_fields rd route_names (YMap (before @ after))" for rd
    using assms by (simp add: struct_fields_def all named_def own_fields_def split: Option.bind_splits)
  then show ?thesis
    by (simp add: de_route_def Let_def)
qed

theorem misspelt_rules_ignored_witness:
  "de_route sample_yaml (mapping [(''path'', YStr ''/admin''),
     (''acces_control'', mapping [(''allow'', YSeq [YStr ''10.0.0.0/8''])]), (''upstream_id'', YStr ''api'')]) =
   Some (default_route\<lparr>r_path := ''/admin'', r_upstream_id := ''api''\<rparr>)"
proof -
  have "de_route sample_yaml (YMap (entries [(''path'', YStr ''/admin'')] @
      (YStr ''acces_control'', v) # entries [(''upstream_id'', YStr ''api'')])) =
    de_route sample_yaml (YMap (entries [(''path'', YStr ''/admin'')] @ entries [(''upstream_id'', YStr ''api'')]))"
    for v by (rule misspelt_rules_ignored) (simp add: route_names_def)
  then show ?thesis
    using minimal_route [of sample_yaml "''/admin''" "''api''"] by (simp add: mapping_def entries_def)
qed

end
