(* ===== verification/Shipped_File.thy ===== *)
theory Shipped_File
  imports Shipped_Config Config_Roundtrip
begin

text \<open>
  The text of \<^verbatim>\<open>src/gateway_full.yaml\<close> as the tree a YAML parser gives, in the order of the file, and
  what reading it by the schema gives: the value of \<^verbatim>\<open>Shipped_Config\<close>.
\<close>

section \<open>The tree\<close>

definition file_listeners :: yaml where
  "file_listeners = YSeq
     [mapping [(''address'', YStr ''0.0.0.0:8080''), (''tls'', YNull)],
      mapping [(''address'', YStr ''0.0.0.0:8443''),
        (''tls'', mapping [(''cert_path'', YStr ''/etc/gateway/certs/server.crt''),
          (''key_path'', YStr ''/etc/gateway/certs/server.key''), (''mtls_ca_cert'', YNull)])],
      mapping [(''address'', YStr ''0.0.0.0:9443''),
        (''tls'', mapping [(''cert_path'', YStr ''/etc/gateway/certs/mtls_server.crt''),
          (''key_path'', YStr ''/etc/gateway/certs/mtls_server.key''),
          (''mtls_ca_cert'', YStr ''/etc/gateway/certs/ca.pem'')])]]"

definition file_server :: yaml where
  "file_server = mapping
     [(''listeners'', file_listeners), (''daemon'', YBool True), (''pid_file'', YStr ''/var/run/pingora.pid''),
      (''user'', YStr ''www-data''), (''group'', YStr ''www-data''), (''worker_threads'', YNum 8),
      (''watch_config'', YBool True), (''graceful_shutdown_timeout'', YStr ''30s''),
      (''enable_h2'', YBool True), (''enable_h2c'', YBool False), (''client_max_body_size'', YNum 10485760)]"

definition file_observability :: yaml where
  "file_observability = mapping
     [(''prometheus_addr'', YStr ''0.0.0.0:9090''), (''otlp_endpoint'', YStr ''http://jaeger:14268'')]"

definition file_backend :: "string \<Rightarrow> int \<Rightarrow> yaml" where
  "file_backend address weight = mapping [(''address'', YStr address), (''weight'', YNum weight)]"

definition file_legacy :: yaml where
  "file_legacy = mapping
     [(''id'', YStr ''legacy-cluster''), (''type'', YStr ''static''),
      (''backends'', YSeq [file_backend ''10.0.0.1:80'' 10, file_backend ''10.0.0.2:80'' 1]),
      (''selection'', YStr ''round_robin''),
      (''health_check'', mapping [(''protocol'', YStr ''tcp''), (''interval'', YStr ''5s''),
        (''timeout'', YStr ''1s''), (''consecutive_success'', YNum 1), (''consecutive_failure'', YNum 3)]),
      (''backup_backends'', YSeq [file_backend ''10.0.0.99:80'' 1]),
      (''options'', mapping [(''connect_timeout'', YStr ''500ms''), (''read_timeout'', YStr ''2s''),
        (''connection_pool_size'', YNum 128), (''tls'', YBool False)])]"

definition file_api :: yaml where
  "file_api = mapping
     [(''id'', YStr ''api-service''), (''type'', YStr ''dns''), (''hostname'', YStr ''api.internal.svc''),
      (''refresh_interval'', YStr ''30s''), (''selection'', YStr ''consistent''),
      (''hash_source'', mapping [(''type'', YStr ''cookie''), (''name'', YStr ''session_id'')]),
      (''health_check'', mapping [(''protocol'', YStr ''http''), (''path'', YStr ''/health''),
        (''expected_status'', YNum 200), (''interval'', YStr ''10s''), (''timeout'', YStr ''2s''),
        (''consecutive_success'', YNum 2), (''consecutive_failure'', YNum 2)]),
      (''options'', mapping [(''tls'', YBool True), (''sni'', YStr ''api.internal.svc''),
        (''enable_h2'', YBool True), (''connect_timeout'', YStr ''500ms''), (''read_timeout'', YStr ''5s''),
        (''connection_pool_size'', YNum 256)])]"

definition file_inventory :: yaml where
  "file_inventory = mapping
     [(''id'', YStr ''inventory-service''), (''type'', YStr ''file''),
      (''path'', YStr ''/etc/gateway/upstreams/inventory.json''), (''format'', YStr ''json''),
      (''refresh_interval'', YStr ''15s''), (''selection'', YStr ''consistent''),
      (''hash_source'', mapping [(''type'', YStr ''client_ip'')]),
      (''health_check'', mapping [(''protocol'', YStr ''custom''),
        (''command'', YStr ''/usr/local/bin/check_inventory.sh''), (''interval'', YStr ''30s''),
        (''timeout'', YStr ''5s''), (''consecutive_success'', YNum 1), (''consecutive_failure'', YNum 1)])]"

definition file_logger :: yaml where
  "file_logger = mapping
     [(''id'', YStr ''local-logger''), (''type'', YStr ''uds''), (''path'', YStr ''/tmp/logger.sock''),
      (''selection'', YStr ''round_robin'')]"

definition file_secure :: yaml where
  "file_secure = mapping
     [(''path'', YStr ''^/api/v[0-9]+/secure''), (''path_type'', YStr ''regex''),
      (''upstream_id'', YStr ''api-service''),
      (''access_control'', mapping [(''allow'', YSeq [YStr ''10.0.0.0/8'', YStr ''192.168.1.0/24'']),
        (''deny'', YSeq [YStr ''0.0.0.0/0''])]),
      (''body_deny_patterns'', YSeq [YStr ''(?i)union select'', YStr ''(?i)<script>'']),
      (''inflight_limit'', YNum 100),
      (''auth'', mapping [(''type'', YStr ''request''), (''auth_uri'', YStr ''http://auth-service.internal/verify''),
        (''headers_to_copy'', YSeq [YStr ''X-User-ID'', YStr ''X-Role''])])]"

definition file_public :: yaml where
  "file_public = mapping
     [(''path'', YStr ''/''), (''path_type'', YStr ''prefix''), (''upstream_id'', YStr ''legacy-cluster''),
      (''hostnames'', YSeq [YStr ''www.example.com'', YStr ''example.com'']), (''compression'', YBool True),
      (''headers'', mapping [(''add_req_headers'', mapping [(''X-Gateway'', YStr ''Pingora-Rust'')]),
        (''remove_req_headers'', YSeq [YStr ''X-Internal-Debug'']),
        (''add_resp_headers'', mapping [(''Strict-Transport-Security'', YStr ''max-age=31536000'')]),
        (''remove_resp_headers'', YSeq [YStr ''Server'']), (''preserve_host_header'', YBool True)]),
      (''rate_limit'', mapping [(''requests_per_sec'', YNum 50), (''burst'', YNum 10), (''key'', YStr ''ip'')]),
      (''error_pages'', YMap [(YNum 404, YStr ''/var/www/errors/404.html''),
        (YNum 500, YStr ''/var/www/errors/500.html'')])]"

definition file_static :: yaml where
  "file_static = mapping
     [(''path'', YStr ''/static''), (''path_type'', YStr ''prefix''), (''upstream_id'', YStr ''legacy-cluster''),
      (''cache'', mapping [(''enabled'', YBool True), (''default_ttl'', YStr ''1h''),
        (''lock_timeout'', YStr ''500ms''), (''stale_while_revalidate'', YStr ''60s''),
        (''enable_purge'', YBool True)])]"

definition file_chat :: yaml where
  "file_chat = mapping
     [(''path'', YStr ''/ws/chat''), (''path_type'', YStr ''exact''), (''upstream_id'', YStr ''local-logger''),
      (''websocket'', YBool True), (''proxy_connect'', YBool False),
      (''query_matches'', mapping [(''version'', YStr ''2'')]),
      (''strip_query_params'', YSeq [YStr ''api_key'', YStr ''debug_token''])]"

definition file_admin :: yaml where
  "file_admin = mapping
     [(''path'', YStr ''/admin''), (''path_type'', YStr ''exact''), (''upstream_id'', YStr ''api-service''),
      (''auth'', mapping [(''type'', YStr ''basic''), (''realm'', YStr ''Admin Area''),
        (''users'', mapping [(''admin'', YStr ''secret_password_123''),
          (''monitor'', YStr ''monitor_password_456'')])])]"

definition gateway_full_yaml :: yaml where
  "gateway_full_yaml = mapping
     [(''server'', file_server), (''observability'', file_observability),
      (''upstreams'', YSeq [file_legacy, file_api, file_inventory, file_logger]),
      (''routes'', YSeq [file_secure, file_public, file_static, file_chat, file_admin])]"

section \<open>What it is read as\<close>

text \<open>
  What \<^verbatim>\<open>humantime\<close> documents of the texts the file uses, and that iterating a map of one header gives
  that header.
\<close>

definition humantime_law :: "yaml_api \<Rightarrow> bool" where
  "humantime_law y \<longleftrightarrow> list_all (\<lambda>(s, d). duration_of y s = Some d) duration_texts"

definition iterates :: "yaml_api \<Rightarrow> (string \<rightharpoonup> string) \<Rightarrow> bool" where
  "iterates y m \<longleftrightarrow> distinct (map fst (iteration y m)) \<and> map_of (iteration y m) = m"

lemma iterates_single:
  assumes "iterates y [k \<mapsto> v]"
  shows "iteration y [k \<mapsto> v] = [(k, v)]"
proof -
  let ?l = "iteration y [k \<mapsto> v]"
  from assms have d: "distinct (map fst ?l)" and m: "map_of ?l = [k \<mapsto> v]"
    by (auto simp: iterates_def)
  have iff: "p \<in> set ?l \<longleftrightarrow> [k \<mapsto> v] (fst p) = Some (snd p)" for p
    using map_of_eq_Some_iff [OF d, of "fst p" "snd p"] m by simp
  then have items: "set ?l = {(k, v)}"
    by (auto simp: iff split: if_splits)
  from d have "distinct ?l"
    by (simp add: distinct_map)
  from distinct_card [OF this] items have "length ?l = 1"
    by simp
  with items show ?thesis
    by (cases ?l) auto
qed

lemma duration_texts_read:
  assumes "humantime_law y"
  shows "duration_of y ''1s'' = Some (from_secs 1)" "duration_of y ''2s'' = Some (from_secs 2)"
    "duration_of y ''5s'' = Some (from_secs 5)" "duration_of y ''10s'' = Some (from_secs 10)"
    "duration_of y ''15s'' = Some (from_secs 15)" "duration_of y ''30s'' = Some (from_secs 30)"
    "duration_of y ''60s'' = Some (from_secs 60)" "duration_of y ''1m 30s'' = Some (from_secs 90)"
    "duration_of y ''1h'' = Some (from_secs 3600)" "duration_of y ''500ms'' = Some (from_millis 500)"
  using assms by (simp_all add: humantime_law_def duration_texts_def)

lemma de_map_mapping [yaml_simps]:
  "de_map rd (as_text rd) val (mapping kvs) = do {
     kvs' \<leftarrow> read_all (\<lambda>(k, v). do { v' \<leftarrow> val v; Some (k, v') }) kvs;
     Some (map_of (rev kvs')) }"
proof -
  have "read_all (\<lambda>(k, v). do { k' \<leftarrow> as_text rd k; v' \<leftarrow> val v; Some (k', v') }) (entries kvs) =
      read_all (\<lambda>(k, v). do { v' \<leftarrow> val v; Some (k, v') }) kvs"
    by (induction kvs) (auto simp: entries_def)
  then show ?thesis
    by (simp add: de_map_def mapping_def)
qed

lemma de_option_mapping [yaml_simps]: "de_option de (mapping kvs) = map_option Some (de (mapping kvs))"
  by (simp add: mapping_def)

lemma de_vec_items [yaml_simps]: "de_vec rd de (YSeq ns) = read_all de ns"
  by simp

lemma file_server_read:
  assumes "humantime_law y"
  shows "de_server y file_server = Some full_server"
proof -
  have "de_vec d (de_listener d) file_listeners = Some full_listeners" for d
    by (simp add: file_listeners_def de_listener_def de_tls_settings_def yaml_simps own_fields_def full_listeners_def)
  then show ?thesis
    by (simp add: de_server_def file_server_def yaml_simps own_fields_def Let_def duration_texts_read [OF assms]
        full_server_def)
qed

lemma file_observability_read: "de_observability d file_observability = Some full_observability"
  by (simp add: de_observability_def file_observability_def yaml_simps own_fields_def full_observability_def)

lemma file_observability_option:
  "de_option (de_observability d) file_observability = Some (Some full_observability)"
  using file_observability_read [of d] by (simp add: file_observability_def yaml_simps)

lemma de_file_backend:
  "de_backend rd (file_backend a w) = map_option (\<lambda>w. \<lparr>b_address = a, b_weight = w\<rparr>) (de_uint (YNum w))"
  by (simp add: de_backend_def file_backend_def yaml_simps own_fields_def)

lemmas upstream_reading =
  de_upstream_def de_upstream_source_def de_cluster_options_def de_health_check_def de_http_check_def
  de_custom_check_def de_common_def common_names_def de_hash_source_def de_name_field_def
  de_unit_variant_def selection_names_def file_format_names_def de_file_backend yaml_simps own_fields_def Let_def

lemma file_legacy_read:
  assumes "humantime_law y"
  shows "de_upstream y file_legacy = Some legacy_cluster"
  by (simp add: file_legacy_def upstream_reading duration_texts_read [OF assms] legacy_cluster_def
      default_cluster_options_def cluster_options_new_def default_timeout_def)

lemma file_api_read:
  assumes "humantime_law y"
  shows "de_upstream y file_api = Some api_service"
  by (simp add: file_api_def upstream_reading duration_texts_read [OF assms] api_service_def
      default_cluster_options_def cluster_options_new_def default_timeout_def)

lemma file_inventory_read:
  assumes "humantime_law y"
  shows "de_upstream y file_inventory = Some inventory_service"
  by (simp add: file_inventory_def upstream_reading duration_texts_read [OF assms] inventory_service_def)

lemma file_logger_read: "de_upstream y file_logger = Some local_logger"
  by (simp add: file_logger_def upstream_reading local_logger_def)

lemmas route_reading =
  de_route_def de_access_control_def de_auth_def de_headers_def de_header_map_def de_rate_limit_def
  de_rate_limit_key_def de_cache_def de_unit_variant_def path_type_names_def route_names_def yaml_simps
  own_fields_def Let_def default_route_def

lemma file_secure_read: "de_route y file_secure = Some secure_api_route"
  by (simp add: file_secure_def route_reading secure_api_route_def)

lemma file_public_read:
  assumes "iterates y [''X-Gateway'' \<mapsto> ''Pingora-Rust'']"
    and "iterates y [''Strict-Transport-Security'' \<mapsto> ''max-age=31536000'']"
  shows "de_route y file_public = Some public_route"
  by (simp add: file_public_def route_reading de_map_def [of _ de_uint] public_route_def
      iterates_single [OF assms(1)] iterates_single [OF assms(2)] fun_upd_twist)

lemma file_static_read:
  assumes "humantime_law y"
  shows "de_route y file_static = Some static_route"
  by (simp add: file_static_def route_reading duration_texts_read [OF assms] static_route_def)

lemma file_chat_read: "de_route y file_chat = Some chat_route"
  by (simp add: file_chat_def route_reading chat_route_def)

lemma file_admin_read: "de_route y file_admin = Some admin_route"
  by (simp add: file_admin_def route_reading admin_route_def fun_upd_twist)

lemma gateway_full_read:
  assumes "humantime_law y" and "iterates y [''X-Gateway'' \<mapsto> ''Pingora-Rust'']"
    and "iterates y [''Strict-Transport-Security'' \<mapsto> ''max-age=31536000'']"
  shows "de_gateway y gateway_full_yaml = Some full_conf"
  by (simp add: de_gateway_def gateway_full_yaml_def yaml_simps own_fields_def Let_def
      file_server_read [OF assms(1)] file_legacy_read [OF assms(1)] file_api_read [OF assms(1)]
      file_inventory_read [OF assms(1)] file_static_read [OF assms(1)] file_public_read [OF assms(2,3)]
      file_observability_read file_logger_read file_secure_read file_chat_read file_admin_read
      file_observability_option full_conf_def full_routes_def)

text \<open>
  C12. The file the repository ships loads, and what the gateway starts with is \<open>full_conf\<close>: when the parser
  gives the tree of the file, \<^verbatim>\<open>humantime\<close> reads its durations, and iterating a map of one header gives that
  header, \<^verbatim>\<open>load_from_yaml\<close> returns exactly that value, with every field the file leaves out at its default.
\<close>

theorem shipped_file_loads:
  assumes "read_to_string path = Inr content" and "yaml_parse y content = Some gateway_full_yaml"
    and "humantime_law y" and "iterates y [''X-Gateway'' \<mapsto> ''Pingora-Rust'']"
    and "iterates y [''Strict-Transport-Security'' \<mapsto> ''max-age=31536000'']"
  shows "load_from_yaml read_to_string (yaml_from_str y (de_gateway y)) path = Inr full_conf"
  using assms(1,2) gateway_full_read [OF assms(3-5)] by (simp add: load_from_yaml_def yaml_from_str_def)

definition file_yaml :: yaml_api where
  "file_yaml = sample_yaml\<lparr>yaml_parse := (\<lambda>text. if text = ''file'' then Some gateway_full_yaml else None)\<rparr>"

theorem shipped_file_loads_witness:
  "load_from_yaml (\<lambda>path. Inr ''file'') (yaml_from_str file_yaml (de_gateway file_yaml)) ''gateway_full.yaml'' =
     Inr full_conf"
  by (rule shipped_file_loads)
    (simp_all add: file_yaml_def sample_yaml_def humantime_law_def duration_texts_def iterates_def
      List.map_filter_simps)

end
