(* ===== verification/Unit_Tests.thy ===== *)
theory Unit_Tests
  imports Shipped_File
begin

text \<open>
  The tests the repository ships with its code, as predicates over what they test: the routing tests of
  \<^verbatim>\<open>upstreams/router.rs\<close>, the defaults, the deserialisation tests and the integration test of
  \<^verbatim>\<open>config.rs\<close>. The model passes them, which checks it against what its authors expect of the code.
\<close>

section \<open>Routing\<close>

type_synonym ('re, 'mr, 'net) routing_test = "('re, 'mr) router_api \<Rightarrow> ('re, 'mr, 'net) router \<Rightarrow> bool"

text \<open>\<^verbatim>\<open>assert!(result.is_some())\<close> and the id of the upstream, or \<^verbatim>\<open>assert!(result.is_none())\<close>.\<close>

definition finds :: "(unit, 'net route_entry option) outcome \<Rightarrow> string \<Rightarrow> bool" where
  "finds result i = (case result of Ok (Some e) \<Rightarrow> r_upstream_id (re_conf e) = i | _ \<Rightarrow> False)"

definition finds_none :: "(unit, 'net route_entry option) outcome \<Rightarrow> bool" where
  "finds_none result = (case result of Ok None \<Rightarrow> True | _ \<Rightarrow> False)"

definition regex_promiscuous_match :: "('re, 'mr, 'net) routing_test" where
  "regex_promiscuous_match api rt =
     finds (match_request api rt ''/api/v1/user'' (Some ''any.com'')) ''api-cluster''"

definition regex_strict_match :: "('re, 'mr, 'net) routing_test" where
  "regex_strict_match api rt =
     finds (match_request api rt ''/admin/settings'' (Some ''admin.local'')) ''admin-cluster''"

definition regex_strict_mismatch_host_continues :: "('re, 'mr, 'net) routing_test" where
  "regex_strict_mismatch_host_continues api rt =
     finds_none (match_request api rt ''/admin/settings'' (Some ''public.com''))"

definition prefix_standard_match :: "('re, 'mr, 'net) routing_test" where
  "prefix_standard_match api rt =
     finds (match_request api rt ''/static/css/style.css'' (Some ''foo.com'')) ''static-cluster''"

definition exact_match_success :: "('re, 'mr, 'net) routing_test" where
  "exact_match_success api rt = finds (match_request api rt ''/login'' (Some ''bar.com'')) ''auth-cluster''"

definition exact_match_enforcement_fail :: "('re, 'mr, 'net) routing_test" where
  "exact_match_enforcement_fail api rt = finds_none (match_request api rt ''/login/attempt'' (Some ''bar.com''))"

definition invalid_route_skipped :: "('re, 'mr) router_api \<Rightarrow> (string \<Rightarrow> string + 'net) \<Rightarrow> bool" where
  "invalid_route_skipped api from_str =
     (let routes = [default_route\<lparr>r_path := ''invalid/path'', r_path_type := Prefix,
                      r_upstream_id := ''garbage'', r_hostnames := None\<rparr>];
          conf = default_gateway\<lparr>g_routes := routes\<rparr>
      in case router_new api from_str conf of Inl e \<Rightarrow> True | Inr rt \<Rightarrow> False)"

definition global_fallback_none :: "('re, 'mr, 'net) routing_test" where
  "global_fallback_none api rt = finds_none (match_request api rt ''/unknown'' (Some ''any.com''))"

definition missing_host_header_security :: "('re, 'mr, 'net) routing_test" where
  "missing_host_header_security api rt = finds_none (match_request api rt ''/admin'' None)"

lemma routing_tests_pass:
  "list_all (\<lambda>test. test sample_router_api test_router)
     [regex_promiscuous_match, regex_strict_match, regex_strict_mismatch_host_continues,
      prefix_standard_match, exact_match_success, exact_match_enforcement_fail,
      global_fallback_none, missing_host_header_security]"
  by (simp add: regex_promiscuous_match_def regex_strict_match_def regex_strict_mismatch_host_continues_def
      prefix_standard_match_def exact_match_success_def exact_match_enforcement_fail_def
      global_fallback_none_def missing_host_header_security_def finds_def finds_none_def
      test_router_def sample_router_eval match_request_def validate_host_def)

lemma invalid_route_fails: "invalid_route_skipped api from_str"
  by (simp add: invalid_route_skipped_def router_new_def default_gateway_def default_route_def add_route_def
      add_path_def route_error_def starts_with_def)

section \<open>Defaults\<close>

definition defaults_are_secure_and_sane :: "cluster_options \<Rightarrow> bool" where
  "defaults_are_secure_and_sane opt \<longleftrightarrow>
     connect_timeout opt = from_secs 5 \<and> read_timeout opt = from_secs 60 \<and>
     write_timeout opt = from_secs 60 \<and> idle_timeout opt = Some (from_secs 60) \<and>
     \<not> co_enable_h2 opt \<and> verify_hostname opt"

lemma defaults_pass: "defaults_are_secure_and_sane default_cluster_options"
  by (simp add: defaults_are_secure_and_sane_def default_cluster_options_def cluster_options_new_def)

definition equality_check_works :: bool where
  "equality_check_works =
     (let a1 = HS_Header ''a''; a2 = HS_Header ''a''; b1 = HS_Header ''b'' in a1 = a2 \<and> b1 \<noteq> a1)"

lemma equality_check_passes: equality_check_works
  by (simp add: equality_check_works_def)

section \<open>The integration test\<close>

text \<open>
  The assertions of \<^verbatim>\<open>test_load_full_kitchen_sink_yaml\<close> on a loaded configuration; a missing
  upstream, route, option or index makes its test false, as it makes the Rust test panic.
\<close>

definition indexed :: "'a list \<Rightarrow> nat \<Rightarrow> 'a option" where
  "indexed xs i = (if i < length xs then Some (xs ! i) else None)"

definition on :: "'a option \<Rightarrow> ('a \<Rightarrow> bool) \<Rightarrow> bool" where
  "on x P = (case x of Some a \<Rightarrow> P a | None \<Rightarrow> False)"

lemma on_simps [simp]: "on (Some a) P = P a" "on None P = False"
  by (simp_all add: on_def)

definition test_server :: "server_conf \<Rightarrow> bool" where
  "test_server server \<longleftrightarrow>
     on (indexed (listeners server) 0) (\<lambda>l. l_address l = ''0.0.0.0:8080'' \<and> l_tls l = None) \<and>
     on (indexed (listeners server) 1) (\<lambda>l. l_address l = ''0.0.0.0:8443'' \<and>
       on (l_tls l) (\<lambda>tls. cert_path tls = ''/etc/gateway/certs/server.crt'' \<and> mtls_ca_cert tls = None)) \<and>
     on (indexed (listeners server) 2) (\<lambda>l. l_address l = ''0.0.0.0:9443'' \<and>
       on (l_tls l) (\<lambda>tls. mtls_ca_cert tls = Some ''/etc/gateway/certs/ca.pem'')) \<and>
     daemon server \<and> pid_file server = Some ''/var/run/pingora.pid'' \<and> srv_user server = Some ''www-data'' \<and>
     worker_threads server = Some 8 \<and> watch_config server \<and>
     srv_enable_h2 server \<and> \<not> enable_h2c server \<and> client_max_body_size server = Some 10485760 \<and>
     graceful_shutdown_timeout server = Some (from_secs 30)"

definition test_observability :: "gateway_conf \<Rightarrow> bool" where
  "test_observability conf \<longleftrightarrow>
     on (g_observability conf) (\<lambda>obs. prometheus_addr obs = Some ''0.0.0.0:9090'' \<and>
       otlp_endpoint obs = Some ''http://jaeger:14268'')"

definition upstream_with_id :: "gateway_conf \<Rightarrow> string \<Rightarrow> upstream_conf option" where
  "upstream_with_id conf i = find (\<lambda>u. u_id u = i) (g_upstreams conf)"

definition test_legacy :: "gateway_conf \<Rightarrow> bool" where
  "test_legacy conf \<longleftrightarrow>
     on (upstream_with_id conf ''legacy-cluster'') (\<lambda>up.
       (case u_source up of
          US_Static backends \<Rightarrow>
            length backends = 2 \<and>
            on (indexed backends 0) (\<lambda>b. b_address b = ''10.0.0.1:80'' \<and> b_weight b = 10) \<and>
            on (indexed backends 1) (\<lambda>b. b_address b = ''10.0.0.2:80'' \<and> b_weight b = 1)
        | _ \<Rightarrow> False) \<and>
       u_selection up = RoundRobin \<and>
       on (u_health_check up) (\<lambda>hc. case hc of
          HC_Tcp common \<Rightarrow> hc_interval common = from_secs 5 \<and> hc_consecutive_failure common = 3
        | _ \<Rightarrow> False) \<and>
       on (indexed (u_backup_backends up) 0) (\<lambda>b. b_address b = ''10.0.0.99:80'') \<and>
       connect_timeout (u_options up) = from_millis 500 \<and>
       connection_pool_size (u_options up) = 128 \<and> \<not> co_tls (u_options up))"

definition test_api :: "gateway_conf \<Rightarrow> bool" where
  "test_api conf \<longleftrightarrow>
     on (upstream_with_id conf ''api-service'') (\<lambda>up.
       (case u_source up of
          US_Dns hostname refresh_interval \<Rightarrow>
            hostname = ''api.internal.svc'' \<and> refresh_interval = from_secs 30
        | _ \<Rightarrow> False) \<and>
       u_selection up = Consistent \<and>
       (case u_hash_source up of HS_Cookie name \<Rightarrow> name = ''session_id'' | _ \<Rightarrow> False) \<and>
       on (u_health_check up) (\<lambda>hc. case hc of
          HC_Http common path expected_status \<Rightarrow>
            path = ''/health'' \<and> expected_status = 200 \<and> hc_interval common = from_secs 10
        | _ \<Rightarrow> False) \<and>
       co_tls (u_options up) \<and> co_sni (u_options up) = Some ''api.internal.svc'' \<and>
       co_enable_h2 (u_options up))"

definition test_inventory :: "gateway_conf \<Rightarrow> bool" where
  "test_inventory conf \<longleftrightarrow>
     on (upstream_with_id conf ''inventory-service'') (\<lambda>up.
       (case u_source up of
          US_File path format refresh_interval \<Rightarrow>
            path = ''/etc/gateway/upstreams/inventory.json'' \<and> format = Json \<and> refresh_interval = from_secs 15
        | _ \<Rightarrow> False) \<and>
       u_hash_source up = HS_ClientIp \<and>
       on (u_health_check up) (\<lambda>hc. case hc of
          HC_Custom common command \<Rightarrow>
            command = ''/usr/local/bin/check_inventory.sh'' \<and> hc_timeout common = from_secs 5
        | _ \<Rightarrow> False))"

definition test_logger :: "gateway_conf \<Rightarrow> bool" where
  "test_logger conf \<longleftrightarrow>
     on (upstream_with_id conf ''local-logger'') (\<lambda>up.
       case u_source up of US_Uds path \<Rightarrow> path = ''/tmp/logger.sock'' | _ \<Rightarrow> False)"

definition test_secure_route :: "gateway_conf \<Rightarrow> bool" where
  "test_secure_route conf \<longleftrightarrow>
     on (find (\<lambda>r. r_upstream_id r = ''api-service'') (g_routes conf)) (\<lambda>r.
       r_path r = ''^/api/v[0-9]+/secure'' \<and> r_path_type r = Regex \<and>
       on (r_access_control r) (\<lambda>acl. ''10.0.0.0/8'' \<in> set (acc_allow acl) \<and> ''0.0.0.0/0'' \<in> set (acc_deny acl)) \<and>
       on (r_body_deny_patterns r) (\<lambda>waf. ''(?i)union select'' \<in> set waf) \<and>
       r_inflight_limit r = Some 100 \<and>
       on (r_auth r) (\<lambda>auth. case auth of
          AuthRequest auth_uri headers_to_copy \<Rightarrow>
            auth_uri = ''http://auth-service.internal/verify'' \<and>
            on (indexed headers_to_copy 0) (\<lambda>h. h = ''X-User-ID'')
        | _ \<Rightarrow> False))"

definition route_with_path :: "gateway_conf \<Rightarrow> string \<Rightarrow> route_conf option" where
  "route_with_path conf p = find (\<lambda>r. r_path r = p) (g_routes conf)"

definition test_public_route :: "gateway_conf \<Rightarrow> bool" where
  "test_public_route conf \<longleftrightarrow>
     on (route_with_path conf ''/'') (\<lambda>r.
       r_path_type r = Prefix \<and> r_upstream_id r = ''legacy-cluster'' \<and>
       on (r_hostnames r) (\<lambda>hosts. ''www.example.com'' \<in> set hosts) \<and>
       on (map_of (add_req_headers (r_headers r)) ''X-Gateway'') (\<lambda>v. v = ''Pingora-Rust'') \<and>
       ''Server'' \<in> set (remove_resp_headers (r_headers r)) \<and> preserve_host_header (r_headers r) \<and>
       r_compression r \<and>
       on (r_rate_limit r) (\<lambda>rl. requests_per_sec rl = 50 \<and> burst rl = 10 \<and> rl_key rl = RLK_Ip) \<and>
       on (r_error_pages r) (\<lambda>errs. on (errs 404) (\<lambda>page. page = ''/var/www/errors/404.html'')))"

definition test_static_route :: "gateway_conf \<Rightarrow> bool" where
  "test_static_route conf \<longleftrightarrow>
     on (route_with_path conf ''/static'') (\<lambda>r.
       on (r_cache r) (\<lambda>cache. cache_enabled cache \<and> default_ttl cache = from_secs 3600 \<and>
         lock_timeout cache = Some (from_millis 500) \<and>
         stale_while_revalidate cache = Some (from_secs 60) \<and> enable_purge cache))"

definition test_chat_route :: "gateway_conf \<Rightarrow> bool" where
  "test_chat_route conf \<longleftrightarrow>
     on (route_with_path conf ''/ws/chat'') (\<lambda>r.
       r_path_type r = Exact \<and> r_websocket r \<and> \<not> r_proxy_connect r \<and>
       on (r_query_matches r) (\<lambda>query. on (query ''version'') (\<lambda>v. v = ''2'')) \<and>
       on (r_strip_query_params r) (\<lambda>strip. ''api_key'' \<in> set strip))"

definition test_admin_route :: "gateway_conf \<Rightarrow> bool" where
  "test_admin_route conf \<longleftrightarrow>
     on (route_with_path conf ''/admin'') (\<lambda>r.
       on (r_auth r) (\<lambda>auth. case auth of
          AuthBasic realm users \<Rightarrow>
            realm = ''Admin Area'' \<and> on (users ''admin'') (\<lambda>p. p = ''secret_password_123'')
        | _ \<Rightarrow> False))"

definition test_full_kitchen_sink :: "gateway_conf \<Rightarrow> bool" where
  "test_full_kitchen_sink conf \<longleftrightarrow>
     length (listeners (g_server conf)) = 3 \<and> length (g_upstreams conf) = 4 \<and> length (g_routes conf) = 5 \<and>
     test_server (g_server conf) \<and> test_observability conf \<and>
     test_legacy conf \<and> test_api conf \<and> test_inventory conf \<and> test_logger conf \<and>
     test_secure_route conf \<and> test_public_route conf \<and> test_static_route conf \<and>
     test_chat_route conf \<and> test_admin_route conf"

text \<open>The test skips a missing file and panics when loading fails.\<close>

definition test_load_full_kitchen_sink_yaml ::
  "(string \<Rightarrow> bool) \<Rightarrow> (string \<Rightarrow> string + string) \<Rightarrow> (string \<Rightarrow> string + gateway_conf) \<Rightarrow> bool" where
  "test_load_full_kitchen_sink_yaml exists read_to_string from_str =
     (let path = ''gateway_full.yaml''
      in if \<not> exists path then True
         else (case load_from_yaml read_to_string from_str path of
                 Inr conf \<Rightarrow> test_full_kitchen_sink conf
               | Inl e \<Rightarrow> False))"

lemma full_conf_passes: "test_full_kitchen_sink full_conf"
proof -
  have "test_server (g_server full_conf)" "test_observability full_conf"
    by (simp_all add: full_conf_defs test_server_def test_observability_def indexed_def)
  moreover have "test_legacy full_conf" "test_api full_conf" "test_inventory full_conf" "test_logger full_conf"
    by (simp_all add: full_conf_defs test_legacy_def test_api_def test_inventory_def test_logger_def
        upstream_with_id_def indexed_def)
  moreover have "test_secure_route full_conf" "test_public_route full_conf" "test_static_route full_conf"
    "test_chat_route full_conf" "test_admin_route full_conf"
    by (simp_all add: full_conf_defs test_secure_route_def test_public_route_def test_static_route_def
        test_chat_route_def test_admin_route_def route_with_path_def indexed_def)
  ultimately show ?thesis
    by (simp add: test_full_kitchen_sink_def) (simp add: full_conf_defs)
qed

text \<open>The shipped file passes the test its authors wrote for it.\<close>

lemma integration_test_passes:
  assumes "read_to_string ''gateway_full.yaml'' = Inr content" and "yaml_parse y content = Some gateway_full_yaml"
    and "humantime_law y" and "iterates y [''X-Gateway'' \<mapsto> ''Pingora-Rust'']"
    and "iterates y [''Strict-Transport-Security'' \<mapsto> ''max-age=31536000'']"
  shows "test_load_full_kitchen_sink_yaml exists read_to_string (yaml_from_str y (de_gateway y))"
  using assms(1,2) gateway_full_read [OF assms(3-5)]
  by (simp add: test_load_full_kitchen_sink_yaml_def load_from_yaml_def yaml_from_str_def full_conf_passes)

section \<open>Reading options and hash sources\<close>

text \<open>The tests of \<^verbatim>\<open>serde_yaml::from_str::<ClusterOptions>\<close>: an error makes the test panic.\<close>

type_synonym 'a reading_test = "(string \<Rightarrow> string + 'a) \<Rightarrow> bool"

definition reads_as :: "(string \<Rightarrow> string + 'a) \<Rightarrow> string \<Rightarrow> ('a \<Rightarrow> bool) \<Rightarrow> bool" where
  "reads_as from_str yaml check = (case from_str yaml of Inr opt \<Rightarrow> check opt | Inl e \<Rightarrow> False)"

definition deserialization_uses_defaults_for_missing_fields :: "cluster_options reading_test" where
  "deserialization_uses_defaults_for_missing_fields from_str =
     reads_as from_str ''enable_h2: true'' (\<lambda>opt.
       connect_timeout opt = from_secs 5 \<and> read_timeout opt = from_secs 60 \<and>
       write_timeout opt = from_secs 60 \<and> idle_timeout opt = Some (from_secs 60) \<and>
       co_enable_h2 opt \<and> verify_hostname opt)"

definition deserialization_parses_human_readable_duration :: "cluster_options reading_test" where
  "deserialization_parses_human_readable_duration from_str =
     reads_as from_str ''read_timeout: 1m 30s'' (\<lambda>opt. read_timeout opt = from_secs 90)"

definition deserialization_handles_explicit_nulls :: "cluster_options reading_test" where
  "deserialization_handles_explicit_nulls from_str =
     reads_as from_str ''idle_timeout: null'' (\<lambda>opt. idle_timeout opt = None)"

definition all_fields_text :: string where
  "all_fields_text = join_with (CHR 0x0A)
     [''connect_timeout: 1s'', ''read_timeout: 1s'', ''write_timeout: 1s'', ''idle_timeout: 1s'',
      ''enable_h2: true'', ''verify_hostname: false'']"

definition deserialization_overrides_all_fields :: "cluster_options reading_test" where
  "deserialization_overrides_all_fields from_str =
     reads_as from_str all_fields_text (\<lambda>opt.
       connect_timeout opt = from_secs 1 \<and> read_timeout opt = from_secs 1 \<and>
       write_timeout opt = from_secs 1 \<and> idle_timeout opt = Some (from_secs 1) \<and>
       co_enable_h2 opt \<and> \<not> verify_hostname opt)"

definition deserialization_parses_simple_variant :: "hash_source reading_test" where
  "deserialization_parses_simple_variant from_str =
     reads_as from_str ''type: client_ip'' (\<lambda>source. source = HS_ClientIp)"

definition deserialization_parses_complex_variant :: "hash_source reading_test" where
  "deserialization_parses_complex_variant from_str =
     reads_as from_str (''type: header'' @ CHR 0x0A # ''name: x-user-id'')
       (\<lambda>source. source = HS_Header ''x-user-id'')"

text \<open>The trees a YAML parser gives for the texts of the tests.\<close>

definition test_trees :: "(string \<times> yaml) list" where
  "test_trees =
     [(''enable_h2: true'', mapping [(''enable_h2'', YBool True)]),
      (''read_timeout: 1m 30s'', mapping [(''read_timeout'', YStr ''1m 30s'')]),
      (''idle_timeout: null'', mapping [(''idle_timeout'', YNull)]),
      (all_fields_text, mapping [(''connect_timeout'', YStr ''1s''), (''read_timeout'', YStr ''1s''),
        (''write_timeout'', YStr ''1s''), (''idle_timeout'', YStr ''1s''), (''enable_h2'', YBool True),
        (''verify_hostname'', YBool False)]),
      (''type: client_ip'', mapping [(''type'', YStr ''client_ip'')]),
      (''type: header'' @ CHR 0x0A # ''name: x-user-id'',
        mapping [(''type'', YStr ''header''), (''name'', YStr ''x-user-id'')])]"

lemma reading_tests_pass:
  assumes "humantime_law y" and "list_all (\<lambda>(text, tree). yaml_parse y text = Some tree) test_trees"
  shows "list_all (\<lambda>test. test (yaml_from_str y (de_cluster_options y (direct y))))
      [deserialization_uses_defaults_for_missing_fields, deserialization_parses_human_readable_duration,
       deserialization_handles_explicit_nulls, deserialization_overrides_all_fields]"
    and "list_all (\<lambda>test. test (yaml_from_str y (de_hash_source y (direct y))))
      [deserialization_parses_simple_variant, deserialization_parses_complex_variant]"
  using assms(2)
  by (simp_all add: deserialization_uses_defaults_for_missing_fields_def
      deserialization_parses_human_readable_duration_def deserialization_handles_explicit_nulls_def
      deserialization_overrides_all_fields_def deserialization_parses_simple_variant_def
      deserialization_parses_complex_variant_def reads_as_def yaml_from_str_def test_trees_def
      duration_texts_read [OF assms(1)] upstream_reading default_cluster_options_def cluster_options_new_def
      default_timeout_def)

end
