(* ===== verification/Shipped_Boot.thy ===== *)
theory Shipped_Boot
  imports Shipped_File
begin

text \<open>
  From the text of \<^verbatim>\<open>gateway_full.yaml\<close> to a running server: \<^verbatim>\<open>main\<close> on the shipped file, through the
  reading of the configuration, the factory, the router and the listeners.
\<close>

text \<open>The upstreams of the shipped file are built once its two static addresses resolve.\<close>

definition full_upstream_ids :: "string set" where
  "full_upstream_ids = {''legacy-cluster'', ''api-service'', ''inventory-service'', ''local-logger''}"

lemma full_upstreams_add:
  assumes "resolve ''10.0.0.1:80'' = Inr as" and "resolve ''10.0.0.2:80'' = Inr bs"
  obtains um services where
    "add_upstreams (make_upstream resolve parse_uri run_lb) (g_upstreams full_conf) Map.empty [] = Inr (um, services)"
    and "dom um = full_upstream_ids"
    and "map bg_name services = [''lb-legacy-cluster'', ''lb-api-service'', ''lb-inventory-service'']"
  using assms
  by (simp add: full_conf_def legacy_cluster_def api_service_def inventory_service_def local_logger_def
      make_upstream_def make_lb_instance_def lb_for_source_def finalize_lb_def Let_def full_upstream_ids_def
      insert_commute)

definition full_tcp_listeners :: "listener list" where
  "full_tcp_listeners =
     [TcpListener ''0.0.0.0:8080'',
      TlsListener ''0.0.0.0:8443'' ''/etc/gateway/certs/server.crt'' ''/etc/gateway/certs/server.key'',
      TlsListener ''0.0.0.0:9443'' ''/etc/gateway/certs/mtls_server.crt'' ''/etc/gateway/certs/mtls_server.key'']"

lemma full_listeners_added:
  assumes "add_tls ''0.0.0.0:8443'' ''/etc/gateway/certs/server.crt'' ''/etc/gateway/certs/server.key'' w1 = (Ok (), w2)"
    and "add_tls ''0.0.0.0:9443'' ''/etc/gateway/certs/mtls_server.crt'' ''/etc/gateway/certs/mtls_server.key'' w2 =
      (Ok (), w3)"
  shows "add_listeners add_tls (listeners (g_server full_conf)) [] w1 = (Ok full_tcp_listeners, w3)"
  using assms by (simp add: full_conf_def full_server_def full_listeners_def full_tcp_listeners_def)

text \<open>The file parses, \<^verbatim>\<open>humantime\<close> reads its durations, and its maps of headers are iterated.\<close>

definition reads_shipped_file :: "yaml_api \<Rightarrow> string \<Rightarrow> bool" where
  "reads_shipped_file y content \<longleftrightarrow>
     yaml_parse y content = Some gateway_full_yaml \<and> humantime_law y \<and>
     iterates y [''X-Gateway'' \<mapsto> ''Pingora-Rust''] \<and>
     iterates y [''Strict-Transport-Security'' \<mapsto> ''max-age=31536000'']"

text \<open>
  C13. The gateway starts on the file it ships with. When the file parses, its patterns compile and its two
  static addresses resolve, its certificates are accepted and the metrics register, \<^verbatim>\<open>main\<close> reaches
  \<^verbatim>\<open>run_forever\<close>. The server then has eight threads, a grace period of thirty seconds and the PID file of
  the configuration, and runs the proxy on the three listeners, one balancer for each of the three clusters
  and the Prometheus endpoint, and the gateway knows exactly the four configured upstreams. The mutual-TLS
  listener is an ordinary TLS listener: nothing of the client authority of the file is in it.
\<close>

theorem shipped_server_starts:
  assumes "bt_read b (arg_config a) = Inr content" and "reads_shipped_file y content"
    and "bt_parse b = yaml_from_str y (de_gateway y)"
    and "bt_server_new b True w = (Ok base, wb)" and "sv_exclusive base"
    and "bt_resolve b ''10.0.0.1:80'' = Inr as" and "bt_resolve b ''10.0.0.2:80'' = Inr bs"
    and "router_new (bt_routing b) (bt_net_from_str b) full_conf = Inr rt"
    and "metrics_new (bt_metrics b) (bt_bootstrap b wb) = (Ok m, wm)"
    and "bt_add_tls b ''0.0.0.0:8443'' ''/etc/gateway/certs/server.crt'' ''/etc/gateway/certs/server.key'' wm =
      (Ok (), wt)"
    and "bt_add_tls b ''0.0.0.0:9443'' ''/etc/gateway/certs/mtls_server.crt'' ''/etc/gateway/certs/mtls_server.key'' wt =
      (Ok (), we)"
  shows "\<exists>sv um balancers. main_program b a w = (Ok sv, we) \<and>
    sv_threads sv = 8 \<and> sv_grace_period sv = Some 30 \<and> sv_pid_file sv = ''/var/run/pingora.pid'' \<and>
    sv_services sv = sv_services base @ [ProxyService (make_gateway b full_conf rt um m) full_tcp_listeners] @
      map DynamicService balancers @ [PrometheusService ''0.0.0.0:9090''] \<and>
    dom um = full_upstream_ids \<and>
    map bg_name balancers = [''lb-legacy-cluster'', ''lb-api-service'', ''lb-inventory-service'']"
proof -
  have load: "load_from_yaml (bt_read b) (bt_parse b) (arg_config a) = Inr full_conf"
    using assms(1,2) gateway_full_read [of y]
    by (simp add: load_from_yaml_def yaml_from_str_def assms(3) reads_shipped_file_def)
  obtain um services where ups: "add_upstreams (make_upstream (bt_resolve b) (bt_parse_uri b) (bt_run_lb b))
      (g_upstreams full_conf) Map.empty [] = Inr (um, services)"
    and um: "dom um = full_upstream_ids"
    and names: "map bg_name services = [''lb-legacy-cluster'', ''lb-api-service'', ''lb-inventory-service'']"
    by (rule full_upstreams_add [OF assms(6,7)])
  have server: "daemon (g_server full_conf)" "pid_file (g_server full_conf) = Some ''/var/run/pingora.pid''"
    "worker_threads (g_server full_conf) = Some 8"
    "graceful_shutdown_timeout (g_server full_conf) = Some (from_secs 30)"
    "prometheus_services full_conf = [PrometheusService ''0.0.0.0:9090'']"
    by (simp_all add: full_conf_def full_server_def full_observability_def prometheus_services_def)
  let ?sv = "(tune_server (bt_num_cpus b) (g_server full_conf) base)\<lparr>sv_services := sv_services base @
      [ProxyService (make_gateway b full_conf rt um m) full_tcp_listeners] @ map DynamicService services @
      [PrometheusService ''0.0.0.0:9090'']\<rparr>"
  have "main_program b a w = (Ok ?sv, we)"
    using assms(4,5,8,9)
    by (simp add: main_program_def lift_result_def no_error_def load ups full_listeners_added [OF assms(10,11)]
        server Let_def tune_server_def)
  moreover have "sv_threads ?sv = 8 \<and> sv_grace_period ?sv = Some 30 \<and> sv_pid_file ?sv = ''/var/run/pingora.pid''"
    using assms(5) by (simp add: tune_server_def server Let_def as_secs_def from_secs_def)
  ultimately show ?thesis
    using um names by (intro exI [of _ ?sv] exI [of _ um] exI [of _ services]) simp
qed

definition file_boot ::
  "(sample, sample_net, (string \<times> string) list, string, (string \<times> nat) list) boot_api" where
  "file_boot = shipped_boot\<lparr>bt_parse := yaml_from_str file_yaml (de_gateway file_yaml), bt_resolve := (\<lambda>s. Inr [])\<rparr>"

lemma file_boot_simps:
  "bt_read file_boot = Inr" "bt_parse file_boot = yaml_from_str file_yaml (de_gateway file_yaml)"
  "bt_resolve file_boot addr = Inr []" "bt_add_tls file_boot l c k w = (Ok (), w)"
  "bt_server_new file_boot d w = (Ok \<lparr>sv_exclusive = True, sv_daemon = d, sv_pid_file = ''/tmp/pingora.pid'',
     sv_threads = 1, sv_grace_period = None, sv_services = []\<rparr>, w)"
  by (simp_all add: file_boot_def shipped_boot_def sample_boot_def)

theorem shipped_server_starts_witness:
  "\<exists>sv w'. main_program file_boot \<lparr>arg_config = ''file'', arg_daemon = False\<rparr> login = (Ok sv, w') \<and>
     sv_threads sv = 8 \<and> length (sv_services sv) = 5"
proof -
  let ?a = "\<lparr>arg_config = ''file'', arg_daemon = False\<rparr>"
  have reads: "reads_shipped_file file_yaml ''file''"
    by (simp add: reads_shipped_file_def file_yaml_def sample_yaml_def humantime_law_def duration_texts_def
        iterates_def List.map_filter_simps)
  have route: "router_new (bt_routing file_boot) (bt_net_from_str file_boot) full_conf = Inr shipped_router"
    by (simp add: file_boot_def shipped_boot_def shipped_router_built)
  have read: "bt_read file_boot (arg_config ?a) = Inr ''file''"
    and exclusive: "sv_exclusive \<lparr>sv_exclusive = True, sv_daemon = True, sv_pid_file = ''/tmp/pingora.pid'',
      sv_threads = 1, sv_grace_period = None, sv_services = []\<rparr>"
    by (simp_all add: file_boot_simps)
  obtain m wm where metrics: "metrics_new (bt_metrics file_boot) (bt_bootstrap file_boot login) = (Ok m, wm)"
    by (simp add: file_boot_def shipped_boot_def sample_boot_def sample_metrics_def metrics_new_def unwrap_reg_def)
  obtain sv um balancers where boots: "main_program file_boot ?a login = (Ok sv, wm)" and threads: "sv_threads sv = 8"
    and services: "sv_services sv = [ProxyService (make_gateway file_boot full_conf shipped_router um m) full_tcp_listeners] @
      map DynamicService balancers @ [PrometheusService ''0.0.0.0:9090'']"
    and names: "map bg_name balancers = [''lb-legacy-cluster'', ''lb-api-service'', ''lb-inventory-service'']"
    using shipped_server_starts [OF read reads file_boot_simps(2) file_boot_simps(5) exclusive file_boot_simps(3)
        file_boot_simps(3) route metrics file_boot_simps(4) file_boot_simps(4)]
    by (elim exE conjE) (rule that; simp)
  from names have "length (map bg_name balancers) = 3"
    by simp
  with boots threads services show ?thesis
    by simp
qed

end
