(* ===== verification/Lesson_Base.thy ===== *)
theory Lesson_Base
  imports Load_Balancer
begin

text \<open>
  What the lessons under \<^verbatim>\<open>src/examples/\<close> share: functions of Rust's standard library on strings
  (\<^verbatim>\<open>contains\<close>, \<^verbatim>\<open>lines\<close>, \<^verbatim>\<open>trim_start_matches\<close>, \<^verbatim>\<open>String::from_utf8_lossy\<close>), the selection of a peer
  from a pool of backends, and the address of the client. Each lesson is a small proxy of its own;
  its callbacks work on the world, its own request context, and the header or body it may change.
\<close>

section \<open>Strings\<close>

fun contains_str :: "string \<Rightarrow> string \<Rightarrow> bool" where
  "contains_str [] p \<longleftrightarrow> p = []"
| "contains_str (c # cs) p \<longleftrightarrow> starts_with (c # cs) p \<or> contains_str cs p"

lemma contains_str_iff: "contains_str s p \<longleftrightarrow> (\<exists>a b. s = a @ p @ b)"
proof (induction s)
  case (Cons c s)
  show ?case
  proof
    assume "contains_str (c # s) p"
    then consider b where "c # s = p @ b" | "contains_str s p"
      by (auto simp: starts_with_iff)
    then show "\<exists>a b. c # s = a @ p @ b"
    proof cases
      case 1
      then show ?thesis
        by (intro exI [of _ "[]"] exI [of _ b]) simp
    next
      case 2
      with Cons.IH obtain a b where "s = a @ p @ b"
        by blast
      then show ?thesis
        by (intro exI [of _ "c # a"] exI [of _ b]) simp
    qed
  next
    assume "\<exists>a b. c # s = a @ p @ b"
    then obtain a b where "c # s = a @ p @ b"
      by blast
    with Cons.IH show "contains_str (c # s) p"
      unfolding contains_str.simps starts_with_iff by (cases a) auto
  qed
qed simp

text \<open>\<^verbatim>\<open>str::lines\<close>: the parts between line feeds, without a final empty one, each without one
  trailing carriage return.\<close>

definition strip_cr :: "string \<Rightarrow> string" where
  "strip_cr s = (if s \<noteq> [] \<and> last s = CHR 0x0D then butlast s else s)"

definition str_lines :: "string \<Rightarrow> string list" where
  "str_lines s =
     (let parts = split_on CHR 0x0A s
      in map strip_cr (if last parts = [] then butlast parts else parts))"

text \<open>\<^verbatim>\<open>str::trim_start_matches\<close> removes the prefix as often as it repeats.\<close>

function trim_start_matches :: "string \<Rightarrow> string \<Rightarrow> string" where
  "trim_start_matches p s =
     (if p \<noteq> [] \<and> starts_with s p then trim_start_matches p (drop (length p) s) else s)"
  by pat_completeness auto
termination
  by (relation "measure (\<lambda>(p, s). length s)") (auto simp: starts_with_iff)

declare trim_start_matches.simps [simp del]

text \<open>
  \<^verbatim>\<open>str::trim\<close> on text that need not be ASCII: the characters with the Unicode property
  \<^verbatim>\<open>White_Space\<close>, as their UTF-8 bytes.
\<close>

definition white_spaces :: "string list" where
  "white_spaces =
     map (\<lambda>n. [char_of (n :: nat)]) [9, 10, 11, 12, 13, 32] @
     map (map char_of) [[194, 133 :: nat], [194, 160], [225, 154, 128]] @
     map (\<lambda>n. [CHR 0xE2, CHR 0x80, char_of (n :: nat)])
       [128, 129, 130, 131, 132, 133, 134, 135, 136, 137, 138, 168, 169, 175] @
     [[CHR 0xE2, CHR 0x81, CHR 0x9F], [CHR 0xE3, CHR 0x80, CHR 0x80]]"

lemma white_space_not_empty: "p \<in> set white_spaces \<Longrightarrow> p \<noteq> []"
  by (auto simp: white_spaces_def)

function strip_front :: "string list \<Rightarrow> string \<Rightarrow> string" where
  "strip_front ps s =
     (case find (\<lambda>p. p \<noteq> [] \<and> starts_with s p) ps of
        None \<Rightarrow> s
      | Some p \<Rightarrow> strip_front ps (drop (length p) s))"
  by pat_completeness auto
termination
  by (relation "measure (\<lambda>(ps, s). length s)") (auto simp: find_Some_iff starts_with_iff)

declare strip_front.simps [simp del]

definition utrim :: "string \<Rightarrow> string" where
  "utrim s = rev (strip_front (map rev white_spaces) (rev (strip_front white_spaces s)))"

section \<open>Lossy decoding of UTF-8\<close>

definition ascii :: "char \<Rightarrow> bool" where
  "ascii c \<longleftrightarrow> (of_char c :: nat) < 128"

text \<open>The ranges the continuation bytes must be in, by lead byte.\<close>

definition utf8_ranges :: "nat \<Rightarrow> (nat \<times> nat) list option" where
  "utf8_ranges b =
     (if 194 \<le> b \<and> b \<le> 223 then Some [(128, 191)]
      else if b = 224 then Some [(160, 191), (128, 191)]
      else if b = 237 then Some [(128, 159), (128, 191)]
      else if 225 \<le> b \<and> b \<le> 239 then Some [(128, 191), (128, 191)]
      else if b = 240 then Some [(144, 191), (128, 191), (128, 191)]
      else if 241 \<le> b \<and> b \<le> 243 then Some [(128, 191), (128, 191), (128, 191)]
      else if b = 244 then Some [(128, 143), (128, 191), (128, 191)]
      else None)"

text \<open>Whether all ranges are met, and how many bytes met theirs.\<close>

fun utf8_tail :: "(nat \<times> nat) list \<Rightarrow> string \<Rightarrow> bool \<times> nat" where
  "utf8_tail [] s = (True, 0)"
| "utf8_tail (r # rs) [] = (False, 0)"
| "utf8_tail ((lo, hi) # rs) (c # cs) =
     (if lo \<le> of_char c \<and> of_char c \<le> hi then (case utf8_tail rs cs of (ok, n) \<Rightarrow> (ok, Suc n))
      else (False, 0))"

text \<open>Every maximal prefix of an ill-formed sequence becomes one replacement character U+FFFD.\<close>

definition replacement :: string where
  "replacement = [CHR 0xEF, CHR 0xBF, CHR 0xBD]"

function utf8_lossy :: "string \<Rightarrow> string" where
  "utf8_lossy [] = []"
| "utf8_lossy (c # cs) =
     (if ascii c then c # utf8_lossy cs
      else (case utf8_ranges (of_char c) of
              None \<Rightarrow> replacement @ utf8_lossy cs
            | Some rs \<Rightarrow>
                (let t = utf8_tail rs cs
                 in (if fst t then c # take (snd t) cs else replacement) @ utf8_lossy (drop (snd t) cs))))"
  by pat_completeness auto
termination
  by (relation "measure length") auto

lemma utf8_ranges_high: "utf8_ranges b = Some rs \<Longrightarrow> list_all (\<lambda>r. 128 \<le> fst r) rs"
  by (auto simp: utf8_ranges_def split: if_splits)

lemma utf8_tail_high:
  "list_all (\<lambda>r. 128 \<le> fst r) rs \<Longrightarrow> list_all (\<lambda>c. \<not> ascii c) (take (snd (utf8_tail rs s)) s)"
proof (induction rs s rule: utf8_tail.induct)
  case (3 lo hi rs c cs)
  then show ?case
    by (cases "utf8_tail rs cs") (auto simp: ascii_def)
qed simp_all

lemma replacement_high: "list_all (\<lambda>c. \<not> ascii c) replacement"
  by (simp add: replacement_def ascii_def)

lemma starts_with_high:
  assumes "list_all ascii p" and "list_all (\<lambda>c. \<not> ascii c) a" and "a \<noteq> []"
  shows "starts_with (a @ s) p \<longleftrightarrow> p = []"
  using assms by (cases a; cases p) (auto simp: starts_with_def)

lemma contains_high:
  assumes "list_all ascii p" and "p \<noteq> []"
  shows "list_all (\<lambda>c. \<not> ascii c) a \<Longrightarrow> contains_str (a @ s) p \<longleftrightarrow> contains_str s p"
proof (induction a)
  case (Cons c a)
  with starts_with_high [OF assms(1), of "c # a" s] assms(2) show ?case
    by simp
qed simp

lemma lossy_high:
  assumes "\<not> ascii c"
  obtains a n where "utf8_lossy (c # cs) = a @ utf8_lossy (drop n cs)" and "a \<noteq> []"
    and "list_all (\<lambda>c. \<not> ascii c) a" and "list_all (\<lambda>c. \<not> ascii c) (take n cs)"
proof (cases "utf8_ranges (of_char c)")
  case None
  have "utf8_lossy (c # cs) = replacement @ utf8_lossy (drop 0 cs)"
    using assms None by simp
  then show thesis
    by (rule that) (simp_all add: replacement_high, simp add: replacement_def)
next
  case (Some rs)
  let ?t = "utf8_tail rs cs"
  have high: "list_all (\<lambda>c. \<not> ascii c) (take (snd ?t) cs)"
    by (rule utf8_tail_high [OF utf8_ranges_high [OF Some]])
  have "utf8_lossy (c # cs) = (if fst ?t then c # take (snd ?t) cs else replacement) @ utf8_lossy (drop (snd ?t) cs)"
    using assms Some by (simp add: Let_def)
  then show thesis
    by (rule that) (use high assms replacement_high in \<open>simp_all add: replacement_def\<close>)
qed

lemma starts_with_lossy: "list_all ascii p \<Longrightarrow> starts_with (utf8_lossy s) p \<longleftrightarrow> starts_with s p"
proof (induction s arbitrary: p)
  case (Cons c cs)
  show ?case
  proof (cases "ascii c")
    case True
    with Cons show ?thesis
      by (cases p) (simp_all add: starts_with_def)
  next
    case False
    then obtain a n where "utf8_lossy (c # cs) = a @ utf8_lossy (drop n cs)" and "a \<noteq> []"
      and "list_all (\<lambda>c. \<not> ascii c) a"
      by (rule lossy_high)
    with starts_with_high [OF Cons.prems, of a] starts_with_high [OF Cons.prems, of "[c]" cs] False
    show ?thesis
      by simp
  qed
qed simp

text \<open>Searching the decoded text for an ASCII word is searching the bytes.\<close>

lemma contains_lossy:
  assumes "list_all ascii p" and "p \<noteq> []"
  shows "contains_str (utf8_lossy s) p \<longleftrightarrow> contains_str s p"
proof (induction "length s" arbitrary: s rule: less_induct)
  case less
  show ?case
  proof (cases s)
    case (Cons c cs)
    show ?thesis
    proof (cases "ascii c")
      case True
      then have "utf8_lossy s = c # utf8_lossy cs"
        by (simp add: Cons)
      moreover have "starts_with (c # utf8_lossy cs) p \<longleftrightarrow> starts_with s p"
        using starts_with_lossy [OF assms(1), of s] True by (simp add: Cons)
      ultimately show ?thesis
        using less [of cs] by (simp add: Cons)
    next
      case False
      then obtain a n where lossy: "utf8_lossy (c # cs) = a @ utf8_lossy (drop n cs)"
        and a: "list_all (\<lambda>c. \<not> ascii c) a" and n: "list_all (\<lambda>c. \<not> ascii c) (take n cs)"
        by (rule lossy_high)
      have "contains_str s p \<longleftrightarrow> contains_str (drop n cs) p"
        using contains_high [OF assms, of "c # take n cs" "drop n cs"] False n by (simp add: Cons)
      moreover have "contains_str (utf8_lossy (drop n cs)) p \<longleftrightarrow> contains_str (drop n cs) p"
        by (rule less) (simp add: Cons)
      ultimately show ?thesis
        using contains_high [OF assms a, of "utf8_lossy (drop n cs)"] by (simp only: Cons lossy)
    qed
  qed (use assms(2) in simp)
qed

section \<open>Peers and clients\<close>

text \<open>The selection function of the balancer a lesson shares; the pools of Pingora are parameters.\<close>

type_synonym 'w pool = "string \<Rightarrow> usize \<Rightarrow> 'w \<Rightarrow> backend option \<times> 'w"

definition fixed_peer ::
  "peer_api \<Rightarrow> string \<times> u16 \<Rightarrow> bool \<Rightarrow> string \<Rightarrow> 'w \<Rightarrow> (pingora_error, http_peer) outcome \<times> 'w" where
  "fixed_peer papi addr tls sni w = map_err into_pingora (peer_new papi addr tls sni, w)"

definition backend_peer ::
  "peer_api \<Rightarrow> backend \<Rightarrow> bool \<Rightarrow> string \<Rightarrow> 'w \<Rightarrow> (pingora_error, http_peer) outcome \<times> 'w" where
  "backend_peer papi b tls sni w = map_err into_pingora (peer_of_backend papi b tls sni, w)"

text \<open>The body of \<^verbatim>\<open>upstream_peer\<close> most lessons have: select from the pool or fail.\<close>

definition pool_peer ::
  "peer_api \<Rightarrow> 'w pool \<Rightarrow> string \<Rightarrow> string \<Rightarrow> string \<Rightarrow> 'w \<Rightarrow> (pingora_error, http_peer) outcome \<times> 'w" where
  "pool_peer papi pool key text sni w =
     (case pool key 256 w of
        (None, w) \<Rightarrow> (Err (explain (ET_Custom ''NoUpstreamAvailable'') text), w)
      | (Some upstream, w) \<Rightarrow> backend_peer papi upstream False sni w)"

text \<open>\<^verbatim>\<open>match session.client_addr() { Some(addr) => addr.as_inet().unwrap().ip(), \<dots> }\<close>.\<close>

definition unwrap_client_ip :: "'w session_api \<Rightarrow> 'w \<Rightarrow> (pingora_error, ip_addr option) outcome" where
  "unwrap_client_ip api w =
     (case client_addr api w of
        None \<Rightarrow> Ok None
      | Some addr \<Rightarrow>
          (case as_inet addr of
             None \<Rightarrow> Panic ''called `Option::unwrap()` on a `None` value''
           | Some a \<Rightarrow> Ok (Some (inet_ip a))))"

text \<open>\<^verbatim>\<open>session.respond_error(code).await?; return Ok(true)\<close>.\<close>

definition respond_and_stop :: "'w session_api \<Rightarrow> u16 \<Rightarrow> 'w \<Rightarrow> (pingora_error, bool) outcome \<times> 'w" where
  "respond_and_stop api code w = try_then (respond_error api code w) (\<lambda>_ w. (Ok True, w))"

section \<open>Access filters\<close>

text \<open>
  The request filters that only admit or refuse share a contract: a verdict computed from the
  request alone, which either lets it through untouched or names the status it is refused with.
\<close>

locale access_filter =
  fixes flt :: "'w session_api \<Rightarrow> 'w \<Rightarrow> (pingora_error, bool) outcome \<times> 'w"
    and verdict :: "'w session_api \<Rightarrow> 'w \<Rightarrow> (pingora_error, u16 option) outcome"
    and refuse :: "'w session_api \<Rightarrow> u16 \<Rightarrow> 'w \<Rightarrow> (pingora_error, unit) outcome \<times> 'w"
  assumes flt_eq: "flt api w = try_then (verdict api w, w) (\<lambda>v w. case v of
      None \<Rightarrow> (Ok False, w)
    | Some code \<Rightarrow> try_then (refuse api code w) (\<lambda>_ w. (Ok True, w)))"
begin

lemma passes_iff: "fst (flt api w) = Ok False \<longleftrightarrow> verdict api w = Ok None"
  by (auto simp: flt_eq try_then_def split: outcome.splits option.splits prod.splits)

lemma passes_untouched: "flt api w = (Ok False, w') \<Longrightarrow> w' = w"
  by (auto simp: flt_eq try_then_def split: outcome.splits option.splits prod.splits)

lemma refused: "verdict api w = Ok (Some code) \<Longrightarrow> flt api w = try_then (refuse api code w) (\<lambda>_ w. (Ok True, w))"
  by (simp add: flt_eq)

lemma stops_only_refused: "fst (flt api w) = Ok True \<Longrightarrow> \<exists>code. verdict api w = Ok (Some code) \<and> fst (refuse api code w) = Ok ()"
  by (auto simp: flt_eq try_then_def split: outcome.splits option.splits prod.splits)

end

end
