(* ===== verification/Lesson_Proxies.thy ===== *)
theory Lesson_Proxies
  imports Lesson_Base Gateway
begin

text \<open>
  The lessons that route and rewrite: \<^verbatim>\<open>08_header_manipulation\<close>, \<^verbatim>\<open>09_path_routing\<close>,
  \<^verbatim>\<open>10_query_params\<close>, \<^verbatim>\<open>11_response_modification\<close>, \<^verbatim>\<open>19_peer_options\<close>, \<^verbatim>\<open>20_sni_routing\<close>,
  \<^verbatim>\<open>28_consistent_hashing\<close> and \<^verbatim>\<open>33_active_passive_lb\<close>. The parts of a request header a lesson reads or
  replaces beyond \<open>header_api\<close> are in \<open>message_api\<close>.
\<close>

record 'h message_api =
  header_get :: "string \<Rightarrow> 'h \<Rightarrow> string option"
  uri_path :: "'h \<Rightarrow> string"
  uri_query :: "'h \<Rightarrow> string option"
  parse_uri :: "string \<Rightarrow> string option"
  set_uri :: "string \<Rightarrow> 'h \<Rightarrow> 'h"

section \<open>Lesson 08: headers\<close>

definition l08_upstream_peer :: "peer_api \<Rightarrow> 'w \<Rightarrow> (pingora_error, http_peer) outcome \<times> 'w" where
  "l08_upstream_peer papi = fixed_peer papi (''172.28.0.21'', 8080) False ''green.pingora.local''"

definition l08_upstream_request_filter :: "'h header_api \<Rightarrow> 'h \<Rightarrow> (pingora_error, unit) outcome \<times> 'h" where
  "l08_upstream_request_filter hapi h =
     try_then (insert_header hapi ''Host'' ''green.pingora.local'' h) (\<lambda>_ h.
     try_then (insert_header hapi ''X-Pingora-Proxy'' ''true'' h) (\<lambda>_ h.
     (Ok (), remove_header hapi ''User-Agent'' h)))"

definition l08_response_filter :: "'h header_api \<Rightarrow> 'h \<Rightarrow> (pingora_error, unit) outcome \<times> 'h" where
  "l08_response_filter hapi h = insert_header hapi ''X-Edited-By'' ''Pingora'' h"

section \<open>Lesson 09: routing by path\<close>

datatype l09_target = Blue | Green

definition l09_new_ctx :: "l09_target option" where
  "l09_new_ctx = None"

text \<open>The write of the 404 is tried; its error is dropped.\<close>

definition l09_request_filter ::
  "'w session_api \<Rightarrow> 'w \<times> l09_target option \<Rightarrow> (pingora_error, bool) outcome \<times> 'w \<times> l09_target option" where
  "l09_request_filter api s =
     (let (w, ctx) = s; path = req_path api w
      in if starts_with path ''/blue'' then (Ok False, (w, Some Blue))
         else if starts_with path ''/green'' then (Ok False, (w, Some Green))
         else (case respond_error api 404 w of
                 (Panic p, w) \<Rightarrow> (Panic p, (w, ctx))
               | (_, w) \<Rightarrow> (Ok True, (w, ctx))))"

fun l09_address :: "l09_target \<Rightarrow> (string \<times> u16) \<times> string" where
  "l09_address Blue = ((''172.28.0.20'', 8080), ''blue.pingora.local'')"
| "l09_address Green = ((''172.28.0.21'', 8080), ''green.pingora.local'')"

definition l09_upstream_peer ::
  "peer_api \<Rightarrow> 'w \<times> l09_target option \<Rightarrow> (pingora_error, http_peer) outcome \<times> 'w \<times> l09_target option" where
  "l09_upstream_peer papi s =
     (case snd s of
        None \<Rightarrow> (Panic ''Context should be set by request_filter'', s)
      | Some target \<Rightarrow> (let (addr, sni) = l09_address target in fixed_peer papi addr False sni s))"

fun l09_host :: "l09_target \<Rightarrow> string" where
  "l09_host Blue = ''blue.pingora.local''"
| "l09_host Green = ''green.pingora.local''"

definition l09_upstream_request_filter ::
  "'h header_api \<Rightarrow> l09_target option \<Rightarrow> 'h \<Rightarrow> (pingora_error, unit) outcome \<times> 'h" where
  "l09_upstream_request_filter hapi ctx h =
     (case ctx of
        None \<Rightarrow> (Panic ''Context should be set'', h)
      | Some target \<Rightarrow> insert_header hapi ''Host'' (l09_host target) h)"

text \<open>
  Lesson 09: a request that passes the filter is routed consistently. It passes exactly when its
  path starts with one of the two prefixes; then both later callbacks find the target in the context
  (neither \<^verbatim>\<open>expect\<close> panics), and the host header is the SNI of the peer chosen.
\<close>

theorem l09_consistent:
  assumes "l09_request_filter api (w, l09_new_ctx) = (Ok False, (w', ctx))"
  shows "w' = w \<and> (\<exists>t. ctx = Some t \<and>
    starts_with (req_path api w) (case t of Blue \<Rightarrow> ''/blue'' | Green \<Rightarrow> ''/green'') \<and>
    l09_upstream_peer papi (w', ctx) =
      fixed_peer papi (fst (l09_address t)) False (l09_host t) (w', ctx) \<and>
    l09_upstream_request_filter hapi ctx h = insert_header hapi ''Host'' (snd (l09_address t)) h)"
proof -
  have cases: "w' = w \<and> (ctx = Some Blue \<and> starts_with (req_path api w) ''/blue'' \<or>
      ctx = Some Green \<and> starts_with (req_path api w) ''/green'')"
    using assms by (auto simp: l09_request_filter_def Let_def split: if_splits prod.splits outcome.splits)
  then show ?thesis
    by (auto simp: l09_upstream_peer_def l09_upstream_request_filter_def)
qed

theorem l09_consistent_witness:
  "l09_upstream_peer sample_peers (sample_request ''/green/a'' [], Some Green) =
     fixed_peer sample_peers (''172.28.0.21'', 8080) False ''green.pingora.local''
       (sample_request ''/green/a'' [], Some Green)"
  using l09_consistent [of sample_api "sample_request ''/green/a'' []" "sample_request ''/green/a'' []"
      "Some Green" sample_peers sample_headers "[]"]
  by (simp add: l09_request_filter_def sample_request_def starts_with_def)

section \<open>Lesson 10: query parameters\<close>

definition l10_new_query :: "string \<Rightarrow> string" where
  "l10_new_query query =
     (let params = filter (\<lambda>part. part \<noteq> [] \<and> \<not> starts_with part ''debug='') (split_on CHR ''&'' query)
      in join_with CHR ''&'' (params @ [''ref=pingora'']))"

definition l10_upstream_peer :: "peer_api \<Rightarrow> 'w \<Rightarrow> (pingora_error, http_peer) outcome \<times> 'w" where
  "l10_upstream_peer papi = fixed_peer papi (''172.28.0.20'', 8080) False ''blue.pingora.local''"

definition l10_upstream_request_filter ::
  "'h header_api \<Rightarrow> 'h message_api \<Rightarrow> 'h \<Rightarrow> (pingora_error, unit) outcome \<times> 'h" where
  "l10_upstream_request_filter hapi mapi h =
     (let path = uri_path mapi h;
          query = (case uri_query mapi h of Some q \<Rightarrow> q | None \<Rightarrow> []);
          new_uri_string = path @ ''?'' @ l10_new_query query
      in case parse_uri mapi new_uri_string of
           None \<Rightarrow> (Panic ''Failed to parse new URI'', h)
         | Some new_uri \<Rightarrow> insert_header hapi ''Host'' ''blue.pingora.local'' (set_uri mapi new_uri h))"

lemma split_on_parts: "part \<in> set (split_on c s) \<Longrightarrow> c \<notin> set part"
  by (induction s arbitrary: part) (auto split: if_splits list.splits)

text \<open>
  Lesson 10: the rewritten query holds exactly the parameters of the original one in their order,
  without the empty ones and the debug parameters, followed by the reference tag; no debug parameter
  survives, whatever the query.
\<close>

theorem l10_rewrites_query:
  "split_on CHR ''&'' (l10_new_query query) =
     filter (\<lambda>part. part \<noteq> [] \<and> \<not> starts_with part ''debug='') (split_on CHR ''&'' query) @ [''ref=pingora'']"
proof -
  let ?parts = "filter (\<lambda>part. part \<noteq> [] \<and> \<not> starts_with part ''debug='') (split_on CHR ''&'' query) @ [''ref=pingora'']"
  have "\<forall>p \<in> set ?parts. CHR ''&'' \<notin> set p"
    by (auto dest: split_on_parts)
  then show ?thesis
    unfolding l10_new_query_def Let_def by (intro split_join) auto
qed

section \<open>Lesson 11: response headers\<close>

definition l11_upstream_peer :: "peer_api \<Rightarrow> 'w \<Rightarrow> (pingora_error, http_peer) outcome \<times> 'w" where
  "l11_upstream_peer papi = fixed_peer papi (''172.28.0.20'', 8080) False ''blue.pingora.local''"

definition l11_response_filter ::
  "'h header_api \<Rightarrow> 'h message_api \<Rightarrow> 'h \<Rightarrow> (pingora_error, unit) outcome \<times> 'h" where
  "l11_response_filter hapi mapi h =
     try_then (insert_header hapi ''X-Content-Type-Options'' ''nosniff'' (remove_header hapi ''X-App-Version'' h))
       (\<lambda>_ h.
          case header_get mapi ''Date'' h of
            Some date_val \<Rightarrow> insert_header hapi ''X-Legacy-Date'' date_val h
          | None \<Rightarrow> (Ok (), h))"

section \<open>Lesson 19: timeouts\<close>

definition l19_upstream_peer ::
  "peer_api \<Rightarrow> 'w session_api \<Rightarrow> 'w \<Rightarrow> (pingora_error, http_peer) outcome \<times> 'w" where
  "l19_upstream_peer papi api w =
     (let (addr, sni, timeout) =
        (if req_path api w = ''/timeout'' then ((''192.0.2.1'', 80), ''blackhole.local'', from_millis 100)
         else ((''172.28.0.20'', 8080), ''blue.pingora.local'', from_secs 2))
      in try_then (fixed_peer papi addr False sni w) (\<lambda>peer w.
           (Ok (peer\<lparr>p_connection_timeout := Some timeout, p_read_timeout := Some (from_secs 2)\<rparr>), w)))"

text \<open>\<^verbatim>\<open>let _ = session.respond_error(code).await;\<close> and the answer to Pingora.\<close>

definition respond_fail ::
  "'w session_api \<Rightarrow> u16 \<Rightarrow> 'w \<Rightarrow> (pingora_error, fail_response) outcome \<times> 'w" where
  "respond_fail api code w =
     (case respond_error api code w of
        (Panic p, w) \<Rightarrow> (Panic p, w)
      | (_, w) \<Rightarrow> (Ok \<lparr>error_code = code, can_reuse_downstream = False\<rparr>, w))"

definition l19_fail_to_proxy ::
  "'w session_api \<Rightarrow> pingora_error \<Rightarrow> 'w \<Rightarrow> (pingora_error, fail_response) outcome \<times> 'w" where
  "l19_fail_to_proxy api e w =
     (case etype e of
        ET_ConnectTimedout \<Rightarrow> respond_fail api 504 w
      | ET_ReadTimedout \<Rightarrow> respond_fail api 504 w
      | _ \<Rightarrow> respond_fail api 502 w)"

section \<open>Lesson 20: SNI by path\<close>

record l20_ctx =
  target_host :: string

definition l20_new_ctx :: l20_ctx where
  "l20_new_ctx = \<lparr>target_host = []\<rparr>"

definition l20_request_filter :: "'w session_api \<Rightarrow> 'w \<times> l20_ctx \<Rightarrow> (pingora_error, bool) outcome \<times> 'w \<times> l20_ctx" where
  "l20_request_filter api s =
     (let (w, ctx) = s
      in (Ok False, (w, ctx\<lparr>target_host :=
            (if starts_with (req_path api w) ''/v1'' then ''v1.api.pingora.local''
             else ''v2.api.pingora.local'')\<rparr>)))"

definition l20_upstream_peer ::
  "peer_api \<Rightarrow> 'w \<times> l20_ctx \<Rightarrow> (pingora_error, http_peer) outcome \<times> 'w \<times> l20_ctx" where
  "l20_upstream_peer papi s = fixed_peer papi (''172.28.0.22'', 443) True (target_host (snd s)) s"

definition l20_upstream_request_filter ::
  "'h header_api \<Rightarrow> l20_ctx \<Rightarrow> 'h \<Rightarrow> (pingora_error, unit) outcome \<times> 'h" where
  "l20_upstream_request_filter hapi ctx h = insert_header hapi ''Host'' (target_host ctx) h"

section \<open>Lesson 28: consistent hashing on the path\<close>

definition l28_upstream_peer ::
  "peer_api \<Rightarrow> 'w session_api \<Rightarrow> 'w pool \<Rightarrow> 'w \<Rightarrow> (pingora_error, http_peer) outcome \<times> 'w" where
  "l28_upstream_peer papi api pool w =
     pool_peer papi pool (req_path api w) ''Empty upstream pool'' ''consistent.cluster'' w"

definition l28_upstream_request_filter :: "'h header_api \<Rightarrow> 'h \<Rightarrow> (pingora_error, unit) outcome \<times> 'h" where
  "l28_upstream_request_filter hapi h = insert_header hapi ''Host'' ''consistent-hash-cluster'' h"

section \<open>Lesson 33: failover\<close>

definition l33_upstream_peer :: "peer_api \<Rightarrow> 'w pool \<Rightarrow> 'w \<Rightarrow> (pingora_error, http_peer) outcome \<times> 'w" where
  "l33_upstream_peer papi pool w =
     (case pool [] 256 w of
        (Some upstream, w) \<Rightarrow>
          try_then (backend_peer papi upstream False ''primary.cluster.local'' w) (\<lambda>peer w.
            (Ok (peer\<lparr>p_read_timeout := Some (from_secs 1), p_connection_timeout := Some (from_secs 1)\<rparr>), w))
      | (None, w) \<Rightarrow> fixed_peer papi (''172.28.0.21'', 8080) False ''backup.cluster.local'' w)"

definition l33_upstream_request_filter :: "'h header_api \<Rightarrow> 'h \<Rightarrow> (pingora_error, unit) outcome \<times> 'h" where
  "l33_upstream_request_filter hapi h = insert_header hapi ''Host'' ''active-passive-cluster'' h"

text \<open>
  Lesson 33: failover never runs dry. As long as peers can be built, choosing the peer succeeds
  whatever the state of the primary pool: with the chosen primary backend under its name and short
  timeouts when the pool has one, and with the backup server exactly when it has none.
\<close>

theorem l33_failover:
  assumes "\<forall>a t s. \<exists>p. peer_new papi a t s = Ok p \<and> p_sni p = s"
    and "\<forall>b t s. \<exists>p. peer_of_backend papi b t s = Ok p \<and> p_sni p = s"
  shows "\<exists>peer. l33_upstream_peer papi pool w = (Ok peer, snd (pool [] 256 w)) \<and>
    (case fst (pool [] 256 w) of
       Some b \<Rightarrow> p_sni peer = ''primary.cluster.local'' \<and> p_connection_timeout peer = Some (from_secs 1)
     | None \<Rightarrow> p_sni peer = ''backup.cluster.local'')"
proof (cases "pool [] 256 w")
  case (Pair choice w')
  obtain p where p: "peer_new papi (''172.28.0.21'', 8080) False ''backup.cluster.local'' = Ok p"
    "p_sni p = ''backup.cluster.local''"
    using assms(1) by blast
  show ?thesis
  proof (cases choice)
    case None
    with Pair p show ?thesis
      by (simp add: l33_upstream_peer_def fixed_peer_def)
  next
    case (Some b)
    obtain q where "peer_of_backend papi b False ''primary.cluster.local'' = Ok q"
      "p_sni q = ''primary.cluster.local''"
      using assms(2) by blast
    with Pair Some show ?thesis
      by (simp add: l33_upstream_peer_def backend_peer_def)
  qed
qed

theorem l33_failover_witness:
  "\<exists>peer. l33_upstream_peer sample_peers (\<lambda>key n w. (None, w)) nowhere = (Ok peer, nowhere) \<and>
    p_sni peer = ''backup.cluster.local''"
  using l33_failover [of sample_peers "\<lambda>key n w. (None, w)" nowhere]
  by (simp add: sample_peers_def sample_peer_def split_def)

end
