(* ===== verification/Lesson_Content.thy ===== *)
theory Lesson_Content
  imports Lesson_Proxies Request_Size
begin

text \<open>
  The lessons that look at bodies and answer failures themselves: \<^verbatim>\<open>12_body_inspection\<close>,
  \<^verbatim>\<open>13_custom_errors\<close> and \<^verbatim>\<open>40_request_size_limit\<close>.
\<close>

section \<open>Lesson 12: body inspection\<close>

record l12_ctx =
  l12_buffer :: string

definition l12_new_ctx :: l12_ctx where
  "l12_new_ctx = \<lparr>l12_buffer = []\<rparr>"

definition l12_upstream_peer :: "peer_api \<Rightarrow> 'w \<Rightarrow> (pingora_error, http_peer) outcome \<times> 'w" where
  "l12_upstream_peer papi = fixed_peer papi (''172.28.0.20'', 8080) False ''blue.pingora.local''"

definition l12_request_body_filter :: "string option \<Rightarrow> l12_ctx \<Rightarrow> (pingora_error, unit) outcome \<times> l12_ctx" where
  "l12_request_body_filter body ctx =
     (case body of
        None \<Rightarrow> (Ok (), ctx)
      | Some bytes \<Rightarrow>
          (let ctx = ctx\<lparr>l12_buffer := l12_buffer ctx @ bytes\<rparr>;
               content = utf8_lossy (l12_buffer ctx)
           in if contains_str content ''rogue''
              then (Err (new_error (ET_Custom ''SecurityPolicyViolation'')), ctx)
              else (Ok (), ctx)))"

text \<open>The filter over the chunks of a body, until one is refused.\<close>

fun l12_stream :: "string list \<Rightarrow> l12_ctx \<Rightarrow> (pingora_error, unit) outcome \<times> l12_ctx" where
  "l12_stream [] ctx = (Ok (), ctx)"
| "l12_stream (b # bs) ctx = try_then (l12_request_body_filter (Some b) ctx) (\<lambda>_ ctx. l12_stream bs ctx)"

lemma l12_filter_eq:
  "l12_request_body_filter (Some b) ctx =
     (if contains_str (l12_buffer ctx @ b) ''rogue''
      then (Err (new_error (ET_Custom ''SecurityPolicyViolation'')), ctx\<lparr>l12_buffer := l12_buffer ctx @ b\<rparr>)
      else (Ok (), ctx\<lparr>l12_buffer := l12_buffer ctx @ b\<rparr>))"
proof -
  have "contains_str (utf8_lossy s) ''rogue'' \<longleftrightarrow> contains_str s ''rogue''" for s
    by (rule contains_lossy) (simp_all add: ascii_def)
  then show ?thesis
    by (simp add: l12_request_body_filter_def Let_def)
qed

lemma contains_append: "contains_str s p \<Longrightarrow> contains_str (s @ t) p"
  unfolding contains_str_iff by (metis append.assoc)

lemma l12_stream_result:
  "bs \<noteq> [] \<Longrightarrow> fst (l12_stream bs ctx) =
     (if contains_str (l12_buffer ctx @ concat bs) ''rogue''
      then Err (new_error (ET_Custom ''SecurityPolicyViolation'')) else Ok ())"
proof (induction bs arbitrary: ctx)
  case (Cons b bs)
  show ?case
  proof (cases "contains_str (l12_buffer ctx @ b) ''rogue''")
    case True
    with contains_append [OF True, of "concat bs"] show ?thesis
      by (simp add: l12_filter_eq)
  next
    case False
    with Cons.IH [of "ctx\<lparr>l12_buffer := l12_buffer ctx @ b\<rparr>"] show ?thesis
      by (cases "bs = []") (simp_all add: l12_filter_eq)
  qed
qed simp

text \<open>
  C38. Lesson 12: chunking cannot hide a forbidden word. However the body is cut into chunks, also in
  the middle of the word, and whatever other bytes it holds, also ill-formed UTF-8, the stream is
  refused exactly when the whole body contains the word.
\<close>

theorem l12_inspects_whole_body:
  "fst (l12_stream chunks l12_new_ctx) =
     (if contains_str (concat chunks) ''rogue'' then Err (new_error (ET_Custom ''SecurityPolicyViolation''))
      else Ok ())"
  by (cases "chunks = []") (simp_all add: l12_stream_result l12_new_ctx_def)

section \<open>Lesson 13: custom errors\<close>

definition l13_upstream_peer :: "peer_api \<Rightarrow> 'w \<Rightarrow> (pingora_error, http_peer) outcome \<times> 'w" where
  "l13_upstream_peer papi = fixed_peer papi (''172.28.0.20'', 8080) False ''blue.pingora.local''"

definition l13_request_filter :: "'w session_api \<Rightarrow> 'w \<Rightarrow> (pingora_error, bool) outcome \<times> 'w" where
  "l13_request_filter api w =
     (if req_path api w = ''/oops'' then (Err (new_error (ET_Custom ''SimulatedFailure'')), w)
      else (Ok False, w))"

definition dquoted :: "string \<Rightarrow> string" where
  "dquoted s = [CHR 0x22] @ s @ [CHR 0x22]"

definition l13_body :: "u16 \<Rightarrow> string" where
  "l13_body code =
     [CHR 0x7B] @ dquoted ''status'' @ '': '' @ dquoted ''error'' @ '', '' @ dquoted ''code'' @ '': '' @
     dec_string (unat code) @ '', '' @ dquoted ''message'' @ '': '' @ dquoted ''We caught a custom error!'' @
     [CHR 0x7D]"

text \<open>A response header with the given fields, each insertion unwrapped.\<close>

fun unwrap_headers ::
  "'w session_api \<Rightarrow> 'h header_api \<Rightarrow> (string \<times> string) list \<Rightarrow> 'h \<Rightarrow> (pingora_error, unit) outcome \<times> 'h" where
  "unwrap_headers api hapi [] h = (Ok (), h)"
| "unwrap_headers api hapi ((k, v) # rest) h =
     try_then (unwrap_err api (insert_header hapi k v h)) (\<lambda>_ h. unwrap_headers api hapi rest h)"

definition built_header ::
  "'w session_api \<Rightarrow> 'h header_api \<Rightarrow> u16 \<Rightarrow> (string \<times> string) list \<Rightarrow> (pingora_error, 'h) outcome" where
  "built_header api hapi code hs =
     fst (try_then (unwrap_err api (build_header hapi code, ())) (\<lambda>header _.
       case unwrap_headers api hapi hs header of
         (Ok _, header) \<Rightarrow> (Ok header, ())
       | (Err e, header) \<Rightarrow> (Err e, ())
       | (Panic p, header) \<Rightarrow> (Panic p, ())))"

text \<open>\<^verbatim>\<open>let _ = f(\<dots>).await;\<close>.\<close>

definition ignore_result :: "('e, 'a) outcome \<times> 'w \<Rightarrow> ('e, unit) outcome \<times> 'w" where
  "ignore_result r = (case r of (Panic p, w) \<Rightarrow> (Panic p, w) | (_, w) \<Rightarrow> (Ok (), w))"

definition l13_code :: "pingora_error \<Rightarrow> u16" where
  "l13_code e = (if etype e = ET_Custom ''SimulatedFailure'' then 400 else 500)"

definition l13_fail_to_proxy ::
  "'w session_api \<Rightarrow> 'h header_api \<Rightarrow> ('w, 'h) page_api \<Rightarrow> pingora_error \<Rightarrow> 'w \<Rightarrow>
   (pingora_error, fail_response) outcome \<times> 'w" where
  "l13_fail_to_proxy api hapi pgapi e w =
     (let code = l13_code e; body = l13_body code; content_length = length body
      in try_then
           (built_header api hapi code
              [(''Content-Type'', ''application/json''), (''Content-Length'', dec_string content_length)], w)
           (\<lambda>header w.
              try_then (ignore_result (write_response_header pgapi header False w)) (\<lambda>_ w.
              try_then (ignore_result (write_response_body pgapi (Some body) True w)) (\<lambda>_ w.
              (Ok \<lparr>error_code = code, can_reuse_downstream = False\<rparr>, w)))))"

section \<open>Lesson 40: request size\<close>

record l40_ctx =
  l40_bytes_read :: usize

definition l40_new_ctx :: l40_ctx where
  "l40_new_ctx = \<lparr>l40_bytes_read = 0\<rparr>"

definition l40_max_body_size :: usize where
  "l40_max_body_size = 100"

definition l40_request_filter :: "'w session_api \<Rightarrow> 'w \<Rightarrow> (pingora_error, bool) outcome \<times> 'w" where
  "l40_request_filter api w =
     (case req_header api w ''content-length'' of
        None \<Rightarrow> (Ok False, w)
      | Some v \<Rightarrow>
     (case header_to_str api v of
        None \<Rightarrow> (Ok False, w)
      | Some len_str \<Rightarrow>
     (case parse_usize len_str of
        None \<Rightarrow> (Ok False, w)
      | Some len \<Rightarrow> if l40_max_body_size < len then respond_and_stop api 413 w else (Ok False, w))))"

definition l40_request_body_filter :: "string option \<Rightarrow> l40_ctx \<Rightarrow> (pingora_error, unit) outcome \<times> l40_ctx" where
  "l40_request_body_filter body ctx =
     (case body of
        None \<Rightarrow> (Ok (), ctx)
      | Some b \<Rightarrow>
          (let ctx = ctx\<lparr>l40_bytes_read := l40_bytes_read ctx + of_nat (length b)\<rparr>
           in if l40_max_body_size \<le> l40_bytes_read ctx
              then (Err (explain (ET_Custom ''BodyTooLarge'') ''Stream exceeded limit''), ctx)
              else (Ok (), ctx)))"

definition l40_upstream_peer :: "peer_api \<Rightarrow> 'w pool \<Rightarrow> 'w \<Rightarrow> (pingora_error, http_peer) outcome \<times> 'w" where
  "l40_upstream_peer papi pool w = pool_peer papi pool [] ''Empty upstream pool'' ''size-limit.cluster'' w"

definition l40_fail_to_proxy ::
  "'w session_api \<Rightarrow> pingora_error \<Rightarrow> 'w \<Rightarrow> (pingora_error, fail_response) outcome \<times> 'w" where
  "l40_fail_to_proxy api e w =
     (if etype e = ET_Custom ''BodyTooLarge'' then respond_fail api 413 w
      else (Ok \<lparr>error_code = 502, can_reuse_downstream = False\<rparr>, w))"

text \<open>
  Lesson 40 is the gateway's size middleware with its limit fixed: for every chunk and every
  count so far, the lesson's body filter passes it exactly when the middleware with the limit of 100
  bytes continues, and both keep the same count; what differs is only the refusal, an error here and
  a written 413 there. So the lesson, too, refuses a body of exactly the size its header check lets
  through.
\<close>

theorem l40_agrees_with_middleware:
  "(fst (l40_request_body_filter (Some b) \<lparr>l40_bytes_read = k\<rparr>) = Ok ()) =
     (fst (rs_handle_request_body api \<lparr>max_bytes = l40_max_body_size\<rparr> eos ((w, size_ctx k c), Some b)) = Ok Continue) \<and>
   get_size_state (snd (fst (snd
     (rs_handle_request_body api \<lparr>max_bytes = l40_max_body_size\<rparr> eos ((w, size_ctx k c), Some b))))) =
     Some \<lparr>bytes_read = l40_bytes_read (snd (l40_request_body_filter (Some b) \<lparr>l40_bytes_read = k\<rparr>))\<rparr>"
proof -
  let ?s = "(w, size_ctx (k + of_nat (length b)) c)"
  obtain r s' where rej: "rs_reject api ?s = (r, s')"
    by (rule prod.exhaust)
  with fst_rs_reject_not_Continue [of api ?s] rs_reject_state [of api ?s]
  have "r \<noteq> Ok Continue" and "snd s' = size_ctx (k + of_nat (length b)) c"
    by simp_all
  then show ?thesis
    by (simp add: l40_request_body_filter_def body_hook_eq Let_def rej)
qed

end
