(* ===== verification/Lesson_Access.thy ===== *)
theory Lesson_Access
  imports Lesson_Content
begin

text \<open>
  The lessons that decide who may pass: \<^verbatim>\<open>36_basic_rate_limit\<close>, \<^verbatim>\<open>39_connection_filter\<close>,
  \<^verbatim>\<open>41_auth_request\<close> and \<^verbatim>\<open>42_basic_auth\<close>. The rate estimator of \<^verbatim>\<open>pingora_limits\<close> is a parameter;
  the last three filters, and the header check of lesson 40, meet the contract \<open>access_filter\<close>.
\<close>

section \<open>Lesson 36: rate limit\<close>

text \<open>\<^verbatim>\<open>Rate::observe(&key, n)\<close> on a state of the estimator; its count is an \<^verbatim>\<open>isize\<close>.\<close>

type_synonym 'r observe = "ip_addr \<Rightarrow> nat \<Rightarrow> 'r \<Rightarrow> int \<times> 'r"

definition max_req_per_sec :: int where
  "max_req_per_sec = 5"

definition l36_request_filter ::
  "'w session_api \<Rightarrow> 'r observe \<Rightarrow> 'w \<times> 'r \<Rightarrow> (pingora_error, bool) outcome \<times> 'w \<times> 'r" where
  "l36_request_filter api observe s =
     (let (w, limiter) = s
      in try_then (unwrap_client_ip api w, s) (\<lambda>client s.
           case client of
             None \<Rightarrow> (Ok False, s)
           | Some ip \<Rightarrow>
               (let (curr_req_count, limiter) = observe ip 1 limiter
                in if max_req_per_sec < curr_req_count
                   then (case respond_and_stop api 429 w of (r, w) \<Rightarrow> (r, (w, limiter)))
                   else (Ok False, (w, limiter)))))"

definition l36_upstream_peer :: "peer_api \<Rightarrow> 'w pool \<Rightarrow> 'w \<Rightarrow> (pingora_error, http_peer) outcome \<times> 'w" where
  "l36_upstream_peer papi pool w = pool_peer papi pool [] ''Empty upstream pool'' ''rate-limited.cluster'' w"

text \<open>The requests of one interval, one after the other on the shared estimator: which of them pass.\<close>

fun l36_run :: "'w session_api \<Rightarrow> 'r observe \<Rightarrow> 'w list \<Rightarrow> 'r \<Rightarrow> ('w \<times> bool) list" where
  "l36_run api observe [] r = []"
| "l36_run api observe (w # ws) r =
     (let (d, s) = l36_request_filter api observe (w, r)
      in (w, d = Ok False) # l36_run api observe ws (snd s))"

definition from_ip :: "'w session_api \<Rightarrow> ip_addr \<Rightarrow> 'w \<Rightarrow> bool" where
  "from_ip api ip w \<longleftrightarrow> unwrap_client_ip api w = Ok (Some ip)"

definition passed_from :: "'w session_api \<Rightarrow> ip_addr \<Rightarrow> ('w \<times> bool) list \<Rightarrow> nat" where
  "passed_from api ip ds = length (filter (\<lambda>(w, passed). passed \<and> from_ip api ip w) ds)"

text \<open>
  What the estimator documents: within an interval it has seen what it observed, and reports at
  least that (colliding keys can raise the count, nothing lowers it).
\<close>

definition rate_law :: "'r observe \<Rightarrow> ('r \<Rightarrow> ip_addr \<Rightarrow> nat) \<Rightarrow> bool" where
  "rate_law observe seen \<longleftrightarrow> (\<forall>ip n r. int (seen r ip + n) \<le> fst (observe ip n r) \<and>
     seen (snd (observe ip n r)) = (seen r)(ip := seen r ip + n))"

lemma l36_filter_cases:
  "l36_request_filter api observe (w, r) =
     (case unwrap_client_ip api w of
        Ok None \<Rightarrow> (Ok False, (w, r))
      | Ok (Some ip) \<Rightarrow>
          (if max_req_per_sec < fst (observe ip 1 r)
           then (fst (respond_and_stop api 429 w), (snd (respond_and_stop api 429 w), snd (observe ip 1 r)))
           else (Ok False, (w, snd (observe ip 1 r))))
      | Err e \<Rightarrow> (Err e, (w, r))
      | Panic p \<Rightarrow> (Panic p, (w, r)))"
  by (simp add: l36_request_filter_def try_then_def split_def split: outcome.splits option.splits)

lemma respond_and_stop_not_pass: "fst (respond_and_stop api code w) \<noteq> Ok False"
  by (auto simp: respond_and_stop_def try_then_def split: outcome.splits prod.splits)

lemma l36_run_bound:
  assumes law: "rate_law observe seen"
  shows "passed_from api ip (l36_run api observe ws r) \<le> 5 - seen r ip"
proof (induction ws arbitrary: r)
  case (Cons w ws)
  have seen: "seen (snd (observe i 1 r)) = (seen r)(i := seen r i + 1)"
    and count: "int (seen r i + 1) \<le> fst (observe i 1 r)" for i
    using law unfolding rate_law_def by blast+
  show ?case
  proof (cases "unwrap_client_ip api w = Ok (Some ip)")
    case True
    with Cons.IH [of "snd (observe ip 1 r)"] seen [of ip] count [of ip] respond_and_stop_not_pass [of api 429 w]
    show ?thesis
      by (auto simp: passed_from_def from_ip_def l36_filter_cases split_def max_req_per_sec_def)
  next
    case False
    have "seen (snd (snd (l36_request_filter api observe (w, r)))) ip = seen r ip"
      using False seen by (auto simp: l36_filter_cases split: outcome.splits option.splits)
    with Cons.IH [of "snd (snd (l36_request_filter api observe (w, r)))"] False show ?thesis
      by (simp add: passed_from_def from_ip_def split_def Let_def)
  qed
qed (simp add: passed_from_def)

text \<open>
  C24. Lesson 36: the limit holds. Within one interval of a rate estimator that never undercounts, at
  most five requests from an address pass the filter, whatever requests from other clients come
  between them; a client already seen \<open>k\<close> times has \<open>5 - k\<close> left.
\<close>

theorem l36_limit:
  assumes "rate_law observe seen"
  shows "passed_from api ip (l36_run api observe ws r) \<le> 5 - seen r ip"
  using l36_run_bound [OF assms, of api ip ws r] by simp

definition sample_observe :: "(ip_addr \<Rightarrow> nat) observe" where
  "sample_observe ip n r = (int (r ip + n), r(ip := r ip + n))"

theorem l36_limit_witness:
  "passed_from sample_api (V4 167772161)
     (l36_run sample_api sample_observe (replicate 7 (sample_request ''/'' [])) (\<lambda>_. 3)) \<le> 2"
  using l36_limit [of sample_observe "\<lambda>r. r" sample_api "V4 167772161"
      "replicate 7 (sample_request ''/'' [])" "\<lambda>_. 3"]
  by (simp add: rate_law_def sample_observe_def)

section \<open>Lesson 39: firewall\<close>

text \<open>\<^verbatim>\<open>"172.28.0.31".parse()\<close>.\<close>

definition bad_actor_ip :: ip_addr where
  "bad_actor_ip = V4 (of_nat (of_octets [172, 28, 0, 31]))"

definition l39_request_filter :: "'w session_api \<Rightarrow> 'w \<Rightarrow> (pingora_error, bool) outcome \<times> 'w" where
  "l39_request_filter api w =
     try_then (unwrap_client_ip api w, w) (\<lambda>client w.
       case client of
         None \<Rightarrow> (Ok False, w)
       | Some ip \<Rightarrow> if ip = bad_actor_ip then respond_and_stop api 403 w else (Ok False, w))"

definition l39_upstream_peer :: "peer_api \<Rightarrow> 'w pool \<Rightarrow> 'w \<Rightarrow> (pingora_error, http_peer) outcome \<times> 'w" where
  "l39_upstream_peer papi pool w = pool_peer papi pool [] ''Empty upstream pool'' ''firewall.cluster'' w"

definition l39_verdict :: "'w session_api \<Rightarrow> 'w \<Rightarrow> (pingora_error, u16 option) outcome" where
  "l39_verdict api w =
     (case unwrap_client_ip api w of
        Ok None \<Rightarrow> Ok None
      | Ok (Some ip) \<Rightarrow> Ok (if ip = bad_actor_ip then Some 403 else None)
      | Err e \<Rightarrow> Err e
      | Panic p \<Rightarrow> Panic p)"

interpretation firewall: access_filter l39_request_filter l39_verdict respond_error
  by unfold_locales
    (auto simp: l39_request_filter_def l39_verdict_def respond_and_stop_def try_then_def
      split: outcome.splits option.splits)

lemma bad_actor_V6 [simp]: "V6 a \<noteq> bad_actor_ip" "bad_actor_ip \<noteq> V6 a"
  by (simp_all add: bad_actor_ip_def)

lemma bad_actor_string: "v4_string a = ''172.28.0.31'' \<longleftrightarrow> V4 a = bad_actor_ip"
proof -
  have "v4_string (of_nat (of_octets [172, 28, 0, 31])) = ''172.28.0.31''"
    by (simp add: v4_string_def octets_def dec_string.simps digit_char_def) code_simp
  then have "v4_string a = ''172.28.0.31'' \<longleftrightarrow> v4_string a = v4_string (of_nat (of_octets [172, 28, 0, 31]))"
    by simp
  then show ?thesis
    by (simp only: v4_string_inject bad_actor_ip_def ip_addr.inject)
qed

text \<open>
  Lesson 39: exactly one IPv4 client is refused, the one whose address prints as the blocked one;
  every other internet client and a client without an address pass with the request untouched, and a
  client on a Unix socket panics the filter.
\<close>

theorem l39_firewall:
  "l39_request_filter api w =
     (case client_addr api w of
        None \<Rightarrow> (Ok False, w)
      | Some (Unix path) \<Rightarrow> (Panic ''called `Option::unwrap()` on a `None` value'', w)
      | Some (Inet (SocketAddr (V6 a) port)) \<Rightarrow> (Ok False, w)
      | Some (Inet (SocketAddr (V4 a) port)) \<Rightarrow>
          if v4_string a = ''172.28.0.31'' then try_then (respond_error api 403 w) (\<lambda>_ w. (Ok True, w))
          else (Ok False, w))"
  unfolding firewall.flt_eq l39_verdict_def unwrap_client_ip_def bad_actor_string
  by (simp split: option.split sock_addr.split inet_addr.split ip_addr.split)

section \<open>Lesson 41: a bearer token\<close>

definition secret_token :: string where
  "secret_token = ''Bearer super-secret-token''"

definition l41_request_filter :: "'w session_api \<Rightarrow> 'w \<Rightarrow> (pingora_error, bool) outcome \<times> 'w" where
  "l41_request_filter api w =
     (case req_header api w ''Authorization'' of
        None \<Rightarrow> respond_and_stop api 401 w
      | Some v \<Rightarrow> if v \<noteq> secret_token then respond_and_stop api 403 w else (Ok False, w))"

definition l41_upstream_peer :: "peer_api \<Rightarrow> 'w pool \<Rightarrow> 'w \<Rightarrow> (pingora_error, http_peer) outcome \<times> 'w" where
  "l41_upstream_peer papi pool w = pool_peer papi pool [] ''Empty upstream pool'' ''auth-protected.cluster'' w"

text \<open>The verdict of both credential checks.\<close>

definition credential_verdict :: "string \<Rightarrow> 'w session_api \<Rightarrow> 'w \<Rightarrow> (pingora_error, u16 option) outcome" where
  "credential_verdict secret api w =
     (case req_header api w ''Authorization'' of
        None \<Rightarrow> Ok (Some 401)
      | Some v \<Rightarrow> if v = secret then Ok None else Ok (Some 403))"

lemma credential_verdict_None:
  "credential_verdict secret api w = Ok None \<longleftrightarrow> req_header api w ''Authorization'' = Some secret"
  by (simp add: credential_verdict_def split: option.split)

interpretation bearer: access_filter l41_request_filter "credential_verdict secret_token" respond_error
  by unfold_locales
    (simp add: l41_request_filter_def credential_verdict_def respond_and_stop_def split: option.split)

section \<open>Lesson 42: basic authentication\<close>

definition expected_auth :: string where
  "expected_auth = ''Basic YWRtaW46cGFzc3dvcmQ=''"

definition l42_challenge ::
  "'w session_api \<Rightarrow> 'h header_api \<Rightarrow> ('w, 'h) page_api \<Rightarrow> 'w \<Rightarrow> (pingora_error, unit) outcome \<times> 'w" where
  "l42_challenge api hapi pgapi w =
     try_then
       (built_header api hapi 401
          [(''WWW-Authenticate'', ''Basic realm='' @ dquoted ''PingoraProxy''), (''Content-Length'', ''0'')], w)
       (\<lambda>header w. write_response_header pgapi header True w)"

definition l42_request_filter ::
  "'h header_api \<Rightarrow> ('w, 'h) page_api \<Rightarrow> 'w session_api \<Rightarrow> 'w \<Rightarrow> (pingora_error, bool) outcome \<times> 'w" where
  "l42_request_filter hapi pgapi api w =
     (case req_header api w ''Authorization'' of
        None \<Rightarrow> try_then (l42_challenge api hapi pgapi w) (\<lambda>_ w. (Ok True, w))
      | Some v \<Rightarrow> if v \<noteq> expected_auth then respond_and_stop api 403 w else (Ok False, w))"

definition l42_upstream_peer :: "peer_api \<Rightarrow> 'w pool \<Rightarrow> 'w \<Rightarrow> (pingora_error, http_peer) outcome \<times> 'w" where
  "l42_upstream_peer papi pool w = pool_peer papi pool [] ''Empty upstream pool'' ''basic-auth.cluster'' w"

text \<open>A missing header is answered with the challenge, a wrong one with an error page.\<close>

definition l42_refuse ::
  "'h header_api \<Rightarrow> ('w, 'h) page_api \<Rightarrow> 'w session_api \<Rightarrow> u16 \<Rightarrow> 'w \<Rightarrow> (pingora_error, unit) outcome \<times> 'w" where
  "l42_refuse hapi pgapi api code w =
     (if code = 401 then l42_challenge api hapi pgapi w else respond_error api code w)"

interpretation basic: access_filter "l42_request_filter hapi pgapi" "credential_verdict expected_auth"
  "l42_refuse hapi pgapi" for hapi pgapi
  by unfold_locales
    (simp add: l42_request_filter_def credential_verdict_def l42_refuse_def respond_and_stop_def
      split: option.split)

text \<open>Base 64, for the credentials the constant stands for.\<close>

definition base64_alphabet :: string where
  "base64_alphabet = ''ABCDEFGHIJKLMNOPQRSTUVWXYZabcdefghijklmnopqrstuvwxyz0123456789+/''"

definition sextets :: "nat \<Rightarrow> nat \<Rightarrow> string" where
  "sextets n k = map (\<lambda>i. base64_alphabet ! (n div 64 ^ (3 - i) mod 64)) [0..<k]"

fun base64 :: "string \<Rightarrow> string" where
  "base64 [] = []"
| "base64 [a] = sextets (of_char a * 65536) 2 @ ''==''"
| "base64 [a, b] = sextets (of_char a * 65536 + of_char b * 256) 3 @ ''=''"
| "base64 (a # b # c # s) = sextets (of_char a * 65536 + of_char b * 256 + of_char c) 4 @ base64 s"

lemma expected_auth_base64: "expected_auth = ''Basic '' @ base64 ''admin:password''"
  by (simp add: expected_auth_def base64_alphabet_def sextets_def upt_rec)

lemma l42_passes_iff:
  "fst (l42_request_filter hapi pgapi api w) = Ok False \<longleftrightarrow>
   req_header api w ''Authorization'' = Some (''Basic '' @ base64 ''admin:password'')"
  unfolding basic.passes_iff expected_auth_base64 [symmetric]
  by (simp add: credential_verdict_def split: option.split)

section \<open>The header check of lesson 40\<close>

definition l40_verdict :: "'w session_api \<Rightarrow> 'w \<Rightarrow> (pingora_error, u16 option) outcome" where
  "l40_verdict api w =
     Ok (case Option.bind (Option.bind (req_header api w ''content-length'') (header_to_str api)) parse_usize of
           None \<Rightarrow> None
         | Some len \<Rightarrow> if l40_max_body_size < len then Some 413 else None)"

interpretation size_check: access_filter l40_request_filter l40_verdict respond_error
  by unfold_locales
    (simp add: l40_request_filter_def l40_verdict_def respond_and_stop_def split: option.split)

lemma l40_admits: "fst (l40_request_filter api w) = Ok False \<longleftrightarrow> l40_verdict api w = Ok None"
  by (rule size_check.passes_iff)

end
