(* ===== verification/Lesson_Forward.thy ===== *)
theory Lesson_Forward
  imports Lesson_Access
begin

text \<open>
  The lessons that forward every request, each with another kind of peer: \<^verbatim>\<open>06_simple_forward\<close>,
  \<^verbatim>\<open>07_tls_termination\<close>, \<^verbatim>\<open>14_http2_support\<close>, \<^verbatim>\<open>15_h2c_support\<close>, \<^verbatim>\<open>16_static_peer\<close>,
  \<^verbatim>\<open>17_dns_peer\<close>, \<^verbatim>\<open>18_uds_peer\<close>, \<^verbatim>\<open>21_mutual_tls\<close>, \<^verbatim>\<open>23_websocket_upgrade\<close>, \<^verbatim>\<open>24_grpc_proxy\<close>,
  \<^verbatim>\<open>25_connection_reuse\<close>, \<^verbatim>\<open>26_round_robin\<close> and \<^verbatim>\<open>27_weighted_lb\<close>; and the smoothed rate limit of
  \<^verbatim>\<open>37_sliding_window\<close>.
\<close>

section \<open>Fixed peers\<close>

definition l06_upstream_peer :: "peer_api \<Rightarrow> 'w \<Rightarrow> (pingora_error, http_peer) outcome \<times> 'w" where
  "l06_upstream_peer papi = fixed_peer papi (''172.28.0.20'', 8080) False ''blue.pingora.local''"

text \<open>The result of the insertion is dropped.\<close>

definition l06_upstream_request_filter :: "'h header_api \<Rightarrow> 'h \<Rightarrow> (pingora_error, unit) outcome \<times> 'h" where
  "l06_upstream_request_filter hapi h = ignore_result (insert_header hapi ''Host'' ''blue.pingora.local'' h)"

definition l07_upstream_peer :: "peer_api \<Rightarrow> 'w \<Rightarrow> (pingora_error, http_peer) outcome \<times> 'w" where
  "l07_upstream_peer papi = fixed_peer papi (''172.28.0.20'', 8080) False ''blue.pingora.local''"

text \<open>A peer with options set after it is built.\<close>

definition adjusted_peer ::
  "(pingora_error, http_peer) outcome \<times> 'w \<Rightarrow> (http_peer \<Rightarrow> http_peer) \<Rightarrow> (pingora_error, http_peer) outcome \<times> 'w" where
  "adjusted_peer r f = try_then r (\<lambda>peer w. (Ok (f peer), w))"

definition l14_upstream_peer :: "peer_api \<Rightarrow> 'w \<Rightarrow> (pingora_error, http_peer) outcome \<times> 'w" where
  "l14_upstream_peer papi w =
     adjusted_peer (fixed_peer papi (''172.28.0.22'', 443) True ''advanced.pingora.local'' w)
       (\<lambda>peer. peer\<lparr>p_alpn := H2H1\<rparr>)"

definition l14_upstream_request_filter :: "'h header_api \<Rightarrow> 'h \<Rightarrow> (pingora_error, unit) outcome \<times> 'h" where
  "l14_upstream_request_filter hapi h = insert_header hapi ''Host'' ''advanced.pingora.local'' h"

definition l15_upstream_peer :: "peer_api \<Rightarrow> 'w \<Rightarrow> (pingora_error, http_peer) outcome \<times> 'w" where
  "l15_upstream_peer papi w =
     adjusted_peer (fixed_peer papi (''172.28.0.22'', 8081) False ''advanced.pingora.local'' w)
       (\<lambda>peer. peer\<lparr>p_alpn := H2\<rparr>)"

definition l15_upstream_request_filter :: "'h header_api \<Rightarrow> 'h \<Rightarrow> (pingora_error, unit) outcome \<times> 'h" where
  "l15_upstream_request_filter hapi h = insert_header hapi ''Host'' ''advanced.pingora.local'' h"

definition l16_upstream_peer :: "peer_api \<Rightarrow> 'w \<Rightarrow> (pingora_error, http_peer) outcome \<times> 'w" where
  "l16_upstream_peer papi = fixed_peer papi (''172.28.0.20'', 8080) False ''blue.pingora.local''"

definition l18_upstream_peer :: "peer_api \<Rightarrow> 'w \<Rightarrow> (pingora_error, http_peer) outcome \<times> 'w" where
  "l18_upstream_peer papi w = (peer_new_uds papi ''/tmp/upstream.sock'' False ''uds.local'', w)"

text \<open>The client certificate is attached for one path only.\<close>

definition l21_upstream_peer ::
  "peer_api \<Rightarrow> 'w session_api \<Rightarrow> cert_ref \<Rightarrow> 'w \<Rightarrow> (pingora_error, http_peer) outcome \<times> 'w" where
  "l21_upstream_peer papi api client_cert w =
     adjusted_peer (fixed_peer papi (''172.28.0.22'', 8443) True ''advanced.pingora.local'' w)
       (\<lambda>peer. if req_path api w = ''/auth'' then peer\<lparr>p_client_cert_key := Some client_cert\<rparr> else peer)"

definition l23_upstream_peer :: "peer_api \<Rightarrow> 'w \<Rightarrow> (pingora_error, http_peer) outcome \<times> 'w" where
  "l23_upstream_peer papi w =
     adjusted_peer (fixed_peer papi (''127.0.0.1'', 9091) False [] w)
       (\<lambda>peer. peer\<lparr>p_read_timeout := None, p_write_timeout := None, p_connection_timeout := Some (from_secs 5)\<rparr>)"

text \<open>The filters of lessons 23 and 24 only look at a header for the log.\<close>

definition l23_upstream_request_filter :: "'h \<Rightarrow> (pingora_error, unit) outcome \<times> 'h" where
  "l23_upstream_request_filter h = (Ok (), h)"

definition l24_upstream_peer :: "peer_api \<Rightarrow> 'w \<Rightarrow> (pingora_error, http_peer) outcome \<times> 'w" where
  "l24_upstream_peer papi w =
     adjusted_peer (fixed_peer papi (''172.28.0.23'', 9001) True ''grpc.pingora.local'' w)
       (\<lambda>peer. peer\<lparr>p_alpn := H2\<rparr>)"

definition l24_upstream_request_filter :: "'h \<Rightarrow> (pingora_error, unit) outcome \<times> 'h" where
  "l24_upstream_request_filter h = (Ok (), h)"

section \<open>Lesson 17: a resolved peer\<close>

text \<open>The first address the lookup returns.\<close>

definition l17_upstream_peer ::
  "(string \<Rightarrow> 'w \<Rightarrow> (string + inet_addr list) \<times> 'w) \<Rightarrow>
   (inet_addr \<Rightarrow> bool \<Rightarrow> string \<Rightarrow> (pingora_error, http_peer) outcome) \<Rightarrow> 'w \<Rightarrow>
   (pingora_error, http_peer) outcome \<times> 'w" where
  "l17_upstream_peer lookup_host peer_of_addr w =
     (let hostname = ''blue.pingora.local''; target = hostname @ '':'' @ dec_string 8080
      in case lookup_host target w of
           (Inl e, w) \<Rightarrow> (Err (new_error (ET_Custom ''DNSResolutionFailed'')), w)
         | (Inr [], w) \<Rightarrow> (Err (new_error (ET_Custom ''DNSNoRecords'')), w)
         | (Inr (addr # addrs), w) \<Rightarrow> (peer_of_addr addr False hostname, w))"

section \<open>Lesson 25: reuse of connections\<close>

record l25_ctx =
  is_reused :: bool

definition l25_new_ctx :: l25_ctx where
  "l25_new_ctx = \<lparr>is_reused = False\<rparr>"

definition l25_upstream_peer :: "peer_api \<Rightarrow> 'w \<Rightarrow> (pingora_error, http_peer) outcome \<times> 'w" where
  "l25_upstream_peer papi w =
     adjusted_peer (fixed_peer papi (''172.28.0.20'', 8080) False ''blue.pingora.local'' w)
       (\<lambda>peer. peer\<lparr>p_idle_timeout := Some (from_secs 30), p_connection_timeout := Some (from_secs 1)\<rparr>)"

definition l25_connected_to_upstream :: "bool \<Rightarrow> l25_ctx \<Rightarrow> (pingora_error, unit) outcome \<times> l25_ctx" where
  "l25_connected_to_upstream reused ctx = (Ok (), ctx\<lparr>is_reused := reused\<rparr>)"

section \<open>Lessons 26 and 27: balanced peers\<close>

definition l26_upstream_peer :: "peer_api \<Rightarrow> 'w pool \<Rightarrow> 'w \<Rightarrow> (pingora_error, http_peer) outcome \<times> 'w" where
  "l26_upstream_peer papi pool w = pool_peer papi pool [] ''Empty upstream pool'' ''upstream'' w"

definition l26_upstream_request_filter :: "'h header_api \<Rightarrow> 'h \<Rightarrow> (pingora_error, unit) outcome \<times> 'h" where
  "l26_upstream_request_filter hapi h = insert_header hapi ''Host'' ''round-robin-cluster'' h"

definition l27_upstream_peer :: "peer_api \<Rightarrow> 'w pool \<Rightarrow> 'w \<Rightarrow> (pingora_error, http_peer) outcome \<times> 'w" where
  "l27_upstream_peer papi pool w = pool_peer papi pool [] ''Empty upstream pool'' ''weighted.upstream'' w"

definition l27_upstream_request_filter :: "'h header_api \<Rightarrow> 'h \<Rightarrow> (pingora_error, unit) outcome \<times> 'h" where
  "l27_upstream_request_filter hapi h = insert_header hapi ''Host'' ''weighted-cluster'' h"

section \<open>Lesson 37: a smoothed rate\<close>

text \<open>
  The estimator is observed and then asked for its rate, a floating-point number; the type of such
  numbers, their order and the constant 5.0 are parameters.
\<close>

record ('r, 'f) rate_api =
  rate_observe :: "ip_addr \<Rightarrow> nat \<Rightarrow> 'r \<Rightarrow> 'r"
  current_rate :: "ip_addr \<Rightarrow> 'r \<Rightarrow> 'f"
  exceeds :: "'f \<Rightarrow> bool"

definition l37_request_filter ::
  "'w session_api \<Rightarrow> ('r, 'f) rate_api \<Rightarrow> 'w \<times> 'r \<Rightarrow> (pingora_error, bool) outcome \<times> 'w \<times> 'r" where
  "l37_request_filter api limiter_api s =
     (let (w, limiter) = s
      in try_then (unwrap_client_ip api w, s) (\<lambda>client s.
           case client of
             None \<Rightarrow> (Ok False, s)
           | Some ip \<Rightarrow>
               (let limiter = rate_observe limiter_api ip 1 limiter
                in if exceeds limiter_api (current_rate limiter_api ip limiter)
                   then (case respond_and_stop api 429 w of (r, w) \<Rightarrow> (r, (w, limiter)))
                   else (Ok False, (w, limiter)))))"

definition l37_upstream_peer :: "peer_api \<Rightarrow> 'w pool \<Rightarrow> 'w \<Rightarrow> (pingora_error, http_peer) outcome \<times> 'w" where
  "l37_upstream_peer papi pool w = pool_peer papi pool [] ''Empty upstream pool'' ''sliding-window.cluster'' w"

text \<open>The requests of one interval, one after the other: which of them pass.\<close>

fun l37_run :: "'w session_api \<Rightarrow> ('r, 'f) rate_api \<Rightarrow> 'w list \<Rightarrow> 'r \<Rightarrow> ('w \<times> bool) list" where
  "l37_run api limiter_api [] r = []"
| "l37_run api limiter_api (w # ws) r =
     (let (d, s) = l37_request_filter api limiter_api (w, r)
      in (w, d = Ok False) # l37_run api limiter_api ws (snd s))"

text \<open>
  As documented, the rate reported is that of the interval before: observing in the current interval
  does not change it.
\<close>

definition past_rate :: "('r, 'f) rate_api \<Rightarrow> bool" where
  "past_rate limiter_api \<longleftrightarrow>
     (\<forall>ip ip' n r. current_rate limiter_api ip (rate_observe limiter_api ip' n r) = current_rate limiter_api ip r)"

lemma l37_filter_cases:
  assumes "past_rate limiter_api"
  shows "(fst (l37_request_filter api limiter_api (w, r)) = Ok False) =
      (case unwrap_client_ip api w of
         Ok None \<Rightarrow> True
       | Ok (Some ip) \<Rightarrow> \<not> exceeds limiter_api (current_rate limiter_api ip r)
       | _ \<Rightarrow> False)"
    and "current_rate limiter_api ip (snd (snd (l37_request_filter api limiter_api (w, r)))) =
      current_rate limiter_api ip r"
  using assms respond_and_stop_not_pass [of api 429 w]
  by (auto simp: l37_request_filter_def past_rate_def Let_def split_def try_then_def
      split: outcome.splits option.splits)

text \<open>
  C25. Lesson 37: what the smoothed limit does within an interval. Every request of an address passes
  or every one is refused, by the rate of the interval before and whatever their number: a client
  that was quiet before can send any number of requests at once, and one that was not gets none
  through.
\<close>

theorem l37_interval:
  assumes "past_rate limiter_api"
  shows "map (\<lambda>(w, passed). passed) (l37_run api limiter_api ws r) =
    map (\<lambda>w. case unwrap_client_ip api w of
       Ok None \<Rightarrow> True
     | Ok (Some ip) \<Rightarrow> \<not> exceeds limiter_api (current_rate limiter_api ip r)
     | _ \<Rightarrow> False) ws"
proof (induction ws arbitrary: r)
  case (Cons w ws)
  from Cons.IH [of "snd (snd (l37_request_filter api limiter_api (w, r)))"] show ?case
    by (simp add: split_def l37_filter_cases [OF assms] split: outcome.split option.split)
qed simp

text \<open>A rate per address that observation leaves alone.\<close>

definition steady_rates :: "(ip_addr \<Rightarrow> nat, nat) rate_api" where
  "steady_rates = \<lparr>rate_observe = (\<lambda>ip n r. r), current_rate = (\<lambda>ip r. r ip), exceeds = (\<lambda>f. 5 < f)\<rparr>"

theorem l37_interval_witness:
  "map (\<lambda>(w, passed). passed)
     (l37_run sample_api steady_rates (replicate 100 (sample_request ''/'' [])) (\<lambda>_. 5)) = replicate 100 True"
  using l37_interval [of steady_rates sample_api "replicate 100 (sample_request ''/'' [])" "\<lambda>_. 5"]
  by (simp add: past_rate_def steady_rates_def map_replicate unwrap_client_ip_def sample_request_def
      del: replicate_Suc)

end
