(* ===== verification/Loops.thy ===== *)
theory Loops
  imports Prelude
begin

text \<open>
  Loops that may run for ever. Each is a partial function; what they have in common is that a round
  either ends the loop with a result or leads to the next round. Under a measure of the rounds that
  are left, such a loop returns, and an invariant of its rounds gives a property of its result.
\<close>

locale round_loop =
  fixes loop :: "'s \<Rightarrow> 'r option" and step :: "'s \<Rightarrow> 'r + 's"
  assumes unfold_loop: "loop s = (case step s of Inl r \<Rightarrow> Some r | Inr s' \<Rightarrow> loop s')"
begin

lemma returns:
  assumes "I s"
    and "\<And>s s'. I s \<Longrightarrow> step s = Inr s' \<Longrightarrow> I s' \<and> rounds s' < (rounds s :: nat)"
    and "\<And>s r. I s \<Longrightarrow> step s = Inl r \<Longrightarrow> P r"
  shows "\<exists>r. loop s = Some r \<and> P r"
  using assms(1)
proof (induction "rounds s" arbitrary: s rule: less_induct)
  case less
  show ?case
  proof (cases "step s")
    case (Inl r)
    with less.prems assms(3) [of s r] show ?thesis
      by (simp add: unfold_loop [of s])
  next
    case (Inr s')
    with less.prems assms(2) [of s s'] less.hyps [of s'] show ?thesis
      by (simp add: unfold_loop [of s])
  qed
qed

end

end
