(* ===== verification/Lesson_Websocket.thy ===== *)
theory Lesson_Websocket
  imports Lesson_Forward Loops
begin

text \<open>
  The two ends of \<^verbatim>\<open>23_websocket_upgrade\<close> (the proxy between them is in \<open>Lesson_Forward\<close>): the echo
  server behind the proxy and the client that tests it. A WebSocket is a parameter: the messages it
  yields and takes, each call with its error's text. The server's loop, which ends when its client does,
  is a partial function.
\<close>

section \<open>The server\<close>

datatype ws_msg = WsText string | WsOther string

record 'w ws_api =
  ws_accept :: "'w \<Rightarrow> (string + unit) \<times> 'w"
  ws_next :: "'w \<Rightarrow> (string + ws_msg) option \<times> 'w"
  ws_send :: "ws_msg \<Rightarrow> 'w \<Rightarrow> (string + unit) \<times> 'w"
  ws_close :: "'w \<Rightarrow> (string + unit) \<times> 'w"
  local_time :: "'w \<Rightarrow> string"

text \<open>\<^verbatim>\<open>expect\<close> and \<^verbatim>\<open>unwrap\<close> of a result: the value, or a panic with the error.\<close>

definition expect_result :: "string \<Rightarrow> (string + 'a) \<times> 'w \<Rightarrow> (unit, 'a) outcome \<times> 'w" where
  "expect_result msg r =
     (case r of (Inr a, w) \<Rightarrow> (Ok a, w) | (Inl e, w) \<Rightarrow> (Panic (msg @ '': '' @ e), w))"

definition unwrap_result :: "(string + 'a) \<times> 'w \<Rightarrow> (unit, 'a) outcome \<times> 'w" where
  "unwrap_result r = expect_result ''called `Result::unwrap()` on an `Err` value'' r"

lemma expect_result_simps [simp, outcome_simps]:
  "expect_result msg (Inr a, w) = (Ok a, w)"
  "expect_result msg (Inl e, w) = (Panic (msg @ '': '' @ e), w)"
  "unwrap_result (Inr a, w) = (Ok a, w)"
  by (simp_all add: expect_result_def unwrap_result_def)

definition echo_text :: "string \<Rightarrow> string \<Rightarrow> string" where
  "echo_text time msg = ''Echo ['' @ time @ '']: '' @ msg"

text \<open>The body of the loop, for one message.\<close>

definition echo_reply :: "'w ws_api \<Rightarrow> ws_msg \<Rightarrow> 'w \<Rightarrow> (unit, unit) outcome \<times> 'w" where
  "echo_reply wapi msg w =
     (case msg of
        WsText msg \<Rightarrow> unwrap_result (ws_send wapi (WsText (echo_text (local_time wapi w) msg)) w)
      | WsOther bytes \<Rightarrow> (Ok (), w))"

definition ws_round :: "'w ws_api \<Rightarrow> 'w \<Rightarrow> (unit, unit) outcome \<times> 'w + 'w" where
  "ws_round wapi w =
     (case ws_next wapi w of
        (None, w) \<Rightarrow> Inl (Ok (), w)
      | (Some msg, w) \<Rightarrow>
          (case try_then (expect_result ''Error reading message.'' (msg, w)) (echo_reply wapi) of
             (Ok u, w) \<Rightarrow> Inr w
           | (Err e, w) \<Rightarrow> Inl (Err e, w)
           | (Panic p, w) \<Rightarrow> Inl (Panic p, w)))"

partial_function (option) ws_loop :: "'w ws_api \<Rightarrow> 'w \<Rightarrow> ((unit, unit) outcome \<times> 'w) option" where
  "ws_loop wapi w = (case ws_round wapi w of Inl r \<Rightarrow> Some r | Inr w \<Rightarrow> ws_loop wapi w)"

interpretation ws: round_loop "ws_loop wapi" "ws_round wapi"
  by (rule round_loop.intro) (rule ws_loop.simps)

definition ws_serve :: "'w ws_api \<Rightarrow> 'w \<Rightarrow> ((unit, unit) outcome \<times> 'w) option" where
  "ws_serve wapi w =
     (case expect_result ''Failed to accept WS'' (ws_accept wapi w) of
        (Ok u, w) \<Rightarrow> ws_loop wapi w
      | (Err e, w) \<Rightarrow> Some (Err e, w)
      | (Panic p, w) \<Rightarrow> Some (Panic p, w))"

text \<open>
  A healthy socket: the messages its client still sends before it closes, and what it was sent.
\<close>

definition healthy_socket :: "'w ws_api \<Rightarrow> ('w \<Rightarrow> ws_msg list) \<Rightarrow> ('w \<Rightarrow> ws_msg list) \<Rightarrow> bool" where
  "healthy_socket wapi inbox sent \<longleftrightarrow>
     (\<forall>w. \<exists>w'. ws_accept wapi w = (Inr (), w') \<and> inbox w' = inbox w \<and> sent w' = sent w) \<and>
     (\<forall>w. inbox w = [] \<longrightarrow> (\<exists>w'. ws_next wapi w = (None, w') \<and> sent w' = sent w)) \<and>
     (\<forall>w m ms. inbox w = m # ms \<longrightarrow>
       (\<exists>w'. ws_next wapi w = (Some (Inr m), w') \<and> inbox w' = ms \<and> sent w' = sent w)) \<and>
     (\<forall>w m. \<exists>w'. ws_send wapi m w = (Inr (), w') \<and> inbox w' = inbox w \<and> sent w' = sent w @ [m])"

text \<open>The texts among the messages, and the replies to texts at given times.\<close>

fun texts :: "ws_msg list \<Rightarrow> string list" where
  "texts [] = []"
| "texts (WsText t # ms) = t # texts ms"
| "texts (WsOther b # ms) = texts ms"

definition replies :: "string list \<Rightarrow> string list \<Rightarrow> ws_msg list" where
  "replies clock ts = map2 (\<lambda>time t. WsText (echo_text time t)) clock ts"

lemma echo_reply_healthy:
  assumes "healthy_socket wapi inbox sent"
  obtains w' clock where "echo_reply wapi m w = (Ok (), w')" and "inbox w' = inbox w"
    and "length clock = length (texts [m])" and "sent w' = sent w @ replies clock (texts [m])"
proof (cases m)
  case (WsText t)
  from assms obtain w' where "ws_send wapi (WsText (echo_text (local_time wapi w) t)) w = (Inr (), w')"
    and "inbox w' = inbox w" and "sent w' = sent w @ [WsText (echo_text (local_time wapi w) t)]"
    unfolding healthy_socket_def by blast
  then show thesis
    by (intro that [of w' "[local_time wapi w]"]) (simp_all add: echo_reply_def WsText replies_def)
next
  case (WsOther b)
  then show thesis
    by (intro that [of w "[]"]) (simp_all add: echo_reply_def replies_def)
qed

lemma replies_append:
  "length clock = length ts \<Longrightarrow> replies (clock @ clock') (ts @ ts') = replies clock ts @ replies clock' ts'"
  by (simp add: replies_def)

lemma ws_round_healthy:
  assumes healthy: "healthy_socket wapi inbox sent"
  shows "case ws_round wapi w of
      Inl r \<Rightarrow> inbox w = [] \<and> fst r = Ok () \<and> sent (snd r) = sent w
    | Inr w' \<Rightarrow> \<exists>m clock. inbox w = m # inbox w' \<and> length clock = length (texts [m]) \<and>
        sent w' = sent w @ replies clock (texts [m])"
proof (cases "inbox w")
  case Nil
  with healthy obtain w' where "ws_next wapi w = (None, w')" and "sent w' = sent w"
    unfolding healthy_socket_def by metis
  with Nil show ?thesis
    by (simp add: ws_round_def)
next
  case (Cons m ms)
  with healthy obtain w1 where step: "ws_next wapi w = (Some (Inr m), w1)"
    and w1: "inbox w1 = ms" "sent w1 = sent w"
    unfolding healthy_socket_def by metis
  from healthy obtain w2 clock where "echo_reply wapi m w1 = (Ok (), w2)" and "inbox w2 = inbox w1"
    and "length clock = length (texts [m])" and "sent w2 = sent w1 @ replies clock (texts [m])"
    by (rule echo_reply_healthy)
  with Cons w1 show ?thesis
    by (auto simp: ws_round_def step)
qed

text \<open>What has been sent and what is still to be answered, against the messages there were.\<close>

definition answered :: "('w \<Rightarrow> ws_msg list) \<Rightarrow> ('w \<Rightarrow> ws_msg list) \<Rightarrow> 'w \<Rightarrow> 'w \<Rightarrow> bool" where
  "answered inbox sent w v \<longleftrightarrow>
     (\<exists>ms clock. inbox w = ms @ inbox v \<and> length clock = length (texts ms) \<and>
        sent v = sent w @ replies clock (texts ms))"

lemma texts_append: "texts (ms @ ms') = texts ms @ texts ms'"
  by (induction ms rule: texts.induct) simp_all

lemma answered_next:
  assumes "answered inbox sent w v" and "inbox v = m # inbox v'" and "length clock = length (texts [m])"
    and "sent v' = sent v @ replies clock (texts [m])"
  shows "answered inbox sent w v'"
proof -
  from assms(1) obtain ms clock0 where "inbox w = ms @ inbox v" and len: "length clock0 = length (texts ms)"
    and "sent v = sent w @ replies clock0 (texts ms)"
    by (auto simp: answered_def)
  with assms(2-4) show ?thesis
    unfolding answered_def
    by (intro exI [of _ "ms @ [m]"] exI [of _ "clock0 @ clock"]) (simp add: texts_append replies_append)
qed

lemma ws_loop_echoes:
  assumes healthy: "healthy_socket wapi inbox sent"
  shows "\<exists>r. ws_loop wapi w = Some r \<and> fst r = Ok () \<and> (\<exists>clock. length clock = length (texts (inbox w)) \<and>
    sent (snd r) = sent w @ replies clock (texts (inbox w)))"
proof (rule ws.returns [where I = "answered inbox sent w" and rounds = "length \<circ> inbox"])
  show "answered inbox sent w w"
    by (auto simp: answered_def replies_def intro!: exI [of _ "[]"])
  fix v v' r
  assume inv: "answered inbox sent w v"
  note round = ws_round_healthy [OF healthy, of v]
  show "answered inbox sent w v' \<and> (length \<circ> inbox) v' < (length \<circ> inbox) v" if "ws_round wapi v = Inr v'"
    using round answered_next [OF inv] by (auto simp: that)
  show "fst r = Ok () \<and> (\<exists>clock. length clock = length (texts (inbox w)) \<and>
      sent (snd r) = sent w @ replies clock (texts (inbox w)))" if "ws_round wapi v = Inl r"
    using round inv by (auto simp: that answered_def)
qed

text \<open>
  Lesson 23: the echo server answers every text, in order, with the time and the text, ignores
  messages of other kinds, and ends when its client does.
\<close>

theorem l23_echoes:
  assumes "healthy_socket wapi inbox sent"
  shows "\<exists>w' clock. ws_serve wapi w = Some (Ok (), w') \<and> length clock = length (texts (inbox w)) \<and>
    sent w' = sent w @ replies clock (texts (inbox w))"
proof -
  from assms obtain w1 where "ws_accept wapi w = (Inr (), w1)" and "inbox w1 = inbox w" "sent w1 = sent w"
    unfolding healthy_socket_def by blast
  with ws_loop_echoes [OF assms, of w1] show ?thesis
    by (auto simp: ws_serve_def)
qed

section \<open>The client\<close>

text \<open>
  What it prints of each reply is its result; a reply that is not text may still decode
  (\<open>to_text\<close>). The waits between its steps are left out.
\<close>

fun ping_rounds ::
  "'w ws_api \<Rightarrow> (ws_msg \<Rightarrow> string + string) \<Rightarrow> nat list \<Rightarrow> string list \<Rightarrow> 'w \<Rightarrow> (unit, string list) outcome \<times> 'w" where
  "ping_rounds wapi to_text [] seen w = (Ok seen, w)"
| "ping_rounds wapi to_text (i # rest) seen w =
     try_then (expect_result ''Failed to send'' (ws_send wapi (WsText (''Ping #'' @ dec_string i)) w)) (\<lambda>u w.
       case ws_next wapi w of
         (None, w) \<Rightarrow> ping_rounds wapi to_text rest seen w
       | (Some resp, w) \<Rightarrow>
           try_then (expect_result ''Failed to read response'' (resp, w)) (\<lambda>resp_msg w.
           try_then (unwrap_result (to_text resp_msg, w)) (\<lambda>t w.
             ping_rounds wapi to_text rest (seen @ [t]) w)))"

definition run_test_client ::
  "('w \<Rightarrow> (string + unit) \<times> 'w) \<Rightarrow> 'w ws_api \<Rightarrow> (ws_msg \<Rightarrow> string + string) \<Rightarrow> 'w \<Rightarrow>
   (unit, string list) outcome \<times> 'w" where
  "run_test_client connect wapi to_text w =
     try_then (expect_result ''Failed to connect to proxy.'' (connect w)) (\<lambda>u w.
     try_then (ping_rounds wapi to_text [1, 2, 3] [] w) (\<lambda>seen w.
     try_then (unwrap_result (ws_close wapi w)) (\<lambda>u w. (Ok seen, w))))"

section \<open>Both ends together\<close>

text \<open>
  A world in which the proxy passes messages on unchanged: those on their way to the client. The
  server is the loop body above; what the client sends it handles at once.
\<close>

definition server_end :: "(string \<times> ws_msg list) ws_api" where
  "server_end =
     \<lparr>ws_accept = (\<lambda>w. (Inr (), w)), ws_next = (\<lambda>w. (None, w)),
      ws_send = (\<lambda>m (time, ms). (Inr (), (time, ms @ [m]))), ws_close = (\<lambda>w. (Inr (), w)), local_time = fst\<rparr>"

definition client_end :: "(string \<times> ws_msg list) ws_api" where
  "client_end =
     \<lparr>ws_accept = (\<lambda>w. (Inr (), w)),
      ws_next = (\<lambda>(time, ms). case ms of [] \<Rightarrow> (None, (time, ms)) | m # ms \<Rightarrow> (Some (Inr m), (time, ms))),
      ws_send = (\<lambda>m w. (Inr (), snd (echo_reply server_end m w))),
      ws_close = (\<lambda>w. (Inr (), w)), local_time = fst\<rparr>"

definition text_of :: "ws_msg \<Rightarrow> string + string" where
  "text_of m = (case m of WsText t \<Rightarrow> Inr t | WsOther b \<Rightarrow> Inl ''utf-8'')"

lemma ping_round_trip:
  "ping_rounds client_end text_of is seen (time, []) =
     (Ok (seen @ map (\<lambda>i. echo_text time (''Ping #'' @ dec_string i)) is), (time, []))"
  by (induction "is" arbitrary: seen)
     (simp_all add: client_end_def server_end_def echo_reply_def text_of_def)

text \<open>
  Lesson 23: client and server agree. The test client sees each of its three pings come back under
  the server's time, in order, and closes without a failure.
\<close>

theorem l23_conversation:
  "run_test_client (\<lambda>w. (Inr (), w)) client_end text_of (time, []) =
     (Ok (map (\<lambda>i. echo_text time (''Ping #'' @ dec_string i)) [1, 2, 3]), (time, []))"
proof -
  have "ws_close client_end w = (Inr (), w)" for w
    by (simp add: client_end_def)
  then show ?thesis
    by (simp add: run_test_client_def ping_round_trip del: ping_rounds.simps)
qed

end
