(* ===== verification/Lesson_Discovery.thy ===== *)
theory Lesson_Discovery
  imports Lesson_Base Factory
begin

text \<open>
  The lessons whose pool of backends changes at run time: \<^verbatim>\<open>34_service_discovery_file\<close> reads it from
  a file, \<^verbatim>\<open>35_dynamic_reconfiguration\<close> swaps it through an admin port, \<^verbatim>\<open>30\<close>, \<^verbatim>\<open>31\<close> and
  \<^verbatim>\<open>32_custom_health_check\<close> probe it. The admin tasks of lesson 35 run concurrently with each other and
  with the balancer's discovery; they are a step relation whose steps are the accesses to the shared
  set, with the lock of \<^verbatim>\<open>tokio\<close> granted to a writer or a reader only when no writer holds it.
\<close>

section \<open>Lesson 34: backends from a file\<close>

fun l34_insert_lines ::
  "(string \<Rightarrow> string + inet_addr list) \<Rightarrow> string list \<Rightarrow> backend set \<Rightarrow> backend set" where
  "l34_insert_lines resolve [] upstreams = upstreams"
| "l34_insert_lines resolve (l # ls) upstreams =
     (let line = utrim l
      in if line = [] \<or> starts_with line ''#'' then l34_insert_lines resolve ls upstreams
         else (case resolve line of
                 Inr (addr # addrs) \<Rightarrow> l34_insert_lines resolve ls (insert (backend_of 1 addr) upstreams)
               | _ \<Rightarrow> l34_insert_lines resolve ls upstreams))"

definition l34_discover ::
  "(string \<Rightarrow> 'w \<Rightarrow> (string + string) \<times> 'w) \<Rightarrow> (string \<Rightarrow> string + inet_addr list) \<Rightarrow> string \<Rightarrow> 'w \<Rightarrow>
   (pingora_error + backend set \<times> (u64 \<rightharpoonup> bool)) \<times> 'w" where
  "l34_discover read_to_string resolve path w =
     (case read_to_string path w of
        (Inl e, w) \<Rightarrow> (Inl (explain ET_InternalError e), w)
      | (Inr contents, w) \<Rightarrow> (Inr (l34_insert_lines resolve (str_lines contents) {}, Map.empty), w))"

definition l34_upstream_peer :: "peer_api \<Rightarrow> 'w pool \<Rightarrow> 'w \<Rightarrow> (pingora_error, http_peer) outcome \<times> 'w" where
  "l34_upstream_peer papi pool w = pool_peer papi pool [] ''Empty upstream pool'' ''file-discovery.cluster'' w"

definition l34_upstream_request_filter :: "'h header_api \<Rightarrow> 'h \<Rightarrow> (pingora_error, unit) outcome \<times> 'h" where
  "l34_upstream_request_filter hapi h = insert_header hapi ''Host'' ''file-discovery-cluster'' h"

text \<open>The backend a line stands for.\<close>

definition line_backend :: "(string \<Rightarrow> string + inet_addr list) \<Rightarrow> string \<Rightarrow> backend \<Rightarrow> bool" where
  "line_backend resolve l b \<longleftrightarrow>
     utrim l \<noteq> [] \<and> \<not> starts_with (utrim l) ''#'' \<and>
     (\<exists>addr addrs. resolve (utrim l) = Inr (addr # addrs) \<and> b = backend_of 1 addr)"

lemma l34_insert_lines_iff:
  "b \<in> l34_insert_lines resolve ls upstreams \<longleftrightarrow> b \<in> upstreams \<or> (\<exists>l \<in> set ls. line_backend resolve l b)"
  by (induction resolve ls upstreams rule: l34_insert_lines.induct)
    (auto simp: line_backend_def Let_def split: sum.splits list.splits)

text \<open>
  Lesson 34: the pool after a refresh is exactly what the file names. A refresh fails only when
  the file cannot be read; otherwise its backends are the first addresses of the lines that are
  neither blank nor comments and that resolve, each with weight 1, and a line that does not resolve
  costs nothing but itself.
\<close>

theorem l34_file_backends:
  "fst (l34_discover read_to_string resolve path w) =
     (case fst (read_to_string path w) of
        Inl e \<Rightarrow> Inl (explain ET_InternalError e)
      | Inr contents \<Rightarrow> Inr ({b. \<exists>l \<in> set (str_lines contents). line_backend resolve l b}, Map.empty))"
  by (auto simp: l34_discover_def l34_insert_lines_iff split: prod.split sum.split)

section \<open>Lesson 35: hot swap\<close>

text \<open>\<^verbatim>\<open>str::find\<close>: where the pattern first occurs.\<close>

fun find_str :: "string \<Rightarrow> string \<Rightarrow> nat option" where
  "find_str p [] = (if p = [] then Some 0 else None)"
| "find_str p (c # cs) = (if starts_with (c # cs) p then Some 0 else map_option Suc (find_str p cs))"

definition crlf2 :: string where
  "crlf2 = [CHR 0x0D, CHR 0x0A, CHR 0x0D, CHR 0x0A]"

definition admin_body :: "string \<Rightarrow> string" where
  "admin_body req_str =
     (case find_str crlf2 req_str of
        Some idx \<Rightarrow> utrim (drop (idx + 4) req_str)
      | None \<Rightarrow> utrim req_str)"

text \<open>What one read of an admin connection leads to: nothing, an answer, or a new backend.\<close>

datatype admin_action = Ignore | Refuse string | Swap inet_addr

definition bad_request :: "string \<Rightarrow> string" where
  "bad_request text = ''HTTP/1.1 400 Bad Request'' @ crlf2 @ text"

definition decide_admin :: "(string \<Rightarrow> string + inet_addr list) \<Rightarrow> string \<Rightarrow> admin_action" where
  "decide_admin resolve bytes =
     (if bytes = [] then Ignore
      else (let body = admin_body (utf8_lossy bytes)
            in if body = [] then Ignore
               else (case resolve body of
                       Inr (new_addr # addrs) \<Rightarrow> Swap new_addr
                     | Inr [] \<Rightarrow> Refuse (bad_request ''Invalid IP'')
                     | Inl e \<Rightarrow> Refuse (bad_request ''Parse Error''))))"

definition ok_response :: string where
  "ok_response = ''HTTP/1.1 200 OK'' @ [CHR 0x0D, CHR 0x0A] @ ''Content-Length: 2'' @ crlf2 @ ''OK''"

text \<open>
  A task handles one connection: it reads, waits for the lock, clears the set, inserts the backend,
  answers while still holding the lock, and ends.
\<close>

datatype admin_task =
    Reading
  | Waiting inet_addr
  | Clearing inet_addr
  | Inserting inet_addr
  | Answering inet_addr
  | Finished "string option"

fun holds_lock :: "admin_task \<Rightarrow> bool" where
  "holds_lock (Clearing a) = True"
| "holds_lock (Inserting a) = True"
| "holds_lock (Answering a) = True"
| "holds_lock t = False"

record 't swap_state =
  upstreams :: "backend set"
  tasks :: "'t \<Rightarrow> admin_task"

datatype 't swap_event = Received 't string | Locked 't | Cleared 't | Inserted 't inet_addr | Answered 't | Discovered "backend set"

definition unlocked :: "'t swap_state \<Rightarrow> bool" where
  "unlocked s \<longleftrightarrow> (\<forall>t. \<not> holds_lock (tasks s t))"

definition after_read :: "admin_action \<Rightarrow> admin_task" where
  "after_read a = (case a of Ignore \<Rightarrow> Finished None | Refuse text \<Rightarrow> Finished (Some text) | Swap addr \<Rightarrow> Waiting addr)"

inductive swap_step ::
  "(string \<Rightarrow> string + inet_addr list) \<Rightarrow> 't swap_state \<Rightarrow> 't swap_event \<Rightarrow> 't swap_state \<Rightarrow> bool"
  for resolve where
  received: "tasks s t = Reading \<Longrightarrow>
    swap_step resolve s (Received t bytes) (s\<lparr>tasks := (tasks s)(t := after_read (decide_admin resolve bytes))\<rparr>)"
| locked: "tasks s t = Waiting a \<Longrightarrow> unlocked s \<Longrightarrow>
    swap_step resolve s (Locked t) (s\<lparr>tasks := (tasks s)(t := Clearing a)\<rparr>)"
| cleared: "tasks s t = Clearing a \<Longrightarrow>
    swap_step resolve s (Cleared t) (s\<lparr>upstreams := {}, tasks := (tasks s)(t := Inserting a)\<rparr>)"
| inserted: "tasks s t = Inserting a \<Longrightarrow>
    swap_step resolve s (Inserted t a)
      (s\<lparr>upstreams := insert (backend_of 1 a) (upstreams s), tasks := (tasks s)(t := Answering a)\<rparr>)"
| answered: "tasks s t = Answering a \<Longrightarrow>
    swap_step resolve s (Answered t) (s\<lparr>tasks := (tasks s)(t := Finished (Some ok_response))\<rparr>)"
| discovered: "unlocked s \<Longrightarrow> swap_step resolve s (Discovered (upstreams s)) s"

inductive_cases swap_stepE: "swap_step resolve s e s'"

inductive swap_run ::
  "(string \<Rightarrow> string + inet_addr list) \<Rightarrow> 't swap_state \<Rightarrow> 't swap_event list \<Rightarrow> 't swap_state \<Rightarrow> bool"
  for resolve where
  idle: "swap_run resolve s [] s"
| more: "swap_run resolve s es s' \<Longrightarrow> swap_step resolve s' e s'' \<Longrightarrow> swap_run resolve s (es @ [e]) s''"

definition swap_start :: "inet_addr \<Rightarrow> 't swap_state" where
  "swap_start initial_addr = \<lparr>upstreams = {backend_of 1 initial_addr}, tasks = (\<lambda>_. Reading)\<rparr>"

fun task_addr :: "admin_task \<Rightarrow> inet_addr option" where
  "task_addr (Waiting a) = Some a"
| "task_addr (Clearing a) = Some a"
| "task_addr (Inserting a) = Some a"
| "task_addr (Answering a) = Some a"
| "task_addr t = None"

text \<open>The abstract pool is one address, the one inserted last.\<close>

definition latest :: "inet_addr \<Rightarrow> 't swap_event list \<Rightarrow> inet_addr" where
  "latest initial_addr es = foldl (\<lambda>a e. case e of Inserted t b \<Rightarrow> b | _ \<Rightarrow> a) initial_addr es"

lemma latest_snoc [simp]:
  "latest i [] = i"
  "latest i (es @ [Inserted t b]) = b"
  "latest i (es @ [Received t bytes]) = latest i es"
  "latest i (es @ [Locked t]) = latest i es"
  "latest i (es @ [Cleared t]) = latest i es"
  "latest i (es @ [Answered t]) = latest i es"
  "latest i (es @ [Discovered B]) = latest i es"
  by (simp_all add: latest_def)

definition known :: "(string \<Rightarrow> string + inet_addr list) \<Rightarrow> inet_addr \<Rightarrow> 't swap_event list \<Rightarrow> inet_addr \<Rightarrow> bool" where
  "known resolve i es a \<longleftrightarrow> a = i \<or> (\<exists>t bytes. Received t bytes \<in> set es \<and> decide_admin resolve bytes = Swap a)"

lemma known_snoc: "known resolve i es a \<Longrightarrow> known resolve i (es @ [e]) a"
  by (auto simp: known_def)

text \<open>
  The invariant: one writer at most, only known addresses on their way, and the set is the abstract
  pool except between the two halves of a swap.
\<close>

definition one_writer :: "('t \<Rightarrow> admin_task) \<Rightarrow> bool" where
  "one_writer ts \<longleftrightarrow> (\<forall>t u. holds_lock (ts t) \<longrightarrow> holds_lock (ts u) \<longrightarrow> t = u)"

lemma one_writer_update: "one_writer ts \<Longrightarrow> holds_lock x \<longrightarrow> holds_lock (ts t) \<Longrightarrow> one_writer (ts(t := x))"
  unfolding one_writer_def by (metis fun_upd_apply)

lemma one_writer_lock: "\<forall>t. \<not> holds_lock (ts t) \<Longrightarrow> one_writer (ts(t := x))"
  by (simp add: one_writer_def)

definition swap_inv :: "(inet_addr \<Rightarrow> bool) \<Rightarrow> inet_addr \<Rightarrow> 't swap_state \<Rightarrow> bool" where
  "swap_inv ok cur s \<longleftrightarrow>
     one_writer (tasks s) \<and>
     (\<forall>t a. task_addr (tasks s t) = Some a \<longrightarrow> ok a) \<and> ok cur \<and>
     (\<forall>t a. tasks s t = Inserting a \<longrightarrow> upstreams s = {}) \<and>
     ((\<forall>t a. tasks s t \<noteq> Inserting a) \<longrightarrow> upstreams s = {backend_of 1 cur})"

lemma swap_inv_start: "swap_inv (known resolve i []) i (swap_start i)"
  by (simp add: swap_inv_def swap_start_def known_def one_writer_def)

lemma swap_inv_unlocked:
  assumes "swap_inv ok cur s" and "unlocked s"
  shows "upstreams s = {backend_of 1 cur}"
proof -
  have "tasks s t \<noteq> Inserting a" for t a
    using assms(2) unfolding unlocked_def by (metis holds_lock.simps(2))
  with assms(1) show ?thesis
    by (simp add: swap_inv_def)
qed

lemma swap_inv_weaken: "swap_inv P cur s \<Longrightarrow> (\<And>a. P a \<Longrightarrow> Q a) \<Longrightarrow> swap_inv Q cur s"
  by (auto simp: swap_inv_def)

lemma task_addr_after_read: "task_addr (after_read x) = (case x of Swap a \<Rightarrow> Some a | _ \<Rightarrow> None)"
  by (simp add: after_read_def split: admin_action.split)

lemma holds_after_read [simp]: "\<not> holds_lock (after_read x)" "after_read x \<noteq> Inserting a"
  by (simp_all add: after_read_def split: admin_action.split)

lemma swap_inv_step:
  assumes "swap_step resolve s e s'" and "swap_inv (known resolve i es) (latest i es) s"
  shows "swap_inv (known resolve i (es @ [e])) (latest i (es @ [e])) s'"
proof -
  have inv: "swap_inv (known resolve i (es @ [e])) (latest i es) s"
    by (rule swap_inv_weaken [OF assms(2)]) (rule known_snoc)
  have addr: "known resolve i (es @ [e]) a" if "task_addr (tasks s t) = Some a" for t a
    using inv that by (simp add: swap_inv_def)
  have excl: "u = t" if "holds_lock (tasks s t)" and "tasks s u = Inserting b" for u t b
    using inv that unfolding swap_inv_def one_writer_def by (metis holds_lock.simps(2))
  show ?thesis
    using assms(1)
  proof cases
    case (received t bytes)
    have "known resolve i (es @ [e]) a" if "decide_admin resolve bytes = Swap a" for a
      using that received(1) by (auto simp: known_def)
    moreover have "tasks s u = Inserting a \<longrightarrow> u \<noteq> t" for u a
      using received(3) by auto
    ultimately show ?thesis
      using inv received by (auto simp: swap_inv_def task_addr_after_read one_writer_update split: admin_action.splits) metis+
  next
    case (locked t a)
    moreover from \<open>unlocked s\<close> have "tasks s u \<noteq> Inserting b" for u b
      unfolding unlocked_def by (metis holds_lock.simps(2))
    ultimately show ?thesis
      using inv addr [of t a] by (auto simp: swap_inv_def unlocked_def one_writer_lock)
  next
    case (cleared t a)
    with excl [of t] have "\<forall>u b. u \<noteq> t \<longrightarrow> tasks s u \<noteq> Inserting b"
      by auto
    with cleared show ?thesis
      using inv addr [of t a] by (auto simp: swap_inv_def one_writer_update)
  next
    case (inserted t a)
    with inv have empty: "upstreams s = {}"
      unfolding swap_inv_def by blast
    have "one_writer (tasks s')"
      using inv inserted by (simp add: swap_inv_def one_writer_update)
    moreover have "known resolve i (es @ [e]) b" if "task_addr (tasks s' u) = Some b" for u b
      using that addr [of u b] addr [of t a] inserted by (simp split: if_splits)
    moreover have "tasks s' u \<noteq> Inserting b" for u b
      using excl [of t u b] inserted by auto
    ultimately show ?thesis
      using inserted addr [of t a] empty by (simp add: swap_inv_def)
  next
    case (answered t a)
    have "tasks s u \<noteq> Inserting b" for u b
      using excl [of t u b] answered by auto
    with answered show ?thesis
      using inv addr [of t a] by (auto simp: swap_inv_def one_writer_update)
  next
    case discovered
    then show ?thesis
      using inv by simp
  qed
qed

lemma swap_inv_run:
  "swap_run resolve (swap_start i) es s \<Longrightarrow> swap_inv (known resolve i es) (latest i es) s"
proof (induction "swap_start i :: 'a swap_state" es s rule: swap_run.induct)
  case idle
  then show ?case
    by (simp add: swap_inv_start)
next
  case (more es s' e s'')
  then show ?case
    by (intro swap_inv_step)
qed

text \<open>
  C23. Lesson 35: a swap is atomic. However the steps of any number of admin connections interleave
  with each other and with the balancer's discovery, a discovery sees exactly one backend, never the
  cleared set, and it is the one inserted last; its address is the initial one or was posted to the
  admin port.
\<close>

theorem l35_swap_atomic:
  assumes "swap_run resolve (swap_start i) (es @ [Discovered B]) s"
  shows "B = {backend_of 1 (latest i es)} \<and> known resolve i es (latest i es)"
  using assms
proof cases
  case (more es' s' e)
  then have run: "swap_run resolve (swap_start i) es s'" and "swap_step resolve s' (Discovered B) s"
    by simp_all
  from swap_inv_run [OF run] have inv: "swap_inv (known resolve i es) (latest i es) s'" .
  from \<open>swap_step resolve s' (Discovered B) s\<close> have "B = upstreams s'" and "unlocked s'"
    by (auto elim: swap_stepE)
  with inv swap_inv_unlocked [OF inv] show ?thesis
    by (simp add: swap_inv_def)
qed simp

text \<open>One admin connection that swaps the backend for the one it names.\<close>

definition green_addr :: inet_addr where
  "green_addr = SocketAddr (V4 2887516181) 8080"

definition swap_resolve :: "string \<Rightarrow> string + inet_addr list" where
  "swap_resolve s = (if s = ''green:8080'' then Inr [green_addr] else Inl ''no such host'')"

definition swap_request :: string where
  "swap_request = ''POST / HTTP/1.1'' @ crlf2 @ ''green:8080''"

lemma sample_admin: "decide_admin swap_resolve swap_request = Swap green_addr"
proof -
  have "admin_body (utf8_lossy swap_request) = ''green:8080''"
    by code_simp
  then show ?thesis
    by (simp add: decide_admin_def swap_resolve_def) (simp add: swap_request_def)
qed

definition sample_trace :: "nat swap_event list" where
  "sample_trace =
     [Received 0 swap_request, Locked 0, Cleared 0, Inserted 0 green_addr, Answered 0]"

lemma unlocked_single: "unlocked \<lparr>upstreams = B, tasks = (\<lambda>_. Reading)(0 := x)\<rparr> \<longleftrightarrow> \<not> holds_lock x"
  by (auto simp: unlocked_def)

lemma sample_swap: "\<exists>s. swap_run swap_resolve (swap_start i) (sample_trace @ [Discovered {backend_of 1 green_addr}]) s"
proof -
  let ?s = "\<lambda>B x. \<lparr>upstreams = B, tasks = (\<lambda>_. Reading)(0 := x)\<rparr>"
  let ?run = "swap_run swap_resolve (swap_start i)"
  let ?step = "swap_step swap_resolve"
  let ?r = "Received (0 :: nat) swap_request"
  have "?step (swap_start i) ?r (?s {backend_of 1 i} (Waiting green_addr))"
    using swap_step.received [where s = "swap_start i" and t = 0 and resolve = swap_resolve
        and bytes = swap_request]
    by (simp add: swap_start_def sample_admin after_read_def)
  with swap_run.more [OF swap_run.idle] have 1: "?run [?r] (?s {backend_of 1 i} (Waiting green_addr))"
    by fastforce
  have "?step (?s {backend_of 1 i} (Waiting green_addr)) (Locked 0) (?s {backend_of 1 i} (Clearing green_addr))"
    using swap_step.locked [where resolve = swap_resolve and a = green_addr and s = "?s {backend_of 1 i} (Waiting green_addr)" and t = 0]
    by (simp add: unlocked_single)
  from swap_run.more [OF 1 this] have 2: "?run [?r, Locked 0] (?s {backend_of 1 i} (Clearing green_addr))"
    by simp
  have "?step (?s {backend_of 1 i} (Clearing green_addr)) (Cleared 0) (?s {} (Inserting green_addr))"
    using swap_step.cleared [where resolve = swap_resolve and a = green_addr and s = "?s {backend_of 1 i} (Clearing green_addr)" and t = 0] by simp
  from swap_run.more [OF 2 this] have 3: "?run [?r, Locked 0, Cleared 0] (?s {} (Inserting green_addr))"
    by simp
  have "?step (?s {} (Inserting green_addr)) (Inserted 0 green_addr) (?s {backend_of 1 green_addr} (Answering green_addr))"
    using swap_step.inserted [where resolve = swap_resolve and a = green_addr and s = "?s {} (Inserting green_addr)" and t = 0] by simp
  from swap_run.more [OF 3 this]
  have 4: "?run [?r, Locked 0, Cleared 0, Inserted 0 green_addr] (?s {backend_of 1 green_addr} (Answering green_addr))"
    by simp
  have "?step (?s {backend_of 1 green_addr} (Answering green_addr)) (Answered 0)
      (?s {backend_of 1 green_addr} (Finished (Some ok_response)))"
    using swap_step.answered [where resolve = swap_resolve and a = green_addr and s = "?s {backend_of 1 green_addr} (Answering green_addr)" and t = 0] by simp
  from swap_run.more [OF 4 this]
  have 5: "?run sample_trace (?s {backend_of 1 green_addr} (Finished (Some ok_response)))"
    by (simp add: sample_trace_def)
  have "?step (?s {backend_of 1 green_addr} (Finished (Some ok_response))) (Discovered {backend_of 1 green_addr})
      (?s {backend_of 1 green_addr} (Finished (Some ok_response)))"
    using swap_step.discovered [where resolve = swap_resolve and s = "?s {backend_of 1 green_addr} (Finished (Some ok_response))"]
    by (simp add: unlocked_single)
  from swap_run.more [OF 5 this] show ?thesis
    by blast
qed

theorem l35_swap_atomic_witness:
  "\<exists>s. swap_run swap_resolve (swap_start (SocketAddr (V4 2887516180) 8080))
     (sample_trace @ [Discovered {backend_of 1 green_addr}]) s \<and>
   known swap_resolve (SocketAddr (V4 2887516180) 8080) sample_trace green_addr"
proof -
  obtain s where run: "swap_run swap_resolve (swap_start (SocketAddr (V4 2887516180) 8080))
     (sample_trace @ [Discovered {backend_of 1 green_addr}]) s"
    using sample_swap by blast
  from l35_swap_atomic [OF this] have "known swap_resolve (SocketAddr (V4 2887516180) 8080) sample_trace green_addr"
    by (simp add: latest_def sample_trace_def)
  with run show ?thesis
    by blast
qed

text \<open>The other callbacks of lesson 35, and the discovery itself.\<close>

definition l35_discover :: "'t swap_state \<Rightarrow> backend set \<times> (u64 \<rightharpoonup> bool)" where
  "l35_discover s = (upstreams s, Map.empty)"

definition l35_upstream_peer :: "peer_api \<Rightarrow> 'w pool \<Rightarrow> 'w \<Rightarrow> (pingora_error, http_peer) outcome \<times> 'w" where
  "l35_upstream_peer papi pool w = pool_peer papi pool [] ''Empty upstream pool'' ''hot-swap.cluster'' w"

definition l35_upstream_request_filter :: "'h header_api \<Rightarrow> 'h \<Rightarrow> (pingora_error, unit) outcome \<times> 'h" where
  "l35_upstream_request_filter hapi h = insert_header hapi ''Host'' ''hot-swap-cluster'' h"

section \<open>Lesson 32: a health check that reads the body\<close>

record body_match_check =
  bmc_host :: string
  bmc_expected_string :: string

text \<open>TCP under a deadline; a timeout and an error come out alike where the code treats them alike.\<close>

record ('w, 'c) tcp_api =
  connect_within :: "duration \<Rightarrow> inet_addr \<Rightarrow> 'w \<Rightarrow> 'c option \<times> 'w"
  tcp_write_all :: "'c \<Rightarrow> string \<Rightarrow> 'w \<Rightarrow> (string + unit) \<times> 'w"
  read_within :: "duration \<Rightarrow> 'c \<Rightarrow> nat \<Rightarrow> 'w \<Rightarrow> string option \<times> 'w"

definition probe_request :: "string \<Rightarrow> string" where
  "probe_request host =
     ''GET / HTTP/1.1'' @ [CHR 0x0D, CHR 0x0A] @ ''Host: '' @ host @ [CHR 0x0D, CHR 0x0A] @
     ''Connection: close'' @ crlf2"

definition l32_check ::
  "('w, 'c) tcp_api \<Rightarrow> body_match_check \<Rightarrow> backend \<Rightarrow> 'w \<Rightarrow> (pingora_error, unit) outcome \<times> 'w" where
  "l32_check tcp self target w =
     (case be_addr target of
        Unix path \<Rightarrow> (Err (explain ET_InternalError ''Custom check only supports TCP backends''), w)
      | Inet addr \<Rightarrow>
     (case connect_within tcp (from_secs 1) addr w of
        (None, w) \<Rightarrow> (Err (explain ET_ConnectTimedout ''Connection timed out''), w)
      | (Some stream, w) \<Rightarrow>
     (case tcp_write_all tcp stream (probe_request (bmc_host self)) w of
        (Inl e, w) \<Rightarrow> (Err (explain (ET_Other ''WriteError'') e), w)
      | (Inr _, w) \<Rightarrow>
     (case read_within tcp (from_secs 1) stream 1024 w of
        (None, w) \<Rightarrow> (Err (explain ET_ReadTimedout ''Read timed out''), w)
      | (Some bytes, w) \<Rightarrow>
          if contains_str (utf8_lossy bytes) (bmc_expected_string self) then (Ok (), w)
          else (Err (explain (ET_Custom ''InvalidBody'') ''Body validation failed''), w)))))"

definition l32_health_threshold :: "body_match_check \<Rightarrow> bool \<Rightarrow> usize" where
  "l32_health_threshold self success = 1"

definition l32_upstream_peer :: "peer_api \<Rightarrow> 'w pool \<Rightarrow> 'w \<Rightarrow> (pingora_error, http_peer) outcome \<times> 'w" where
  "l32_upstream_peer papi pool w = pool_peer papi pool [] ''All upstreams are down'' ''custom-check.cluster.local'' w"

definition l32_upstream_request_filter :: "'h header_api \<Rightarrow> 'h \<Rightarrow> (pingora_error, unit) outcome \<times> 'h" where
  "l32_upstream_request_filter hapi h = insert_header hapi ''Host'' ''custom-check-cluster'' h"

definition l32_hc :: body_match_check where
  "l32_hc = \<lparr>bmc_host = ''localhost'', bmc_expected_string = ''BLUE''\<rparr>"

text \<open>
  Lesson 32: a backend is healthy exactly when it is reached by TCP, takes the probe and the first
  bytes it answers within the second contain the expected word; every other case is an error of the
  check, never a panic.
\<close>

theorem l32_healthy:
  "fst (l32_check tcp l32_hc target w) = Ok () \<longleftrightarrow>
     (\<exists>addr stream w1 w2 w3 bytes. be_addr target = Inet addr \<and>
        connect_within tcp (from_secs 1) addr w = (Some stream, w1) \<and>
        tcp_write_all tcp stream (probe_request ''localhost'') w1 = (Inr (), w2) \<and>
        read_within tcp (from_secs 1) stream 1024 w2 = (Some bytes, w3) \<and> contains_str bytes ''BLUE'')"
proof -
  have "contains_str (utf8_lossy s) ''BLUE'' \<longleftrightarrow> contains_str s ''BLUE''" for s
    by (rule contains_lossy) (simp_all add: ascii_def)
  then show ?thesis
    by (auto simp: l32_check_def l32_hc_def split: sock_addr.splits prod.splits option.splits sum.splits)
qed

section \<open>Lessons 30 and 31: probed pools\<close>

definition probed_peer ::
  "peer_api \<Rightarrow> 'w pool \<Rightarrow> string \<Rightarrow> 'w \<Rightarrow> (pingora_error, http_peer) outcome \<times> 'w" where
  "probed_peer papi pool sni w =
     try_then (pool_peer papi pool [] ''All upstreams are down'' sni w) (\<lambda>peer w.
       (Ok (peer\<lparr>p_read_timeout := Some (from_secs 1), p_connection_timeout := Some (from_secs 1)\<rparr>), w))"

definition l30_upstream_peer :: "peer_api \<Rightarrow> 'w pool \<Rightarrow> 'w \<Rightarrow> (pingora_error, http_peer) outcome \<times> 'w" where
  "l30_upstream_peer papi pool = probed_peer papi pool ''health-check.cluster''"

definition l30_upstream_request_filter :: "'h header_api \<Rightarrow> 'h \<Rightarrow> (pingora_error, unit) outcome \<times> 'h" where
  "l30_upstream_request_filter hapi h = insert_header hapi ''Host'' ''health-check-cluster'' h"

definition l31_upstream_peer :: "peer_api \<Rightarrow> 'w pool \<Rightarrow> 'w \<Rightarrow> (pingora_error, http_peer) outcome \<times> 'w" where
  "l31_upstream_peer papi pool = probed_peer papi pool ''http-health-check.cluster.local''"

definition l31_upstream_request_filter :: "'h header_api \<Rightarrow> 'h \<Rightarrow> (pingora_error, unit) outcome \<times> 'h" where
  "l31_upstream_request_filter hapi h = insert_header hapi ''Host'' ''http-health-check-cluster'' h"

end
