(* ===== verification/Lesson_Streams.thy ===== *)
theory Lesson_Streams
  imports Lesson_Discovery Metrics Loops
begin

text \<open>
  The lessons that work on raw connections and on shared counters: \<^verbatim>\<open>00_basic_server\<close> (an echo loop
  that runs until its client closes), \<^verbatim>\<open>01_configuration\<close>, \<^verbatim>\<open>02_daemon_mode\<close>, \<^verbatim>\<open>03_graceful_shutdown\<close> and
  \<^verbatim>\<open>04_threading_model\<close> (services until a signal), \<^verbatim>\<open>05_background_services\<close> (a visitor counter),
  \<^verbatim>\<open>22_proxy_connect\<close> (a CONNECT handshake) and \<^verbatim>\<open>48_observability\<close> (requests alternate between two
  backends). Streams are parameters; the loops that need not end are partial functions.
\<close>

section \<open>Lesson 00: echo\<close>

text \<open>Reads and writes return the error's text or succeed; a read of no bytes is the end of the stream.\<close>

record 'w stream_api =
  shutdown_seen :: "'w \<Rightarrow> bool"
  stream_read :: "nat \<Rightarrow> 'w \<Rightarrow> (string + string) \<times> 'w"
  stream_write_all :: "string \<Rightarrow> 'w \<Rightarrow> (string + unit) \<times> 'w"
  stream_flush :: "'w \<Rightarrow> (string + unit) \<times> 'w"

text \<open>
  One round of the loop, and the loop. It never hands the stream back: its result is the world it leaves.
\<close>

definition echo_round :: "'w stream_api \<Rightarrow> 'w \<Rightarrow> 'w + 'w" where
  "echo_round sapi w =
     (if shutdown_seen sapi w then Inl w
      else (case stream_read sapi 1024 w of
              (Inl e, w) \<Rightarrow> Inl w
            | (Inr buf, w) \<Rightarrow>
                if buf = [] then Inl w
                else (case stream_write_all sapi buf w of
                        (Inl e, w) \<Rightarrow> Inl w
                      | (Inr _, w) \<Rightarrow>
                          (case stream_flush sapi w of
                             (Inl e, w) \<Rightarrow> Inl w
                           | (Inr _, w) \<Rightarrow> Inr w))))"

partial_function (option) echo_loop :: "'w stream_api \<Rightarrow> 'w \<Rightarrow> 'w option" where
  "echo_loop sapi w = (case echo_round sapi w of Inl w \<Rightarrow> Some w | Inr w \<Rightarrow> echo_loop sapi w)"

text \<open>Lesson 01: the app of the demonstration drops its stream at once.\<close>

definition l01_process_new :: "'stream \<Rightarrow> 'watch \<Rightarrow> 'stream option" where
  "l01_process_new stream shutdown = None"

interpretation echo: round_loop "echo_loop sapi" "echo_round sapi"
  by (rule round_loop.intro) (rule echo_loop.simps)

text \<open>
  A healthy connection: what the client still sends before it closes (\<open>pending\<close>), what it was sent
  (\<open>sent\<close>). A read takes some bytes, at least one while any are pending, at most as many as asked for.
\<close>

definition healthy_stream :: "'w stream_api \<Rightarrow> ('w \<Rightarrow> string) \<Rightarrow> ('w \<Rightarrow> string) \<Rightarrow> bool" where
  "healthy_stream sapi pending sent \<longleftrightarrow>
     (\<forall>w. \<not> shutdown_seen sapi w) \<and>
     (\<forall>w n. pending w = [] \<longrightarrow>
       (\<exists>w'. stream_read sapi n w = (Inr [], w') \<and> pending w' = [] \<and> sent w' = sent w)) \<and>
     (\<forall>w n. pending w \<noteq> [] \<longrightarrow> 0 < n \<longrightarrow>
       (\<exists>k w'. 0 < k \<and> k \<le> n \<and> stream_read sapi n w = (Inr (take k (pending w)), w') \<and>
          pending w' = drop k (pending w) \<and> sent w' = sent w)) \<and>
     (\<forall>w bytes. \<exists>w'. stream_write_all sapi bytes w = (Inr (), w') \<and>
       pending w' = pending w \<and> sent w' = sent w @ bytes) \<and>
     (\<forall>w. \<exists>w'. stream_flush sapi w = (Inr (), w') \<and> pending w' = pending w \<and> sent w' = sent w)"

lemma echo_round_healthy:
  assumes healthy: "healthy_stream sapi pending sent"
  shows "case echo_round sapi w of
      Inl w' \<Rightarrow> pending w = [] \<and> sent w' = sent w
    | Inr w' \<Rightarrow> sent w' @ pending w' = sent w @ pending w \<and> length (pending w') < length (pending w)"
proof (cases "pending w = []")
  case True
  with healthy obtain w' where "stream_read sapi 1024 w = (Inr [], w')" and "sent w' = sent w"
    unfolding healthy_stream_def by blast
  with True healthy show ?thesis
    by (simp add: echo_round_def healthy_stream_def)
next
  case False
  obtain k w1 where k: "0 < k" and r: "stream_read sapi 1024 w = (Inr (take k (pending w)), w1)"
    and 1: "pending w1 = drop k (pending w)" "sent w1 = sent w"
    using healthy False unfolding healthy_stream_def by (metis zero_less_numeral)
  obtain w2 where wr: "stream_write_all sapi (take k (pending w)) w1 = (Inr (), w2)"
    and 2: "pending w2 = pending w1" "sent w2 = sent w1 @ take k (pending w)"
    using healthy unfolding healthy_stream_def by blast
  obtain w3 where fl: "stream_flush sapi w2 = (Inr (), w3)" and 3: "pending w3 = pending w2" "sent w3 = sent w2"
    using healthy unfolding healthy_stream_def by blast
  from False k have "take k (pending w) \<noteq> []"
    by simp
  then have "echo_round sapi w = Inr w3"
    using healthy by (simp add: echo_round_def healthy_stream_def r wr fl)
  with False k show ?thesis
    by (simp add: 1 2 3)
qed

text \<open>
  A connection whose client sends the given bytes, in pieces of at most the given number, and closes.
\<close>

record scripted =
  sc_pending :: string
  sc_sent :: string
  sc_piece :: nat

definition scripted_stream :: "scripted stream_api" where
  "scripted_stream =
     \<lparr>shutdown_seen = (\<lambda>w. False),
      stream_read = (\<lambda>n w. (let k = min n (Suc (sc_piece w))
         in (Inr (take k (sc_pending w)), w\<lparr>sc_pending := drop k (sc_pending w)\<rparr>))),
      stream_write_all = (\<lambda>bytes w. (Inr (), w\<lparr>sc_sent := sc_sent w @ bytes\<rparr>)),
      stream_flush = (\<lambda>w. (Inr (), w))\<rparr>"

lemma scripted_healthy: "healthy_stream scripted_stream sc_pending sc_sent"
proof -
  have "0 < n \<Longrightarrow> \<exists>k w'. 0 < k \<and> k \<le> n \<and> stream_read scripted_stream n w = (Inr (take k (sc_pending w)), w') \<and>
      sc_pending w' = drop k (sc_pending w) \<and> sc_sent w' = sc_sent w" for n w
    by (intro exI [of _ "min n (Suc (sc_piece w))"]) (simp add: scripted_stream_def Let_def)
  then show ?thesis
    by (simp add: healthy_stream_def) (simp add: scripted_stream_def Let_def)
qed

text \<open>
  C27. Lesson 00: the echo server answers everything and ends. On a healthy connection that nobody shuts
  down, the loop ends when the client has closed, for any client that sends finitely many bytes and
  however they are cut into reads, and by then exactly the bytes received have been sent back.
\<close>

theorem l00_echoes:
  assumes "healthy_stream sapi pending sent"
  shows "\<exists>w'. echo_loop sapi w = Some w' \<and> sent w' = sent w @ pending w"
proof (rule echo.returns [where I = "\<lambda>v. sent v @ pending v = sent w @ pending w" and rounds = "length \<circ> pending"])
  fix v r
  assume total: "sent v @ pending v = sent w @ pending w"
  note round = echo_round_healthy [OF assms, of v]
  show "sent r @ pending r = sent w @ pending w \<and> (length \<circ> pending) r < (length \<circ> pending) v"
    if "echo_round sapi v = Inr r"
    using round total by (simp add: that)
  show "sent r = sent w @ pending w" if "echo_round sapi v = Inl r"
    using round total by (simp add: that)
qed simp

theorem l00_echoes_witness:
  "\<exists>w'. echo_loop scripted_stream \<lparr>sc_pending = ''hello'', sc_sent = [], sc_piece = 1\<rparr> = Some w' \<and>
     sc_sent w' = ''hello''"
  using l00_echoes [OF scripted_healthy, of "\<lparr>sc_pending = ''hello'', sc_sent = [], sc_piece = 1\<rparr>"] by simp

section \<open>Lesson 03: jobs and shutdown\<close>

text \<open>
  The job service sees the world through the shutdown flag, the race of a job's duration against the
  shutdown signal, and the passing of time. Job numbers are the 32-bit integers Rust infers.
\<close>

datatype race = Elapsed | Signalled

record 'w job_api =
  shutdown_flag :: "'w \<Rightarrow> bool"
  job_or_shutdown :: "duration \<Rightarrow> 'w \<Rightarrow> race \<times> 'w"
  sleep_for :: "duration \<Rightarrow> 'w \<Rightarrow> 'w"

datatype job_event = Started u32 | Completed u32

type_synonym 'w job_state = "u32 \<times> job_event list \<times> 'w"

definition batch_round :: "'w job_api \<Rightarrow> 'w job_state \<Rightarrow> (job_event list \<times> 'w) + 'w job_state" where
  "batch_round japi s =
     (case s of (job_id, evs, w) \<Rightarrow>
        if shutdown_flag japi w then Inl (evs, w)
        else
          (let job_id = job_id + 1; evs = evs @ [Started job_id]
           in case job_or_shutdown japi (from_secs 20) w of
                (Elapsed, w) \<Rightarrow> Inr (job_id, evs @ [Completed job_id], sleep_for japi (from_secs 1) w)
              | (Signalled, w) \<Rightarrow>
                  (let w = sleep_for japi (from_secs 10) w
                   in Inl (evs @ [Completed job_id], w))))"

partial_function (option) batch_loop :: "'w job_api \<Rightarrow> 'w job_state \<Rightarrow> (job_event list \<times> 'w) option" where
  "batch_loop japi s = (case batch_round japi s of Inl r \<Rightarrow> Some r | Inr s \<Rightarrow> batch_loop japi s)"

definition batch_start :: "'w job_api \<Rightarrow> 'w \<Rightarrow> (job_event list \<times> 'w) option" where
  "batch_start japi w = batch_loop japi (0, [], w)"

interpretation batch: round_loop "batch_loop japi" "batch_round japi"
  by (rule round_loop.intro) (rule batch_loop.simps)

text \<open>The jobs that were started and not completed, in a log read from its beginning.\<close>

fun open_jobs :: "u32 list \<Rightarrow> job_event list \<Rightarrow> u32 list" where
  "open_jobs js [] = js"
| "open_jobs js (Started j # evs) = open_jobs (j # js) evs"
| "open_jobs js (Completed j # evs) = open_jobs (remove1 j js) evs"

lemma open_jobs_append: "open_jobs js (evs @ evs') = open_jobs (open_jobs js evs) evs'"
  by (induction js evs rule: open_jobs.induct) simp_all

text \<open>The shutdown comes: the rounds until it are bounded by the number given.\<close>

definition shutdown_comes :: "'w job_api \<Rightarrow> ('w \<Rightarrow> nat) \<Rightarrow> bool" where
  "shutdown_comes japi rounds \<longleftrightarrow>
     (\<forall>w w'. \<not> shutdown_flag japi w \<longrightarrow> job_or_shutdown japi (from_secs 20) w = (Elapsed, w') \<longrightarrow>
        rounds (sleep_for japi (from_secs 1) w') < rounds w)"

lemma batch_round_closes:
  assumes "open_jobs [] evs = []"
  shows "case batch_round japi (n, evs, w) of
      Inl (evs', w') \<Rightarrow> open_jobs [] evs' = []
    | Inr (n', evs', w') \<Rightarrow> open_jobs [] evs' = [] \<and> \<not> shutdown_flag japi w \<and>
        (\<exists>w1. job_or_shutdown japi (from_secs 20) w = (Elapsed, w1) \<and> w' = sleep_for japi (from_secs 1) w1)"
  using assms by (auto simp: batch_round_def Let_def open_jobs_append split: race.splits prod.splits)

text \<open>
  C28. Lesson 03: shutdown is graceful. When the shutdown signal comes after finitely many rounds,
  between two jobs or in the middle of one, the service stops, and every job it has started is
  completed by then.
\<close>

theorem l03_graceful:
  fixes japi :: "'w job_api"
  assumes "shutdown_comes japi rounds"
  shows "\<exists>evs w'. batch_start japi w = Some (evs, w') \<and> open_jobs [] evs = []"
proof -
  have "\<exists>r. batch_loop japi (0, [], w) = Some r \<and> open_jobs [] (fst r) = []"
  proof (rule batch.returns [where I = "\<lambda>(n, evs, w). open_jobs [] evs = []" and rounds = "\<lambda>(n, evs, w). rounds w"])
    fix s r :: "'w job_state"
    assume inv: "case s of (n, evs, w) \<Rightarrow> open_jobs [] evs = []"
    obtain n evs w where s: "s = (n, evs, w)"
      by (rule prod_cases3)
    note round = batch_round_closes [where evs = evs and japi = japi and n = n and w = w]
    show "open_jobs [] (fst r) = []" if "batch_round japi s = Inl r" for r
      using round inv that by (simp add: s split_def)
    show "(case r of (n, evs, w) \<Rightarrow> open_jobs [] evs = []) \<and>
        (case r of (n, evs, w) \<Rightarrow> rounds w) < (case s of (n, evs, w) \<Rightarrow> rounds w)" if "batch_round japi s = Inr r"
      using round inv that assms by (auto simp: s shutdown_comes_def)
  qed simp
  then show ?thesis
    by (auto simp: batch_start_def)
qed

text \<open>A clock with the number of jobs that still end before the signal interrupts one.\<close>

definition countdown :: "nat job_api" where
  "countdown =
     \<lparr>shutdown_flag = (\<lambda>w. False),
      job_or_shutdown = (\<lambda>d w. case w of 0 \<Rightarrow> (Signalled, 0) | Suc k \<Rightarrow> (Elapsed, k)),
      sleep_for = (\<lambda>d w. w)\<rparr>"

theorem l03_graceful_witness:
  "\<exists>evs w'. batch_start countdown 3 = Some (evs, w') \<and> open_jobs [] evs = []"
proof (rule l03_graceful)
  show "shutdown_comes countdown id"
    by (simp add: shutdown_comes_def countdown_def split: nat.split)
qed

section \<open>Lessons 02, 04 and 05: services that report until the shutdown\<close>

text \<open>
  Each reports once a period: lesson 02 its process, lesson 04 its thread, lesson 05 the number of
  visitors. The first waits in the same race as the job service; lesson 04 looks at the flag. What
  is reported is the result; the length of a period stands for its next tick.
\<close>

definition heartbeat_round :: "'w job_api \<Rightarrow> nat \<times> 'w \<Rightarrow> (nat \<times> 'w) + (nat \<times> 'w)" where
  "heartbeat_round japi s =
     (let (beeps, w) = s
      in case job_or_shutdown japi (from_secs 1) w of
           (Signalled, w) \<Rightarrow> Inl (beeps, w)
         | (Elapsed, w) \<Rightarrow> Inr (Suc beeps, w))"

partial_function (option) heartbeat_loop :: "'w job_api \<Rightarrow> nat \<times> 'w \<Rightarrow> (nat \<times> 'w) option" where
  "heartbeat_loop japi s = (case heartbeat_round japi s of Inl r \<Rightarrow> Some r | Inr s \<Rightarrow> heartbeat_loop japi s)"

definition reporter_round ::
  "'w job_api \<Rightarrow> ('w \<Rightarrow> string) \<Rightarrow> string list \<times> 'w \<Rightarrow> (string list \<times> 'w) + (string list \<times> 'w)" where
  "reporter_round japi thread_name s =
     (let (seen, w) = s
      in if shutdown_flag japi w then Inl (seen, w)
         else Inr (seen @ [thread_name w], sleep_for japi (from_secs 1) w))"

partial_function (option) reporter_loop ::
  "'w job_api \<Rightarrow> ('w \<Rightarrow> string) \<Rightarrow> string list \<times> 'w \<Rightarrow> (string list \<times> 'w) option" where
  "reporter_loop japi thread_name s =
     (case reporter_round japi thread_name s of Inl r \<Rightarrow> Some r | Inr s \<Rightarrow> reporter_loop japi thread_name s)"

definition exporter_round ::
  "'w job_api \<Rightarrow> ('w \<Rightarrow> usize) \<Rightarrow> usize list \<times> 'w \<Rightarrow> (usize list \<times> 'w) + (usize list \<times> 'w)" where
  "exporter_round japi connection_count s =
     (let (counts, w) = s
      in case job_or_shutdown japi (from_secs 2) w of
           (Signalled, w) \<Rightarrow> Inl (counts, w)
         | (Elapsed, w) \<Rightarrow> Inr (counts @ [connection_count w], w))"

partial_function (option) exporter_loop ::
  "'w job_api \<Rightarrow> ('w \<Rightarrow> usize) \<Rightarrow> usize list \<times> 'w \<Rightarrow> (usize list \<times> 'w) option" where
  "exporter_loop japi connection_count s =
     (case exporter_round japi connection_count s of
        Inl r \<Rightarrow> Some r | Inr s \<Rightarrow> exporter_loop japi connection_count s)"

interpretation heartbeat: round_loop "heartbeat_loop japi" "heartbeat_round japi"
  by (rule round_loop.intro) (rule heartbeat_loop.simps)

interpretation reporter: round_loop "reporter_loop japi thread_name" "reporter_round japi thread_name"
  by (rule round_loop.intro) (rule reporter_loop.simps)

interpretation exporter: round_loop "exporter_loop japi connection_count" "exporter_round japi connection_count"
  by (rule round_loop.intro) (rule exporter_loop.simps)

text \<open>
  Lessons 02 and 04: the services stop once the shutdown comes, for the heartbeat as the signal that
  ends its wait, for the reporter as the flag it looks at every second.
\<close>

lemma heartbeat_stops:
  assumes "\<And>w w'. job_or_shutdown japi (from_secs 1) w = (Elapsed, w') \<Longrightarrow> rounds w' < (rounds w :: nat)"
  shows "\<exists>r. heartbeat_loop japi (n, w) = Some r \<and> n \<le> fst r"
  by (rule heartbeat.returns [where I = "\<lambda>s. n \<le> fst s" and rounds = "rounds \<circ> snd"])
     (use assms in \<open>auto simp: heartbeat_round_def split: race.splits prod.splits\<close>)

lemma reporter_stops:
  assumes "\<And>w. \<not> shutdown_flag japi w \<Longrightarrow> rounds (sleep_for japi (from_secs 1) w) < (rounds w :: nat)"
  shows "\<exists>r. reporter_loop japi thread_name (seen, w) = Some r \<and> shutdown_flag japi (snd r)"
  by (rule reporter.returns [where I = "\<lambda>s. True" and rounds = "rounds \<circ> snd"])
     (use assms in \<open>auto simp: reporter_round_def split: if_splits\<close>)

text \<open>
  Lesson 05: the exporter stops once the signal comes, and the counts it has reported by then never
  decrease, as long as the counter does not.
\<close>

lemma exporter_monotone:
  assumes "\<And>w w'. job_or_shutdown japi (from_secs 2) w = (Elapsed, w') \<Longrightarrow>
      rounds w' < (rounds w :: nat) \<and> connection_count w \<le> connection_count w'"
  shows "\<exists>r. exporter_loop japi connection_count ([], w) = Some r \<and> sorted (fst r)"
  by (rule exporter.returns [where rounds = "rounds \<circ> snd"
        and I = "\<lambda>s. sorted (fst s) \<and> (\<forall>c \<in> set (fst s). c \<le> connection_count (snd s))"])
     (use assms in \<open>fastforce simp: exporter_round_def sorted_append split: race.splits prod.splits\<close>)+

section \<open>Lesson 05: visitors\<close>

definition greeting :: "usize \<Rightarrow> string" where
  "greeting count = ''Hello! You are visitor #'' @ dec_string (unat count) @ [CHR 0x0A]"

text \<open>\<^verbatim>\<open>fetch_add\<close> returns the old value and wraps; the result of the write is dropped.\<close>

definition l05_process_new :: "'w stream_api \<Rightarrow> 'w \<times> usize \<Rightarrow> 'w \<times> usize" where
  "l05_process_new sapi s =
     (let (w, connection_count) = s; count = connection_count + 1
      in (snd (stream_write_all sapi (greeting count) w), connection_count + 1))"

text \<open>Connections in the order of their increments, each with a stream of its own.\<close>

fun l05_run :: "'w stream_api \<Rightarrow> 'w list \<Rightarrow> usize \<Rightarrow> 'w list \<times> usize" where
  "l05_run sapi [] n = ([], n)"
| "l05_run sapi (w # ws) n =
     (let (w', n) = l05_process_new sapi (w, n); (ws', n) = l05_run sapi ws n in (w' # ws', n))"

lemma l05_run_eq:
  "l05_run sapi ws n =
     (map (\<lambda>(i, w). snd (stream_write_all sapi (greeting (n + of_nat (Suc i))) w)) (zip [0..<length ws] ws),
      n + of_nat (length ws))"
proof (induction ws arbitrary: n)
  case (Cons w ws)
  have "zip [0..<length (w # ws)] (w # ws) = (0, w) # map (\<lambda>(i, w). (Suc i, w)) (zip [0..<length ws] ws)"
    by (simp add: upt_conv_Cons zip_map1 flip: map_Suc_upt del: upt_Suc)
  then show ?case
    using Cons by (simp add: l05_process_new_def split_def ac_simps del: upt_Suc)
qed simp

lemma greeting_of_nat:
  "n < 2 ^ 64 \<Longrightarrow> greeting (of_nat n) = ''Hello! You are visitor #'' @ dec_string n @ [CHR 0x0A]"
  by (simp add: greeting_def unat_of_nat take_bit_nat_eq_self)

text \<open>
  Lesson 05: visitors are numbered without gaps or repetition. The connections of a fresh server,
  in the order of their increments, are greeted with 1, 2, 3 and so on, whatever happens to each
  connection's write, and the counter the exporter reads is their number, as long as it fits a
  machine word.
\<close>

theorem l05_visitors:
  assumes "length ws < 2 ^ 64"
  shows "l05_run sapi ws 0 =
    (map (\<lambda>(i, w). snd (stream_write_all sapi (''Hello! You are visitor #'' @ dec_string (Suc i) @ [CHR 0x0A]) w))
       (zip [0..<length ws] ws), of_nat (length ws))"
proof -
  have "greeting (0 + of_nat (Suc i)) = ''Hello! You are visitor #'' @ dec_string (Suc i) @ [CHR 0x0A]"
    if "i < length ws" for i
    using greeting_of_nat [of "Suc i"] that assms by simp
  then show ?thesis
    unfolding l05_run_eq by (auto simp: set_zip simp del: of_nat_Suc)
qed

theorem l05_visitors_witness:
  "snd (l05_run scripted_stream (replicate 3 \<lparr>sc_pending = [], sc_sent = [], sc_piece = 0\<rparr>) 0) = 3"
  using l05_visitors [of "replicate 3 \<lparr>sc_pending = [], sc_sent = [], sc_piece = 0\<rparr>" scripted_stream] by simp

section \<open>Lesson 22: a tunnel through a proxy\<close>

text \<open>Dialling, writing and one read; errors as their text.\<close>

record ('w, 'c) dial_api =
  dial :: "inet_addr \<Rightarrow> 'w \<Rightarrow> (string + 'c) \<times> 'w"
  dial_write :: "'c \<Rightarrow> string \<Rightarrow> 'w \<Rightarrow> (string + unit) \<times> 'w"
  dial_read :: "'c \<Rightarrow> nat \<Rightarrow> 'w \<Rightarrow> (string + string) \<times> 'w"

record tunnel_connector =
  proxy_addr :: inet_addr
  remote_host :: string
  remote_port :: u16

definition connect_req :: "tunnel_connector \<Rightarrow> string" where
  "connect_req self =
     (let authority = remote_host self @ '':'' @ dec_string (unat (remote_port self))
      in ''CONNECT '' @ authority @ '' HTTP/1.1'' @ [CHR 0x0D, CHR 0x0A] @ ''Host: '' @ authority @ crlf2)"

definition l22_connect ::
  "('w, 'c) dial_api \<Rightarrow> tunnel_connector \<Rightarrow> 'w \<Rightarrow> (pingora_error, 'c) outcome \<times> 'w" where
  "l22_connect dapi self w =
     (case dial dapi (proxy_addr self) w of
        (Inl e, w) \<Rightarrow> (Err (explain (ET_Other ''ConnectError'') (''Failed to connect to proxy: '' @ e)), w)
      | (Inr socket, w) \<Rightarrow>
     (case dial_write dapi socket (connect_req self) w of
        (Inl e, w) \<Rightarrow> (Err (explain (ET_Other ''WriteError'') (''Failed to write CONNECT req: '' @ e)), w)
      | (Inr _, w) \<Rightarrow>
     (case dial_read dapi socket 4096 w of
        (Inl e, w) \<Rightarrow> (Err (explain (ET_Other ''ReadError'') (''Failed to read proxy resp: '' @ e)), w)
      | (Inr buf, w) \<Rightarrow>
          (let response = utf8_lossy buf
           in if \<not> contains_str response '' 200 ''
              then (Err (explain (ET_Other ''ConnectProxyFailure'')
                     (''Proxy refused tunnel: '' @
                      (case str_lines response of [] \<Rightarrow> ''Unknown'' | l # ls \<Rightarrow> l))), w)
              else (Ok socket, w)))))"

definition l22_connector :: tunnel_connector where
  "l22_connector =
     \<lparr>proxy_addr = SocketAddr (V4 (of_nat (of_octets [127, 0, 0, 1]))) 3128,
      remote_host = ''advanced.pingora.local'', remote_port = 443\<rparr>"

text \<open>The peer together with the connector it dials through.\<close>

definition l22_upstream_peer ::
  "peer_api \<Rightarrow> 'w \<Rightarrow> (pingora_error, http_peer \<times> tunnel_connector) outcome \<times> 'w" where
  "l22_upstream_peer papi w =
     try_then (fixed_peer papi (''127.0.0.1'', 3128) True ''advanced.pingora.local'' w) (\<lambda>peer w.
       (Ok (peer, l22_connector), w))"

definition l22_upstream_request_filter :: "'h header_api \<Rightarrow> 'h \<Rightarrow> (pingora_error, unit) outcome \<times> 'h" where
  "l22_upstream_request_filter hapi h = insert_header hapi ''Host'' ''advanced.pingora.local'' h"

text \<open>
  C40. Lesson 22: what establishes a tunnel. Once the proxy is dialled, the CONNECT request written and
  an answer read, the socket is handed over exactly when the answer contains \<^verbatim>\<open> 200 \<close> anywhere; so a
  proxy that refuses with another status but mentions the number in a later header or its body is
  taken for an open tunnel.
\<close>

theorem l22_tunnel:
  assumes "dial dapi (proxy_addr self) w = (Inr c, w1)"
    and "dial_write dapi c (connect_req self) w1 = (Inr (), w2)"
    and "dial_read dapi c 4096 w2 = (Inr buf, w3)"
  shows "(fst (l22_connect dapi self w) = Ok c) = contains_str buf '' 200 ''"
proof -
  have "contains_str (utf8_lossy buf) '' 200 '' \<longleftrightarrow> contains_str buf '' 200 ''"
    by (rule contains_lossy) (simp_all add: ascii_def)
  with assms show ?thesis
    by (simp add: l22_connect_def Let_def)
qed

text \<open>A proxy that answers every request with the given bytes.\<close>

definition answering :: "string \<Rightarrow> (unit, nat) dial_api" where
  "answering text =
     \<lparr>dial = (\<lambda>a w. (Inr 7, w)), dial_write = (\<lambda>c bytes w. (Inr (), w)), dial_read = (\<lambda>c n w. (Inr text, w))\<rparr>"

definition proxy_answer :: string where
  "proxy_answer = ''HTTP/1.1 403 Forbidden'' @ crlf2 @ ''at most 200 tunnels''"

theorem l22_tunnel_witness:
  "fst (l22_connect (answering proxy_answer) l22_connector ()) = Ok 7 \<and>
   fst (l22_connect (answering ''HTTP/1.1 403 Forbidden'') l22_connector ()) \<noteq> Ok 7"
proof -
  have "contains_str proxy_answer '' 200 ''" and "\<not> contains_str ''HTTP/1.1 403 Forbidden'' '' 200 ''"
    by code_simp+
  then show ?thesis
    using l22_tunnel [of "answering proxy_answer" l22_connector "()" 7 "()" "()" proxy_answer "()"]
      l22_tunnel [of "answering ''HTTP/1.1 403 Forbidden''" l22_connector "()" 7 "()" "()"
        "''HTTP/1.1 403 Forbidden''" "()"]
    by (simp add: answering_def)
qed

section \<open>Lesson 48: alternating backends and metrics\<close>

record l48_ctx =
  l48_start_time :: nat

definition l48_new_ctx :: "'w session_api \<Rightarrow> 'w \<Rightarrow> l48_ctx" where
  "l48_new_ctx api w = \<lparr>l48_start_time = instant_now api w\<rparr>"

text \<open>Which backend the request with the given number goes to.\<close>

definition l48_target :: "usize \<Rightarrow> string \<times> u16" where
  "l48_target count = (if count mod 2 = 0 then (''127.0.0.1'', 6201) else (''127.0.0.1'', 6202))"

definition l48_upstream_peer ::
  "peer_api \<Rightarrow> 'w \<times> usize \<Rightarrow> (pingora_error, http_peer) outcome \<times> 'w \<times> usize" where
  "l48_upstream_peer papi s =
     (let (w, count) = s
      in case fixed_peer papi (l48_target count) False ''metrics.local'' w of
           (r, w) \<Rightarrow> (r, (w, count + 1)))"

definition l48_logging :: "'w metrics_api \<Rightarrow> 'w session_api \<Rightarrow> metrics_middleware \<Rightarrow> l48_ctx \<Rightarrow> 'w \<Rightarrow> 'w" where
  "l48_logging mapi api self ctx w =
     (let duration = instant_now api w - l48_start_time ctx
      in observe_value mapi (latency_metric self) [] duration (inc_counter mapi (req_metric self) [] w))"

definition crlf :: string where
  "crlf = [CHR 0x0D, CHR 0x0A]"

definition mock_response :: "string \<Rightarrow> string" where
  "mock_response name =
     (let body = ''Response from '' @ name
      in ''HTTP/1.1 200 OK'' @ crlf @ ''Content-Length: '' @ dec_string (length body + 1) @ crlf @
         ''Connection: close'' @ crlf @ crlf @ body @ [CHR 0x0A])"

lemma mod_2_plus_1: "(count + 1 :: usize) mod 2 = 0 \<longleftrightarrow> count mod 2 \<noteq> 0"
  by (simp flip: even_iff_mod_2_eq_zero)

text \<open>
  Lesson 48: consecutive requests alternate between the two backends, also when the shared counter
  wraps around; of any two neighbours in the order of their increments exactly one goes to each.
\<close>

theorem l48_alternates:
  "{l48_target count, l48_target (count + 1)} = {(''127.0.0.1'', 6201), (''127.0.0.1'', 6202)}"
  using mod_2_plus_1 [of count] by (auto simp: l48_target_def)

end
