(* ===== verification/Lesson_Cache.thy ===== *)
theory Lesson_Cache
  imports Lesson_Streams
begin

text \<open>
  The lessons that cache: \<^verbatim>\<open>43_memory_cache\<close>, \<^verbatim>\<open>44_cache_control\<close>, \<^verbatim>\<open>45_cache_lock\<close>,
  \<^verbatim>\<open>46_cache_purge\<close> and \<^verbatim>\<open>47_stale_while_revalidate\<close>. The cache itself is Pingora's; the lessons
  choose its key, its lock, the defaults it keeps responses by and when stale ones may be served.
  Each comes with a small upstream server; its responses are checked against a reader of HTTP
  responses.
\<close>

section \<open>Cache settings\<close>

record cache_key =
  ck_namespace :: string
  ck_primary :: string
  ck_user_tag :: string

text \<open>What \<^verbatim>\<open>cache.enable\<close> and \<^verbatim>\<open>set_cache_key\<close> are given: the lock's timeout, if there is one, and the key.\<close>

record cache_setup =
  cs_lock :: "duration option"
  cs_key :: cache_key

definition path_key :: "'w session_api \<Rightarrow> 'w \<Rightarrow> cache_key" where
  "path_key api w = \<lparr>ck_namespace = [], ck_primary = req_path api w, ck_user_tag = []\<rparr>"

record cache_defaults =
  cd_fresh :: "u16 \<Rightarrow> duration option"
  cd_stale_while_revalidate :: u32
  cd_stale_if_error :: u32

text \<open>Pingora's reading of the response's directives and its decision: parameters.\<close>

record ('h, 'cc, 'rc) cache_api =
  from_resp_headers :: "'h \<Rightarrow> 'cc option"
  resp_cacheable :: "'cc option \<Rightarrow> 'h \<Rightarrow> bool \<Rightarrow> cache_defaults \<Rightarrow> 'rc"

definition cache_filter :: "('h, 'cc, 'rc) cache_api \<Rightarrow> cache_defaults \<Rightarrow> 'h \<Rightarrow> 'rc" where
  "cache_filter capi defaults resp = resp_cacheable capi (from_resp_headers capi resp) resp False defaults"

definition only_200 :: "duration \<Rightarrow> u16 \<Rightarrow> duration option" where
  "only_200 d status = (if status = 200 then Some d else None)"

definition no_defaults :: cache_defaults where
  "no_defaults = \<lparr>cd_fresh = (\<lambda>_. None), cd_stale_while_revalidate = 0, cd_stale_if_error = 0\<rparr>"

definition l43_request_cache_filter :: "'w session_api \<Rightarrow> 'w \<Rightarrow> cache_setup" where
  "l43_request_cache_filter api w = \<lparr>cs_lock = None, cs_key = path_key api w\<rparr>"

definition l43_upstream_peer :: "peer_api \<Rightarrow> 'w \<Rightarrow> (pingora_error, http_peer) outcome \<times> 'w" where
  "l43_upstream_peer papi = fixed_peer papi (''127.0.0.1'', 6191) False ''cache.local''"

definition l43_response_cache_filter :: "('h, 'cc, 'rc) cache_api \<Rightarrow> 'h \<Rightarrow> 'rc" where
  "l43_response_cache_filter capi =
     cache_filter capi \<lparr>cd_fresh = only_200 (from_secs 60), cd_stale_while_revalidate = 0, cd_stale_if_error = 0\<rparr>"

definition l44_request_cache_filter :: "'w session_api \<Rightarrow> 'w \<Rightarrow> cache_setup" where
  "l44_request_cache_filter api w = \<lparr>cs_lock = None, cs_key = path_key api w\<rparr>"

definition l44_upstream_peer :: "peer_api \<Rightarrow> 'w \<Rightarrow> (pingora_error, http_peer) outcome \<times> 'w" where
  "l44_upstream_peer papi = fixed_peer papi (''127.0.0.1'', 6193) False ''header.test.local''"

definition l44_response_cache_filter :: "('h, 'cc, 'rc) cache_api \<Rightarrow> 'h \<Rightarrow> 'rc" where
  "l44_response_cache_filter capi = cache_filter capi no_defaults"

definition l45_request_cache_filter :: "'w session_api \<Rightarrow> 'w \<Rightarrow> cache_setup" where
  "l45_request_cache_filter api w = \<lparr>cs_lock = Some (from_secs 5), cs_key = path_key api w\<rparr>"

definition l45_upstream_peer :: "peer_api \<Rightarrow> 'w \<Rightarrow> (pingora_error, http_peer) outcome \<times> 'w" where
  "l45_upstream_peer papi = fixed_peer papi (''127.0.0.1'', 6195) False ''heavy.local''"

definition l45_response_cache_filter :: "('h, 'cc, 'rc) cache_api \<Rightarrow> 'h \<Rightarrow> 'rc" where
  "l45_response_cache_filter capi = cache_filter capi no_defaults"

definition l46_request_cache_filter :: "'w session_api \<Rightarrow> 'w \<Rightarrow> cache_setup" where
  "l46_request_cache_filter api w = \<lparr>cs_lock = None, cs_key = path_key api w\<rparr>"

definition l46_is_purge :: "'w session_api \<Rightarrow> 'w \<Rightarrow> bool" where
  "l46_is_purge api w \<longleftrightarrow> req_method api w = ''PURGE''"

definition l46_upstream_peer :: "peer_api \<Rightarrow> 'w \<Rightarrow> (pingora_error, http_peer) outcome \<times> 'w" where
  "l46_upstream_peer papi = fixed_peer papi (''127.0.0.1'', 6197) False ''purge.local''"

definition l46_response_cache_filter :: "('h, 'cc, 'rc) cache_api \<Rightarrow> 'h \<Rightarrow> 'rc" where
  "l46_response_cache_filter capi = cache_filter capi no_defaults"

definition l47_upstream_peer :: "peer_api \<Rightarrow> 'w \<Rightarrow> (pingora_error, http_peer) outcome \<times> 'w" where
  "l47_upstream_peer papi = fixed_peer papi (''127.0.0.1'', 6199) False ''swr.local''"

definition l47_request_cache_filter :: "'w session_api \<Rightarrow> 'w \<Rightarrow> cache_setup" where
  "l47_request_cache_filter api w = \<lparr>cs_lock = Some (from_secs 5), cs_key = path_key api w\<rparr>"

definition l47_response_cache_filter :: "('h, 'cc, 'rc) cache_api \<Rightarrow> 'h \<Rightarrow> 'rc" where
  "l47_response_cache_filter capi =
     cache_filter capi \<lparr>cd_fresh = only_200 (from_secs 5), cd_stale_while_revalidate = 10, cd_stale_if_error = 0\<rparr>"

definition l47_should_serve_stale :: "pingora_error option \<Rightarrow> bool" where
  "l47_should_serve_stale error = (case error of None \<Rightarrow> True | Some e \<Rightarrow> False)"

section \<open>What is logged\<close>

text \<open>
  The line each lesson's \<^verbatim>\<open>logging\<close> writes for the phase the cache has come to: the phases of
  Pingora's cache that the lessons tell apart, any other by its text.
\<close>

datatype cache_phase =
    CP_Hit
  | CP_Miss
  | CP_Expired
  | CP_Stale
  | CP_StaleUpdating
  | CP_Disabled
  | CP_Other string

definition l43_logging :: "cache_phase \<Rightarrow> string option" where
  "l43_logging phase =
     (case phase of
        CP_Hit \<Rightarrow> Some ''Cache Status: HIT (Served from Memory)''
      | CP_Miss \<Rightarrow> Some ''Cache Status: MISS (Fetched from Upstream)''
      | CP_Expired \<Rightarrow> Some ''Cache Status: EXPIRED (Revalidating)''
      | _ \<Rightarrow> None)"

definition l44_logging :: "string \<Rightarrow> cache_phase \<Rightarrow> string option" where
  "l44_logging path phase =
     map_option (\<lambda>status. ''Path '' @ path @ '', Status: '' @ status)
       (case phase of
          CP_Hit \<Rightarrow> Some ''HIT''
        | CP_Miss \<Rightarrow> Some ''MISS''
        | CP_Expired \<Rightarrow> Some ''EXPIRED''
        | CP_Disabled \<Rightarrow> Some ''SKIP (Uncacheable)''
        | _ \<Rightarrow> None)"

definition l45_logging :: "(duration \<Rightarrow> string) \<Rightarrow> duration option \<Rightarrow> cache_phase \<Rightarrow> string" where
  "l45_logging debug lock_duration phase =
     (let status = (case phase of CP_Hit \<Rightarrow> ''HIT (READER)'' | CP_Miss \<Rightarrow> ''MISS (WRITER)'' | _ \<Rightarrow> ''OTHER'');
          wait_time = (case lock_duration of Some d \<Rightarrow> d | None \<Rightarrow> from_secs 0)
      in ''Client Finished. Status: '' @ status @ ''. Waited for lock: '' @ debug wait_time)"

definition l47_logging :: "(cache_phase \<Rightarrow> string) \<Rightarrow> cache_phase \<Rightarrow> string" where
  "l47_logging debug phase =
     (case phase of
        CP_Hit \<Rightarrow> ''Status: HIT (Fresh) - Instant Response''
      | CP_Miss \<Rightarrow> ''Status: MISS (Fetching) - Slow Response''
      | CP_Stale \<Rightarrow> ''Status: SWR ACTIVATED (Serving Stale while Updating)''
      | CP_StaleUpdating \<Rightarrow> ''Status: SWR ACTIVATED (Serving Stale while Updating)''
      | CP_Expired \<Rightarrow> ''Status: EXPIRED (Too Old) - Blocking Fetch''
      | _ \<Rightarrow> ''Status: '' @ debug phase)"

text \<open>Lessons 43 and 44 log the same phases but for the responses that are not cached.\<close>

lemma l44_logs_more:
  "l44_logging path phase \<noteq> None \<longleftrightarrow> l43_logging phase \<noteq> None \<or> phase = CP_Disabled"
  by (cases phase) (simp_all add: l43_logging_def l44_logging_def)

text \<open>The key is the path alone: neither the query nor the host tells entries apart.\<close>

lemma key_is_path: "path_key api w = path_key api w' \<longleftrightarrow> req_path api w = req_path api w'"
  by (simp add: path_key_def)

section \<open>The upstream servers\<close>

definition with_crlf :: "string list \<Rightarrow> string" where
  "with_crlf ls = concat (map (\<lambda>l. l @ crlf) ls)"

text \<open>The format string all of them share: status, length, other fields, blank line, payload.\<close>

definition mock_http :: "nat \<Rightarrow> string list \<Rightarrow> string \<Rightarrow> string" where
  "mock_http declared hs payload =
     with_crlf ([''HTTP/1.1 200 OK'', ''Content-Length: '' @ dec_string declared] @ hs) @ crlf @ payload"

definition l43_response :: string where
  "l43_response =
     (let body = ''Response from Local Mock''
      in mock_http (length body) [''Cache-Control: public, max-age=60'', ''Connection: close''] body)"

definition l44_cc_header :: "string \<Rightarrow> string" where
  "l44_cc_header req =
     (if contains_str req ''GET /short'' then ''max-age=5''
      else if contains_str req ''GET /long'' then ''max-age=60''
      else if contains_str req ''GET /no_store'' then ''no-store''
      else ''max-age=10'')"

definition l44_response :: "string \<Rightarrow> string" where
  "l44_response bytes =
     (let cc_header = l44_cc_header (utf8_lossy bytes); body = ''Content for '' @ cc_header
      in mock_http (length body + 1) [''Cache-Control: '' @ cc_header, ''Connection: close''] (body @ [CHR 0x0A]))"

definition l45_response :: string where
  "l45_response =
     (let body = ''Expensive Content Generated''
      in mock_http (length body) [''Cache-Control: public, max-age=60'', ''Connection: close''] body)"

definition l46_response :: string where
  "l46_response =
     (let body = ''Cached Content (TTL 300s)''
      in mock_http (length body) [''Cache-Control: public, max-age=300'', ''Connection: close''] body)"

text \<open>The version is the shared counter's, incremented by each request.\<close>

definition l47_response :: "usize \<Rightarrow> string \<times> usize" where
  "l47_response content_version =
     (let version = content_version + 1; body = ''Content Version '' @ dec_string (unat version)
      in (mock_http (length body)
            [''Cache-Control: public, max-age=5, stale-while-revalidate=10'', ''Connection: close''] body,
          content_version + 1))"

lemma l48_response_mock:
  "mock_response name =
     mock_http (length (''Response from '' @ name) + 1) [''Connection: close'']
       (''Response from '' @ name @ [CHR 0x0A])"
  by (simp add: mock_response_def mock_http_def with_crlf_def)

section \<open>Reading the responses\<close>

text \<open>
  A reader of HTTP responses: the head ends at the first blank line, the declared length is that of
  its length field, and the rest must be exactly that long.
\<close>

definition http_payload :: "string \<Rightarrow> string option" where
  "http_payload s =
     (case find_str crlf2 s of
        None \<Rightarrow> None
      | Some i \<Rightarrow>
     (case find (\<lambda>l. starts_with l ''Content-Length: '') (str_lines (take i s)) of
        None \<Rightarrow> None
      | Some l \<Rightarrow>
     (case parse_usize (drop 16 l) of
        None \<Rightarrow> None
      | Some n \<Rightarrow> if unat n = length (drop (i + 4) s) then Some (drop (i + 4) s) else None)))"

definition field_ok :: "string \<Rightarrow> bool" where
  "field_ok l \<longleftrightarrow> l \<noteq> [] \<and> CHR 0x0D \<notin> set l \<and> CHR 0x0A \<notin> set l"

fun head_text :: "string list \<Rightarrow> string" where
  "head_text [] = []"
| "head_text [l] = l"
| "head_text (l # ls) = l @ crlf @ head_text ls"

lemma with_crlf_head: "ls \<noteq> [] \<Longrightarrow> with_crlf ls = head_text ls @ crlf"
  by (induction ls rule: head_text.induct) (simp_all add: with_crlf_def)

lemma find_str_skip: "CHR 0x0D \<notin> set a \<Longrightarrow> find_str crlf2 (a @ s) = map_option ((+) (length a)) (find_str crlf2 s)"
proof (induction a)
  case Nil
  show ?case
    by (cases "find_str crlf2 s") simp_all
next
  case (Cons c a)
  then show ?case
    by (cases "find_str crlf2 s") (auto simp: starts_with_def crlf2_def)
qed

lemma find_str_crlf: "c \<noteq> CHR 0x0D \<Longrightarrow> find_str crlf2 (crlf @ c # s) = map_option ((+) 2) (find_str crlf2 (c # s))"
  by (cases "find_str crlf2 (c # s)") (auto simp: crlf_def crlf2_def starts_with_def)

lemma find_str_head:
  "ls \<noteq> [] \<Longrightarrow> list_all field_ok ls \<Longrightarrow> find_str crlf2 (head_text ls @ crlf2 @ payload) = Some (length (head_text ls))"
proof (induction ls rule: head_text.induct)
  case (2 l)
  have "find_str crlf2 (crlf2 @ payload) = Some 0"
    by (simp add: crlf2_def starts_with_def)
  with 2 show ?case
    by (simp add: find_str_skip field_ok_def)
next
  case (3 l m ls)
  then obtain c t where m: "head_text (m # ls) = c # t" and "c \<noteq> CHR 0x0D"
    by (cases m; cases ls) (auto simp: field_ok_def)
  have "find_str crlf2 (crlf @ head_text (m # ls) @ crlf2 @ payload) = Some (2 + length (head_text (m # ls)))"
    using 3 find_str_crlf [OF \<open>c \<noteq> CHR 0x0D\<close>, of "t @ crlf2 @ payload"] by (simp add: m del: find_str.simps)
  with 3 show ?case
    using find_str_skip [of l "crlf @ head_text (m # ls) @ crlf2 @ payload"] by (simp add: field_ok_def crlf_def)
qed simp

lemma split_head: "ls \<noteq> [] \<Longrightarrow> list_all field_ok ls \<Longrightarrow>
  split_on CHR 0x0A (head_text ls) = map (\<lambda>l. l @ [CHR 0x0D]) (butlast ls) @ [last ls]"
proof (induction ls rule: head_text.induct)
  case (2 l)
  then show ?case
    by (simp add: split_on_single field_ok_def)
next
  case (3 l m ls)
  then have "CHR 0x0A \<notin> set (l @ [CHR 0x0D])"
    by (simp add: field_ok_def)
  from split_on_append [OF this, of "head_text (m # ls)"] 3 show ?case
    by (simp add: crlf_def)
qed simp

lemma lines_head: "ls \<noteq> [] \<Longrightarrow> list_all field_ok ls \<Longrightarrow> str_lines (head_text ls) = ls"
proof -
  assume ls: "ls \<noteq> []" "list_all field_ok ls"
  then have "field_ok (last ls)"
    by (simp add: list_all_iff)
  then have "last ls \<noteq> []" and "strip_cr (last ls) = last ls"
    by (auto simp: field_ok_def strip_cr_def dest: last_in_set)
  moreover have "strip_cr (l @ [CHR 0x0D]) = l" for l
    by (simp add: strip_cr_def)
  ultimately show ?thesis
    using ls by (simp add: str_lines_def split_head comp_def)
qed

lemma crlf_crlf: "crlf @ crlf @ s = crlf2 @ s"
  by (simp add: crlf_def crlf2_def)

lemma mock_payload:
  assumes "list_all field_ok hs" and "length payload < 2 ^ 64"
  shows "http_payload (mock_http (length payload) hs payload) = Some payload"
proof -
  let ?l = "''Content-Length: '' @ dec_string (length payload)"
  let ?ls = "[''HTTP/1.1 200 OK'', ?l] @ hs"
  have "field_ok ?l"
    using dec_string_digits [of "CHR 0x0D" "length payload"] dec_string_digits [of "CHR 0x0A" "length payload"]
    by (auto simp: field_ok_def is_digit_def)
  then have ok: "?ls \<noteq> []" "list_all field_ok ?ls"
    using assms(1) by (simp_all add: field_ok_def)
  define H where "H = head_text ?ls"
  have msg: "mock_http (length payload) hs payload = H @ crlf2 @ payload"
    unfolding mock_http_def with_crlf_head [OF ok(1)] H_def by (simp only: append_assoc crlf_crlf)
  have "find (\<lambda>l. starts_with l ''Content-Length: '') ?ls = Some ?l"
    by (simp add: starts_with_def)
  then have field: "find (\<lambda>l. starts_with l ''Content-Length: '') (str_lines H) = Some ?l"
    unfolding H_def lines_head [OF ok] .
  have blank: "find_str crlf2 (H @ crlf2 @ payload) = Some (length H)"
    unfolding H_def by (rule find_str_head [OF ok])
  have "drop (length H + 4) (H @ crlf2 @ payload) = payload"
    by (simp add: crlf2_def)
  moreover have "unat (of_nat (length payload) :: usize) = length payload"
    using assms(2) by (simp add: unat_of_nat take_bit_nat_eq_self)
  ultimately show ?thesis
    unfolding http_payload_def msg blank using field
    by (simp add: parse_usize_dec_string [OF assms(2)])
qed

lemma dec_string_length: "length (dec_string n) \<le> n div 10 + 1"
proof (induction n rule: dec_string.induct)
  case (1 n)
  show ?case
  proof (cases "n < 10")
    case True
    then show ?thesis
      by (subst dec_string.simps) simp
  next
    case False
    with 1 have "length (dec_string (n div 10)) \<le> n div 10 div 10 + 1"
      by simp
    with False show ?thesis
      by (subst dec_string.simps) simp
  qed
qed

text \<open>
  The lessons' own upstream servers frame their responses correctly: for lesson 44 whatever the
  request, for lesson 47 whatever the version and for lesson 48 whatever the server's name, a reader
  that trusts the declared length gets exactly the payload, with no byte missing and none left over.
\<close>

theorem mock_responses_framed:
  assumes "length name < 2 ^ 60"
  shows "http_payload l43_response = Some ''Response from Local Mock'' \<and>
    http_payload (l44_response req) = Some (''Content for '' @ l44_cc_header (utf8_lossy req) @ [CHR 0x0A]) \<and>
    http_payload l45_response = Some ''Expensive Content Generated'' \<and>
    http_payload l46_response = Some ''Cached Content (TTL 300s)'' \<and>
    http_payload (fst (l47_response n)) = Some (''Content Version '' @ dec_string (unat (n + 1))) \<and>
    http_payload (mock_response name) = Some (''Response from '' @ name @ [CHR 0x0A])"
proof (intro conjI)
  have fields: "list_all field_ok [''Cache-Control: '' @ l44_cc_header r, ''Connection: close'']" for r
    by (simp add: l44_cc_header_def field_ok_def)
  have "length (l44_cc_header r) \<le> 20" for r
    by (simp add: l44_cc_header_def)
  then have "length (''Content for '' @ l44_cc_header r @ [CHR 0x0A]) < 2 ^ 64" for r
    by (simp add: order.strict_trans1 [of _ 20])
  from mock_payload [OF fields this]
  show "http_payload (l44_response req) = Some (''Content for '' @ l44_cc_header (utf8_lossy req) @ [CHR 0x0A])"
    by (simp add: l44_response_def Let_def)
  have "length (dec_string (unat (n + 1))) \<le> unat (n + 1) div 10 + 1" and "unat (n + 1) < 2 ^ 64"
    using dec_string_length unsigned_less [of "n + 1", where ?'a = nat] by auto
  then have "length (''Content Version '' @ dec_string (unat (n + 1))) < 2 ^ 64"
    by simp
  from mock_payload [OF _ this, of "[''Cache-Control: public, max-age=5, stale-while-revalidate=10'', ''Connection: close'']"]
  show "http_payload (fst (l47_response n)) = Some (''Content Version '' @ dec_string (unat (n + 1)))"
    by (simp add: l47_response_def Let_def field_ok_def)
  have "length (''Response from '' @ name @ [CHR 0x0A]) < 2 ^ 64"
    using assms by simp
  from mock_payload [OF _ this, of "[''Connection: close'']"]
  show "http_payload (mock_response name) = Some (''Response from '' @ name @ [CHR 0x0A])"
    by (simp add: l48_response_mock field_ok_def)
qed (use mock_payload [of "[''Cache-Control: public, max-age=60'', ''Connection: close'']" "''Response from Local Mock''"]
    mock_payload [of "[''Cache-Control: public, max-age=60'', ''Connection: close'']" "''Expensive Content Generated''"]
    mock_payload [of "[''Cache-Control: public, max-age=300'', ''Connection: close'']" "''Cached Content (TTL 300s)''"]
    in \<open>simp_all add: l43_response_def l45_response_def l46_response_def field_ok_def\<close>)

theorem mock_responses_framed_witness:
  "http_payload (mock_response ''Blue'') = Some (''Response from Blue'' @ [CHR 0x0A])"
  using mock_responses_framed [of "''Blue''"] by simp

end
