(* ===== verification/Lesson_Mains.thy ===== *)
theory Lesson_Mains
  imports Lesson_Websocket Lesson_Streams Lesson_Cache
begin

text \<open>
  The \<^verbatim>\<open>main\<close> functions of the lessons, up to \<^verbatim>\<open>run_forever\<close>: what each puts on Pingora's server (its
  settings, services with their listeners, balancers with their health checks) and which threads it
  starts beside it (the lessons' own upstreams). Pingora's constructors that may fail, and what they
  return, are parameters; the logger and the dictionary of the cache's compression, which some set
  first, are left out. The upstream servers of the lessons are here too, one connection at a time.
\<close>

section \<open>What a \<^verbatim>\<open>main\<close> function sets up\<close>

text \<open>A balancer: where its backends come from, and what is configured on it.\<close>

datatype lesson_source = FromAddresses "backend set" | FromFile string | FromMemory "backend set"

datatype lesson_check =
    LC_Tcp probe_settings
  | LC_Http string bool probe_settings "duration option"
  | LC_Body body_match_check

record lesson_balancer =
  lbal_source :: lesson_source
  lbal_update_frequency :: "duration option"
  lbal_health_check :: "lesson_check option"
  lbal_health_check_frequency :: "duration option"
  lbal_parallel_health_check :: bool

definition balancer_of :: "lesson_source \<Rightarrow> lesson_balancer" where
  "balancer_of src =
     \<lparr>lbal_source = src, lbal_update_frequency = None, lbal_health_check = None,
      lbal_health_check_frequency = None, lbal_parallel_health_check = False\<rparr>"

datatype lesson_listener = LTcp string | LTls string string string bool

text \<open>A proxy is known by its type, with the balancer or certificate it holds.\<close>

datatype lesson_service =
    LProxy string "lesson_balancer option" "lesson_listener list"
  | LCertProxy string cert_ref "lesson_listener list"
  | LMeteredProxy string metrics_middleware "lesson_listener list"
  | LApp string "lesson_listener list"
  | LBackground string "lesson_balancer option"
  | LPrometheus "lesson_listener list"

datatype lesson_thread = Listens string | Connects string

record lesson_settings =
  st_threads :: usize
  st_work_stealing :: bool
  st_grace_period :: "u64 option"

record lesson_run =
  run_settings :: lesson_settings
  run_services :: "lesson_service list"
  run_threads :: "lesson_thread list"

record 'w mains_api =
  srv_new :: "'w \<Rightarrow> (string, lesson_settings) outcome \<times> 'w"
  srv_exclusive :: bool
  srv_bootstrap :: "'w \<Rightarrow> 'w"
  try_from_iter :: "string list \<Rightarrow> 'w \<Rightarrow> (string, backend set) outcome \<times> 'w"
  backend_with_weight :: "string \<Rightarrow> usize \<Rightarrow> 'w \<Rightarrow> (string, backend) outcome \<times> 'w"
  socket_addrs :: "string \<Rightarrow> 'w \<Rightarrow> (string, inet_addr list) outcome \<times> 'w"
  path_exists :: "string \<Rightarrow> 'w \<Rightarrow> bool"
  tls_intermediate :: "string \<Rightarrow> string \<Rightarrow> 'w \<Rightarrow> (string, unit) outcome \<times> 'w"
  tls_listener :: "string \<Rightarrow> string \<Rightarrow> string \<Rightarrow> 'w \<Rightarrow> (string, unit) outcome \<times> 'w"
  read_bytes :: "string \<Rightarrow> 'w \<Rightarrow> (string, string) outcome \<times> 'w"
  x509_from_pem :: "string \<Rightarrow> string + string"
  pkey_from_pem :: "string \<Rightarrow> string + string"
  cert_key_new :: "string \<Rightarrow> string \<Rightarrow> cert_ref"
  main_metrics :: "'w metrics_api"

type_synonym 'w lesson_main = "'w mains_api \<Rightarrow> 'w \<Rightarrow> (string, lesson_run) outcome \<times> 'w"

text \<open>
  The frame all of them share: the server is made, its settings are changed, it is bootstrapped, and
  the services are made and added, in this order.
\<close>

definition with_server ::
  "'w mains_api \<Rightarrow> (lesson_settings \<Rightarrow> lesson_settings) \<Rightarrow>
   ('w \<Rightarrow> (string, lesson_service list) outcome \<times> 'w) \<Rightarrow> 'w \<Rightarrow> (string, lesson_run) outcome \<times> 'w" where
  "with_server api configure services w =
     try_then (srv_new api w) (\<lambda>settings w.
       let settings = (if srv_exclusive api then configure settings else settings);
           w = srv_bootstrap api w
       in try_then (services w) (\<lambda>ss w.
            (Ok \<lparr>run_settings = settings, run_services = ss, run_threads = []\<rparr>, w)))"

definition beside ::
  "lesson_thread list \<Rightarrow> ('w \<Rightarrow> (string, lesson_run) outcome \<times> 'w) \<Rightarrow> 'w \<Rightarrow> (string, lesson_run) outcome \<times> 'w" where
  "beside ts main w = try_then (main w) (\<lambda>run w. (Ok (run\<lparr>run_threads := ts\<rparr>), w))"

definition tcp_proxy :: "string \<Rightarrow> lesson_balancer option \<Rightarrow> string \<Rightarrow> lesson_service" where
  "tcp_proxy name lb addr = LProxy name lb [LTcp addr]"

definition fail_with :: "string \<Rightarrow> 'w \<Rightarrow> (string, 'a) outcome \<times> 'w" where
  "fail_with e w = (Err e, w)"

text \<open>\<^verbatim>\<open>LoadBalancer::try_from_iter(...)?\<close>\<close>

definition iter_balancer :: "'w mains_api \<Rightarrow> string list \<Rightarrow> 'w \<Rightarrow> (string, lesson_balancer) outcome \<times> 'w" where
  "iter_balancer api addrs w = try_then (try_from_iter api addrs w) (\<lambda>bs w. (Ok (balancer_of (FromAddresses bs)), w))"

abbreviation both_nodes :: "string list" where
  "both_nodes \<equiv> [''172.28.0.20:8080'', ''172.28.0.21:8080'']"

section \<open>Lessons 00 to 05\<close>

definition l00_main :: "'w lesson_main" where
  "l00_main api = with_server api id (\<lambda>w. (Ok [LApp ''Echo Service'' [LTcp ''0.0.0.0:6142'']], w))"

definition l01_main :: "'w lesson_main" where
  "l01_main api = with_server api id (\<lambda>w. (Ok [LApp ''ConfigDemo'' [LTcp ''0.0.0.0:6143'']], w))"

definition l02_main :: "'w lesson_main" where
  "l02_main api = with_server api id (\<lambda>w. (Ok [LBackground ''Heartbeat'' None], w))"

definition l03_main :: "'w lesson_main" where
  "l03_main api =
     with_server api (\<lambda>conf. conf\<lparr>st_grace_period := Some 10\<rparr>)
       (\<lambda>w. (Ok [LBackground ''BatchJobService'' None], w))"

definition l04_main :: "'w lesson_main" where
  "l04_main api =
     with_server api (\<lambda>conf. conf\<lparr>st_threads := 2, st_work_stealing := False\<rparr>)
       (\<lambda>w. (Ok [LBackground ''Reporter-A'' None, LBackground ''Reporter-B'' None], w))"

definition l05_main :: "'w lesson_main" where
  "l05_main api =
     with_server api id
       (\<lambda>w. (Ok [LApp ''Traffic'' [LTcp ''0.0.0.0:6145''], LBackground ''MetricExporter'' None], w))"

section \<open>Proxies without a balancer\<close>

definition l06_main :: "'w lesson_main" where
  "l06_main api =
     with_server api id (\<lambda>w. (Ok [tcp_proxy ''SimpleProxy'' None ''0.0.0.0:6146''], w))"

definition l08_main :: "'w lesson_main" where
  "l08_main api =
     with_server api id (\<lambda>w. (Ok [tcp_proxy ''HeaderModProxy'' None ''0.0.0.0:6148''], w))"

definition l09_main :: "'w lesson_main" where
  "l09_main api =
     with_server api id (\<lambda>w. (Ok [tcp_proxy ''PathRouter'' None ''0.0.0.0:6149''], w))"

definition l10_main :: "'w lesson_main" where
  "l10_main api =
     with_server api id (\<lambda>w. (Ok [tcp_proxy ''QueryModeProxy'' None ''0.0.0.0:6150''], w))"

definition l11_main :: "'w lesson_main" where
  "l11_main api =
     with_server api id (\<lambda>w. (Ok [tcp_proxy ''ResponseModProxy'' None ''0.0.0.0:6151''], w))"

definition l12_main :: "'w lesson_main" where
  "l12_main api =
     with_server api id (\<lambda>w. (Ok [tcp_proxy ''BodyInspector'' None ''0.0.0.0:6152''], w))"

definition l13_main :: "'w lesson_main" where
  "l13_main api =
     with_server api id (\<lambda>w. (Ok [tcp_proxy ''CustomErrorProxy'' None ''0.0.0.0:6153''], w))"

definition l15_main :: "'w lesson_main" where
  "l15_main api =
     with_server api id (\<lambda>w. (Ok [tcp_proxy ''H2cProxy'' None ''0.0.0.0:6155''], w))"

definition l16_main :: "'w lesson_main" where
  "l16_main api =
     with_server api id (\<lambda>w. (Ok [tcp_proxy ''StaticPeerProxy'' None ''0.0.0.0:6160''], w))"

definition l17_main :: "'w lesson_main" where
  "l17_main api =
     with_server api id (\<lambda>w. (Ok [tcp_proxy ''DnsPeerProxy'' None ''0.0.0.0:6161''], w))"

definition l19_main :: "'w lesson_main" where
  "l19_main api =
     with_server api id (\<lambda>w. (Ok [tcp_proxy ''TimeoutProxy'' None ''0.0.0.0:6163''], w))"

definition l20_main :: "'w lesson_main" where
  "l20_main api =
     with_server api id (\<lambda>w. (Ok [tcp_proxy ''SniRouter'' None ''0.0.0.0:6164''], w))"

definition l25_main :: "'w lesson_main" where
  "l25_main api =
     with_server api id (\<lambda>w. (Ok [tcp_proxy ''ReusingProxy'' None ''0.0.0.0:6169''], w))"

definition l07_main :: "'w lesson_main" where
  "l07_main api =
     with_server api id (\<lambda>w.
       let cert_path = ''/keys/server.crt''; key_path = ''/keys/server.key''
       in if \<not> path_exists api cert_path w \<or> \<not> path_exists api key_path w
          then fail_with (''Missing keys at '' @ cert_path) w
          else try_then (tls_intermediate api cert_path key_path w) (\<lambda>_ w.
            (Ok [LProxy ''TlsProxy'' None [LTls ''0.0.0.0:6147'' cert_path key_path True]], w)))"

definition l14_main :: "'w lesson_main" where
  "l14_main api =
     with_server api id (\<lambda>w.
       let cert_path = ''/keys/server.crt''; key_path = ''/keys/server.key''
       in if \<not> path_exists api cert_path w
          then fail_with (''Missing keys at '' @ cert_path) w
          else try_then (tls_intermediate api cert_path key_path w) (\<lambda>_ w.
            (Ok [LProxy ''Http2Proxy'' None [LTls ''0.0.0.0:6154'' cert_path key_path True]], w)))"

definition l21_main :: "'w lesson_main" where
  "l21_main api =
     with_server api id (\<lambda>w.
       let cert_path = ''/keys/client.crt''; key_path = ''/keys/client.key''
       in if \<not> path_exists api cert_path w
          then fail_with (''Client keys missing at '' @ cert_path @ ''. Run 00-setup-certs.sh'') w
          else try_then (read_bytes api cert_path w) (\<lambda>cert_bytes w.
               try_then (read_bytes api key_path w) (\<lambda>key_bytes w.
                 case x509_from_pem api cert_bytes of
                   Inl e \<Rightarrow> fail_with (''Failed to parse certificate: '' @ e) w
                 | Inr x509 \<Rightarrow>
                 (case pkey_from_pem api key_bytes of
                   Inl e \<Rightarrow> fail_with (''Failed to parse private key: '' @ e) w
                 | Inr key \<Rightarrow>
                     (Ok [LCertProxy ''MtlsProxy'' (cert_key_new api x509 key) [LTcp ''0.0.0.0:6165'']], w)))))"

text \<open>A listener that cannot be added panics.\<close>

definition l24_main :: "'w lesson_main" where
  "l24_main api =
     with_server api id (\<lambda>w.
       case tls_listener api ''0.0.0.0:6168'' ''conf/keys/server.crt'' ''conf/keys/server.key'' w of
         (Ok _, w) \<Rightarrow>
           (Ok [LProxy ''GrpcProxy'' None
                  [LTls ''0.0.0.0:6168'' ''conf/keys/server.crt'' ''conf/keys/server.key'' False]], w)
       | (Err e, w) \<Rightarrow> (Panic (''Failed to add TLS listener: '' @ e), w)
       | (Panic p, w) \<Rightarrow> (Panic p, w))"

section \<open>Proxies with an upstream of their own\<close>

definition l18_main :: "'w lesson_main" where
  "l18_main api =
     beside [Listens ''/tmp/upstream.sock'']
       (with_server api id (\<lambda>w. (Ok [tcp_proxy ''UdsProxy'' None ''0.0.0.0:6162''], w)))"

definition l22_main :: "'w lesson_main" where
  "l22_main api =
     beside [Listens ''0.0.0.0:3128'']
       (with_server api id (\<lambda>w. (Ok [tcp_proxy ''TunnelProxy'' None ''0.0.0.0:6166''], w)))"

definition l43_main :: "'w lesson_main" where
  "l43_main api =
     beside [Listens ''127.0.0.1:6191'']
       (with_server api id (\<lambda>w. (Ok [tcp_proxy ''CacheProxy'' None ''0.0.0.0:6190''], w)))"

definition l44_main :: "'w lesson_main" where
  "l44_main api =
     beside [Listens ''127.0.0.1:6193'']
       (with_server api id (\<lambda>w. (Ok [tcp_proxy ''CacheControlProxy'' None ''0.0.0.0:6192''], w)))"

definition l45_main :: "'w lesson_main" where
  "l45_main api =
     beside [Listens ''127.0.0.1:6195'']
       (with_server api id (\<lambda>w. (Ok [tcp_proxy ''CacheLockProxy'' None ''0.0.0.0:6194''], w)))"

definition l46_main :: "'w lesson_main" where
  "l46_main api =
     beside [Listens ''127.0.0.1:6197'']
       (with_server api id (\<lambda>w. (Ok [tcp_proxy ''PurgeProxy'' None ''0.0.0.0:6196''], w)))"

definition l47_main :: "'w lesson_main" where
  "l47_main api =
     beside [Listens ''127.0.0.1:6199'']
       (with_server api id (\<lambda>w. (Ok [tcp_proxy ''SWRProxy'' None ''0.0.0.0:6198''], w)))"

definition l23_main :: "'w lesson_main" where
  "l23_main api =
     beside [Listens ''127.0.0.1:9091'', Connects ''ws://127.0.0.1:6167'']
       (with_server api id (\<lambda>w. (Ok [tcp_proxy ''WebSocketProxy'' None ''0.0.0.0:6167''], w)))"

definition l48_main :: "'w lesson_main" where
  "l48_main api =
     beside [Listens ''127.0.0.1:6201'', Listens ''127.0.0.1:6202'']
       (with_server api id (\<lambda>w.
          try_then (map_err (\<lambda>_. []) (unwrap_reg (register_counter (main_metrics api)
            ''http_requests_total'' ''Total number of HTTP requests processed.'' [] w))) (\<lambda>counter w.
          try_then (map_err (\<lambda>_. []) (unwrap_reg (register_histogram (main_metrics api)
            ''http_request_duration_seconds'' ''The HTTP request latency in seconds.'' [] w))) (\<lambda>histogram w.
          (Ok [LMeteredProxy ''ObservabilityProxy'' \<lparr>req_metric = counter, latency_metric = histogram\<rparr>
                 [LTcp ''0.0.0.0:6199''],
               LPrometheus [LTcp ''0.0.0.0:6200'']], w)))))"

section \<open>Balanced proxies\<close>

text \<open>The balancer is run by a background service and shared with the proxy.\<close>

definition balanced_main :: "(string \<times> string \<times> string) \<Rightarrow> lesson_balancer \<Rightarrow> lesson_service list" where
  "balanced_main names lb =
     (let (service, proxy, addr) = names
      in [LBackground service (Some lb), tcp_proxy proxy (Some lb) addr])"

definition checked :: "lesson_check \<Rightarrow> lesson_balancer \<Rightarrow> lesson_balancer" where
  "checked hc lb =
     lb\<lparr>lbal_health_check := Some hc, lbal_health_check_frequency := Some (from_secs 1),
        lbal_parallel_health_check := True\<rparr>"

definition quick_probe :: probe_settings where
  "quick_probe =
     \<lparr>pr_connection_timeout = Some (from_secs 1), pr_consecutive_success = 1, pr_consecutive_failure = 1\<rparr>"

definition l26_main :: "'w lesson_main" where
  "l26_main api =
     with_server api id (\<lambda>w. try_then (iter_balancer api both_nodes w) (\<lambda>lb w.
       (Ok (balanced_main (''round_robin_lb'', ''LB'', ''0.0.0.0:6170'') lb), w)))"

definition l27_main :: "'w lesson_main" where
  "l27_main api =
     with_server api id (\<lambda>w.
       try_then (backend_with_weight api ''172.28.0.20:8080'' 3 w) (\<lambda>blue w.
       try_then (backend_with_weight api ''172.28.0.21:8080'' 1 w) (\<lambda>green w.
       (Ok (balanced_main (''weighted_lb'', ''LB'', ''0.0.0.0:6171'')
          (balancer_of (FromAddresses (insert green (insert blue {}))))), w))))"

definition l28_main :: "'w lesson_main" where
  "l28_main api =
     with_server api id (\<lambda>w. try_then (iter_balancer api both_nodes w) (\<lambda>lb w.
       (Ok (balanced_main (''consistent_lb'', ''LB'', ''0.0.0.0:6172'') lb), w)))"

definition l29_main :: "'w lesson_main" where
  "l29_main api =
     with_server api id (\<lambda>w. try_then (iter_balancer api both_nodes w) (\<lambda>lb w.
       (Ok (balanced_main (''sticky_lb'', ''LB'', ''0.0.0.0:6173'') lb), w)))"

definition l30_main :: "'w lesson_main" where
  "l30_main api =
     with_server api id (\<lambda>w. try_then (iter_balancer api both_nodes w) (\<lambda>lb w.
       (Ok (balanced_main (''health_check_lb'', ''LB'', ''0.0.0.0:6174'') (checked (LC_Tcp quick_probe) lb)), w)))"

definition l31_main :: "'w lesson_main" where
  "l31_main api =
     with_server api id (\<lambda>w. try_then (iter_balancer api both_nodes w) (\<lambda>lb w.
       (Ok (balanced_main (''http_health_check_lb'', ''LB'', ''0.0.0.0:6175'')
          (checked (LC_Http ''localhost'' False quick_probe (Some (from_secs 1))) lb)), w)))"

definition l32_main :: "'w lesson_main" where
  "l32_main api =
     with_server api id (\<lambda>w. try_then (iter_balancer api both_nodes w) (\<lambda>lb w.
       (Ok (balanced_main (''custom_health_check'', ''LB'', ''0.0.0.0:6176'') (checked (LC_Body l32_hc) lb)), w)))"

definition l33_main :: "'w lesson_main" where
  "l33_main api =
     with_server api id (\<lambda>w. try_then (iter_balancer api [''172.28.0.20:8080''] w) (\<lambda>lb w.
       (Ok (balanced_main (''primary_pool_lb'', ''LB'', ''0.0.0.0:6177'') (checked (LC_Tcp quick_probe) lb)), w)))"

definition l34_main :: "'w lesson_main" where
  "l34_main api =
     with_server api id (\<lambda>w.
       (Ok (balanced_main (''file_discovery'', ''LB'', ''0.0.0.0:6178'')
          ((balancer_of (FromFile ''conf/upstreams.txt''))\<lparr>lbal_update_frequency := Some (from_secs 1)\<rparr>)), w))"

text \<open>The set the admin service swaps starts with the first address of the first node.\<close>

definition l35_main :: "'w lesson_main" where
  "l35_main api =
     with_server api id (\<lambda>w.
       try_then (socket_addrs api ''172.28.0.20:8080'' w) (\<lambda>addrs w.
         case addrs of
           [] \<Rightarrow> (Panic ''called `Option::unwrap()` on a `None` value'', w)
         | initial_addr # _ \<Rightarrow>
             (let upstreams = (balancer_of (FromMemory {backend_of 1 initial_addr}))
                    \<lparr>lbal_update_frequency := Some (from_millis 500)\<rparr>
              in (Ok [LBackground ''lb_updater'' (Some upstreams), LBackground ''admin_api'' None,
                      tcp_proxy ''LB'' (Some upstreams) ''0.0.0.0:6179''], w))))"

section \<open>Proxies that hold a balancer alone\<close>

definition l36_main :: "'w lesson_main" where
  "l36_main api =
     with_server api id (\<lambda>w.
       try_then (iter_balancer api both_nodes w) (\<lambda>upstreams w.
         (Ok [tcp_proxy ''RateLimiterProxy'' (Some upstreams) ''0.0.0.0:6180''], w)))"

definition l37_main :: "'w lesson_main" where
  "l37_main api =
     with_server api id (\<lambda>w.
       try_then (iter_balancer api both_nodes w) (\<lambda>upstreams w.
         (Ok [tcp_proxy ''SlidingWindowProxy'' (Some upstreams) ''0.0.0.0:6181''], w)))"

definition l38_main :: "'w lesson_main" where
  "l38_main api =
     with_server api id (\<lambda>w.
       try_then (iter_balancer api both_nodes w) (\<lambda>upstreams w.
         (Ok [tcp_proxy ''InflightLimitProxy'' (Some upstreams) ''0.0.0.0:6182''], w)))"

definition l39_main :: "'w lesson_main" where
  "l39_main api =
     with_server api id (\<lambda>w.
       try_then (iter_balancer api both_nodes w) (\<lambda>upstreams w.
         (Ok [tcp_proxy ''FirewallProxy'' (Some upstreams) ''0.0.0.0:6183''], w)))"

definition l40_main :: "'w lesson_main" where
  "l40_main api =
     with_server api id (\<lambda>w.
       try_then (iter_balancer api both_nodes w) (\<lambda>upstreams w.
         (Ok [tcp_proxy ''SizeLimitProxy'' (Some upstreams) ''0.0.0.0:6184''], w)))"

definition l41_main :: "'w lesson_main" where
  "l41_main api =
     with_server api id (\<lambda>w.
       try_then (iter_balancer api both_nodes w) (\<lambda>upstreams w.
         (Ok [tcp_proxy ''AuthProxy'' (Some upstreams) ''0.0.0.0:6185''], w)))"

definition l42_main :: "'w lesson_main" where
  "l42_main api =
     with_server api id (\<lambda>w.
       try_then (iter_balancer api both_nodes w) (\<lambda>upstreams w.
         (Ok [tcp_proxy ''BasicAuthProxy'' (Some upstreams) ''0.0.0.0:6186''], w)))"

section \<open>Balancers are kept up to date\<close>

text \<open>
  In Pingora a balancer refreshes its backends and checks their health only while a background
  service runs it. So every balancer with something to refresh or to check must be among them.
\<close>

definition needs_service :: "lesson_balancer \<Rightarrow> bool" where
  "needs_service lb \<longleftrightarrow> lbal_update_frequency lb \<noteq> None \<or> lbal_health_check lb \<noteq> None"

definition kept_up :: "lesson_run \<Rightarrow> bool" where
  "kept_up run \<longleftrightarrow>
     (\<forall>name lb ls. LProxy name (Some lb) ls \<in> set (run_services run) \<longrightarrow> needs_service lb \<longrightarrow>
        (\<exists>service. LBackground service (Some lb) \<in> set (run_services run)) \<and>
        (lbal_health_check lb \<noteq> None \<longrightarrow> lbal_health_check_frequency lb \<noteq> None))"

lemma with_server_Ok:
  "with_server api configure services w = (Ok run, w') \<Longrightarrow> \<exists>w0 w1. services w0 = (Ok (run_services run), w1)"
  by (auto simp: with_server_def Let_def try_then_Ok_iff) blast

lemma iter_balancer_Ok: "iter_balancer api addrs w = (Ok lb, w') \<Longrightarrow> \<exists>bs. lb = balancer_of (FromAddresses bs)"
  by (auto simp: iter_balancer_def try_then_Ok_iff)

lemma balancer_of_simps [simp]:
  "\<not> needs_service (balancer_of src)"
  "lbal_health_check (balancer_of src) = None"
  by (simp_all add: needs_service_def balancer_of_def)

lemma checked_frequency [simp]: "lbal_health_check_frequency (checked hc lb) = Some (from_secs 1)"
  by (simp add: checked_def)

text \<open>The three ways a lesson wires its balancer.\<close>

lemma kept_up_balanced:
  "balanced_main names lb = run_services run \<Longrightarrow>
     lbal_health_check lb = None \<or> lbal_health_check_frequency lb \<noteq> None \<Longrightarrow> kept_up run"
  by (cases names) (auto simp: kept_up_def balanced_main_def tcp_proxy_def dest!: sym [of _ "run_services run"])

lemma kept_up_memory:
  "[LBackground n (Some lb), LBackground m None, tcp_proxy p (Some lb) addr] = run_services run \<Longrightarrow>
     lbal_health_check lb = None \<Longrightarrow> kept_up run"
  by (auto simp: kept_up_def tcp_proxy_def dest!: sym [of _ "run_services run"])

lemma kept_up_idle:
  "[tcp_proxy name (Some (balancer_of src)) addr] = run_services run \<Longrightarrow> kept_up run"
  by (auto simp: kept_up_def tcp_proxy_def dest!: sym [of _ "run_services run"])

definition balanced_lessons :: "'w lesson_main list" where
  "balanced_lessons =
     [l26_main, l27_main, l28_main, l29_main, l30_main, l31_main, l32_main, l33_main, l34_main, l35_main,
      l36_main, l37_main, l38_main, l39_main, l40_main, l41_main, l42_main]"

lemmas balanced_main_defs =
  l26_main_def l27_main_def l28_main_def l29_main_def l30_main_def l31_main_def l32_main_def l33_main_def
  l34_main_def l35_main_def

lemmas shared_main_defs =
  l36_main_def l37_main_def l38_main_def l39_main_def l40_main_def l41_main_def l42_main_def

text \<open>
  C30. Every lesson's balancer is kept up to date. In each of the seventeen lessons with a balancer, when
  \<^verbatim>\<open>main\<close> gets as far as running the server, a balancer that has backends to refresh or a health check to
  make and that a proxy selects from is also run by a background service of the same server, and a
  health check has its frequency set.
\<close>

theorem balancers_kept_up:
  assumes "main \<in> set balanced_lessons" and "main api w = (Ok run, w')"
  shows "kept_up run"
proof -
  have balanced: "kept_up run"
    if "main \<in> {l26_main, l27_main, l28_main, l29_main, l30_main, l31_main, l32_main, l33_main, l34_main}"
    using that assms(2)
    by (auto simp: balanced_main_defs try_then_Ok_iff dest!: with_server_Ok iter_balancer_Ok
        elim!: kept_up_balanced)
  have memory: "kept_up run" if "main = l35_main"
    using that assms(2)
    by (auto simp: l35_main_def try_then_Ok_iff Let_def neq_Nil_conv dest!: with_server_Ok
        split: list.splits elim!: kept_up_memory)
  have shared: "kept_up run"
    if "main \<in> {l36_main, l37_main, l38_main, l39_main, l40_main, l41_main, l42_main}"
    using that assms(2)
    by (auto simp: shared_main_defs try_then_Ok_iff dest!: with_server_Ok iter_balancer_Ok
        elim!: kept_up_idle)
  from assms(1) balanced memory shared show ?thesis
    by (auto simp: balanced_lessons_def)
qed

text \<open>Everything succeeds, and every address resolves to one backend.\<close>

definition smooth_mains :: "unit mains_api" where
  "smooth_mains =
     \<lparr>srv_new = (\<lambda>w. (Ok \<lparr>st_threads = 1, st_work_stealing = True, st_grace_period = None\<rparr>, w)),
      srv_exclusive = True, srv_bootstrap = (\<lambda>w. w),
      try_from_iter = (\<lambda>addrs w. (Ok {backend_of 1 (SocketAddr (V4 9) 80)}, w)),
      backend_with_weight = (\<lambda>addr weight w. (Ok (backend_of weight (SocketAddr (V4 9) 80)), w)),
      socket_addrs = (\<lambda>addr w. (Ok [SocketAddr (V4 9) 80], w)), path_exists = (\<lambda>p w. True),
      tls_intermediate = (\<lambda>c k w. (Ok (), w)), tls_listener = (\<lambda>a c k w. (Ok (), w)),
      read_bytes = (\<lambda>p w. (Ok p, w)), x509_from_pem = Inr, pkey_from_pem = Inr, cert_key_new = (\<lambda>x k. 0),
      main_metrics = \<lparr>register_counter = (\<lambda>name help labels w. (Ok 0, w)),
        register_histogram = (\<lambda>name help labels w. (Ok 1, w)), inc_counter = (\<lambda>n labels w. w),
        observe_value = (\<lambda>n labels v w. w)\<rparr>\<rparr>"

theorem balancers_kept_up_witness:
  "\<exists>run lb. l30_main smooth_mains () = (Ok run, ()) \<and>
     tcp_proxy ''LB'' (Some lb) ''0.0.0.0:6174'' \<in> set (run_services run) \<and> needs_service lb \<and>
     (\<exists>service. LBackground service (Some lb) \<in> set (run_services run))"
proof -
  obtain run where run: "l30_main smooth_mains () = (Ok run, ())"
    and services: "run_services run = balanced_main (''health_check_lb'', ''LB'', ''0.0.0.0:6174'')
      (checked (LC_Tcp quick_probe) (balancer_of (FromAddresses {backend_of 1 (SocketAddr (V4 9) 80)})))"
    by (simp add: l30_main_def with_server_def smooth_mains_def iter_balancer_def Let_def)
  let ?lb = "checked (LC_Tcp quick_probe) (balancer_of (FromAddresses {backend_of 1 (SocketAddr (V4 9) 80)}))"
  have needs: "needs_service ?lb" and mem: "tcp_proxy ''LB'' (Some ?lb) ''0.0.0.0:6174'' \<in> set (run_services run)"
    by (simp_all add: needs_service_def checked_def services balanced_main_def)
  have "kept_up run"
    using balancers_kept_up [of l30_main smooth_mains "()" run "()"] run by (simp add: balanced_lessons_def)
  then have "\<exists>service. LBackground service (Some ?lb) \<in> set (run_services run)"
    using needs mem unfolding kept_up_def tcp_proxy_def by blast
  with run needs mem show ?thesis
    by blast
qed

section \<open>The lessons' own upstreams\<close>

text \<open>
  One connection of each of the lessons' upstream servers: whatever can be read is read once, and the
  response is written; the results of both are dropped, and their delays left out. Lesson 18 is the
  server behind the Unix socket.
\<close>

definition serve_once :: "'w stream_api \<Rightarrow> nat \<Rightarrow> (string \<Rightarrow> string) \<Rightarrow> 'w \<Rightarrow> 'w" where
  "serve_once sapi n response w =
     (let (r, w) = stream_read sapi n w
      in snd (stream_write_all sapi (response (case r of Inl e \<Rightarrow> [] | Inr bytes \<Rightarrow> bytes)) w))"

definition l18_response :: string where
  "l18_response = with_crlf [''HTTP/1.1 200 OK'', ''Content-Length: 13'', ''Connection: close''] @ crlf @ ''Hello via UDS''"

definition l18_serve :: "'w stream_api \<Rightarrow> 'w \<Rightarrow> 'w" where
  "l18_serve sapi = serve_once sapi 4096 (\<lambda>req. l18_response)"

definition l43_serve :: "'w stream_api \<Rightarrow> 'w \<Rightarrow> 'w" where
  "l43_serve sapi = serve_once sapi 1024 (\<lambda>req. l43_response)"

definition l44_serve :: "'w stream_api \<Rightarrow> 'w \<Rightarrow> 'w" where
  "l44_serve sapi = serve_once sapi 1024 l44_response"

definition l45_serve :: "'w stream_api \<Rightarrow> 'w \<Rightarrow> 'w" where
  "l45_serve sapi = serve_once sapi 1024 (\<lambda>req. l45_response)"

definition l46_serve :: "'w stream_api \<Rightarrow> 'w \<Rightarrow> 'w" where
  "l46_serve sapi = serve_once sapi 1024 (\<lambda>req. l46_response)"

definition l47_serve :: "'w stream_api \<Rightarrow> 'w \<times> usize \<Rightarrow> 'w \<times> usize" where
  "l47_serve sapi s =
     (let (w, content_version) = s; (response, content_version) = l47_response content_version
      in (serve_once sapi 1024 (\<lambda>req. response) w, content_version))"

definition l48_serve :: "'w stream_api \<Rightarrow> string \<Rightarrow> 'w \<Rightarrow> 'w" where
  "l48_serve sapi name = serve_once sapi 1024 (\<lambda>req. mock_response name)"

text \<open>
  The forward proxy of lesson 22. Reaching the upstream and copying both ways are parameters.
\<close>

definition forward_proxy ::
  "'w stream_api \<Rightarrow> (string \<Rightarrow> 'w \<Rightarrow> bool \<times> 'w) \<Rightarrow> ('w \<Rightarrow> 'w) \<Rightarrow> 'w \<Rightarrow> 'w" where
  "forward_proxy sapi connect copy_bidirectional w =
     (let (r, w) = stream_read sapi 1024 w; buf = (case r of Inl e \<Rightarrow> [] | Inr bytes \<Rightarrow> bytes)
      in if buf = [] then w
         else if starts_with (utf8_lossy buf) ''CONNECT''
         then (case connect ''172.28.0.22:443'' w of
                 (True, w) \<Rightarrow>
                   copy_bidirectional
                     (snd (stream_write_all sapi (''HTTP/1.1 200 Connection Established'' @ crlf2) w))
               | (False, w) \<Rightarrow> w)
         else w)"

section \<open>The proxies reach them\<close>

text \<open>The lessons with a fixed peer on an upstream of their own, by that peer and their \<^verbatim>\<open>main\<close>.\<close>

definition own_upstreams ::
  "((peer_api \<Rightarrow> 'v \<Rightarrow> (pingora_error, http_peer) outcome \<times> 'v) \<times> 'w lesson_main) list" where
  "own_upstreams =
     [(l43_upstream_peer, l43_main), (l44_upstream_peer, l44_main), (l45_upstream_peer, l45_main),
      (l46_upstream_peer, l46_main), (l47_upstream_peer, l47_main)]"

lemma beside_Ok: "beside ts main w = (Ok run, w') \<Longrightarrow> run_threads run = ts"
  by (auto simp: beside_def try_then_Ok_iff)

definition socket_text :: "string \<times> u16 \<Rightarrow> string" where
  "socket_text addr = fst addr @ '':'' @ dec_string (unat (snd addr))"

lemma own_ports:
  "socket_text (''127.0.0.1'', 6191) = ''127.0.0.1:6191''" "socket_text (''127.0.0.1'', 6193) = ''127.0.0.1:6193''"
  "socket_text (''127.0.0.1'', 6195) = ''127.0.0.1:6195''" "socket_text (''127.0.0.1'', 6197) = ''127.0.0.1:6197''"
  "socket_text (''127.0.0.1'', 6199) = ''127.0.0.1:6199''" "socket_text (''127.0.0.1'', 6201) = ''127.0.0.1:6201''"
  "socket_text (''127.0.0.1'', 6202) = ''127.0.0.1:6202''"
  by (simp_all add: socket_text_def dec_string.simps digit_char_def) code_simp+

text \<open>
  Each of these proxies sends its requests, without TLS, to the address its own upstream listens on.
\<close>

theorem own_upstreams_reached:
  assumes "(peer, main) \<in> set own_upstreams" and "main api w = (Ok run, w')"
  shows "\<exists>addr sni. (\<forall>papi v. peer papi v = fixed_peer papi addr False sni v) \<and>
    Listens (socket_text addr) \<in> set (run_threads run)"
proof -
  from assms(1) consider
    "peer = l43_upstream_peer" "main = l43_main"
  | "peer = l44_upstream_peer" "main = l44_main"
  | "peer = l45_upstream_peer" "main = l45_main"
  | "peer = l46_upstream_peer" "main = l46_main"
  | "peer = l47_upstream_peer" "main = l47_main"
    by (auto simp: own_upstreams_def)
  then show ?thesis
  proof cases
  case 1
  with assms(2) show ?thesis
    by (intro exI [of _ "(''127.0.0.1'', 6191)"] exI [of _ "''cache.local''"])
       (simp add: own_ports l43_upstream_peer_def l43_main_def beside_Ok)
  next
  case 2
  with assms(2) show ?thesis
    by (intro exI [of _ "(''127.0.0.1'', 6193)"] exI [of _ "''header.test.local''"])
       (simp add: own_ports l44_upstream_peer_def l44_main_def beside_Ok)
  next
  case 3
  with assms(2) show ?thesis
    by (intro exI [of _ "(''127.0.0.1'', 6195)"] exI [of _ "''heavy.local''"])
       (simp add: own_ports l45_upstream_peer_def l45_main_def beside_Ok)
  next
  case 4
  with assms(2) show ?thesis
    by (intro exI [of _ "(''127.0.0.1'', 6197)"] exI [of _ "''purge.local''"])
       (simp add: own_ports l46_upstream_peer_def l46_main_def beside_Ok)
  next
  case 5
  with assms(2) show ?thesis
    by (intro exI [of _ "(''127.0.0.1'', 6199)"] exI [of _ "''swr.local''"])
       (simp add: own_ports l47_upstream_peer_def l47_main_def beside_Ok)
  qed
qed

theorem l48_reached:
  assumes "l48_main api w = (Ok run, w')"
  shows "Listens (socket_text (l48_target count)) \<in> set (run_threads run)"
  using assms by (auto simp: l48_main_def l48_target_def own_ports dest!: beside_Ok)

section \<open>Lesson 22, end to end\<close>

text \<open>The tunnel's connector over the forward proxy: what it writes the proxy reads at once.\<close>

definition proxied_dial :: "bool \<Rightarrow> (string, nat) dial_api" where
  "proxied_dial upstream_up =
     \<lparr>dial = (\<lambda>a w. (Inr 7, w)),
      dial_write = (\<lambda>c bytes w. (Inr (),
        sc_sent (forward_proxy scripted_stream (\<lambda>a s. (upstream_up, s)) (\<lambda>s. s)
          \<lparr>sc_pending = bytes, sc_sent = [], sc_piece = 4096\<rparr>))),
      dial_read = (\<lambda>c n w. (Inr (take n w), drop n w))\<rparr>"

text \<open>
  Lesson 22: the connector and the forward proxy agree. Whatever host is asked for, the tunnel is open
  exactly when the proxy reached its upstream.
\<close>

theorem l22_tunnel_opens:
  "fst (l22_connect (proxied_dial up) self []) = Ok 7 \<longleftrightarrow> up"
proof -
  obtain rest where "take 1024 (connect_req self) = ''CONNECT'' @ rest"
    by (simp add: connect_req_def Let_def)
  then have "starts_with (utf8_lossy (take 1024 (connect_req self))) ''CONNECT''" "connect_req self \<noteq> []"
    by (auto simp: starts_with_def ascii_def)
  then have written: "dial_write (proxied_dial up) c (connect_req self) w =
      (Inr (), if up then ''HTTP/1.1 200 Connection Established'' @ crlf2 else [])" for c w
    by (simp add: proxied_dial_def forward_proxy_def scripted_stream_def Let_def)
  have "contains_str (utf8_lossy (''HTTP/1.1 200 Connection Established'' @ crlf2)) '' 200 ''"
    "\<not> contains_str (utf8_lossy []) '' 200 ''" and "length crlf2 < 100"
    by code_simp+
  moreover have "dial (proxied_dial up) a w = (Inr 7, w)"
    and "dial_read (proxied_dial up) c n w = (Inr (take n w), drop n w)" for a c n w
    by (simp_all add: proxied_dial_def)
  ultimately show ?thesis
    by (simp add: l22_connect_def written Let_def)
qed

end
