(* ===== verification/Lesson_Servers.thy ===== *)
theory Lesson_Servers
  imports Lesson_Mains Lesson_Discovery
begin

text \<open>
  The accept loops of the lessons: the upstream servers of lessons 18 and 43 to 48 and the forward
  proxy of lesson 22, which serve for ever; the echo server of lesson 23, which ends at the first
  failed accept; the admin service of lesson 35, which ends at the shutdown. Each connection is served
  by a task of its own, spawned on the runtime. The listener and the runtime are parameters.
\<close>

section \<open>Accepting\<close>

datatype 'c arrival = Connected 'c | AcceptFailed string | ShutdownChanged

text \<open>
  Binding a listener, its next accept, the next of an accept and the shutdown signal (\<^verbatim>\<open>select!\<close>), and
  \<^verbatim>\<open>tokio::spawn\<close>.
\<close>

record ('c, 't, 'w) net_api =
  nt_bind :: "string \<Rightarrow> 'w \<Rightarrow> (string + unit) \<times> 'w"
  nt_accept :: "'w \<Rightarrow> (string + 'c) \<times> 'w"
  nt_select :: "'w \<Rightarrow> 'c arrival \<times> 'w"
  nt_spawn :: "'t \<Rightarrow> 'w \<Rightarrow> 'w"

definition accepted :: "('c, 't, 'w) net_api \<Rightarrow> 'w \<Rightarrow> 'c arrival \<times> 'w" where
  "accepted napi w = (case nt_accept napi w of (Inr c, w) \<Rightarrow> (Connected c, w) | (Inl e, w) \<Rightarrow> (AcceptFailed e, w))"

fun connections :: "'c arrival list \<Rightarrow> 'c list" where
  "connections [] = []"
| "connections (Connected c # es) = c # connections es"
| "connections (AcceptFailed e # es) = connections es"
| "connections (ShutdownChanged # es) = connections es"

text \<open>
  A loop that takes arrivals until one that ends it and starts a task for each connection. A world
  yields the arrivals that are still to come, in order, and keeps the tasks started.
\<close>

definition arrivals_law ::
  "('w \<Rightarrow> 'c arrival \<times> 'w) \<Rightarrow> ('t \<Rightarrow> 'w \<Rightarrow> 'w) \<Rightarrow> ('w \<Rightarrow> 'c arrival list) \<Rightarrow> ('w \<Rightarrow> 't list) \<Rightarrow> bool" where
  "arrivals_law arrive spawn upcoming spawned \<longleftrightarrow>
     (\<forall>w e es. upcoming w = e # es \<longrightarrow>
       (\<exists>w'. arrive w = (e, w') \<and> upcoming w' = es \<and> spawned w' = spawned w)) \<and>
     (\<forall>t w. upcoming (spawn t w) = upcoming w \<and> spawned (spawn t w) = spawned w @ [t])"

definition take_arrival :: "('c \<Rightarrow> 't) \<Rightarrow> ('t \<Rightarrow> 'w \<Rightarrow> 'w) \<Rightarrow> 'c arrival \<Rightarrow> 'w \<Rightarrow> 'w" where
  "take_arrival task spawn e w = (case e of Connected c \<Rightarrow> spawn (task c) w | _ \<Rightarrow> w)"

locale accept_loop = round_loop loop step
  for loop :: "'w \<Rightarrow> 'w option" and step :: "'w \<Rightarrow> 'w + 'w" +
  fixes arrive :: "'w \<Rightarrow> 'c arrival \<times> 'w"
    and task :: "'c \<Rightarrow> 't" and spawn :: "'t \<Rightarrow> 'w \<Rightarrow> 'w"
    and ends :: "'c arrival \<Rightarrow> bool"
  assumes step_arrival: "step w =
    (case arrive w of (e, w') \<Rightarrow> if ends e then Inl w' else Inr (take_arrival task spawn e w'))"
begin

lemma one_arrival:
  assumes "arrivals_law arrive spawn upcoming spawned" and "upcoming w = e # es" and "\<not> ends e"
  obtains w' where "step w = Inr w'" and "upcoming w' = es"
    and "spawned w' = spawned w @ map task (connections [e])"
proof -
  from assms(1,2) obtain w1 where "arrive w = (e, w1)" "upcoming w1 = es" "spawned w1 = spawned w"
    unfolding arrivals_law_def by blast
  with assms(1,3) that [of "take_arrival task spawn e w1"] show thesis
    by (cases e) (simp_all add: step_arrival take_arrival_def arrivals_law_def)
qed

lemma ends_at:
  assumes law: "arrivals_law arrive spawn upcoming spawned"
    and "upcoming w = es @ e # rest" and "ends e" and "\<forall>x \<in> set es. \<not> ends x"
  shows "\<exists>w'. loop w = Some w' \<and> upcoming w' = rest \<and> spawned w' = spawned w @ map task (connections es)"
  using assms(2,4)
proof (induction es arbitrary: w)
  case Nil
  with law obtain w1 where "arrive w = (e, w1)" "upcoming w1 = rest" "spawned w1 = spawned w"
    unfolding arrivals_law_def by fastforce
  with assms(3) show ?case
    by (simp add: unfold_loop [of w] step_arrival)
next
  case (Cons x es)
  then obtain w1 where w1: "step w = Inr w1" "upcoming w1 = es @ e # rest"
    and "spawned w1 = spawned w @ map task (connections [x])"
    by (auto elim: one_arrival [OF law, of w x "es @ e # rest"])
  with Cons.IH [of w1] Cons.prems(2) show ?case
    by (cases x) (auto simp: unfold_loop [of w])
qed

end

section \<open>Servers that never stop\<close>

text \<open>\<^verbatim>\<open>loop { if let Ok(..) = listener.accept().await { tokio::spawn(..) } }\<close>\<close>

definition server_round :: "('c, 't, 'w) net_api \<Rightarrow> ('c \<Rightarrow> 't) \<Rightarrow> 'w \<Rightarrow> 'w" where
  "server_round napi task w =
     (case nt_accept napi w of (Inr c, w) \<Rightarrow> nt_spawn napi (task c) w | (Inl e, w) \<Rightarrow> w)"

partial_function (option) server_loop :: "('c, 't, 'w) net_api \<Rightarrow> ('c \<Rightarrow> 't) \<Rightarrow> 'w \<Rightarrow> 'w option" where
  "server_loop napi task w = server_loop napi task (server_round napi task w)"

interpretation serving: accept_loop "server_loop napi task" "\<lambda>w. Inr (server_round napi task w)"
    "accepted napi" task "nt_spawn napi" "\<lambda>e. False"
proof
  show "server_loop napi task w =
      (case Inr (server_round napi task w) of Inl r \<Rightarrow> Some r | Inr s' \<Rightarrow> server_loop napi task s')" for w
    using server_loop.simps [of napi task w] by simp
qed (simp add: server_round_def accepted_def take_arrival_def split: prod.split sum.split)

lemma server_loop_never: "server_loop napi task w = None"
proof -
  have False if "server_loop napi task w = Some w'" for w'
    using server_loop.raw_induct [where P = "\<lambda>napi task w w'. False", OF _ that] by blast
  then show ?thesis
    by (cases "server_loop napi task w") auto
qed

text \<open>A server: its listener is bound, or the program panics, then it serves.\<close>

definition bound_server ::
  "('c, 't, 'w) net_api \<Rightarrow> string \<Rightarrow> string \<Rightarrow> ('w \<Rightarrow> 'w option) \<Rightarrow> 'w \<Rightarrow> ((unit, unit) outcome \<times> 'w) option" where
  "bound_server napi msg addr loop w =
     (case expect_result msg (nt_bind napi addr w) of
        (Ok u, w) \<Rightarrow> map_option (\<lambda>w. (Ok (), w)) (loop w)
      | (Err e, w) \<Rightarrow> Some (Err e, w)
      | (Panic p, w) \<Rightarrow> Some (Panic p, w))"

definition unwrap_text :: string where
  "unwrap_text = ''called `Result::unwrap()` on an `Err` value''"

type_synonym ('s, 't, 'w) stream_server =
  "('s stream_api, 't, 'w) net_api \<Rightarrow> 'w \<Rightarrow> ((unit, unit) outcome \<times> 'w) option"

definition l43_run_mock_upstream :: "('s, 's \<Rightarrow> 's, 'w) stream_server" where
  "l43_run_mock_upstream napi =
     bound_server napi unwrap_text ''127.0.0.1:6191'' (server_loop napi l43_serve)"

definition l44_run_dynamic_upstream :: "('s, 's \<Rightarrow> 's, 'w) stream_server" where
  "l44_run_dynamic_upstream napi =
     bound_server napi unwrap_text ''127.0.0.1:6193'' (server_loop napi l44_serve)"

definition l45_run_slow_upstream :: "('s, 's \<Rightarrow> 's, 'w) stream_server" where
  "l45_run_slow_upstream napi =
     bound_server napi unwrap_text ''127.0.0.1:6195'' (server_loop napi l45_serve)"

definition l46_run_upstream :: "('s, 's \<Rightarrow> 's, 'w) stream_server" where
  "l46_run_upstream napi =
     bound_server napi unwrap_text ''127.0.0.1:6197'' (server_loop napi l46_serve)"

definition l47_run_slow_upstream :: "('s, 's \<times> usize \<Rightarrow> 's \<times> usize, 'w) stream_server" where
  "l47_run_slow_upstream napi =
     bound_server napi unwrap_text ''127.0.0.1:6199'' (server_loop napi l47_serve)"

definition l48_run_mock_upstream :: "u16 \<Rightarrow> string \<Rightarrow> ('s, 's \<Rightarrow> 's, 'w) stream_server" where
  "l48_run_mock_upstream port name napi =
     bound_server napi unwrap_text (''127.0.0.1:'' @ dec_string (unat port))
       (server_loop napi (\<lambda>stream. l48_serve stream name))"

definition l22_run_mock_forward_proxy ::
  "(string \<Rightarrow> 's \<Rightarrow> bool \<times> 's) \<Rightarrow> ('s \<Rightarrow> 's) \<Rightarrow> ('s, 's \<Rightarrow> 's, 'w) stream_server" where
  "l22_run_mock_forward_proxy connect copy_bidirectional napi =
     bound_server napi ''Failed to bind Mock Proxy'' ''0.0.0.0:3128''
       (server_loop napi (\<lambda>stream. forward_proxy stream connect copy_bidirectional))"

text \<open>
  Lesson 18 removes a socket file left over, binds, and leaves the accept loop to a task of its own.
\<close>

definition l18_run_mock_uds_server ::
  "(string \<Rightarrow> 'w \<Rightarrow> 'w) \<Rightarrow> (('w \<Rightarrow> 'w option) \<Rightarrow> 'w \<Rightarrow> 'w) \<Rightarrow> string \<Rightarrow>
   ('s stream_api, 's \<Rightarrow> 's, 'w) net_api \<Rightarrow> 'w \<Rightarrow> (unit, unit) outcome \<times> 'w" where
  "l18_run_mock_uds_server remove_file spawn_loop path napi w =
     try_then (expect_result ''Failed to bind UDS'' (nt_bind napi path (remove_file path w)))
       (\<lambda>_ w. (Ok (), spawn_loop (server_loop napi l18_serve) w))"

text \<open>
  The upstream servers never return once they are bound, and a failed accept costs nothing but itself:
  after any number of arrivals a task has been started for exactly the connections among them, in
  order.
\<close>

theorem upstreams_keep_serving:
  assumes "arrivals_law (accepted napi) (nt_spawn napi) upcoming spawned" and "upcoming w = es @ rest"
  shows "server_loop napi task w = None \<and>
    spawned ((server_round napi task ^^ length es) w) = spawned w @ map task (connections es)"
  using assms(2)
proof (induction es arbitrary: w)
  case (Cons e es)
  then have up: "upcoming w = e # es @ rest"
    by simp
  obtain w1 where "server_round napi task w = w1" "upcoming w1 = es @ rest"
    and "spawned w1 = spawned w @ map task (connections [e])"
    using serving.one_arrival [OF assms(1) up, where task = task] by auto
  with Cons.IH [of w1] show ?case
    by (cases e) (simp_all add: server_loop_never funpow_swap1 [of _ _ w])
qed (simp add: server_loop_never)

section \<open>Servers that stop\<close>

text \<open>Lesson 23: \<^verbatim>\<open>while let Ok((stream, _)) = listener.accept().await\<close>.\<close>

definition l23_round :: "('w2 ws_api, 't, 'w) net_api \<Rightarrow> ('w2 ws_api \<Rightarrow> 't) \<Rightarrow> 'w \<Rightarrow> 'w + 'w" where
  "l23_round napi task w =
     (case nt_accept napi w of (Inr c, w) \<Rightarrow> Inr (nt_spawn napi (task c) w) | (Inl e, w) \<Rightarrow> Inl w)"

partial_function (option) l23_loop :: "('w2 ws_api, 't, 'w) net_api \<Rightarrow> ('w2 ws_api \<Rightarrow> 't) \<Rightarrow> 'w \<Rightarrow> 'w option" where
  "l23_loop napi task w = (case l23_round napi task w of Inl w \<Rightarrow> Some w | Inr w \<Rightarrow> l23_loop napi task w)"

definition is_failed :: "'c arrival \<Rightarrow> bool" where
  "is_failed e = (case e of AcceptFailed msg \<Rightarrow> True | _ \<Rightarrow> False)"

lemma is_failed_simps [simp]:
  "is_failed (AcceptFailed msg)" "\<not> is_failed (Connected c)" "\<not> is_failed ShutdownChanged"
  by (simp_all add: is_failed_def)

interpretation l23: accept_loop "l23_loop napi task" "l23_round napi task" "accepted napi" task
    "nt_spawn napi" is_failed
  by unfold_locales
    (rule l23_loop.simps, auto simp: l23_round_def accepted_def take_arrival_def
      split: prod.split sum.split)

definition l23_run_echo_server ::
  "('v ws_api, 'v \<Rightarrow> ((unit, unit) outcome \<times> 'v) option, 'w) net_api \<Rightarrow> 'w \<Rightarrow>
   ((unit, unit) outcome \<times> 'w) option" where
  "l23_run_echo_server napi =
     bound_server napi ''Failed to bind Echo Server.'' ''127.0.0.1:9091'' (l23_loop napi ws_serve)"

text \<open>
  C39. Lesson 23: one failed accept ends the echo server. It returns at the first accept that fails, having
  started a task for exactly the connections before it, in order, and whatever arrives after it is left
  waiting: no task is started for it.
\<close>

theorem l23_stops_at_error:
  assumes "arrivals_law (accepted napi) (nt_spawn napi) upcoming spawned"
    and "nt_bind napi ''127.0.0.1:9091'' w = (Inr (), w0)" and "upcoming w0 = es @ AcceptFailed msg # rest"
    and "\<forall>e \<in> set es. \<not> is_failed e"
  shows "\<exists>w'. l23_run_echo_server napi w = Some (Ok (), w') \<and> upcoming w' = rest \<and>
    spawned w' = spawned w0 @ map ws_serve (connections es)"
  using l23.ends_at [OF assms(1,3) _ assms(4), where task = ws_serve] assms(2)
  by (auto simp: l23_run_echo_server_def bound_server_def)

text \<open>A listener whose accepts are scripted.\<close>

definition scripted_listener ::
  "('c, 't, (string + 'c) list \<times> 't list) net_api" where
  "scripted_listener =
     \<lparr>nt_bind = (\<lambda>addr w. (Inr (), w)),
      nt_accept = (\<lambda>(es, ts). case es of [] \<Rightarrow> (Inl ''closed'', (es, ts)) | e # es \<Rightarrow> (e, (es, ts))),
      nt_select = (\<lambda>w. (ShutdownChanged, w)),
      nt_spawn = (\<lambda>t (es, ts). (es, ts @ [t]))\<rparr>"

definition scripted_arrival :: "string + 'c \<Rightarrow> 'c arrival" where
  "scripted_arrival = case_sum AcceptFailed Connected"

theorem l23_stops_at_error_witness:
  "\<exists>w'. l23_run_echo_server scripted_listener ([Inr server_end, Inl ''EMFILE'', Inr server_end], []) = Some (Ok (), w') \<and>
    fst w' = [Inr server_end] \<and> snd w' = [ws_serve server_end]"
proof -
  have "arrivals_law (accepted scripted_listener) (nt_spawn scripted_listener)
      (map scripted_arrival \<circ> fst :: _ \<Rightarrow> (string \<times> ws_msg list) ws_api arrival list) snd"
    by (auto simp: arrivals_law_def scripted_listener_def accepted_def scripted_arrival_def split: sum.splits)
  from l23_stops_at_error [OF this, where es = "[Connected server_end]" and msg = "''EMFILE''"
      and rest = "[Connected server_end]" and w = "([Inr server_end, Inl ''EMFILE'', Inr server_end], [])"]
  show ?thesis
    by (auto simp: scripted_listener_def scripted_arrival_def split: sum.splits)
qed

text \<open>Lesson 35: the admin service. Its tasks are those of the swap, each waiting for its request.\<close>

definition admin_connection :: "'c \<Rightarrow> 'c \<times> admin_task" where
  "admin_connection socket = (socket, Reading)"

definition l35_admin_round :: "('c, 'c \<times> admin_task, 'w) net_api \<Rightarrow> 'w \<Rightarrow> 'w + 'w" where
  "l35_admin_round napi w =
     (case nt_select napi w of
        (ShutdownChanged, w) \<Rightarrow> Inl w
      | (Connected socket, w) \<Rightarrow> Inr (nt_spawn napi (admin_connection socket) w)
      | (AcceptFailed e, w) \<Rightarrow> Inr w)"

partial_function (option) l35_admin_loop :: "('c, 'c \<times> admin_task, 'w) net_api \<Rightarrow> 'w \<Rightarrow> 'w option" where
  "l35_admin_loop napi w = (case l35_admin_round napi w of Inl w \<Rightarrow> Some w | Inr w \<Rightarrow> l35_admin_loop napi w)"

definition is_shutdown :: "'c arrival \<Rightarrow> bool" where
  "is_shutdown e = (case e of ShutdownChanged \<Rightarrow> True | _ \<Rightarrow> False)"

interpretation admin: accept_loop "l35_admin_loop napi" "l35_admin_round napi" "nt_select napi"
    admin_connection "nt_spawn napi" is_shutdown
  by unfold_locales
    (rule l35_admin_loop.simps, simp add: l35_admin_round_def take_arrival_def is_shutdown_def
      split: prod.split arrival.split)

definition l35_admin_start ::
  "('c, 'c \<times> admin_task, 'w) net_api \<Rightarrow> 'w \<Rightarrow> ((unit, unit) outcome \<times> 'w) option" where
  "l35_admin_start napi =
     bound_server napi ''Failed to bind Admin Port 9090'' ''0.0.0.0:9090'' (l35_admin_loop napi)"

text \<open>
  C29. Lesson 35: the admin service ends when the shutdown is signalled and not before. By then a task has
  been started for exactly the connections that arrived before the signal, in order, whichever of the
  accepts failed in between; none is started after it.
\<close>

theorem l35_admin_serves:
  assumes "arrivals_law (nt_select napi) (nt_spawn napi) upcoming spawned"
    and "nt_bind napi ''0.0.0.0:9090'' w = (Inr (), w0)" and "upcoming w0 = es @ ShutdownChanged # rest"
    and "\<forall>e \<in> set es. \<not> is_shutdown e"
  shows "\<exists>w'. l35_admin_start napi w = Some (Ok (), w') \<and> upcoming w' = rest \<and>
    spawned w' = spawned w0 @ map admin_connection (connections es)"
  using admin.ends_at [OF assms(1,3) _ assms(4)] assms(2)
  by (auto simp: l35_admin_start_def bound_server_def is_shutdown_def)

text \<open>A runtime whose arrivals are scripted.\<close>

definition scripted_net :: "(nat, nat \<times> admin_task, nat arrival list \<times> (nat \<times> admin_task) list) net_api" where
  "scripted_net =
     \<lparr>nt_bind = (\<lambda>addr w. (Inr (), w)),
      nt_accept = (\<lambda>w. (Inl ''not used'', w)),
      nt_select = (\<lambda>w. case w of ([], ts) \<Rightarrow> (ShutdownChanged, w) | (e # es, ts) \<Rightarrow> (e, (es, ts))),
      nt_spawn = (\<lambda>t w. (fst w, snd w @ [t]))\<rparr>"

theorem l35_admin_serves_witness:
  "\<exists>w'. l35_admin_start scripted_net ([Connected 1, AcceptFailed ''EMFILE'', Connected 2, ShutdownChanged, Connected 3], []) =
      Some (Ok (), w') \<and> fst w' = [Connected 3] \<and> snd w' = [(1, Reading), (2, Reading)]"
proof -
  let ?es = "[Connected 1, AcceptFailed ''EMFILE'', Connected 2] :: nat arrival list"
  have "arrivals_law (nt_select scripted_net) (nt_spawn scripted_net) fst snd"
    by (auto simp: arrivals_law_def scripted_net_def)
  from l35_admin_serves [OF this, where es = ?es and rest = "[Connected 3]" and
      w = "(?es @ [ShutdownChanged, Connected 3], [])"] show ?thesis
    by (simp add: scripted_net_def is_shutdown_def admin_connection_def)
qed

end
