(* ===== verification/Lesson_Inflight.thy ===== *)
theory Lesson_Inflight
  imports Lesson_Access
begin

text \<open>
  \<^verbatim>\<open>38_inflight_limit\<close>: at most two requests at a time. The limiter of \<^verbatim>\<open>pingora_limits\<close> is a parameter:
  counting a request up returns a guard, whose drop counts it down. Requests are concurrent; the
  system is a step relation whose steps are the accesses to the limiter: a request enters, and it
  leaves when its guard is dropped, which is at the end of the filter for a refused request (after
  the answer is written) and at the end of the request for an admitted one.
\<close>

section \<open>The code\<close>

record ('i, 'g) inflight_api =
  incr :: "'i \<Rightarrow> ('g \<times> int) \<times> 'i"
  drop_guard :: "'g \<Rightarrow> 'i \<Rightarrow> 'i"

definition max_concurrent_req :: int where
  "max_concurrent_req = 2"

record 'g l38_ctx =
  l38_guard :: "'g option"

definition l38_new_ctx :: "'g l38_ctx" where
  "l38_new_ctx = \<lparr>l38_guard = None\<rparr>"

definition l38_request_filter ::
  "'w session_api \<Rightarrow> ('i, 'g) inflight_api \<Rightarrow> ('w \<times> 'g l38_ctx) \<times> 'i \<Rightarrow>
   (pingora_error, bool) outcome \<times> ('w \<times> 'g l38_ctx) \<times> 'i" where
  "l38_request_filter api iapi s =
     (let ((w, ctx), limiter) = s; ((guard, count), limiter) = incr iapi limiter
      in if max_concurrent_req < count
         then (case respond_and_stop api 429 w of (r, w) \<Rightarrow> (r, ((w, ctx), drop_guard iapi guard limiter)))
         else (Ok False, ((w, ctx\<lparr>l38_guard := Some guard\<rparr>), limiter)))"

text \<open>When the request ends its context is dropped.\<close>

definition l38_drop_ctx :: "('i, 'g) inflight_api \<Rightarrow> 'g l38_ctx \<Rightarrow> 'i \<Rightarrow> 'i" where
  "l38_drop_ctx iapi ctx limiter =
     (case l38_guard ctx of None \<Rightarrow> limiter | Some guard \<Rightarrow> drop_guard iapi guard limiter)"

definition l38_upstream_peer :: "peer_api \<Rightarrow> 'w pool \<Rightarrow> ('w \<Rightarrow> 'w) \<Rightarrow> 'w \<Rightarrow> (pingora_error, http_peer) outcome \<times> 'w" where
  "l38_upstream_peer papi pool sleep w =
     (case pool [] 256 w of
        (None, w) \<Rightarrow> (Err (explain (ET_Custom ''NoUpstreamAvailable'') ''Empty upstream pool''), w)
      | (Some upstream, w) \<Rightarrow> backend_peer papi upstream False ''inflight.cluster'' (sleep w))"

section \<open>Many requests\<close>

datatype 'g l38_phase = Arriving | Refusing 'g | Admitted 'g | Gone

text \<open>The filter up to its decision.\<close>

definition l38_enter :: "('i, 'g) inflight_api \<Rightarrow> 'i \<Rightarrow> 'g l38_phase \<times> 'i" where
  "l38_enter iapi limiter =
     (let ((guard, count), limiter) = incr iapi limiter
      in (if max_concurrent_req < count then Refusing guard else Admitted guard, limiter))"

fun held :: "'g l38_phase \<Rightarrow> 'g option" where
  "held (Refusing g) = Some g"
| "held (Admitted g) = Some g"
| "held p = None"

text \<open>The filter is entering, then, for a refused request, answering and dropping the guard.\<close>

lemma l38_filter_steps:
  "l38_request_filter api iapi ((w, ctx), limiter) =
     (case l38_enter iapi limiter of
        (Admitted g, limiter) \<Rightarrow> (Ok False, ((w, ctx\<lparr>l38_guard := Some g\<rparr>), limiter))
      | (Refusing g, limiter) \<Rightarrow>
          (fst (respond_and_stop api 429 w),
           ((snd (respond_and_stop api 429 w), ctx), drop_guard iapi g limiter)))"
  by (simp add: l38_request_filter_def l38_enter_def split_def Let_def)

record ('t, 'g, 'i) l38_state =
  limiter :: 'i
  phases :: "'t \<Rightarrow> 'g l38_phase"

inductive l38_reach :: "('i, 'g) inflight_api \<Rightarrow> 'i \<Rightarrow> ('t, 'g, 'i) l38_state \<Rightarrow> bool"
  for iapi i where
  start: "l38_reach iapi i \<lparr>limiter = i, phases = (\<lambda>_. Arriving)\<rparr>"
| enter: "l38_reach iapi i s \<Longrightarrow> phases s t = Arriving \<Longrightarrow> l38_enter iapi (limiter s) = (p, lim) \<Longrightarrow>
    l38_reach iapi i \<lparr>limiter = lim, phases = (phases s)(t := p)\<rparr>"
| leave: "l38_reach iapi i s \<Longrightarrow> held (phases s t) = Some g \<Longrightarrow>
    l38_reach iapi i \<lparr>limiter = drop_guard iapi g (limiter s), phases = (phases s)(t := Gone)\<rparr>"

text \<open>
  What the limiter documents: a guard handed out is one not in use, the count is the number of
  guards in use, and dropping a guard puts it out of use.
\<close>

definition inflight_law :: "('i, 'g) inflight_api \<Rightarrow> ('i \<Rightarrow> 'g set) \<Rightarrow> bool" where
  "inflight_law iapi live \<longleftrightarrow>
     (\<forall>i g n i'. incr iapi i = ((g, n), i') \<longrightarrow>
        g \<notin> live i \<and> live i' = insert g (live i) \<and> n = int (card (live i')) \<and> finite (live i)) \<and>
     (\<forall>i g. live (drop_guard iapi g i) = live i - {g})"

definition holders :: "('t, 'g, 'i) l38_state \<Rightarrow> 't set" where
  "holders s = {t. held (phases s t) \<noteq> None}"

definition admitted :: "('t, 'g, 'i) l38_state \<Rightarrow> 't set" where
  "admitted s = {t. \<exists>g. phases s t = Admitted g}"

definition l38_inv :: "('i \<Rightarrow> 'g set) \<Rightarrow> ('t, 'g, 'i) l38_state \<Rightarrow> bool" where
  "l38_inv live s \<longleftrightarrow>
     bij_betw (\<lambda>t. the (held (phases s t))) (holders s) (live (limiter s)) \<and>
     finite (holders s) \<and> card (admitted s) \<le> 2"

lemma admitted_holders: "admitted s \<subseteq> holders s"
  by (auto simp: admitted_def holders_def)

lemma l38_enter_cases:
  assumes law: "inflight_law iapi live" and enter: "l38_enter iapi i = (p, i')"
  obtains g where "p = Refusing g \<and> 2 < card (live i') \<or> p = Admitted g \<and> card (live i') \<le> 2"
    and "g \<notin> live i" and "live i' = insert g (live i)"
proof -
  obtain g n j where incr: "incr iapi i = ((g, n), j)"
    by (metis surj_pair)
  with enter have "j = i'" and "p = (if 2 < n then Refusing g else Admitted g)"
    by (auto simp: l38_enter_def max_concurrent_req_def)
  moreover from incr \<open>j = i'\<close> law have "g \<notin> live i" "live i' = insert g (live i)" "n = int (card (live i'))"
    unfolding inflight_law_def by blast+
  ultimately show thesis
    by (intro that [of g]) simp_all
qed

lemma l38_inv_enter:
  assumes law: "inflight_law iapi live" and inv: "l38_inv live s" and arriving: "phases s t = Arriving"
    and enter: "l38_enter iapi (limiter s) = (p, lim)"
  shows "l38_inv live \<lparr>limiter = lim, phases = (phases s)(t := p)\<rparr>" (is "l38_inv live ?s")
proof -
  obtain g where p: "p = Refusing g \<and> 2 < card (live lim) \<or> p = Admitted g \<and> card (live lim) \<le> 2"
    and g: "g \<notin> live (limiter s)" and live: "live lim = insert g (live (limiter s))"
    by (rule l38_enter_cases [OF law enter])
  have t: "t \<notin> holders s"
    using arriving by (simp add: holders_def)
  have held: "held p = Some g"
    using p by auto
  then have holders: "holders ?s = insert t (holders s)"
    by (auto simp: holders_def)
  have same: "the (held (phases ?s u)) = the (held (phases s u))" if "u \<in> holders s" for u
    using that t by (cases "u = t") auto
  have bij: "bij_betw (\<lambda>u. the (held (phases ?s u))) (holders ?s) (live (limiter ?s))"
  proof -
    have "bij_betw (\<lambda>u. the (held (phases ?s u))) (holders s) (live (limiter s))"
      using inv by (subst bij_betw_cong [OF same]) (auto simp: l38_inv_def)
    from notIn_Un_bij_betw [OF t _ this] g held show ?thesis
      unfolding holders by (simp add: live)
  qed
  have fin: "finite (holders ?s)"
    using inv by (simp add: holders l38_inv_def)
  have "card (admitted ?s) \<le> 2"
  proof (cases "p = Refusing g")
    case True
    then have "admitted ?s = admitted s"
      using arriving by (auto simp: admitted_def)
    with inv show ?thesis
      by (simp add: l38_inv_def)
  next
    case False
    with p have "card (live lim) \<le> 2"
      by auto
    with bij_betw_same_card [OF bij] card_mono [OF fin admitted_holders] show ?thesis
      by simp
  qed
  with bij fin show ?thesis
    by (simp add: l38_inv_def)
qed

lemma l38_inv_leave:
  assumes law: "inflight_law iapi live" and inv: "l38_inv live s" and held: "held (phases s t) = Some g"
  shows "l38_inv live \<lparr>limiter = drop_guard iapi g (limiter s), phases = (phases s)(t := Gone)\<rparr>"
    (is "l38_inv live ?s")
proof -
  have t: "t \<in> holders s" and holders: "holders ?s = holders s - {t}"
    using held by (auto simp: holders_def)
  have live: "live (limiter ?s) = live (limiter s) - {g}"
    using law by (simp add: inflight_law_def)
  have "bij_betw (\<lambda>u. the (held (phases s u))) (holders s - {t}) (live (limiter s) - {g})"
  proof (rule bij_betw_DiffI)
    show bij: "bij_betw (\<lambda>u. the (held (phases s u))) (holders s) (live (limiter s))"
      using inv by (simp add: l38_inv_def)
    show "bij_betw (\<lambda>u. the (held (phases s u))) {t} {g}"
      using held by (simp add: bij_betw_def)
    show "{g} \<subseteq> live (limiter s)"
      using bij_betw_apply [OF bij t] held by simp
  qed (use t in simp)
  then have "bij_betw (\<lambda>u. the (held (phases ?s u))) (holders ?s) (live (limiter ?s))"
    unfolding holders live by (rule iffD1 [OF bij_betw_cong, rotated]) auto
  moreover have "card (admitted ?s) \<le> card (admitted s)"
    using inv by (intro card_mono finite_subset [OF admitted_holders])
      (auto simp: admitted_def l38_inv_def)
  ultimately show ?thesis
    using inv by (simp add: l38_inv_def holders)
qed

lemma l38_inv_reach:
  "l38_reach iapi i s \<Longrightarrow> inflight_law iapi live \<Longrightarrow> live i = {} \<Longrightarrow> l38_inv live s"
proof (induction rule: l38_reach.induct)
  case start
  then show ?case
    by (simp add: l38_inv_def holders_def admitted_def bij_betw_def)
qed (simp_all add: l38_inv_enter l38_inv_leave)

lemma l38_admits_iff:
  assumes law: "inflight_law iapi live" and inv: "l38_inv live s"
  shows "(\<exists>g. fst (l38_enter iapi (limiter s)) = Admitted g) \<longleftrightarrow> card (holders s) < 2"
proof -
  obtain p lim where enter: "l38_enter iapi (limiter s) = (p, lim)"
    by (rule prod.exhaust)
  then obtain g where p: "p = Refusing g \<and> 2 < card (live lim) \<or> p = Admitted g \<and> card (live lim) \<le> 2"
    and g: "g \<notin> live (limiter s)" and live: "live lim = insert g (live (limiter s))"
    by (rule l38_enter_cases [OF law])
  from inv have "card (holders s) = card (live (limiter s))" and "finite (live (limiter s))"
    unfolding l38_inv_def by (auto simp: bij_betw_same_card dest: bij_betw_finite)
  with p g live enter show ?thesis
    by auto
qed

text \<open>
  C22. Lesson 38: the limit holds under every interleaving. Whatever order requests enter and leave in,
  at most two admitted ones are in flight at a time, and an arriving one is admitted exactly when
  fewer than two others hold a guard; those include the refused ones still being answered, so a
  burst of refusals can keep out a request that would have had room.
\<close>

theorem l38_limit:
  assumes "inflight_law iapi live" and "live i = {}" and "l38_reach iapi i s"
  shows "card (admitted s) \<le> 2 \<and> admitted s \<subseteq> holders s \<and> finite (holders s) \<and>
    ((\<exists>g. fst (l38_enter iapi (limiter s)) = Admitted g) = (card (holders s) < 2))"
proof -
  have inv: "l38_inv live s"
    by (rule l38_inv_reach [OF assms(3,1,2)])
  with l38_admits_iff [OF assms(1) inv] admitted_holders [of s] show ?thesis
    by (simp add: l38_inv_def)
qed

text \<open>A limiter that hands out numbers.\<close>

definition number_limiter :: "(nat list, nat) inflight_api" where
  "number_limiter =
     \<lparr>incr = (\<lambda>used. let g = Suc (foldr max used 0) in ((g, int (card (set (g # used)))), g # used)),
      drop_guard = removeAll\<rparr>"

lemma foldr_max: "n \<in> set ns \<Longrightarrow> n \<le> foldr max ns 0" for n :: nat
  by (induction ns) auto

lemma number_limiter_law: "inflight_law number_limiter set"
  using foldr_max by (fastforce simp: inflight_law_def number_limiter_def Let_def)

theorem l38_limit_witness:
  "l38_reach number_limiter [] \<lparr>limiter = [2, 1], phases = (\<lambda>_ :: nat. Arriving)(0 := Admitted 1, 1 := Admitted 2)\<rparr> \<and>
   card (admitted \<lparr>limiter = [2, 1 :: nat], phases = (\<lambda>_ :: nat. Arriving)(0 := Admitted 1, 1 := Admitted (2 :: nat))\<rparr>) \<le> 2"
proof -
  have "l38_reach number_limiter [] \<lparr>limiter = [1], phases = (\<lambda>_ :: nat. Arriving)(0 := Admitted 1)\<rparr>"
    using l38_reach.enter [OF l38_reach.start, where iapi = number_limiter and i = "[]" and t = 0
        and p = "Admitted 1" and lim = "[1]"]
    by (simp add: l38_enter_def number_limiter_def max_concurrent_req_def)
  from l38_reach.enter [OF this, where t = 1 and p = "Admitted 2" and lim = "[2, 1]"]
  have run: "l38_reach number_limiter []
      \<lparr>limiter = [2, 1], phases = (\<lambda>_ :: nat. Arriving)(0 := Admitted 1, 1 := Admitted 2)\<rparr>"
    by (simp add: l38_enter_def number_limiter_def max_concurrent_req_def)
  with l38_limit [OF number_limiter_law _ run] show ?thesis
    by simp
qed

end
