(* ===== verification/Lesson_Sticky.thy ===== *)
theory Lesson_Sticky
  imports Lesson_Base
begin

text \<open>
  \<^verbatim>\<open>29_sticky_sessions\<close>: a client without a session cookie is given one, and the cookie is the key its
  later requests are balanced by. New sessions are numbered by a counter all requests share.
\<close>

record l29_ctx =
  new_session_id :: "string option"

definition l29_new_ctx :: l29_ctx where
  "l29_new_ctx = \<lparr>new_session_id = None\<rparr>"

definition session_counter_start :: usize where
  "session_counter_start = 100"

text \<open>The first part of the cookie header that is a session cookie, empty without one.\<close>

fun find_session :: "string list \<Rightarrow> string" where
  "find_session [] = []"
| "find_session (part # parts) =
     (let part = trim part
      in if starts_with part ''session-id='' then trim_start_matches ''session-id='' part
         else find_session parts)"

definition session_cookie :: "'w session_api \<Rightarrow> 'w \<Rightarrow> string" where
  "session_cookie api w =
     (case req_header api w ''Cookie'' of
        None \<Rightarrow> []
      | Some cookie_val \<Rightarrow>
          (let cookie_str = (case header_to_str api cookie_val of Some s \<Rightarrow> s | None \<Rightarrow> [])
           in find_session (split_on CHR '';'' cookie_str)))"

definition user_id :: "usize \<Rightarrow> string" where
  "user_id n = ''user-'' @ dec_string (unat n)"

text \<open>The session of a request, its context and the counter after it is determined.\<close>

definition l29_session :: "'w session_api \<Rightarrow> 'w \<Rightarrow> l29_ctx \<Rightarrow> usize \<Rightarrow> string \<times> l29_ctx \<times> usize" where
  "l29_session api w ctx counter =
     (let session_id = session_cookie api w
      in if session_id = []
         then (user_id counter, ctx\<lparr>new_session_id := Some (user_id counter)\<rparr>, counter + 1)
         else (session_id, ctx, counter))"

definition l29_upstream_peer ::
  "peer_api \<Rightarrow> 'w session_api \<Rightarrow> 'w pool \<Rightarrow> 'w \<times> l29_ctx \<times> usize \<Rightarrow>
   (pingora_error, http_peer) outcome \<times> 'w \<times> l29_ctx \<times> usize" where
  "l29_upstream_peer papi api pool s =
     (let (w, ctx, counter) = s; (session_id, ctx, counter) = l29_session api w ctx counter
      in case pool_peer papi pool session_id ''Empty upstream pool'' ''sticky.cluster'' w of
           (r, w) \<Rightarrow> (r, (w, ctx, counter)))"

definition set_cookie :: "string \<Rightarrow> string" where
  "set_cookie new_id = ''session-id='' @ new_id @ ''; Path=/''"

definition l29_response_filter :: "'h header_api \<Rightarrow> l29_ctx \<Rightarrow> 'h \<Rightarrow> (pingora_error, unit) outcome \<times> 'h" where
  "l29_response_filter hapi ctx h =
     (case new_session_id ctx of
        Some new_id \<Rightarrow> insert_header hapi ''Set-Cookie'' (set_cookie new_id) h
      | None \<Rightarrow> (Ok (), h))"

section \<open>Stickiness\<close>

lemma trim_start_matches_prefix:
  "p \<noteq> [] \<Longrightarrow> trim_start_matches p (p @ s) = trim_start_matches p s"
  by (subst trim_start_matches.simps) simp

lemma trim_start_matches_keep: "\<not> starts_with s p \<Longrightarrow> trim_start_matches p s = s"
  by (subst trim_start_matches.simps) simp

text \<open>The search is the gateway's own cookie search, with the name removed as often as it repeats.\<close>

lemma find_session_cookie: "find_session parts = trim_start_matches ''session-id='' (find_cookie ''session-id='' parts)"
proof (induction parts)
  case Nil
  show ?case
    by (simp add: trim_start_matches_keep starts_with_def)
next
  case (Cons part parts)
  then show ?case
    using starts_with_drop [of "trim part" "''session-id=''"] trim_start_matches_prefix [of "''session-id=''"]
    by (auto simp: Let_def) (metis list.distinct(1))
qed

lemma user_id_not_prefixed: "\<not> starts_with (user_id n) ''session-id=''"
  by (simp add: user_id_def starts_with_def)

lemma user_id_inject: "user_id m = user_id n \<longleftrightarrow> m = n"
  by (simp add: user_id_def dec_string_inject word_unat_eq_iff)

lemma session_cookie_header:
  assumes "list_all cookie_ok cookies" and "req_header api w ''Cookie'' = Some v"
    and "header_to_str api v = Some (cookie_header cookies)"
  shows "session_cookie api w =
    trim_start_matches ''session-id='' (case map_of cookies ''session-id'' of Some value \<Rightarrow> value | None \<Rightarrow> [])"
  using find_cookie_header [OF assms(1), of "''session-id''"] assms(2,3)
  by (simp add: session_cookie_def find_session_cookie)

text \<open>The pair a browser stores is what stands before the first semicolon.\<close>

lemma stored_pair: "hd (split_on CHR '';'' (set_cookie (user_id n))) = cookie_pair (''session-id'', user_id n)"
proof -
  have "CHR '';'' \<notin> set (user_id n)"
    using dec_string_digits [of "CHR '';''" "unat n"] by (auto simp: user_id_def is_digit_def)
  then have "CHR '';'' \<notin> set (''session-id='' @ user_id n)"
    by simp
  from split_on_append [OF this, of "'' Path=/''"] show ?thesis
    by (simp add: set_cookie_def cookie_pair_def)
qed

text \<open>A balancer that hashes: which backend it selects depends on the key alone.\<close>

definition selects_by_key :: "'w pool \<Rightarrow> bool" where
  "selects_by_key pool \<longleftrightarrow> (\<forall>key n w w'. fst (pool key n w) = fst (pool key n w'))"

lemma fst_pool_peer:
  "fst (pool_peer papi pool key text sni w) =
     (case fst (pool key 256 w) of
        None \<Rightarrow> Err (explain (ET_Custom ''NoUpstreamAvailable'') text)
      | Some upstream \<Rightarrow> fst (map_err into_pingora (peer_of_backend papi upstream False sni, ())))"
  by (cases "pool key 256 w"; cases "fst (pool key 256 w)")
    (auto simp: pool_peer_def backend_peer_def map_err_def split: outcome.split)

lemma pool_peer_by_key:
  "selects_by_key pool \<Longrightarrow> fst (pool_peer papi pool key text sni w) = fst (pool_peer papi pool key text sni w')"
proof -
  assume "selects_by_key pool"
  then have "fst (pool key 256 w) = fst (pool key 256 w')"
    unfolding selects_by_key_def by blast
  then show ?thesis
    by (simp add: fst_pool_peer)
qed

text \<open>
  C26. Lesson 29: sessions stick. For a request without a session cookie the balancer is asked with a
  fresh id as the key, the next number of the counter, and its response is given a \<^verbatim>\<open>Set-Cookie\<close> header
  whose pair, what a browser stores of it, is the cookie's name and that id. For every later request
  that carries this pair, among any other well-formed cookies, the balancer is asked with the same id;
  it starts no new session, leaves the counter alone, and its response is not touched. With a balancer
  that selects by the key, both requests get the same peer. Ids are fresh as long as the counter has
  not wrapped around.
\<close>

theorem l29_sticky:
  assumes "session_cookie api w = []"
    and "list_all cookie_ok cookies" and "map_of cookies ''session-id'' = Some (user_id counter)"
    and "req_header api w' ''Cookie'' = Some v" and "header_to_str api v = Some (cookie_header cookies)"
    and first: "l29_upstream_peer papi api pool (w, l29_new_ctx, counter) = (peer, (wa, ctx, counter'))"
    and second: "l29_upstream_peer papi api pool (w', l29_new_ctx, later) = (peer', (wb, ctx', later'))"
  shows "(peer, wa) = pool_peer papi pool (user_id counter) ''Empty upstream pool'' ''sticky.cluster'' w \<and>
    counter' = counter + 1 \<and>
    (\<exists>cookie. l29_response_filter hapi ctx h = insert_header hapi ''Set-Cookie'' cookie h \<and>
      hd (split_on CHR '';'' cookie) = cookie_pair (''session-id'', user_id counter)) \<and>
    (peer', wb) = pool_peer papi pool (user_id counter) ''Empty upstream pool'' ''sticky.cluster'' w' \<and>
    later' = later \<and> l29_response_filter hapi ctx' h' = (Ok (), h') \<and>
    (selects_by_key pool \<longrightarrow> peer' = peer) \<and>
    (user_id later = user_id counter) = (later = counter)"
proof -
  have "session_cookie api w' = user_id counter"
    using session_cookie_header [OF assms(2,4,5)] assms(3)
    by (simp add: trim_start_matches_keep user_id_not_prefixed)
  moreover have "user_id counter \<noteq> []"
    by (simp add: user_id_def)
  ultimately have sessions: "l29_session api w l29_new_ctx counter =
      (user_id counter, \<lparr>new_session_id = Some (user_id counter)\<rparr>, counter + 1)"
    "l29_session api w' l29_new_ctx later = (user_id counter, l29_new_ctx, later)"
    using assms(1) by (simp_all add: l29_session_def l29_new_ctx_def)
  have 1: "pool_peer papi pool (user_id counter) ''Empty upstream pool'' ''sticky.cluster'' w = (peer, wa)"
    "ctx = \<lparr>new_session_id = Some (user_id counter)\<rparr>" "counter' = counter + 1"
    using first by (auto simp: l29_upstream_peer_def sessions split: prod.splits)
  have 2: "pool_peer papi pool (user_id counter) ''Empty upstream pool'' ''sticky.cluster'' w' = (peer', wb)"
    "ctx' = l29_new_ctx" "later' = later"
    using second by (auto simp: l29_upstream_peer_def sessions split: prod.splits)
  from pool_peer_by_key [of pool papi "user_id counter" "''Empty upstream pool''" "''sticky.cluster''" w' w]
  have "selects_by_key pool \<Longrightarrow> peer' = peer"
    unfolding 1(1) 2(1) by simp
  with 1 2 stored_pair [of counter] show ?thesis
    by (simp add: l29_response_filter_def l29_new_ctx_def user_id_inject) blast
qed

text \<open>A balancer over two backends, chosen by the length of the key.\<close>

definition two_backends :: "sample pool" where
  "two_backends key n w =
     (Some \<lparr>be_addr = Inet (SocketAddr (V4 (if even (length key) then 1 else 2)) 80), be_weight = 1\<rparr>, w)"

theorem l29_sticky_witness:
  "fst (l29_upstream_peer sample_peers sample_api two_backends
      (sample_request ''/'' [(''Cookie'', ''theme=dark; session-id=user-100'')], l29_new_ctx, 101)) =
   fst (l29_upstream_peer sample_peers sample_api two_backends (sample_request ''/'' [], l29_new_ctx, 100))"
proof -
  have id: "user_id 100 = ''user-100''"
    by (simp add: user_id_def dec_string.simps digit_char_def) code_simp
  obtain peer wa ctx counter' peer' wb ctx' later' where
    first: "l29_upstream_peer sample_peers sample_api two_backends (sample_request ''/'' [], l29_new_ctx, 100) =
      (peer, (wa, ctx, counter'))"
    and second: "l29_upstream_peer sample_peers sample_api two_backends
      (sample_request ''/'' [(''Cookie'', ''theme=dark; session-id=user-100'')], l29_new_ctx, 101) =
      (peer', (wb, ctx', later'))"
    by (metis prod_cases4)
  have "selects_by_key two_backends"
    by (simp add: selects_by_key_def two_backends_def)
  with l29_sticky [OF _ _ _ _ _ first second, where cookies = "[(''theme'', ''dark''), (''session-id'', user_id 100)]"
      and v = "''theme=dark; session-id=user-100''" and hapi = sample_headers and h = "[]" and h' = "[]"] id
  have "peer' = peer"
    by (simp add: sample_request_def session_cookie_def cookie_ok_def cookie_pair_def is_space_def)
  with first second show ?thesis
    by simp
qed

end
