(* ===== verification/Spec2Isabelle.thy ===== *)
theory Spec2Isabelle
  imports Unit_Tests Shipped_Boot Lesson_Servers Lesson_Proxies Lesson_Content Lesson_Access Lesson_Inflight Lesson_Sticky
    Lesson_Mains
begin

text \<open>
  Pingora Guide: a reverse-proxy gateway and the lessons that lead to it, both in Rust on top of
  Cloudflare's Pingora.

  The program. The crate under \<^verbatim>\<open>src/src\<close> is a configurable gateway. \<^verbatim>\<open>main.rs\<close> loads a YAML file into
  the schema of \<^verbatim>\<open>config.rs\<close>, builds every upstream (\<^verbatim>\<open>upstreams/factory.rs\<close>) and the router
  (\<^verbatim>\<open>upstreams/router.rs\<close>), and starts a server whose proxy is \<^verbatim>\<open>gateway.rs\<close>. Pingora calls the gateway's
  callbacks as a request goes through; each runs the middlewares (\<^verbatim>\<open>middleware.rs\<close>: metrics, access
  list, body size) over the request and its context (\<^verbatim>\<open>context.rs\<close>, one value per type), chooses a route,
  asks the route's upstream for a peer, and answers failures. The programs under \<^verbatim>\<open>src/examples\<close> are
  small proxies of their own, one per lesson.

  How it is modelled. A Rust result is an \<open>outcome\<close>: a value, an error or a panic with its message. A
  function with effects takes the state and returns its outcome with the new state, so that effects made
  before an error stay made; \<open>try_then\<close> is the question mark operator. What the program calls and does not
  contain (Pingora, YAML, regular expressions, path matching, name resolution, files, clocks, the metrics
  registry, the limiters) is a parameter: functions on a world \<open>'w\<close> that holds the request being
  served and everything outside, collected in records (\<open>session_api\<close>, \<open>header_api\<close>, \<open>peer_api\<close>, ...).
  Nothing is assumed of them except in the named laws of single theorems (\<open>matchit_law\<close>,
  \<open>literal_law\<close>, \<open>cidr_law\<close>, \<open>rate_law\<close>, \<open>past_rate\<close>, \<open>inflight_law\<close>, \<open>healthy_stream\<close>,
  \<open>healthy_socket\<close>, \<open>shutdown_comes\<close>, \<open>arrivals_law\<close>, \<open>humantime_law\<close>, \<open>humantime_reads\<close>,
  \<open>iterates\<close>, \<open>peer_law\<close>), each with an instance that meets it. Rust's own
  library (strings, decimal numbers, UTF-8 decoding, addresses, maps) is modelled. Strings are lists of
  bytes. \<^verbatim>\<open>usize\<close> is a 64-bit word and wraps, as in the release profile.

  The theories and what they model.
  \<^item> \<^verbatim>\<open>Prelude\<close>, \<^verbatim>\<open>Loops\<close>, \<^verbatim>\<open>Platform\<close>, \<^verbatim>\<open>Sample_World\<close>: outcomes and their sequencing, strings and numbers;
    the contract \<open>round_loop\<close> of loops that may run for ever; the interfaces to the libraries; a concrete
    world on which the example theorems run.
  \<^item> \<^verbatim>\<open>Errors\<close> (\<^verbatim>\<open>error.rs\<close>), \<^verbatim>\<open>Config\<close> (\<^verbatim>\<open>config.rs\<close>), \<^verbatim>\<open>Context\<close> (\<^verbatim>\<open>context.rs\<close>). The context is proved to
    refine a map from types to values.
  \<^item> \<^verbatim>\<open>Middleware\<close> (\<^verbatim>\<open>middleware.rs\<close>): the hooks, the two loops over a chain, and the contract
    \<open>middleware_contract\<close> which \<^verbatim>\<open>Ip_Restriction\<close>, \<^verbatim>\<open>Request_Size\<close> and \<^verbatim>\<open>Metrics\<close>
    (\<^verbatim>\<open>middlewares/*.rs\<close>) meet: a hook keeps the context well-formed.
  \<^item> \<^verbatim>\<open>Router\<close>, \<^verbatim>\<open>Upstream\<close>, \<^verbatim>\<open>Static_Upstream\<close>, \<^verbatim>\<open>Load_Balancer\<close>, \<^verbatim>\<open>Factory\<close> (\<^verbatim>\<open>upstreams/*.rs\<close>,
    \<^verbatim>\<open>upstream.rs\<close>): matching against a declarative specification, peers as configured, hash keys.
  \<^item> \<^verbatim>\<open>Gateway\<close> (\<^verbatim>\<open>gateway.rs\<close>): every callback. \<^verbatim>\<open>Lifecycle\<close>: the states a request can reach by any
    callbacks in any order, and the contract \<open>gateway_contract\<close> under which they stay well-formed.
  \<^item> \<^verbatim>\<open>Bootstrap\<close>, \<^verbatim>\<open>Sample_Boot\<close> (\<^verbatim>\<open>main.rs\<close>): start-up, which discharges that contract for the pipeline
    it builds, and what a successful start has built; and a concrete gateway. \<^verbatim>\<open>Admission\<close>: what the
    request filter of the built gateway does once the router has answered.
  \<^item> \<^verbatim>\<open>Config_Parse\<close> (\<^verbatim>\<open>config.rs\<close>): how every type of the schema is read from the tree of a YAML document,
    field by field, by its \<^verbatim>\<open>serde\<close> attributes: defaults, tags, flattened structs, durations, fields given
    twice or under other names. \<^verbatim>\<open>Config_Roundtrip\<close>: what is written for an upstream is read back unchanged,
    and which fields may be left out.
  \<^item> \<^verbatim>\<open>Shipped_Config\<close> (\<^verbatim>\<open>gateway_full.yaml\<close>): the configuration of the repository, and which requests a
    gateway started from it lets in. \<^verbatim>\<open>Shipped_File\<close>: the tree of the file, and that loading it gives that
    configuration. \<^verbatim>\<open>Shipped_Boot\<close>: \<^verbatim>\<open>main\<close> on the file, up to the running server.
    \<^verbatim>\<open>Unit_Tests\<close>: the tests of \<^verbatim>\<open>router.rs\<close> and \<^verbatim>\<open>config.rs\<close>, as predicates the model meets.
  \<^item> \<^verbatim>\<open>Lesson_Base\<close> and the other \<^verbatim>\<open>Lesson\<close> theories: the lessons. Names begin with the lesson's number,
    as in \<open>l38_request_filter\<close>. \<^verbatim>\<open>Proxies\<close>: 08, 09, 10, 11, 19, 20, 28, 33. \<^verbatim>\<open>Content\<close>: 12, 13, 40.
    \<^verbatim>\<open>Access\<close>: 36, 39, 41, 42, with the contract \<open>access_filter\<close>. \<^verbatim>\<open>Forward\<close>: 06, 07, 14 to 18, 21, 24 to 27,
    37 and the proxy of 23. \<^verbatim>\<open>Websocket\<close>: the two ends of 23. \<^verbatim>\<open>Inflight\<close>: 38. \<^verbatim>\<open>Sticky\<close>: 29.
    \<^verbatim>\<open>Discovery\<close>: 30, 31, 32, 34, 35. \<^verbatim>\<open>Streams\<close>: 00 to 05, 22, 48. \<^verbatim>\<open>Cache\<close>: 43 to 47. \<^verbatim>\<open>Mains\<close>: the main
    functions of all of them, and one connection of each upstream server they bring along. \<^verbatim>\<open>Servers\<close>: the
    accept loops of those servers (18, 22, 23, 43 to 48) and of the admin service of 35, under the contract
    \<open>accept_loop\<close>.
  \<^item> This theory: the properties of the composed gateway.

  What the theorems show. Of the gateway: what admits a request and what it then reaches; that the context
  never makes a callback panic, with the exception that is proved, the header filters, which look the
  route up under the wrong type; limits of bodies at their boundary; what a failure is answered with; what is
  counted; what start-up builds; that a matched route always has its upstream; how the configuration is
  read; and, for the shipped file, the value it loads as, the server it starts and the whole table from
  requests to answers. Of the lessons: safety of the concurrent ones
  under every interleaving (the in-flight limit, the atomic swap of backends), the rate limits, the
  termination of the echo loop, of the job service and of the admin service, stickiness of sessions, inspection of chunked
  bodies, the end of the echo server at a failed accept, the wiring of balancers to the services that run them.

  Where the code differs from its intent, the theorem states what the code does: \<open>header_filters_panic\<close>,
  \<open>failure_response\<close>, \<open>limit_boundary_mismatch\<close>, \<open>early_stop_continues\<close>, \<open>shipped_admission\<close>,
  \<open>l22_tunnel\<close>, \<open>l37_interval\<close>, \<open>l38_limit\<close>, \<open>l23_stops_at_error\<close>, \<open>cache_durations_required\<close>,
  \<open>misspelt_rules_ignored\<close>, and \<open>cluster_built_from\<close>: a balanced upstream is built from its algorithm, source,
  health check, options and hash source, while the expected status of the check and the backup backends of
  the schema have no effect.

  Bounds. No definition has fuel: every loop is structural or has a decreasing measure, but for the loops
  that may run for ever, which are partial functions: \<open>echo_loop\<close>, \<open>ws_loop\<close>, \<open>batch_loop\<close>,
  \<open>heartbeat_loop\<close>, \<open>reporter_loop\<close>, \<open>exporter_loop\<close>, \<open>l23_loop\<close> and \<open>l35_admin_loop\<close> are proved, each by
  the same contract, to return when the client closes, an accept fails or the shutdown comes; \<open>server_loop\<close> is
  proved never to return. Counters are 64-bit words; where a theorem needs that one has not
  wrapped, it says so.

  Not modelled. Log output, which has no effect on the program, but for the lines of the caching lessons; the
  callbacks that do nothing else. The planned middlewares (\<^verbatim>\<open>auth\<close>, \<^verbatim>\<open>cache\<close>, \<^verbatim>\<open>purge\<close>, \<^verbatim>\<open>rate_limit\<close>,
  \<^verbatim>\<open>concurrency\<close>), whose files hold comments only. YAML text and what \<^verbatim>\<open>serde_yaml\<close> makes of a node of another
  kind than the one asked for, and the texts of its errors, are parameters; so are delays, which only let time
  pass. What is written for routes and the server's settings, which nothing in the program writes. The
  scheduling of asynchronous tasks, except in lessons 35 and 38, where it decides correctness. Scripts and
  containers.
\<close>

section \<open>Admission of requests\<close>

text \<open>
  C1. Admission of requests, end to end. Let the request filter of the booted gateway run on any
  good context, with a fresh request id \<open>i\<close>, and let the router answer. The request goes on exactly
  when a route was found, its access list permits the client, and the declared length (if any) does
  not exceed the limit; then nothing has been written to the client and the context records the id,
  the route, its upstream and an empty body count. Otherwise exactly one error response is written,
  with the first status that applies in the order 404, 403, 413, and when it is written the request
  ends at the gateway.
\<close>

theorem request_admission:
  assumes "ctx_ok c" and "new_uuid (bt_session b) w = (i, w1)"
    and "route_lookup (bt_session b) rapi (make_gateway b conf rt um metrics) w1 = Ok found"
  shows "case refusal b conf found w1 of
      None \<Rightarrow> \<exists>route m. found = Some route \<and> get_request_meta c = Some m \<and>
        request_filter (bt_session b) rapi (make_gateway b conf rt um metrics) (w, c) =
          (Ok False, (w1, admitted_ctx i route m c))
    | Some code \<Rightarrow>
        fst (request_filter (bt_session b) rapi (make_gateway b conf rt um metrics) (w, c)) \<noteq> Ok False \<and>
        fst (snd (request_filter (bt_session b) rapi (make_gateway b conf rt um metrics) (w, c))) =
          snd (respond_error (bt_session b) code w1) \<and>
        (fst (respond_error (bt_session b) code w1) = Ok () \<longrightarrow>
         fst (request_filter (bt_session b) rapi (make_gateway b conf rt um metrics) (w, c)) = Ok True)"
  using request_filter_on_found [OF assms refl] by (cases "refusal b conf found w1") auto

lemma login_admitted:
  "refusal sample_boot test_conf (Some login_route) (login\<lparr>sw_next := 1\<rparr>) = None"
  by (simp add: refusal_def acl_ok_def login_route_def length_ok_def declared_length_def login_def
      sample_request_def parse_usize_def is_digit_def digit_val_def request_size_new_def test_conf_def
      default_gateway_def default_server_def)

theorem request_admission_witness:
  "\<exists>m. request_filter sample_api sample_router_api sample_gateway (login, new_ctx sample_api login) =
    (Ok False, (login\<lparr>sw_next := 1\<rparr>, admitted_ctx ''id-0'' login_route m (new_ctx sample_api login)))"
  using request_admission [where b = sample_boot and um = sample_upstreams,
      unfolded sample_boot_simps, OF new_ctx_ok [of sample_api login] login_calls, unfolded login_admitted option.case]
  by blast

section \<open>The states of a request in flight\<close>

text \<open>
  C8. What every callback can rely on. In every state a request of the booted gateway can be in,
  after any callbacks in any order and any changes of the world in between, the context holds the
  request's metadata, so none of the \<^verbatim>\<open>expect("RequestMeta should exist")\<close> and
  \<^verbatim>\<open>expect("Context should already be created")\<close> panics is possible; and every value is stored
  under its own type, so no lookup or insertion panics on a type mismatch.
\<close>

theorem in_flight_context:
  assumes "reachable pf (make_gateway b conf rt um metrics) s"
  shows "(\<exists>m. get_request_meta (snd s) = Some m) \<and>
    (\<forall>t v. ctx_state (snd s) t = Some v \<longrightarrow> type_of v = t)"
proof -
  have ok: "ctx_ok (snd s)"
    using assms by (rule boot.reachable_ok)
  then show ?thesis
    using ctx_ok_wf [OF ok] by (auto simp: ctx_wf_def elim: ctx_ok_meta)
qed

theorem in_flight_context_witness:
  "\<exists>m. get_request_meta (snd (snd (run_callback sample_platform sample_gateway CB_Request
     (login, new_ctx sample_api login)))) = Some m"
proof -
  have "reachable sample_platform sample_gateway
      (snd (run_callback sample_platform sample_gateway CB_Request (login, new_ctx sample_api login)))"
    by (rule reachable.call [OF login_start])
  from in_flight_context [OF this] show ?thesis
    by blast
qed

text \<open>
  C2. The route's header rules are never applied. In every state a request can be in, the callbacks
  that should add and remove the configured headers, on the request to the upstream and on both
  sides of the response, panic with the message \<^verbatim>\<open>RouteConf should exist\<close> without changing
  anything: the route's configuration was stored under \<^verbatim>\<open>Arc<RouteConf>\<close>, and they look for
  \<^verbatim>\<open>RouteConf\<close>. So no proxied request gets through them.
\<close>

theorem header_filters_panic:
  assumes "reachable pf (make_gateway b conf rt um metrics) s"
  shows "upstream_request_filter hapi (make_gateway b conf rt um metrics) (s, h) =
      (Panic ''RouteConf should exist'', (s, h)) \<and>
    upstream_response_filter hapi (make_gateway b conf rt um metrics) (s, h) =
      (Panic ''RouteConf should exist'', (s, h)) \<and>
    response_filter hapi (make_gateway b conf rt um metrics) (s, h) =
      (Panic ''RouteConf should exist'', (s, h))"
proof -
  have "get_route_conf (snd s) = None"
    using boot.reachable_ok [OF assms] by (rule ctx_ok_no_route_conf)
  then show ?thesis
    by (simp add: upstream_request_filter_def upstream_response_filter_def response_filter_def
        chain_or_reject_def pipeline_idle)
qed

theorem header_filters_panic_witness:
  "upstream_request_filter sample_headers sample_gateway ((login, new_ctx sample_api login), []) =
    (Panic ''RouteConf should exist'', ((login, new_ctx sample_api login), []))"
  using header_filters_panic [OF login_start] by simp

text \<open>
  C19. How a failed request is answered. For every error and in every state, the program's gateway
  reads no file: it writes one error response, with status 502 when the connection was refused, had
  no route or could not be bound, 504 when connecting or reading timed out, and 500 for everything
  else, and reports that same status to Pingora. So the configured error pages are never served,
  and a gateway error of any kind, also the absence of a healthy upstream, is a 500.
\<close>

theorem failure_response:
  assumes "reachable pf (make_gateway b conf rt um metrics) (w, c)"
    and code: "code =
      (if etype e \<in> {ET_ConnectRefused, ET_ConnectNoRoute, ET_BindError} then 502
       else if etype e \<in> {ET_ConnectTimedout, ET_ReadTimedout} then 504 else 500)"
    and "respond_error api code w = (r, w')" and "\<forall>p. r \<noteq> Panic p"
  shows "fail_to_proxy api hapi pgapi (make_gateway b conf rt um metrics) e (w, c) =
      (Ok \<lparr>error_code = code, can_reuse_downstream = False\<rparr>, (w', c)) \<and>
    (etype e \<in> range (\<lambda>ge. etype (into_pingora (Gateway ge))) \<longrightarrow> code = 500)"
proof -
  have "get_route_conf c = None"
    using boot.reachable_ok [OF assms(1)] by (simp add: ctx_ok_no_route_conf)
  moreover have "failure_code (etype e) = code"
    by (cases "etype e") (simp_all add: failure_code_def code)
  moreover have "code = 500" if "etype e = etype (into_pingora (Gateway ge))" for ge
    using that by (simp add: code explain_def)
  moreover have "r = Ok () \<or> (\<exists>x. r = Err x)"
    using assms(4) by (cases r) simp_all
  ultimately show ?thesis
    using assms(3)
    by (auto simp: fail_to_proxy_def pipeline_idle error_page_def on_world_def Let_def
        simp del: into_pingora.simps)
qed

theorem failure_response_witness:
  "fail_to_proxy sample_api sample_headers (pf_pages sample_platform) sample_gateway
     (new_error ET_ConnectRefused) (login, new_ctx sample_api login) =
   (Ok \<lparr>error_code = 502, can_reuse_downstream = False\<rparr>,
    (login\<lparr>sw_status := Some 502\<rparr>, new_ctx sample_api login))"
proof -
  from failure_response [OF login_start, where api = sample_api and e = "new_error ET_ConnectRefused"
      and code = 502 and r = "Ok ()" and w' = "login\<lparr>sw_status := Some 502\<rparr>"] show ?thesis
    by (simp add: new_error_def)
qed

section \<open>After admission\<close>

text \<open>
  C10. An admitted request goes to the upstream of its route. In the context the request filter
  leaves, whatever happened to the world since, choosing the peer is the selection by the upstream
  configured under the route's upstream id, with its error converted for Pingora; when no upstream
  has that id, a 500 is written and the error is \<open>UpstreamError\<close>. A peer that is returned is the one the
  upstream leads to, a static one's own address or the address of the backend the balancer selected for
  the request's hash key, set up with that upstream's options; and the context is the one before with
  exactly this peer's address and the upstream's SNI recorded in the request's metadata.
\<close>

theorem admitted_request_peer:
  assumes "peer_law (bt_peers b)"
  shows "case um (r_upstream_id (re_conf route)) of
      None \<Rightarrow> upstream_peer api (make_gateway b conf rt um metrics) (w, admitted_ctx i route m c) =
        try_then (on_world (respond_error api 500) (w, admitted_ctx i route m c))
          (\<lambda>_ s. (Err (explain (ET_Custom ''UpstreamError'') ''Upstream config not found''), s))
    | Some u \<Rightarrow> upstream_peer api (make_gateway b conf rt um metrics) (w, admitted_ctx i route m c) =
        map_err into_pingora (as_upstream (bt_peers b) (bt_session b) u (w, admitted_ctx i route m c)) \<and>
      (\<forall>peer s'. upstream_peer api (make_gateway b conf rt um metrics) (w, admitted_ctx i route m c) = (Ok peer, s') \<longrightarrow>
        built_target (bt_peers b) (bt_session b) u w = Some (p_address peer) \<and> built_configured u peer \<and>
        snd s' = ctx_write (A_RequestMeta ((routed_meta i route m)
          \<lparr>peer_addr := Some (p_address peer), rm_sni := Some (built_sni u)\<rparr>)) (admitted_ctx i route m c))"
proof (cases "um (r_upstream_id (re_conf route))")
  case (Some u)
  note peer = admitted_peer [where um = um, OF Some]
  note target = as_upstream_target [OF assms admitted_ctx_lookups(1)]
  show ?thesis
    unfolding Some option.case peer map_err_Ok_iff by (blast intro: target)
qed (simp add: upstream_peer_def routed_meta_def make_gateway_def respond_upstream_error_def)

lemma sample_peer_law: "peer_law sample_peers"
  by (simp add: peer_law_def sample_peer_def)

text \<open>The login request, sent to the socket of its upstream.\<close>

theorem admitted_request_peer_witness:
  "\<exists>peer w'. upstream_peer sample_api sample_gateway
      (login, admitted_ctx ''id-0'' login_route (default_request_meta 0) (new_ctx sample_api login)) =
    (Ok peer, (w', ctx_write (A_RequestMeta ((routed_meta ''id-0'' login_route (default_request_meta 0))
       \<lparr>peer_addr := Some (Unix ''/run/auth''), rm_sni := Some []\<rparr>))
       (admitted_ctx ''id-0'' login_route (default_request_meta 0) (new_ctx sample_api login))))"
proof -
  let ?c = "admitted_ctx ''id-0'' login_route (default_request_meta 0) (new_ctx sample_api login)"
  let ?u = "BuiltStatic (static_new_uds ''/run/auth'' default_cluster_options)"
  have u: "sample_upstreams (r_upstream_id (re_conf login_route)) = Some ?u"
    by (simp add: sample_upstreams_def login_route_def test_routes_def)
  have "\<exists>peer. fst (as_upstream sample_peers sample_api ?u (login, ?c)) = Ok peer"
    by (simp add: static_select_peer_eq static_peer_def static_new_uds_def)
  moreover have "bt_peers sample_boot = sample_peers"
    by simp
  moreover have "built_target sample_peers sample_api ?u login = Some (Unix ''/run/auth'')"
    by (simp add: static_peer_def static_new_uds_def sample_peer_def)
  moreover note admitted_request_peer [where b = sample_boot and um = sample_upstreams and route = login_route
      and api = sample_api and conf = test_conf and rt = test_router and metrics = sample_meters and w = login
      and i = "''id-0''" and m = "default_request_meta 0" and c = "new_ctx sample_api login", unfolded u option.case]
  ultimately show ?thesis
    by (cases "as_upstream sample_peers sample_api ?u (login, ?c)")
      (auto simp: sample_peer_law static_new_uds_def simp del: as_upstream.simps built_target.simps)
qed

text \<open>
  C16. Start-up, routing and selection fit together. Let a configuration name only configured upstreams in
  its routes, and let its upstreams and its router have been built. Then a request that was matched and
  admitted is always given to an upstream that was built from an entry with its route's upstream id: the
  error for a missing upstream cannot occur.
\<close>

theorem matched_upstream_built:
  fixes e :: "'net route_entry"
  assumes "routes_closed conf"
    and "add_upstreams build (g_upstreams conf) Map.empty [] = Inr (um, services)"
    and "router_new (bt_routing b) from_str conf = Inr rt" and "matchit_law (bt_routing b)"
    and "match_request (bt_routing b) rt path host = (Ok (Some e) :: (pingora_error, 'net route_entry option) outcome)"
  shows "\<exists>u_conf u new. u_conf \<in> set (g_upstreams conf) \<and> u_id u_conf = r_upstream_id (re_conf e) \<and>
    build u_conf = Inr (u, new) \<and>
    upstream_peer api (make_gateway b conf rt um metrics) (w, admitted_ctx i e m c) =
      map_err into_pingora (as_upstream (bt_peers b) (bt_session b) u (w, admitted_ctx i e m c))"
proof -
  from match_request_configured [OF assms(3-5)] assms(1) obtain u_conf
    where "u_conf \<in> set (g_upstreams conf)" and id: "u_id u_conf = r_upstream_id (re_conf e)"
    by (auto simp: routes_closed_def list_all_iff list_ex_iff)
  with add_upstreams_found [OF assms(2)] obtain c' u new
    where "c' \<in> set (g_upstreams conf)" "u_id c' = u_id u_conf" "build c' = Inr (u, new)"
      and um: "um (r_upstream_id (re_conf e)) = Some u"
    by metis
  with id admitted_peer [where um = um, OF um] show ?thesis
    by metis
qed

text \<open>The shipped configuration is of this kind; here every name resolves to one address.\<close>

lemma full_routes_closed: "routes_closed full_conf"
  by (simp add: routes_closed_def full_conf_defs)

definition one_address :: "string \<Rightarrow> string + inet_addr list" where
  "one_address s = Inr [SocketAddr (V4 9) 80]"

lemma full_upstreams_built:
  obtains um services where
    "add_upstreams (make_upstream one_address Some sample_run) (g_upstreams full_conf) Map.empty [] = Inr (um, services)"
proof -
  have "\<exists>u services. make_upstream one_address Some sample_run conf = Inr (u, services)"
    if "conf \<in> set (g_upstreams full_conf)" for conf
    using that
    by (auto simp: full_conf_def legacy_cluster_def api_service_def inventory_service_def local_logger_def
        make_upstream_def make_lb_instance_def lb_for_source_def finalize_lb_def one_address_def Let_def)
  then have "\<exists>um services. add_upstreams (make_upstream one_address Some sample_run)
      (g_upstreams full_conf) Map.empty [] = Inr (um, services)"
    by (rule add_upstreams_total)
  then show thesis
    using that by blast
qed

theorem matched_upstream_built_witness:
  "\<exists>um e u_conf u. r_upstream_id (re_conf e) = ''api-service'' \<and> u_conf \<in> set (g_upstreams full_conf) \<and>
    u_id u_conf = ''api-service'' \<and>
    upstream_peer sample_api (make_gateway shipped_boot full_conf shipped_router um sample_meters)
      (login, admitted_ctx ''id-0'' e (default_request_meta 0) ctx_new) =
    map_err into_pingora (as_upstream sample_peers sample_api u
      (login, admitted_ctx ''id-0'' e (default_request_meta 0) ctx_new))"
proof -
  obtain um services where ups:
    "add_upstreams (make_upstream one_address Some sample_run) (g_upstreams full_conf) Map.empty [] = Inr (um, services)"
    by (rule full_upstreams_built)
  have api: "bt_routing shipped_boot = literal_router_api" "bt_peers shipped_boot = sample_peers"
    "bt_session shipped_boot = sample_api"
    by (simp_all add: shipped_boot_def)
  obtain m where m: "match_request literal_router_api shipped_router ''/admin'' None =
      (Ok m :: (pingora_error, sample_net route_entry option) outcome)"
    and conf: "map_option re_conf m = shipped_route (secure_path literal_router_api) ''/admin'' None"
    by (rule shipped_match [OF shipped_router_built literal_router_laws])
  then obtain e where e: "m = Some e" "re_conf e = admin_route"
    by (auto simp: shipped_route_def)
  then have "r_upstream_id (re_conf e) = ''api-service''"
    by (simp add: admin_route_def)
  with matched_upstream_built [of full_conf _ um services shipped_boot, unfolded api,
      OF full_routes_closed ups shipped_router_built literal_router_laws(1) m [unfolded e],
      of sample_api sample_meters login "''id-0''" "default_request_meta 0" ctx_new] show ?thesis
    by (metis (no_types, lifting))
qed

text \<open>The body filter, over the chunks of a body until one is not passed.\<close>

fun stream_body ::
  "('w, 'net, 'h, 're, 'mr) gateway \<Rightarrow> string list \<Rightarrow> ('w, 'net) req \<Rightarrow>
   (pingora_error, unit) outcome \<times> ('w, 'net) req" where
  "stream_body self [] s = (Ok (), s)"
| "stream_body self (b # bs) s =
     (case request_body_filter self False (s, Some b) of
        (r, (s', _)) \<Rightarrow> if r = Ok () then stream_body self bs s' else (r, s'))"

lemma body_filter_eq:
  "request_body_filter (make_gateway b conf rt um metrics) eos sb =
     chain_or_reject ''Body Rejected''
       [rs_handle_request_body (bt_session b) (request_size_new (g_server conf)) eos] sb"
  by (simp add: request_body_filter_def chain_or_reject_def pipeline_body)

lemma stream_body_feed:
  "feed_body (bt_session b) (request_size_new (g_server conf)) bs s = (r, s') \<Longrightarrow>
     snd (stream_body (make_gateway b conf rt um metrics) bs s) = s' \<and>
     (fst (stream_body (make_gateway b conf rt um metrics) bs s) = Ok () \<longleftrightarrow> r = Ok Continue) \<and>
     (r = Ok Stop \<longrightarrow> fst (stream_body (make_gateway b conf rt um metrics) bs s) =
        Err (explain (ET_Custom ''MiddlewareRejected'') ''Body Rejected''))"
proof (induction bs arbitrary: s)
  case (Cons x bs)
  obtain r1 s1 y where hook:
    "rs_handle_request_body (bt_session b) (request_size_new (g_server conf)) False (s, Some x) = (r1, (s1, y))"
    by (metis surj_pair)
  show ?case
  proof (cases "r1 = Ok Continue")
    case True
    with Cons hook show ?thesis
      by (simp add: body_filter_eq chain_or_reject_def feed_body.simps(2))
  next
    case False
    then have d: "r1 = Ok Stop" if "r1 = Ok d" for d
      using that by (cases d) simp_all
    from Cons.prems hook False have "r = r1" "s' = s1"
      by (simp_all add: feed_body.simps(2))
    with hook d show ?thesis
      by (cases r1) (auto simp: body_filter_eq chain_or_reject_def)
  qed
qed auto

text \<open>
  C6. The body limit, end to end. Once a request was admitted, streaming its body through the
  gateway in any chunks, with any total that fits a \<^verbatim>\<open>usize\<close>, never reaches the
  \<^verbatim>\<open>expect("Request size state should exist")\<close> panic of the size middleware unless writing the
  rejection panics: the whole body is passed, with nothing written, when it has no chunk or is
  shorter than the configured limit (10 MiB by default), and otherwise a 413 is written and, when
  that succeeds, the body is rejected with \<^verbatim>\<open>MiddlewareRejected\<close>.
\<close>

theorem admitted_body_limit:
  assumes "length (concat chunks) < 2 ^ 64"
  shows "if chunks = [] \<or> length (concat chunks) < unat (max_bytes (request_size_new (g_server conf)))
    then fst (stream_body (make_gateway b conf rt um metrics) chunks (w, admitted_ctx i route m c)) = Ok () \<and>
      fst (snd (stream_body (make_gateway b conf rt um metrics) chunks (w, admitted_ctx i route m c))) = w
    else fst (stream_body (make_gateway b conf rt um metrics) chunks (w, admitted_ctx i route m c)) \<noteq> Ok () \<and>
      fst (snd (stream_body (make_gateway b conf rt um metrics) chunks (w, admitted_ctx i route m c))) =
        snd (respond_error (bt_session b) 413 w) \<and>
      (fst (respond_error (bt_session b) 413 w) = Ok () \<longrightarrow>
       fst (stream_body (make_gateway b conf rt um metrics) chunks (w, admitted_ctx i route m c)) =
         Err (explain (ET_Custom ''MiddlewareRejected'') ''Body Rejected''))"
proof -
  let ?rs = "request_size_new (g_server conf)"
  obtain r s' where feed: "feed_body (bt_session b) ?rs chunks (w, admitted_ctx i route m c) = (r, s')"
    by (rule prod.exhaust)
  note stream = stream_body_feed [OF feed, of rt um metrics]
  show ?thesis
  proof (cases "chunks = [] \<or> length (concat chunks) < unat (max_bytes ?rs)")
    case True
    with feed feed_body_result [of 0 chunks ?rs "bt_session b" w "routed_ctx i route m c"] assms stream
    show ?thesis
      by (auto simp: admitted_ctx_def)
  next
    case False
    with feed feed_body_result [of 0 chunks ?rs "bt_session b" w "routed_ctx i route m c"] assms
    obtain n where rej: "(r, s') = rs_reject (bt_session b) (w, size_ctx n (routed_ctx i route m c))"
      by (auto simp: admitted_ctx_def)
    let ?s = "(w, size_ctx n (routed_ctx i route m c))"
    from rej have "r = fst (rs_reject (bt_session b) ?s)" and "s' = snd (rs_reject (bt_session b) ?s)"
      by (metis fst_conv, metis snd_conv)
    with stream False show ?thesis
      using fst_rs_reject_not_Continue [of "bt_session b" ?s] rs_reject_state [of "bt_session b" ?s]
        rs_reject_Ok [of "bt_session b" ?s]
      by (simp split: if_split)
  qed
qed

theorem admitted_body_limit_witness:
  "fst (stream_body sample_gateway [''abc'', ''de''] (login, admitted_ctx ''id-0'' login_route (default_request_meta 0) ctx_new)) = Ok ()"
  using admitted_body_limit [of "[''abc'', ''de'']" test_conf sample_boot test_router sample_upstreams
      sample_meters login "''id-0''" login_route "default_request_meta 0" ctx_new]
  by (simp add: request_size_new_def test_conf_def default_gateway_def default_server_def)

text \<open>
  C21. Every logged request is metered exactly once. In every state a request of the booted gateway
  can be in, and whether it failed or not, logging succeeds, leaves the context alone, and its whole
  effect is to count one request and record one latency (the time since the context was created),
  both under the same labels: the method, the pattern of the matched route and the id of its
  upstream (\<^verbatim>\<open>unknown\<close> when none was matched), and the response status (\<^verbatim>\<open>0\<close> when none was written).
\<close>

theorem request_metered:
  assumes "reachable pf (make_gateway b conf rt um metrics) (w, c)"
  shows "\<exists>m labels w1. get_request_meta c = Some m \<and>
    labels = [req_method (bt_session b) w,
      (case matched_route_id m of Some i \<Rightarrow> i | None \<Rightarrow> ''unknown''),
      (case response_status (bt_session b) w of Some st \<Rightarrow> st | None \<Rightarrow> ''0''),
      (case upstream_id m of Some i \<Rightarrow> i | None \<Rightarrow> ''unknown'')] \<and>
    w1 = inc_counter (bt_metrics b) (req_metric metrics) labels w \<and>
    logging (make_gateway b conf rt um metrics) e (w, c) =
      (Ok (), (observe_value (bt_metrics b) (latency_metric metrics) labels
        (instant_now (bt_session b) w1 - start_time m) w1, c))"
proof -
  from boot.reachable_ok [OF assms] obtain m where "get_request_meta c = Some m"
    by (auto elim: ctx_ok_meta)
  then show ?thesis
    by (simp add: logging_def pipeline_logging run_swallow.simps(2) metrics_handle_logging_def Let_def)
qed

theorem request_metered_witness:
  "\<exists>c'. logging sample_gateway None (login, new_ctx sample_api login) =
    (Ok (), (login\<lparr>sw_log := [''time GET unknown 0 unknown'', ''count GET unknown 0 unknown'']\<rparr>, c'))"
  using request_metered [OF login_start, of None]
  by (auto simp: new_ctx_eq default_request_meta_def sample_metrics_def login_def sample_request_def)

text \<open>The state after the early hooks up to the first that stops.\<close>

fun until_stop :: "('s, middleware_decision) hook list \<Rightarrow> 's \<Rightarrow> 's" where
  "until_stop [] s = s"
| "until_stop (h # hs) s =
     (case h s of (d, s') \<Rightarrow> if d = Ok Stop then s' else until_stop hs s')"

lemma run_chain_until_stop:
  assumes "\<forall>h \<in> set hs. \<forall>s. \<exists>d s'. h s = (Ok d, s')"
  shows "\<exists>d. run_chain hs s = (Ok d, until_stop hs s)"
  using assms
proof (induction hs arbitrary: s)
  case (Cons h hs)
  then obtain d s' where h: "h s = (Ok d, s')"
    by (metis list.set_intros(1))
  from Cons show ?case
    by (cases d) (simp_all add: h)
qed simp

text \<open>
  C37. No early hook can end a request. Whatever the early hooks of a chain decide, as long as none fails,
  the early request filter reports success, so Pingora goes on with routing and the request filter;
  a hook that stops (usually because it has answered already) only keeps the hooks after it from running.
\<close>

theorem early_stop_continues:
  assumes "\<forall>m \<in> set (gw_middlewares self). \<forall>s. \<exists>d s'. handle_early_request m s = (Ok d, s')"
  shows "early_request_filter self s =
    (Ok (), until_stop (map handle_early_request (gw_middlewares self)) s)"
  using run_chain_until_stop [of "map handle_early_request (gw_middlewares self)" s] assms
  by (auto simp: early_request_filter_def)

definition early_blocker :: "('w, 'net, 'h) middleware" where
  "early_blocker = (default_middleware ''blocker'')\<lparr>handle_early_request := stop_hook\<rparr>"

theorem early_stop_continues_witness:
  "early_request_filter (empty_gateway\<lparr>gw_middlewares := [early_blocker, default_middleware ''next'']\<rparr>)
     (nowhere, ctx_new) = (Ok (), (nowhere, ctx_new))"
  using early_stop_continues [of "empty_gateway\<lparr>gw_middlewares := [early_blocker, default_middleware ''next'']\<rparr>"
      "(nowhere, ctx_new)"]
  by (simp add: early_blocker_def default_middleware_def stop_hook_def continue_hook_def)

section \<open>Starting up\<close>

text \<open>
  C18. The server that starts is the one configured. When start-up succeeds, the configuration was
  loaded, its router was built from exactly its routes, every one of them valid, and every configured
  upstream was built (the last one wins for a repeated id); and the server runs, in this order and
  nothing else: whatever it already had, the proxy with the gateway over this router, these upstreams
  and the metrics that were registered, with one listener per configured listener, the background
  services of all upstreams, and the Prometheus endpoint if one is configured. If nothing else shares
  the server's configuration, it has the configured threads (default: one per processor), grace period
  (default: 30 seconds) and PID file; otherwise these settings are passed over and stay as they were.
\<close>

theorem boot_as_configured:
  assumes "main_program b a w = (Ok sv, w')"
  shows "\<exists>conf rt metrics built sv0 w1 w2.
    load_from_yaml (bt_read b) (bt_parse b) (arg_config a) = Inr conf \<and>
    fst (bt_server_new b (arg_daemon a \<or> daemon (g_server conf)) w) = Ok sv0 \<and>
    map (make_upstream (bt_resolve b) (bt_parse_uri b) (bt_run_lb b)) (g_upstreams conf) = map Inr built \<and>
    router_new (bt_routing b) (bt_net_from_str b) conf = Inr rt \<and>
    list_all (route_valid (bt_routing b) (bt_net_from_str b)) (g_routes conf) \<and>
    metrics_new (bt_metrics b) w1 = (Ok metrics, w2) \<and>
    sv_services sv = sv_services sv0 @
      [ProxyService
         (make_gateway b conf rt (map_of (rev (zip (map u_id (g_upstreams conf)) (map fst built)))) metrics)
         (map listener_of (listeners (g_server conf)))] @
      map DynamicService (concat (map snd built)) @ prometheus_services conf \<and>
    (if sv_exclusive sv0
     then sv_threads sv = (case worker_threads (g_server conf) of Some n \<Rightarrow> n | None \<Rightarrow> bt_num_cpus b) \<and>
       sv_grace_period sv = Some (case graceful_shutdown_timeout (g_server conf) of
         Some d \<Rightarrow> as_secs d | None \<Rightarrow> 30) \<and>
       sv_pid_file sv = (case pid_file (g_server conf) of Some f \<Rightarrow> f | None \<Rightarrow> sv_pid_file sv0)
     else sv_threads sv = sv_threads sv0 \<and> sv_grace_period sv = sv_grace_period sv0 \<and>
       sv_pid_file sv = sv_pid_file sv0)"
proof -
  from assms obtain conf sv0 w0 um services rt metrics w1 w2 w3 ls where
    conf: "load_from_yaml (bt_read b) (bt_parse b) (arg_config a) = Inr conf"
    and sv0: "bt_server_new b (arg_daemon a \<or> daemon (g_server conf)) w = (Ok sv0, w0)"
    and ups: "add_upstreams (make_upstream (bt_resolve b) (bt_parse_uri b) (bt_run_lb b)) (g_upstreams conf)
      Map.empty [] = Inr (um, services)"
    and rt: "router_new (bt_routing b) (bt_net_from_str b) conf = Inr rt"
    and metrics: "metrics_new (bt_metrics b) w1 = (Ok metrics, w2)"
    and ls: "add_listeners (bt_add_tls b) (listeners (g_server conf)) [] w2 = (Ok ls, w3)"
    and sv: "sv = (tune_server (bt_num_cpus b) (g_server conf) sv0)
      \<lparr>sv_services := sv_services (tune_server (bt_num_cpus b) (g_server conf) sv0) @
         [ProxyService (make_gateway b conf rt um metrics) ls] @ map DynamicService services @
         prometheus_services conf\<rparr>"
    by (auto simp: main_program_def try_then_Ok_iff lift_result_Ok_iff Let_def no_error_def)
  from add_upstreams_Inr [OF ups] obtain built where
    built: "map (make_upstream (bt_resolve b) (bt_parse_uri b) (bt_run_lb b)) (g_upstreams conf) = map Inr built"
    and services: "services = concat (map snd built)"
    and um: "um = map_of (rev (zip (map u_id (g_upstreams conf)) (map fst built)))"
    by auto
  have valid: "list_all (route_valid (bt_routing b) (bt_net_from_str b)) (g_routes conf)"
    using router_new_table(3) [OF rt] by (simp add: list_all_iff)
  have tuned: "sv_services (tune_server n s x) = sv_services x"
    "if sv_exclusive x
     then sv_threads (tune_server n s x) = (case worker_threads s of Some k \<Rightarrow> k | None \<Rightarrow> n) \<and>
       sv_grace_period (tune_server n s x) =
         Some (case graceful_shutdown_timeout s of Some d \<Rightarrow> as_secs d | None \<Rightarrow> 30) \<and>
       sv_pid_file (tune_server n s x) = (case pid_file s of Some f \<Rightarrow> f | None \<Rightarrow> sv_pid_file x)
     else tune_server n s x = x"
    for n s and x :: "('a, 'b, 'c, 'd, 'e) server"
    by (auto simp: tune_server_def Let_def split: option.split)
  show ?thesis
    by (intro exI [of _ conf] exI [of _ rt] exI [of _ metrics] exI [of _ built] exI [of _ sv0] exI [of _ w1]
        exI [of _ w2] conjI)
      (use conf sv0 built rt valid metrics services um add_listeners_Ok [OF ls] tuned [where n = "bt_num_cpus b" and s = "g_server conf" and x = sv0]
       in \<open>auto simp: sv split: if_splits\<close>)
qed

lemma sample_boots:
  obtains sv w' where "main_program sample_boot \<lparr>arg_config = ''g.yaml'', arg_daemon = True\<rparr> w = (Ok sv, w')"
proof -
  have "load_from_yaml (bt_read sample_boot) (bt_parse sample_boot) ''g.yaml'' = Inr test_conf"
    by (simp add: load_from_yaml_def sample_boot_def)
  moreover have "router_new sample_router_api (bt_net_from_str sample_boot) test_conf = Inr test_router"
    by (simp add: sample_boot_def test_router_built)
  moreover have "g_upstreams test_conf = []" and "listeners (g_server test_conf) = []"
    by (simp_all add: test_conf_def default_gateway_def default_server_def)
  ultimately have "\<exists>sv w'. main_program sample_boot \<lparr>arg_config = ''g.yaml'', arg_daemon = True\<rparr> w = (Ok sv, w')"
    by (simp add: main_program_def lift_result_def)
       (simp add: sample_boot_def sample_metrics_def metrics_new_def unwrap_reg_def no_error_def Let_def)
  then show thesis
    using that by blast
qed

theorem boot_as_configured_witness:
  "\<exists>sv w'. main_program sample_boot \<lparr>arg_config = ''g.yaml'', arg_daemon = True\<rparr> login = (Ok sv, w') \<and>
    sv_threads sv = 4 \<and> sv_grace_period sv = Some 30 \<and> length (sv_services sv) = 1"
proof -
  obtain sv w' where boots: "main_program sample_boot \<lparr>arg_config = ''g.yaml'', arg_daemon = True\<rparr> login = (Ok sv, w')"
    by (rule sample_boots)
  have "sv_threads sv = 4 \<and> sv_grace_period sv = Some 30 \<and> length (sv_services sv) = 1"
    using boot_as_configured [OF boots]
    by (auto simp: sample_boot_def load_from_yaml_def test_conf_def default_gateway_def default_server_def
        prometheus_services_def)
  with boots show ?thesis
    by blast
qed

end
